(* ===== verification/Gp4_Prelude.thy ===== *)
theory Gp4_Prelude
  imports Main "HOL-Library.AList"
begin

section \<open>Shared vocabulary: results, effects, dictionaries\<close>

text \<open>
  The vocabulary every component theory uses.
  A pure Python function that may raise is a value of \<open>'e + 'a\<close> (\<open>Inl\<close> the exception,
  \<open>Inr\<close> the result).  A method that mutates an object and may raise is a function
  \<open>'s \<Rightarrow> ('e + 'a) \<times> 's\<close>: the state survives an exception, as attributes assigned before
  a \<open>raise\<close> do in Python.  A Python \<open>dict\<close> whose order matters is an association list in
  insertion order.
\<close>

named_theorems py_simps \<open>evaluation of the effect combinators\<close>
named_theorems keeps_intros \<open>preservation of a state predicate by an effectful method\<close>

subsection \<open>Results\<close>

definition ebind :: "'e + 'a \<Rightarrow> ('a \<Rightarrow> 'e + 'b) \<Rightarrow> 'e + 'b" where
  "ebind r f = (case r of Inl e \<Rightarrow> Inl e | Inr x \<Rightarrow> f x)"

lemma ebind_Inl [simp]: "ebind (Inl e) f = Inl e"
  by (simp add: ebind_def)

lemma ebind_Inr [simp]: "ebind (Inr x) f = f x"
  by (simp add: ebind_def)

lemma ebind_eq_Inr: "ebind r f = Inr y \<longleftrightarrow> (\<exists>x. r = Inr x \<and> f x = Inr y)"
  by (cases r) simp_all

lemma ebind_eq_Inl: "ebind r f = Inl e \<longleftrightarrow> r = Inl e \<or> (\<exists>x. r = Inr x \<and> f x = Inl e)"
  by (cases r) simp_all

lemma ebind_assoc: "ebind (ebind r f) g = ebind r (\<lambda>x. ebind (f x) g)"
  by (cases r) simp_all

definition is_ok :: "'e + 'a \<Rightarrow> bool" where
  "is_ok r = (case r of Inl _ \<Rightarrow> False | Inr _ \<Rightarrow> True)"

lemma is_ok_simps [simp]: "is_ok (Inr x) = True" "is_ok (Inl e) = False"
  by (simp_all add: is_ok_def)

lemma is_ok_iff: "is_ok r \<longleftrightarrow> (\<exists>x. r = Inr x)"
  by (cases r) simp_all

text \<open>The \<open>(ok, reason)\<close> pairs of the validators: \<open>(True, "")\<close> or \<open>(False, reason)\<close>.\<close>

datatype 'r verdict = Accept | Reject 'r

text \<open>\<open>try: r except es: h\<close> around the computation of a value used by \<open>f\<close>.\<close>

definition try_value :: "'e list \<Rightarrow> 'e + 'a \<Rightarrow> 'e + 'b \<Rightarrow> ('a \<Rightarrow> 'e + 'b) \<Rightarrow> 'e + 'b" where
  "try_value es r h f =
     (case r of Inl e \<Rightarrow> if e \<in> set es then h else Inl e | Inr x \<Rightarrow> f x)"

lemma try_value_Inr [simp]: "try_value es (Inr x) h f = f x"
  by (simp add: try_value_def)

text \<open>A check loop: the elements are checked in order, with their index, up to the first one
  that is not accepted.\<close>

fun check_each :: "(nat \<Rightarrow> 'a \<Rightarrow> 'e + 'r verdict) \<Rightarrow> nat \<Rightarrow> 'a list \<Rightarrow> 'e + 'r verdict" where
  "check_each f i [] = Inr Accept"
| "check_each f i (x # xs) =
     ebind (f i x) (\<lambda>v. case v of Accept \<Rightarrow> check_each f (Suc i) xs | Reject r \<Rightarrow> Inr (Reject r))"

lemma check_each_Accept:
  "check_each f i xs = Inr Accept \<longleftrightarrow> (\<forall>k < length xs. f (i + k) (xs ! k) = Inr Accept)"
proof (induction xs arbitrary: i)
  case Nil
  then show ?case by simp
next
  case (Cons x xs)
  have "check_each f i (x # xs) = Inr Accept \<longleftrightarrow>
      f i x = Inr Accept \<and> check_each f (Suc i) xs = Inr Accept"
    by (auto simp: ebind_def split: sum.splits verdict.splits)
  also have "\<dots> \<longleftrightarrow> (\<forall>k < length (x # xs). f (i + k) ((x # xs) ! k) = Inr Accept)"
  proof (cases "f i x = Inr Accept")
    case True
    with Cons.IH [of "Suc i"] show ?thesis by (auto simp: less_Suc_eq_0_disj)
  next
    case False
    then show ?thesis by force
  qed
  finally show ?case .
qed

lemma check_each_Reject:
  "check_each f i xs = Inr (Reject r) \<Longrightarrow>
    \<exists>k < length xs. f (i + k) (xs ! k) = Inr (Reject r) \<and> (\<forall>j < k. f (i + j) (xs ! j) = Inr Accept)"
proof (induction xs arbitrary: i)
  case Nil
  then show ?case by simp
next
  case (Cons x xs)
  show ?case
  proof (cases "f i x = Inr Accept")
    case True
    with Cons.prems have "check_each f (Suc i) xs = Inr (Reject r)" by simp
    from Cons.IH [OF this] obtain k where "k < length xs"
      and "f (Suc i + k) (xs ! k) = Inr (Reject r)"
      and "\<forall>j < k. f (Suc i + j) (xs ! j) = Inr Accept" by auto
    with True have "Suc k < length (x # xs)" "f (i + Suc k) ((x # xs) ! Suc k) = Inr (Reject r)"
      "\<forall>j < Suc k. f (i + j) ((x # xs) ! j) = Inr Accept"
      by (auto simp: less_Suc_eq_0_disj)
    then show ?thesis by blast
  next
    case False
    with Cons.prems have "f i x = Inr (Reject r)"
      by (auto simp: ebind_def split: sum.splits verdict.splits)
    then show ?thesis by (intro exI [of _ 0]) simp
  qed
qed

subsection \<open>Effects\<close>

type_synonym ('e, 's, 'a) eff = "'s \<Rightarrow> ('e + 'a) \<times> 's"

definition ret :: "'a \<Rightarrow> ('e, 's, 'a) eff" where
  "ret x s = (Inr x, s)"

definition throw :: "'e \<Rightarrow> ('e, 's, 'a) eff" where
  "throw e s = (Inl e, s)"

definition bnd :: "('e, 's, 'a) eff \<Rightarrow> ('a \<Rightarrow> ('e, 's, 'b) eff) \<Rightarrow> ('e, 's, 'b) eff" where
  "bnd m f s = (case m s of (Inl e, t) \<Rightarrow> (Inl e, t) | (Inr x, t) \<Rightarrow> f x t)"

definition andthen :: "('e, 's, 'a) eff \<Rightarrow> ('e, 's, 'b) eff \<Rightarrow> ('e, 's, 'b) eff" where
  "andthen m n = bnd m (\<lambda>_. n)"

definition lift :: "'e + 'a \<Rightarrow> ('e, 's, 'a) eff" where
  "lift r s = (r, s)"

definition gets :: "('s \<Rightarrow> 'a) \<Rightarrow> ('e, 's, 'a) eff" where
  "gets f s = (Inr (f s), s)"

definition modify :: "('s \<Rightarrow> 's) \<Rightarrow> ('e, 's, unit) eff" where
  "modify f s = (Inr (), f s)"

definition guard :: "bool \<Rightarrow> 'e \<Rightarrow> ('e, 's, unit) eff" where
  "guard ok e = (if ok then ret () else throw e)"

definition when_do :: "bool \<Rightarrow> ('e, 's, unit) eff \<Rightarrow> ('e, 's, unit) eff" where
  "when_do c m = (if c then m else ret ())"

text \<open>A Python \<open>for\<close> loop over a list, and the method calls of a block in order.\<close>

fun for_each :: "'a list \<Rightarrow> ('a \<Rightarrow> ('e, 's, unit) eff) \<Rightarrow> ('e, 's, unit) eff" where
  "for_each [] f = ret ()"
| "for_each (x # xs) f = andthen (f x) (for_each xs f)"

fun block :: "('e, 's, unit) eff list \<Rightarrow> ('e, 's, unit) eff" where
  "block [] = ret ()"
| "block (m # ms) = andthen m (block ms)"

lemma eff_run [py_simps]:
  "ret x s = (Inr x, s)"
  "throw e s = (Inl e, s)"
  "lift r s = (r, s)"
  "gets g s = (Inr (g s), s)"
  "modify h s = (Inr (), h s)"
  by (simp_all add: ret_def throw_def lift_def gets_def modify_def)

lemma bnd_run [py_simps]:
  "bnd m f s = (case m s of (Inl e, t) \<Rightarrow> (Inl e, t) | (Inr x, t) \<Rightarrow> f x t)"
  by (simp add: bnd_def)

lemma andthen_run [py_simps]:
  "andthen m n s = (case m s of (Inl e, t) \<Rightarrow> (Inl e, t) | (Inr x, t) \<Rightarrow> n t)"
  by (simp add: andthen_def bnd_def)

lemma guard_run [py_simps]: "guard ok e s = (if ok then (Inr (), s) else (Inl e, s))"
  by (simp add: guard_def eff_run)

lemma when_run [py_simps]: "when_do c m s = (if c then m s else (Inr (), s))"
  by (simp add: when_do_def eff_run)

text \<open>Evaluation of a method at a concrete state: the congruences keep the simplifier out of the
  continuations, the rules run the next action.\<close>

lemma eff_lazy:
  "bnd m f = bnd m f" "andthen m n = andthen m n" "when_do c m = when_do c m"
  "guard a e = guard a e" "block ms = block ms"
  by (rule refl)+

lemma arg_lazy:
  "a = b \<Longrightarrow> Let a f = Let b f" "xs = ys \<Longrightarrow> for_each xs g = for_each ys g"
  by simp_all

lemma block_run:
  "block [] s = (Inr (), s)"
  "block (m # ms) s = (case m s of (Inl e, t) \<Rightarrow> (Inl e, t) | (Inr x, t) \<Rightarrow> block ms t)"
  by (simp_all add: py_simps)

lemma for_each_run:
  "for_each [] f s = (Inr (), s)"
  "for_each (x # xs) f s = (case f x s of (Inl e, t) \<Rightarrow> (Inl e, t) | (Inr y, t) \<Rightarrow> for_each xs f t)"
  by (simp_all add: py_simps)

lemmas eff_eval = py_simps block_run for_each_run Let_def

lemmas lazily = eff_lazy arg_lazy

subsection \<open>Preservation of a state predicate\<close>

text \<open>
  \<open>keeps P m\<close>: running \<open>m\<close> from a state with \<open>P\<close> ends in a state with \<open>P\<close>, whether
  \<open>m\<close> returns or raises.  The introduction rules follow the combinators, so the invariant
  proof of a method is an application of \<open>keeps_intros\<close> and the facts of what it calls.
\<close>

definition keeps :: "('s \<Rightarrow> bool) \<Rightarrow> ('e, 's, 'a) eff \<Rightarrow> bool" where
  "keeps P m \<longleftrightarrow> (\<forall>s. P s \<longrightarrow> P (snd (m s)))"

lemma keepsI: "(\<And>s. P s \<Longrightarrow> P (snd (m s))) \<Longrightarrow> keeps P m"
  by (simp add: keeps_def)

lemma keepsD: "keeps P m \<Longrightarrow> P s \<Longrightarrow> P (snd (m s))"
  by (simp add: keeps_def)

lemma keepsD_eq: "keeps P m \<Longrightarrow> P s \<Longrightarrow> m s = (r, t) \<Longrightarrow> P t"
  by (metis keeps_def snd_conv)

lemma keeps_conj: "keeps P m \<Longrightarrow> keeps Q m \<Longrightarrow> keeps (\<lambda>s. P s \<and> Q s) m"
  by (simp add: keeps_def)

lemma keeps_ret [keeps_intros]: "keeps P (ret x)"
  by (simp add: keeps_def py_simps)

lemma keeps_throw [keeps_intros]: "keeps P (throw e)"
  by (simp add: keeps_def py_simps)

lemma keeps_lift [keeps_intros]: "keeps P (lift r)"
  by (simp add: keeps_def py_simps)

lemma keeps_gets [keeps_intros]: "keeps P (gets f)"
  by (simp add: keeps_def py_simps)

lemma keeps_guard [keeps_intros]: "keeps P (guard c e)"
  by (simp add: keeps_def py_simps)

lemma keeps_modify: "(\<And>s. P s \<Longrightarrow> P (f s)) \<Longrightarrow> keeps P (modify f)"
  by (simp add: keeps_def py_simps)

lemma keeps_bnd [keeps_intros]:
  assumes "keeps P m" and "\<And>x. keeps P (f x)"
  shows "keeps P (bnd m f)"
  using assms by (auto simp: keeps_def bnd_run split: prod.splits sum.splits)

lemma keeps_andthen [keeps_intros]: "keeps P m \<Longrightarrow> keeps P n \<Longrightarrow> keeps P (andthen m n)"
  unfolding andthen_def by (rule keeps_bnd)

lemma keeps_when [keeps_intros]: "(c \<Longrightarrow> keeps P m) \<Longrightarrow> keeps P (when_do c m)"
  by (simp add: keeps_def py_simps)

lemma keeps_if [keeps_intros]:
  "(c \<Longrightarrow> keeps P m) \<Longrightarrow> (\<not> c \<Longrightarrow> keeps P n) \<Longrightarrow> keeps P (if c then m else n)"
  by simp

lemma keeps_option [keeps_intros]:
  "(v = None \<Longrightarrow> keeps P m) \<Longrightarrow> (\<And>x. v = Some x \<Longrightarrow> keeps P (f x))
    \<Longrightarrow> keeps P (case v of None \<Rightarrow> m | Some x \<Rightarrow> f x)"
  by (cases v) simp_all

lemma keeps_sum [keeps_intros]:
  "(\<And>e. v = Inl e \<Longrightarrow> keeps P (g e)) \<Longrightarrow> (\<And>x. v = Inr x \<Longrightarrow> keeps P (f x))
    \<Longrightarrow> keeps P (case v of Inl e \<Rightarrow> g e | Inr x \<Rightarrow> f x)"
  by (cases v) simp_all

lemma keeps_prod [keeps_intros]:
  "(\<And>x y. v = (x, y) \<Longrightarrow> keeps P (f x y)) \<Longrightarrow> keeps P (case v of (x, y) \<Rightarrow> f x y)"
  by (cases v) simp

lemma keeps_for_each [keeps_intros]:
  "(\<And>x. x \<in> set xs \<Longrightarrow> keeps P (f x)) \<Longrightarrow> keeps P (for_each xs f)"
  by (induction xs) (auto intro: keeps_ret keeps_andthen)

lemma keeps_block [keeps_intros]:
  "(\<And>m. m \<in> set ms \<Longrightarrow> keeps P m) \<Longrightarrow> keeps P (block ms)"
  by (induction ms) (auto intro: keeps_ret keeps_andthen)

subsection \<open>Triples\<close>

text \<open>
  \<open>triple P m Q R\<close>: from a state with \<open>P\<close>, \<open>m\<close> returns \<open>x\<close> in a state with \<open>Q x\<close> or raises in
  one with \<open>R\<close>.
\<close>

definition triple ::
  "('s \<Rightarrow> bool) \<Rightarrow> ('e, 's, 'a) eff \<Rightarrow> ('a \<Rightarrow> 's \<Rightarrow> bool) \<Rightarrow> ('s \<Rightarrow> bool) \<Rightarrow> bool" where
  "triple P m Q R \<longleftrightarrow> (\<forall>s. P s \<longrightarrow> (case m s of (Inr x, t) \<Rightarrow> Q x t | (Inl e, t) \<Rightarrow> R t))"

lemma tripleI:
  "(\<And>s x t. P s \<Longrightarrow> m s = (Inr x, t) \<Longrightarrow> Q x t) \<Longrightarrow> (\<And>s e t. P s \<Longrightarrow> m s = (Inl e, t) \<Longrightarrow> R t)
    \<Longrightarrow> triple P m Q R"
  unfolding triple_def by (simp split: prod.split sum.split)

lemma triple_Inr: "triple P m Q R \<Longrightarrow> P s \<Longrightarrow> m s = (Inr x, t) \<Longrightarrow> Q x t"
  unfolding triple_def by fastforce

lemma triple_Inl: "triple P m Q R \<Longrightarrow> P s \<Longrightarrow> m s = (Inl e, t) \<Longrightarrow> R t"
  unfolding triple_def by fastforce

lemma triple_bnd:
  assumes m: "triple P m Q R" and f: "\<And>x. triple (Q x) (f x) Q' R"
  shows "triple P (bnd m f) Q' R"
proof (rule tripleI)
  fix s y t
  assume s: "P s" and "bnd m f s = (Inr y, t)"
  then obtain x u where x: "m s = (Inr x, u)" and y: "f x u = (Inr y, t)"
    by (auto simp: bnd_run split: prod.splits sum.splits)
  show "Q' y t" by (rule triple_Inr [OF f triple_Inr [OF m s x] y])
next
  fix s e t
  assume s: "P s" and "bnd m f s = (Inl e, t)"
  then consider "m s = (Inl e, t)" | x u where "m s = (Inr x, u)" "f x u = (Inl e, t)"
    by (auto simp: bnd_run split: prod.splits sum.splits)
  then show "R t"
  proof cases
    case 1
    with m s show ?thesis by (rule triple_Inl)
  next
    case 2
    show ?thesis by (rule triple_Inl [OF f triple_Inr [OF m s 2(1)] 2(2)])
  qed
qed

lemma triple_andthen: "triple P m (\<lambda>_. Q) R \<Longrightarrow> triple Q n Q' R \<Longrightarrow> triple P (andthen m n) Q' R"
  unfolding andthen_def by (rule triple_bnd)

lemma triple_keeps:
  assumes m: "keeps P m" and R: "\<And>s. P s \<Longrightarrow> R s"
  shows "triple P m (\<lambda>_. P) R"
proof (rule tripleI)
  fix s x t
  assume "P s" "m s = (Inr x, t)"
  then show "P t" by (rule keepsD_eq [OF m])
next
  fix s e t
  assume "P s" "m s = (Inl e, t)"
  then show "R t" by (rule R [OF keepsD_eq [OF m]])
qed

lemma keeps_triple:
  assumes m: "triple P m (\<lambda>_. P) P"
  shows "keeps P m"
proof (rule keepsI)
  fix s
  assume s: "P s"
  show "P (snd (m s))"
  proof (cases "m s")
    case (Pair r t)
    have "P t"
    proof (cases r)
      case (Inl e)
      show ?thesis by (rule triple_Inl [OF m s]) (simp add: Pair Inl)
    next
      case (Inr x)
      show ?thesis by (rule triple_Inr [OF m s]) (simp add: Pair Inr)
    qed
    then show ?thesis by (simp add: Pair)
  qed
qed

lemma triple_weaken:
  assumes m: "triple P m Q R" and P: "\<And>s. P' s \<Longrightarrow> P s" and Q: "\<And>x s. Q x s \<Longrightarrow> Q' x s"
  shows "triple P' m Q' R"
proof (rule tripleI)
  fix s x t
  assume s: "P' s" and x: "m s = (Inr x, t)"
  show "Q' x t" by (rule Q) (rule triple_Inr [OF m P [OF s] x])
next
  fix s e t
  assume s: "P' s" and e: "m s = (Inl e, t)"
  show "R t" by (rule triple_Inl [OF m P [OF s] e])
qed

lemma triple_pure:
  assumes "A \<Longrightarrow> triple P m Q R"
  shows "triple (\<lambda>s. P s \<and> A) m Q R"
  using assms by (cases A) (simp_all add: triple_def)

lemma triple_guard: "(\<And>s. P s \<Longrightarrow> R s) \<Longrightarrow> triple P (guard c e) (\<lambda>_ s. P s \<and> c) R"
  by (rule tripleI) (auto simp: py_simps split: if_splits)

lemma triple_imp:
  "(A \<Longrightarrow> triple P m Q R) \<Longrightarrow> triple (\<lambda>s. A \<longrightarrow> P s) m (\<lambda>x s. A \<longrightarrow> Q x s) (\<lambda>s. A \<longrightarrow> R s)"
  by (cases A) (simp_all add: triple_def split: prod.split sum.split)

lemma triple_block_Cons:
  "triple P m (\<lambda>_. Q) R \<Longrightarrow> triple Q (block ms) Q' R \<Longrightarrow> triple P (block (m # ms)) Q' R"
  by (simp add: triple_andthen)

lemma triple_block_keep:
  assumes "keeps P m" and "\<And>s. P s \<Longrightarrow> R s" and "triple P (block ms) Q R"
  shows "triple P (block (m # ms)) Q R"
  by (rule triple_block_Cons [OF triple_keeps [OF assms(1,2)] assms(3)])

lemma triple_if: "(c \<Longrightarrow> triple P m Q R) \<Longrightarrow> (\<not> c \<Longrightarrow> triple P n Q R) \<Longrightarrow> triple P (if c then m else n) Q R"
  by simp

subsection \<open>Runs of a machine\<close>

text \<open>
  A component whose methods are called one after the other by an environment is a step
  function; an invariant of the step is an invariant of every run.  The machines of the
  component theories interpret this locale.
\<close>

locale machine =
  fixes step :: "'ev \<Rightarrow> 's \<Rightarrow> 's"
    and inv :: "'s \<Rightarrow> bool"
  assumes step_inv: "inv s \<Longrightarrow> inv (step e s)"
begin

lemma run_inv: "inv s \<Longrightarrow> inv (fold step es s)"
  by (induction es arbitrary: s) (auto intro: step_inv)

lemma run_inv_prefix: "inv s \<Longrightarrow> inv (fold step (take n es) s)"
  by (rule run_inv)

end

subsection \<open>Dictionaries in insertion order\<close>

text \<open>
  \<open>d[k] = v\<close>: an existing key keeps its place, a new key goes to the end, as in Python.
\<close>

fun dict_set :: "'k \<Rightarrow> 'v \<Rightarrow> ('k \<times> 'v) list \<Rightarrow> ('k \<times> 'v) list" where
  "dict_set k v [] = [(k, v)]"
| "dict_set k v ((a, b) # d) = (if a = k then (k, v) # d else (a, b) # dict_set k v d)"

definition dict_map_at :: "'k \<Rightarrow> ('v \<Rightarrow> 'v) \<Rightarrow> ('k \<times> 'v) list \<Rightarrow> ('k \<times> 'v) list" where
  "dict_map_at k f d = map (\<lambda>(a, b). if a = k then (a, f b) else (a, b)) d"

lemma map_of_dict_set [simp]: "map_of (dict_set k v d) = (map_of d)(k \<mapsto> v)"
  by (induction k v d rule: dict_set.induct) (auto simp: fun_eq_iff)

lemma keys_dict_set: "fst ` set (dict_set k v d) = insert k (fst ` set d)"
  by (induction k v d rule: dict_set.induct) auto

lemma distinct_dict_set: "distinct (map fst d) \<Longrightarrow> distinct (map fst (dict_set k v d))"
proof (induction k v d rule: dict_set.induct)
  case (1 k v)
  then show ?case by simp
next
  case (2 k v a b d)
  then show ?case using keys_dict_set [of k v d] by (auto simp: image_iff)
qed

lemma map_of_dict_map_at [simp]:
  "map_of (dict_map_at k f d) j = (if j = k then map_option f (map_of d j) else map_of d j)"
  by (induction d) (auto simp: dict_map_at_def)

lemma keys_dict_map_at [simp]: "map fst (dict_map_at k f d) = map fst d"
  by (induction d) (auto simp: dict_map_at_def)

text \<open>\<open>list(dict.fromkeys(xs))\<close>: the first occurrences, in order.\<close>

fun ordered_unique :: "'a list \<Rightarrow> 'a list" where
  "ordered_unique [] = []"
| "ordered_unique (x # xs) = x # filter (\<lambda>y. y \<noteq> x) (ordered_unique xs)"

lemma set_ordered_unique [simp]: "set (ordered_unique xs) = set xs"
  by (induction xs) auto

lemma distinct_ordered_unique: "distinct (ordered_unique xs)"
  by (induction xs) auto

lemma ordered_unique_Nil [simp]: "ordered_unique xs = [] \<longleftrightarrow> xs = []"
  by (cases xs) simp_all

lemma ordered_unique_distinct: "distinct xs \<Longrightarrow> ordered_unique xs = xs"
  by (induction xs) (auto simp: filter_id_conv)

text \<open>A \<open>deque(maxlen=n)\<close>: appending to a full deque drops its oldest element.\<close>

definition deque_append :: "nat \<Rightarrow> 'a \<Rightarrow> 'a list \<Rightarrow> 'a list" where
  "deque_append n x xs = (let ys = xs @ [x] in drop (length ys - n) ys)"

lemma length_deque_append: "length (deque_append n x xs) \<le> n"
  by (simp add: deque_append_def Let_def)

lemma deque_append_room: "length xs < n \<Longrightarrow> deque_append n x xs = xs @ [x]"
  by (simp add: deque_append_def Let_def)

text \<open>\<open>sep.join(parts)\<close>.\<close>

fun join :: "'a list \<Rightarrow> 'a list list \<Rightarrow> 'a list" where
  "join sep [] = []"
| "join sep [x] = x"
| "join sep (x # xs) = x @ sep @ join sep xs"

end
