(* ===== verification/Py_Values.thy ===== *)
theory Py_Values
  imports Gp4_Prelude Complex_Main
begin

section \<open>Dynamic Python values\<close>

text \<open>
  The values that \<open>json.loads\<close> and \<open>yaml.safe_load\<close> produce, and the operations the
  program applies to them: truthiness, \<open>dict.get\<close>, \<open>float(\<dots>)\<close>, \<open>int(\<dots>)\<close>, \<open>str(\<dots>)\<close>,
  comparison and iteration, each with the exception it raises.

  A float is an exact rational, an infinity or NaN.  Arithmetic is exact: the rounding of
  binary64 is the one thing of Python's floats that is not modelled.  NaN and the
  infinities are, because \<open>json.loads\<close> accepts them and the guards compare them.
\<close>

subsection \<open>Floats\<close>

datatype pyfloat = Fin rat | PInf | MInf | NaN

fun fle :: "pyfloat \<Rightarrow> pyfloat \<Rightarrow> bool" where
  "fle NaN _ = False"
| "fle _ NaN = False"
| "fle MInf _ = True"
| "fle _ PInf = True"
| "fle (Fin a) (Fin b) = (a \<le> b)"
| "fle _ _ = False"

fun flt :: "pyfloat \<Rightarrow> pyfloat \<Rightarrow> bool" where
  "flt NaN _ = False"
| "flt _ NaN = False"
| "flt _ MInf = False"
| "flt PInf _ = False"
| "flt MInf _ = True"
| "flt _ PInf = True"
| "flt (Fin a) (Fin b) = (a < b)"

text \<open>Python's \<open>==\<close> on floats: NaN equals nothing.\<close>

definition feq :: "pyfloat \<Rightarrow> pyfloat \<Rightarrow> bool" where
  "feq x y \<longleftrightarrow> x \<noteq> NaN \<and> x = y"

fun isfinite :: "pyfloat \<Rightarrow> bool" where
  "isfinite (Fin _) = True"
| "isfinite _ = False"

fun fneg :: "pyfloat \<Rightarrow> pyfloat" where
  "fneg (Fin a) = Fin (- a)"
| "fneg PInf = MInf"
| "fneg MInf = PInf"
| "fneg NaN = NaN"

fun fadd :: "pyfloat \<Rightarrow> pyfloat \<Rightarrow> pyfloat" where
  "fadd NaN _ = NaN"
| "fadd _ NaN = NaN"
| "fadd (Fin a) (Fin b) = Fin (a + b)"
| "fadd PInf MInf = NaN"
| "fadd MInf PInf = NaN"
| "fadd PInf _ = PInf"
| "fadd _ PInf = PInf"
| "fadd MInf _ = MInf"
| "fadd _ MInf = MInf"

definition fsub :: "pyfloat \<Rightarrow> pyfloat \<Rightarrow> pyfloat" where
  "fsub x y = fadd x (fneg y)"

text \<open>Multiplication: \<open>inf * 0\<close> is NaN, the sign of an infinite product is the product of
  the signs.\<close>

fun fsgn :: "pyfloat \<Rightarrow> rat" where
  "fsgn (Fin a) = sgn a"
| "fsgn PInf = 1"
| "fsgn MInf = - 1"
| "fsgn NaN = 0"

definition fmul :: "pyfloat \<Rightarrow> pyfloat \<Rightarrow> pyfloat" where
  "fmul x y =
     (case (x, y) of
        (Fin a, Fin b) \<Rightarrow> Fin (a * b)
      | (NaN, _) \<Rightarrow> NaN
      | (_, NaN) \<Rightarrow> NaN
      | _ \<Rightarrow> (let s = fsgn x * fsgn y in if s = 0 then NaN else if 0 < s then PInf else MInf))"

text \<open>Division by the non-zero constant 2.\<close>

fun fhalf :: "pyfloat \<Rightarrow> pyfloat" where
  "fhalf (Fin a) = Fin (a / 2)"
| "fhalf x = x"

text \<open>\<open>min(a, b)\<close> and \<open>max(a, b)\<close> keep the first argument unless the second is strictly beyond it: a
  NaN in second place is dropped, one in first place stays.\<close>

definition py_min :: "pyfloat \<Rightarrow> pyfloat \<Rightarrow> pyfloat" where
  "py_min a b = (if flt b a then b else a)"

definition py_max :: "pyfloat \<Rightarrow> pyfloat \<Rightarrow> pyfloat" where
  "py_max a b = (if flt a b then b else a)"

text \<open>Division raises on zero.\<close>

fun fdiv :: "pyfloat \<Rightarrow> pyfloat \<Rightarrow> pyfloat option" where
  "fdiv x (Fin b) = (if b = 0 then None else Some (fmul x (Fin (1 / b))))"
| "fdiv x NaN = Some NaN"
| "fdiv (Fin a) y = Some (Fin 0)"
| "fdiv x y = Some NaN"

text \<open>\<open>math.sqrt(s) > lim\<close> for a sum of squares \<open>s\<close>, decided without the root.\<close>

fun sqrt_gt :: "pyfloat \<Rightarrow> pyfloat \<Rightarrow> bool" where
  "sqrt_gt NaN _ = False"
| "sqrt_gt _ NaN = False"
| "sqrt_gt _ MInf = True"
| "sqrt_gt _ PInf = False"
| "sqrt_gt PInf (Fin l) = True"
| "sqrt_gt MInf (Fin l) = False"
| "sqrt_gt (Fin s) (Fin l) = (l < 0 \<or> l * l < s)"

lemma fle_Fin_iff: "fle (Fin a) y \<longleftrightarrow> y = PInf \<or> (\<exists>b. y = Fin b \<and> a \<le> b)"
  by (cases y) auto

lemma fle_Fin_iff2: "fle x (Fin b) \<longleftrightarrow> x = MInf \<or> (\<exists>a. x = Fin a \<and> a \<le> b)"
  by (cases x) auto

lemma fle_box: "fle (Fin a) x \<and> fle x (Fin b) \<longleftrightarrow> (\<exists>r. x = Fin r \<and> a \<le> r \<and> r \<le> b)"
  by (cases x) auto

lemma not_fle_NaN [simp]: "\<not> fle x NaN"
  by (cases x) auto

lemma flt_not_fle: "x \<noteq> NaN \<Longrightarrow> y \<noteq> NaN \<Longrightarrow> \<not> flt x y \<longleftrightarrow> fle y x"
  by (cases x; cases y) auto

lemma fsub_Fin [simp]: "fsub (Fin a) (Fin b) = Fin (a - b)"
  by (simp add: fsub_def)

lemma fmul_Fin [simp]: "fmul (Fin a) (Fin b) = Fin (a * b)"
  by (simp add: fmul_def)

lemma feq_Fin [simp]: "feq (Fin a) (Fin b) \<longleftrightarrow> a = b"
  by (auto simp: feq_def)

text \<open>The decision agrees with the real square root.\<close>

lemma sqrt_gt_iff_sqrt:
  assumes "0 \<le> s"
  shows "sqrt_gt (Fin s) (Fin l) \<longleftrightarrow> real_of_rat l < sqrt (real_of_rat s)"
proof (cases "l < 0")
  case True
  then have "real_of_rat l < 0" by simp
  moreover have "0 \<le> sqrt (real_of_rat s)" using assms by simp
  ultimately have "real_of_rat l < sqrt (real_of_rat s)" by (rule less_le_trans)
  with True show ?thesis by simp
next
  case False
  then have l: "0 \<le> real_of_rat l" by simp
  have "real_of_rat l < sqrt (real_of_rat s) \<longleftrightarrow> (real_of_rat l)\<^sup>2 < real_of_rat s"
    using l by (metis abs_of_nonneg real_sqrt_abs real_sqrt_less_iff)
  also have "\<dots> \<longleftrightarrow> real_of_rat (l * l) < real_of_rat s"
    by (simp add: power2_eq_square of_rat_mult)
  also have "\<dots> \<longleftrightarrow> l * l < s" by (simp add: of_rat_less)
  finally show ?thesis using False by simp
qed

subsection \<open>JSON and YAML values\<close>

datatype json =
    JNull
  | JBool bool
  | JInt int
  | JFloat pyfloat
  | JStr string
  | JList "json list"
  | JObj "(string \<times> json) list"

datatype py_exn = TypeError | ValueError | AttributeError | KeyError | OverflowError | ZeroDivisionError

text \<open>\<open>bool(v)\<close>.\<close>

fun truthy :: "json \<Rightarrow> bool" where
  "truthy JNull = False"
| "truthy (JBool b) = b"
| "truthy (JInt n) = (n \<noteq> 0)"
| "truthy (JFloat x) = (\<not> feq x (Fin 0))"
| "truthy (JStr s) = (s \<noteq> [])"
| "truthy (JList xs) = (xs \<noteq> [])"
| "truthy (JObj d) = (d \<noteq> [])"

fun is_dict :: "json \<Rightarrow> bool" where
  "is_dict (JObj _) = True"
| "is_dict _ = False"

fun is_list :: "json \<Rightarrow> bool" where
  "is_list (JList _) = True"
| "is_list _ = False"

text \<open>A decoded object has each key once (the last of equal keys wins when it is decoded).\<close>

definition dget :: "(string \<times> json) list \<Rightarrow> string \<Rightarrow> json option" where
  "dget d k = map_of d k"

text \<open>\<open>v.get(k, default)\<close> and \<open>v.get(k)\<close>: only a dict has the method.\<close>

fun jget :: "json \<Rightarrow> string \<Rightarrow> json \<Rightarrow> py_exn + json" where
  "jget (JObj d) k dflt = Inr (case dget d k of None \<Rightarrow> dflt | Some v \<Rightarrow> v)"
| "jget _ k dflt = Inl AttributeError"

text \<open>\<open>v[k]\<close> on a decoded value, with a string key.\<close>

fun jindex :: "json \<Rightarrow> string \<Rightarrow> py_exn + json" where
  "jindex (JObj d) k = (case dget d k of None \<Rightarrow> Inl KeyError | Some v \<Rightarrow> Inr v)"
| "jindex _ k = Inl TypeError"

text \<open>\<open>k in v\<close> with a string key: a key of a dict, an element of a list, a part of a
  string; numbers and \<open>None\<close> are not containers.\<close>

fun is_infix :: "string \<Rightarrow> string \<Rightarrow> bool" where
  "is_infix s [] = (s = [])"
| "is_infix s (c # t) = (take (length s) (c # t) = s \<or> is_infix s t)"

fun jcontains :: "json \<Rightarrow> string \<Rightarrow> py_exn + bool" where
  "jcontains (JObj d) k = Inr (dget d k \<noteq> None)"
| "jcontains (JList xs) k = Inr (JStr k \<in> set xs)"
| "jcontains (JStr s) k = Inr (is_infix k s)"
| "jcontains _ k = Inl TypeError"

text \<open>Iterating a value: a list yields its elements, a dict its keys, a string its
  characters.\<close>

fun jiter :: "json \<Rightarrow> py_exn + json list" where
  "jiter (JList xs) = Inr xs"
| "jiter (JObj d) = Inr (map (\<lambda>(k, _). JStr k) d)"
| "jiter (JStr s) = Inr (map (\<lambda>c. JStr [c]) s)"
| "jiter _ = Inl TypeError"

subsection \<open>Text\<close>

definition is_space :: "char \<Rightarrow> bool" where
  "is_space c \<longleftrightarrow> of_char c \<in> {9, 10, 11, 12, 13, 28, 29, 30, 31, 32 :: nat}"

definition strip :: "string \<Rightarrow> string" where
  "strip s = rev (dropWhile is_space (rev (dropWhile is_space s)))"

text \<open>\<open>upper\<close> and \<open>lower\<close>, on ASCII letters.\<close>

definition upper_char :: "char \<Rightarrow> char" where
  "upper_char c = (let n = of_char c :: nat in if 97 \<le> n \<and> n \<le> 122 then char_of (n - 32) else c)"

definition lower_char :: "char \<Rightarrow> char" where
  "lower_char c = (let n = of_char c :: nat in if 65 \<le> n \<and> n \<le> 90 then char_of (n + 32) else c)"

definition upper :: "string \<Rightarrow> string" where
  "upper s = map upper_char s"

definition lower :: "string \<Rightarrow> string" where
  "lower s = map lower_char s"

definition is_digit :: "char \<Rightarrow> bool" where
  "is_digit c \<longleftrightarrow> 48 \<le> (of_char c :: nat) \<and> (of_char c :: nat) \<le> 57"

definition digit_val :: "char \<Rightarrow> nat" where
  "digit_val c = of_char c - 48"

text \<open>Decimal digits, single underscores allowed between two digits: the value, how many
  digits, and the rest of the text.\<close>

fun read_digits :: "nat \<Rightarrow> nat \<Rightarrow> string \<Rightarrow> nat \<times> nat \<times> string" where
  "read_digits v n [] = (v, n, [])"
| "read_digits v n (c # cs) =
     (if is_digit c then read_digits (10 * v + digit_val c) (Suc n) cs
      else if c = CHR ''_'' \<and> 0 < n \<and> (case cs of [] \<Rightarrow> False | d # _ \<Rightarrow> is_digit d)
      then read_digits v n cs
      else (v, n, c # cs))"

fun read_sign :: "string \<Rightarrow> bool \<times> string" where
  "read_sign (c # cs) =
     (if c = CHR ''-'' then (True, cs) else if c = CHR ''+'' then (False, cs) else (False, c # cs))"
| "read_sign [] = (False, [])"

text \<open>The exponent part: \<open>e\<close>, a sign, at least one digit, and nothing after it.\<close>

fun read_exponent :: "string \<Rightarrow> int option" where
  "read_exponent [] = Some 0"
| "read_exponent (c # cs) =
     (if c = CHR ''e''
      then (case read_sign cs of (neg, ds) \<Rightarrow>
              (case read_digits 0 0 ds of (v, n, rest) \<Rightarrow>
                 if 0 < n \<and> rest = [] then Some (if neg then - int v else int v) else None))
      else None)"

definition scale10 :: "int \<Rightarrow> rat" where
  "scale10 e = (if 0 \<le> e then 10 ^ nat e else 1 / 10 ^ nat (- e))"

text \<open>The text of a float after its sign, in lower case.\<close>

definition read_unsigned :: "string \<Rightarrow> pyfloat option" where
  "read_unsigned s =
     (if s = ''inf'' \<or> s = ''infinity'' then Some PInf
      else if s = ''nan'' then Some NaN
      else (case read_digits 0 0 s of (v, n, rest) \<Rightarrow>
        (case (case rest of
                 c # cs \<Rightarrow> (if c = CHR ''.'' then read_digits 0 0 cs else (0, 0, rest))
               | [] \<Rightarrow> (0, 0, [])) of (w, m, rest') \<Rightarrow>
           if n = 0 \<and> m = 0 then None
           else map_option (\<lambda>e. Fin ((of_nat v + of_nat w / 10 ^ m) * scale10 e))
                  (read_exponent rest'))))"

definition parse_float :: "string \<Rightarrow> pyfloat option" where
  "parse_float s = (case read_sign (lower (strip s)) of (neg, body) \<Rightarrow>
     map_option (if neg then fneg else id) (read_unsigned body))"

subsection \<open>Conversions\<close>

text \<open>\<open>float(n)\<close> of an integer beyond the largest finite float raises \<open>OverflowError\<close>.\<close>

definition float_of_int :: "int \<Rightarrow> py_exn + pyfloat" where
  "float_of_int n = (if 2 ^ 1024 - 2 ^ 970 \<le> \<bar>n\<bar> then Inl OverflowError else Inr (Fin (of_int n)))"

fun to_float :: "json \<Rightarrow> py_exn + pyfloat" where
  "to_float (JBool b) = Inr (Fin (if b then 1 else 0))"
| "to_float (JInt n) = float_of_int n"
| "to_float (JFloat x) = Inr x"
| "to_float (JStr s) = (case parse_float s of None \<Rightarrow> Inl ValueError | Some x \<Rightarrow> Inr x)"
| "to_float _ = Inl TypeError"

text \<open>\<open>int(v)\<close>: truncation towards zero of a float; NaN and the infinities raise.\<close>

definition trunc_rat :: "rat \<Rightarrow> int" where
  "trunc_rat r = (if 0 \<le> r then \<lfloor>r\<rfloor> else \<lceil>r\<rceil>)"

definition parse_int :: "string \<Rightarrow> int option" where
  "parse_int s = (case read_sign (strip s) of (neg, body) \<Rightarrow>
     (case read_digits 0 0 body of (v, n, rest) \<Rightarrow>
        if 0 < n \<and> rest = [] then Some (if neg then - int v else int v) else None))"

fun to_int :: "json \<Rightarrow> py_exn + int" where
  "to_int (JBool b) = Inr (if b then 1 else 0)"
| "to_int (JInt n) = Inr n"
| "to_int (JFloat (Fin r)) = Inr (trunc_rat r)"
| "to_int (JFloat NaN) = Inl ValueError"
| "to_int (JFloat _) = Inl OverflowError"
| "to_int (JStr s) = (case parse_int s of None \<Rightarrow> Inl ValueError | Some n \<Rightarrow> Inr n)"
| "to_int _ = Inl TypeError"

text \<open>The numeric reading of a value in a comparison or an arithmetic operation: booleans
  and integers are numbers, text is not.\<close>

fun num :: "json \<Rightarrow> py_exn + pyfloat" where
  "num (JBool b) = Inr (Fin (if b then 1 else 0))"
| "num (JInt n) = Inr (Fin (of_int n))"
| "num (JFloat x) = Inr x"
| "num _ = Inl TypeError"

text \<open>
  \<open>str(v)\<close>.  The program compares the result with the names of primitives, states and
  frames; of the text of a float, a list or a dict it matters only that it is not empty and
  not such a name, and a marker stands for it.
\<close>

fun digits_rev :: "nat \<Rightarrow> nat \<Rightarrow> string" where
  "digits_rev 0 n = []"
| "digits_rev (Suc fuel) n =
     char_of (48 + n mod 10) # (if n < 10 then [] else digits_rev fuel (n div 10))"

definition str_nat :: "nat \<Rightarrow> string" where
  "str_nat n = rev (digits_rev (Suc n) n)"

definition str_int :: "int \<Rightarrow> string" where
  "str_int i = (if i < 0 then CHR ''-'' # str_nat (nat (- i)) else str_nat (nat i))"

fun to_str :: "json \<Rightarrow> string" where
  "to_str JNull = ''None''"
| "to_str (JBool b) = (if b then ''True'' else ''False'')"
| "to_str (JInt n) = str_int n"
| "to_str (JFloat x) = ''<float>''"
| "to_str (JStr s) = s"
| "to_str (JList xs) = ''[...]''"
| "to_str (JObj d) = ''{...}''"

text \<open>\<open>v == s\<close> with a string literal.\<close>

definition is_str :: "json \<Rightarrow> string \<Rightarrow> bool" where
  "is_str v s \<longleftrightarrow> v = JStr s"

text \<open>\<open>v in S\<close> for a set of strings: hashing a list or a dict raises.\<close>

fun in_names :: "json \<Rightarrow> string list \<Rightarrow> py_exn + bool" where
  "in_names (JList _) ns = Inl TypeError"
| "in_names (JObj _) ns = Inl TypeError"
| "in_names (JStr s) ns = Inr (s \<in> set ns)"
| "in_names _ ns = Inr False"

lemma jget_obj: "jget (JObj d) k dflt = Inr v \<longleftrightarrow> v = (case dget d k of None \<Rightarrow> dflt | Some w \<Rightarrow> w)"
  by auto

lemma jget_Inr_dict: "jget v k dflt = Inr w \<Longrightarrow> \<exists>d. v = JObj d"
  by (cases v) auto

lemma to_float_num: "to_float v = Inr x \<Longrightarrow> num v = Inr y \<Longrightarrow> x = y"
  by (cases v) (auto simp: float_of_int_def split: if_splits)

end
