(* ===== verification/Workspace_Guard.thy ===== *)
theory Workspace_Guard
  imports Py_Values
begin

section \<open>The workspace guard\<close>

text \<open>
  \<open>safety/workspace_guard.py\<close>: \<open>WorkspaceGuard.check_pose\<close>, the axis-aligned bounds and
  forbidden zones of a point in \<open>base_link\<close>, with the rules of
  \<open>safety/config/safety_rules.yaml\<close>.  The rules are a decoded YAML value, so a bound that is
  not a number raises where Python raises.  The theory ends with what an accepted point
  satisfies (locale \<open>pose_guard\<close>, interpreted on \<open>check_pose\<close>), the refinement of a geometric
  specification, and the numbers of the shipped rules.
\<close>

record point =
  px :: pyfloat
  py :: pyfloat
  pz :: pyfloat

datatype axis = AxisX | AxisY | AxisZ

datatype pose_reason =
    OutOfBounds axis pyfloat json json
  | CollisionWith json

record workspace_guard =
  wg_bounds :: json
  wg_zones :: json

definition workspace_guard_init :: "json \<Rightarrow> py_exn + workspace_guard" where
  "workspace_guard_init rules =
     ebind (jget rules ''workspace_bounds'' (JObj [])) (\<lambda>b.
     ebind (jget rules ''forbidden_zones'' (JList [])) (\<lambda>z.
     Inr \<lparr>wg_bounds = b, wg_zones = z\<rparr>))"

text \<open>\<open>lo <= x <= hi\<close>, which compares with \<open>hi\<close> only when the first comparison holds.\<close>

definition chained_le :: "py_exn + pyfloat \<Rightarrow> pyfloat \<Rightarrow> py_exn + pyfloat \<Rightarrow> py_exn + bool" where
  "chained_le lo x hi =
     ebind lo (\<lambda>l. if fle l x then ebind hi (\<lambda>h. Inr (fle x h)) else Inr False)"

definition zone_field :: "json \<Rightarrow> string \<Rightarrow> py_exn + pyfloat" where
  "zone_field zone k = ebind (jget zone k (JFloat (Fin 0))) num"

text \<open>The extent \<open>[z - s / 2, z + s / 2]\<close> of a zone on one axis.\<close>

definition zone_extent :: "json \<Rightarrow> string \<Rightarrow> string \<Rightarrow> py_exn + (pyfloat \<times> pyfloat)" where
  "zone_extent zone k size_k =
     ebind (zone_field zone k) (\<lambda>z. ebind (zone_field zone size_k) (\<lambda>s.
       Inr (fsub z (fhalf s), fadd z (fhalf s))))"

definition in_extent :: "pyfloat \<times> pyfloat \<Rightarrow> pyfloat \<Rightarrow> bool" where
  "in_extent e x \<longleftrightarrow> fle (fst e) x \<and> fle x (snd e)"

definition zone_contains :: "json \<Rightarrow> point \<Rightarrow> py_exn + bool" where
  "zone_contains zone p =
     ebind (zone_extent zone ''x'' ''size_x'') (\<lambda>ex.
     ebind (zone_extent zone ''y'' ''size_y'') (\<lambda>ey.
     ebind (zone_extent zone ''z'' ''size_z'') (\<lambda>ez.
     Inr (in_extent ex (px p) \<and> in_extent ey (py p) \<and> in_extent ez (pz p)))))"

definition check_zone :: "point \<Rightarrow> nat \<Rightarrow> json \<Rightarrow> py_exn + pose_reason verdict" where
  "check_zone p _ zone =
     ebind (jget zone ''name'' (JStr ''unknown'')) (\<lambda>name.
     ebind (zone_contains zone p) (\<lambda>hit.
     Inr (if hit then Reject (CollisionWith name) else Accept)))"

definition bound :: "workspace_guard \<Rightarrow> string \<Rightarrow> rat \<Rightarrow> py_exn + json" where
  "bound g k dflt = jget (wg_bounds g) k (JFloat (Fin dflt))"

text \<open>One axis of the bounds check, with the rest of the method as continuation.\<close>

definition check_axis ::
  "axis \<Rightarrow> json \<Rightarrow> pyfloat \<Rightarrow> json \<Rightarrow> py_exn + pose_reason verdict \<Rightarrow> py_exn + pose_reason verdict"
where
  "check_axis a lo x hi rest =
     ebind (chained_le (num lo) x (num hi)) (\<lambda>ok.
       if ok then rest else Inr (Reject (OutOfBounds a x lo hi)))"

definition check_pose :: "workspace_guard \<Rightarrow> point \<Rightarrow> py_exn + pose_reason verdict" where
  "check_pose g p =
     ebind (bound g ''x_min'' (-10)) (\<lambda>x_min. ebind (bound g ''x_max'' 10) (\<lambda>x_max.
     ebind (bound g ''y_min'' (-10)) (\<lambda>y_min. ebind (bound g ''y_max'' 10) (\<lambda>y_max.
     ebind (bound g ''z_min'' (-10)) (\<lambda>z_min. ebind (bound g ''z_max'' 10) (\<lambda>z_max.
       check_axis AxisX x_min (px p) x_max
       (check_axis AxisY y_min (py p) y_max
       (check_axis AxisZ z_min (pz p) z_max
       (ebind (jiter (wg_zones g)) (check_each (check_zone p) 0)))))))))) "

subsection \<open>What an accepted point satisfies\<close>

text \<open>
  The contract the gate relies on: a point that the check accepts lies in the region.
  The gate's own lemmas are proved from it, whatever the guard.
\<close>

locale pose_guard =
  fixes check :: "point \<Rightarrow> py_exn + pose_reason verdict"
    and region :: "point \<Rightarrow> bool"
  assumes check_sound: "check p = Inr Accept \<Longrightarrow> region p"
begin

lemma checks_sound:
  "check_each (\<lambda>i p. check p) i ps = Inr Accept \<Longrightarrow> p \<in> set ps \<Longrightarrow> region p"
  by (auto simp: check_each_Accept in_set_conv_nth intro: check_sound)

end

definition axis_within :: "workspace_guard \<Rightarrow> string \<Rightarrow> string \<Rightarrow> pyfloat \<Rightarrow> bool" where
  "axis_within g lo_k hi_k x \<longleftrightarrow>
     (\<exists>l h. ebind (bound g lo_k (-10)) num = Inr l \<and> ebind (bound g hi_k 10) num = Inr h
        \<and> fle l x \<and> fle x h)"

definition clear_of_zones :: "workspace_guard \<Rightarrow> point \<Rightarrow> bool" where
  "clear_of_zones g p \<longleftrightarrow>
     (\<exists>zs. jiter (wg_zones g) = Inr zs \<and> (\<forall>z \<in> set zs. zone_contains z p = Inr False))"

definition pose_allowed :: "workspace_guard \<Rightarrow> point \<Rightarrow> bool" where
  "pose_allowed g p \<longleftrightarrow>
     axis_within g ''x_min'' ''x_max'' (px p) \<and> axis_within g ''y_min'' ''y_max'' (py p)
     \<and> axis_within g ''z_min'' ''z_max'' (pz p) \<and> clear_of_zones g p"

lemma chained_le_True:
  "chained_le lo x hi = Inr True \<longleftrightarrow> (\<exists>l h. lo = Inr l \<and> hi = Inr h \<and> fle l x \<and> fle x h)"
  by (auto simp: chained_le_def ebind_def split: sum.splits if_splits)

lemma check_axis_Accept:
  "check_axis a lo x hi rest = Inr Accept \<longleftrightarrow>
     (\<exists>l h. num lo = Inr l \<and> num hi = Inr h \<and> fle l x \<and> fle x h) \<and> rest = Inr Accept"
  by (auto simp: check_axis_def ebind_eq_Inr chained_le_True split: if_splits)

lemma check_zone_Accept:
  "check_zone p i z = Inr Accept \<Longrightarrow> zone_contains z p = Inr False"
  by (auto simp: check_zone_def ebind_eq_Inr split: if_splits)

lemma check_zone_Accept_iff:
  "check_zone p i z = Inr Accept \<longleftrightarrow> is_dict z \<and> zone_contains z p = Inr False"
  by (cases z) (auto simp: check_zone_def ebind_eq_Inr split: if_splits)

lemma zones_Accept:
  "check_each (check_zone p) i zs = Inr Accept \<Longrightarrow> z \<in> set zs \<Longrightarrow> zone_contains z p = Inr False"
  by (auto simp: check_each_Accept in_set_conv_nth intro: check_zone_Accept)

lemma check_pose_sound: "check_pose g p = Inr Accept \<Longrightarrow> pose_allowed g p"
  unfolding check_pose_def pose_allowed_def axis_within_def clear_of_zones_def
  by (auto simp: ebind_eq_Inr check_axis_Accept dest: zones_Accept)

interpretation workspace: pose_guard "check_pose g" "pose_allowed g" for g
  by unfold_locales (rule check_pose_sound)

lemma zone_contains_dict: "zone_contains z p = Inr b \<Longrightarrow> is_dict z"
  by (cases z) (auto simp: zone_contains_def zone_extent_def zone_field_def ebind_eq_Inr)

lemma check_zone_clear: "zone_contains z p = Inr False \<Longrightarrow> check_zone p i z = Inr Accept"
  by (simp add: check_zone_Accept_iff zone_contains_dict)

lemma pose_allowed_iff: "check_pose g p = Inr Accept \<longleftrightarrow> pose_allowed g p"
proof
  assume allowed: "pose_allowed g p"
  then obtain zs where zs: "jiter (wg_zones g) = Inr zs"
      and clear: "\<forall>z \<in> set zs. zone_contains z p = Inr False"
    unfolding pose_allowed_def clear_of_zones_def by blast
  have "check_each (check_zone p) 0 zs = Inr Accept"
    using clear by (auto simp: check_each_Accept intro: check_zone_clear)
  with allowed zs show "check_pose g p = Inr Accept"
    unfolding check_pose_def pose_allowed_def axis_within_def
    by (auto simp: ebind_eq_Inr check_axis_Accept)
qed (rule check_pose_sound)

subsection \<open>The geometric specification\<close>

text \<open>
  The documented contract (module docstring): closed axis bounds and closed boxes on the
  rationals.  Rules whose entries are finite numbers denote such a specification
  (\<open>abs_guard\<close>); on them the method decides exactly it.
\<close>

record aabb =
  lo_x :: rat
  hi_x :: rat
  lo_y :: rat
  hi_y :: rat
  lo_z :: rat
  hi_z :: rat

definition in_aabb :: "aabb \<Rightarrow> rat \<times> rat \<times> rat \<Rightarrow> bool" where
  "in_aabb b = (\<lambda>(x, y, z). lo_x b \<le> x \<and> x \<le> hi_x b \<and> lo_y b \<le> y \<and> y \<le> hi_y b
     \<and> lo_z b \<le> z \<and> z \<le> hi_z b)"

fun fin :: "py_exn + pyfloat \<Rightarrow> rat option" where
  "fin (Inr (Fin r)) = Some r"
| "fin _ = None"

definition abs_bounds :: "workspace_guard \<Rightarrow> aabb option" where
  "abs_bounds g =
     (case (fin (ebind (bound g ''x_min'' (-10)) num), fin (ebind (bound g ''x_max'' 10) num),
            fin (ebind (bound g ''y_min'' (-10)) num), fin (ebind (bound g ''y_max'' 10) num),
            fin (ebind (bound g ''z_min'' (-10)) num), fin (ebind (bound g ''z_max'' 10) num)) of
        (Some a, Some b, Some c, Some d, Some e, Some f) \<Rightarrow>
          Some \<lparr>lo_x = a, hi_x = b, lo_y = c, hi_y = d, lo_z = e, hi_z = f\<rparr>
      | _ \<Rightarrow> None)"

definition abs_zone :: "json \<Rightarrow> aabb option" where
  "abs_zone zone =
     (case (fin (zone_field zone ''x''), fin (zone_field zone ''size_x''),
            fin (zone_field zone ''y''), fin (zone_field zone ''size_y''),
            fin (zone_field zone ''z''), fin (zone_field zone ''size_z'')) of
        (Some x, Some sx, Some y, Some sy, Some z, Some sz) \<Rightarrow>
          Some \<lparr>lo_x = x - sx / 2, hi_x = x + sx / 2, lo_y = y - sy / 2, hi_y = y + sy / 2,
                lo_z = z - sz / 2, hi_z = z + sz / 2\<rparr>
      | _ \<Rightarrow> None)"

fun abs_zones :: "json list \<Rightarrow> aabb list option" where
  "abs_zones [] = Some []"
| "abs_zones (z # zs) =
     (case (abs_zone z, abs_zones zs) of (Some b, Some bs) \<Rightarrow> Some (b # bs) | _ \<Rightarrow> None)"

definition abs_guard :: "workspace_guard \<Rightarrow> (aabb \<times> aabb list) option" where
  "abs_guard g =
     (case (abs_bounds g, jiter (wg_zones g)) of
        (Some b, Inr zs) \<Rightarrow> map_option (\<lambda>bs. (b, bs)) (abs_zones zs)
      | _ \<Rightarrow> None)"

definition spec_allows :: "aabb \<times> aabb list \<Rightarrow> rat \<times> rat \<times> rat \<Rightarrow> bool" where
  "spec_allows s q \<longleftrightarrow> in_aabb (fst s) q \<and> (\<forall>b \<in> set (snd s). \<not> in_aabb b q)"

lemma fin_Some [simp]: "fin r = Some a \<longleftrightarrow> r = Inr (Fin a)"
  by (cases r rule: fin.cases) auto

lemma zone_contains_abs:
  assumes "abs_zone zone = Some b"
  shows "zone_contains zone \<lparr>px = Fin x, py = Fin y, pz = Fin z\<rparr> = Inr (in_aabb b (x, y, z))"
  using assms
  by (auto simp: abs_zone_def zone_contains_def zone_extent_def in_extent_def in_aabb_def
      split: option.splits)

lemma zones_clear_abs:
  "abs_zones zs = Some bs \<Longrightarrow>
    (\<forall>zo \<in> set zs. zone_contains zo \<lparr>px = Fin x, py = Fin y, pz = Fin z\<rparr> = Inr False)
      \<longleftrightarrow> (\<forall>b \<in> set bs. \<not> in_aabb b (x, y, z))"
  by (induction zs arbitrary: bs) (auto simp: zone_contains_abs split: option.splits)

lemma abs_bounds_within:
  assumes "abs_bounds g = Some b"
  shows "axis_within g ''x_min'' ''x_max'' (px p) \<and> axis_within g ''y_min'' ''y_max'' (py p)
      \<and> axis_within g ''z_min'' ''z_max'' (pz p)
    \<longleftrightarrow> (\<exists>x y z. p = \<lparr>px = Fin x, py = Fin y, pz = Fin z\<rparr> \<and> in_aabb b (x, y, z))"
  using assms
  by (cases p) (auto simp: abs_bounds_def axis_within_def fle_box in_aabb_def split: option.splits)

lemma pose_allowed_abs:
  assumes "abs_guard g = Some s"
  shows "pose_allowed g p \<longleftrightarrow>
    (\<exists>x y z. p = \<lparr>px = Fin x, py = Fin y, pz = Fin z\<rparr> \<and> spec_allows s (x, y, z))"
proof -
  obtain b zs bs where b: "abs_bounds g = Some b" and zs: "jiter (wg_zones g) = Inr zs"
      and bs: "abs_zones zs = Some bs" and s: "s = (b, bs)"
    using assms by (auto simp: abs_guard_def split: option.splits sum.splits)
  have "pose_allowed g p \<longleftrightarrow>
      (\<exists>x y z. p = \<lparr>px = Fin x, py = Fin y, pz = Fin z\<rparr> \<and> in_aabb b (x, y, z)) \<and> clear_of_zones g p"
    using abs_bounds_within [OF b, of p] by (auto simp: pose_allowed_def)
  then show ?thesis
    using zones_clear_abs [OF bs] zs by (auto simp: clear_of_zones_def spec_allows_def s)
qed

subsection \<open>The shipped rules\<close>

text \<open>The geometry of \<open>safety/config/safety_rules.yaml\<close>.\<close>

definition shipped_bounds :: json where
  "shipped_bounds = JObj [
     (''x_min'', JFloat (Fin (-45/100))), (''x_max'', JFloat (Fin (45/100))),
     (''y_min'', JFloat (Fin (-16/100))), (''y_max'', JFloat (Fin (52/100))),
     (''z_min'', JFloat (Fin (10/100))), (''z_max'', JFloat (Fin (65/100)))]"

definition zone_entry :: "string \<Rightarrow> rat \<Rightarrow> rat \<Rightarrow> rat \<Rightarrow> rat \<Rightarrow> rat \<Rightarrow> rat \<Rightarrow> json" where
  "zone_entry name x y z sx sy sz = JObj [
     (''name'', JStr name), (''x'', JFloat (Fin x)), (''y'', JFloat (Fin y)), (''z'', JFloat (Fin z)),
     (''size_x'', JFloat (Fin sx)), (''size_y'', JFloat (Fin sy)), (''size_z'', JFloat (Fin sz))]"

definition shipped_zones :: json where
  "shipped_zones = JList [
     zone_entry ''front_wall_guard'' 0 (-197/1000) 0 (130/100) (6/100) (150/100),
     zone_entry ''right_wall_guard'' (-482/1000) (305/1000) 0 (6/100) (110/100) (150/100),
     zone_entry ''floor_clearance_guard'' 0 (30/100) (4/100) (150/100) (110/100) (10/100)]"

definition shipped_guard :: workspace_guard where
  "shipped_guard = \<lparr>wg_bounds = shipped_bounds, wg_zones = shipped_zones\<rparr>"

definition shipped_box :: aabb where
  "shipped_box = \<lparr>lo_x = -45/100, hi_x = 45/100, lo_y = -16/100, hi_y = 52/100,
     lo_z = 10/100, hi_z = 65/100\<rparr>"

lemma shipped_abs_bounds: "abs_bounds shipped_guard = Some shipped_box"
  by (simp add: abs_bounds_def bound_def dget_def shipped_guard_def shipped_bounds_def shipped_box_def)

lemma abs_zone_entry:
  "abs_zone (zone_entry name x y z sx sy sz) =
     Some \<lparr>lo_x = x - sx / 2, hi_x = x + sx / 2, lo_y = y - sy / 2, hi_y = y + sy / 2,
           lo_z = z - sz / 2, hi_z = z + sz / 2\<rparr>"
  by (simp add: abs_zone_def zone_field_def zone_entry_def dget_def)

definition shipped_aabbs :: "aabb list" where
  "shipped_aabbs = [
     \<lparr>lo_x = -65/100, hi_x = 65/100, lo_y = -227/1000, hi_y = -167/1000, lo_z = -75/100, hi_z = 75/100\<rparr>,
     \<lparr>lo_x = -512/1000, hi_x = -452/1000, lo_y = -245/1000, hi_y = 855/1000, lo_z = -75/100, hi_z = 75/100\<rparr>,
     \<lparr>lo_x = -75/100, hi_x = 75/100, lo_y = -25/100, hi_y = 85/100, lo_z = -1/100, hi_z = 9/100\<rparr>]"

lemma shipped_abs: "abs_guard shipped_guard = Some (shipped_box, shipped_aabbs)"
  by (simp add: abs_guard_def shipped_abs_bounds)
     (simp add: shipped_guard_def shipped_zones_def abs_zone_entry shipped_aabbs_def)

text \<open>Every point of the shipped box is clear of every shipped zone.\<close>

lemma shipped_zones_outside_box:
  "in_aabb shipped_box q \<Longrightarrow> b \<in> set shipped_aabbs \<Longrightarrow> \<not> in_aabb b q"
  by (cases q) (auto simp: in_aabb_def shipped_box_def shipped_aabbs_def)

end
