(* ===== verification/Command_Validator.thy ===== *)
theory Command_Validator
  imports Py_Values
begin

section \<open>The command validator and the policy loader\<close>

text \<open>
  \<open>safety/command_validator.py\<close> (\<open>CommandValidator.__init__\<close>, \<open>validate\<close>,
  \<open>_check_extended_mode_preconditions\<close>) and the pure part of \<open>safety/policy_loader.py\<close>
  (\<open>get_motion_limits\<close> of given rules).  A JSON text is represented by what \<open>json.loads\<close>
  makes of it.  Lemmas: what an accepted scale satisfies, that the two places that read the
  limits out of the rules agree, and when extended mode is refused.
\<close>

datatype wire = WEmpty | WMalformed | WDoc json

datatype scale_field = VelocityScale | AccelerationScale

datatype cmd_reason =
    EmptyJson
  | InvalidJson
  | MissingPrimitiveType
  | ExtendedDisabled
  | ExtendedNeedsInspectionToken
  | ExtendedVelocityCap pyfloat pyfloat
  | ExtendedNeedsOperatorToken
  | ExtendedDurationCap pyfloat pyfloat
  | ScaleFormat scale_field
  | ScaleExceeds scale_field pyfloat json
  | ScaleNotPositive scale_field

definition velocity_bypass_primitives :: "string list" where
  "velocity_bypass_primitives =
     [''ALARM_RESET'', ''STOP'', ''WAIT'', ''IO_SET'', ''GET_POSE'', ''FACTORY_TASK_RUNTIME'']"

subsection \<open>Policy loader\<close>

definition failsafe_velocity :: rat where "failsafe_velocity = 6/100"
definition failsafe_acceleration :: rat where "failsafe_acceleration = 6/100"
definition failsafe_translation :: rat where "failsafe_translation = 21/100"

record motion_limits =
  ml_velocity :: pyfloat
  ml_acceleration :: pyfloat
  ml_translation :: pyfloat

text \<open>\<open>motion.get(k, legacy.get(k, default))\<close>: the inner \<open>get\<close> is evaluated first.\<close>

definition limit_of :: "json \<Rightarrow> json \<Rightarrow> string \<Rightarrow> rat \<Rightarrow> py_exn + json" where
  "limit_of motion legacy k dflt =
     ebind (jget legacy k (JFloat (Fin dflt))) (\<lambda>v. jget motion k v)"

definition get_motion_limits :: "json \<Rightarrow> py_exn + motion_limits" where
  "get_motion_limits rules =
     ebind (jget rules ''motion_limits'' (JObj [])) (\<lambda>motion.
     ebind (jget rules ''joint_limits_override'' (JObj [])) (\<lambda>legacy.
     ebind (ebind (limit_of motion legacy ''max_velocity_scale'' failsafe_velocity) to_float) (\<lambda>v.
     ebind (ebind (limit_of motion legacy ''max_acceleration_scale'' failsafe_acceleration) to_float) (\<lambda>a.
     ebind (ebind (jget motion ''max_move_rel_translation'' (JFloat (Fin failsafe_translation))) to_float) (\<lambda>t.
     Inr \<lparr>ml_velocity = v, ml_acceleration = a, ml_translation = t\<rparr>)))))"

subsection \<open>Command validator\<close>

record validator =
  v_rules :: json
  v_max_velocity :: json
  v_max_acceleration :: json
  v_max_move_rel_velocity :: json

definition command_validator_init :: "json \<Rightarrow> py_exn + validator" where
  "command_validator_init rules =
     ebind (jget rules ''motion_limits'' (JObj [])) (\<lambda>motion.
     ebind (jget rules ''joint_limits_override'' (JObj [])) (\<lambda>legacy.
     ebind (limit_of motion legacy ''max_velocity_scale'' failsafe_velocity) (\<lambda>v.
     ebind (limit_of motion legacy ''max_acceleration_scale'' failsafe_velocity) (\<lambda>a.
     ebind (jget motion ''max_move_rel_velocity_scale'' v) (\<lambda>m.
     Inr \<lparr>v_rules = rules, v_max_velocity = v, v_max_acceleration = a, v_max_move_rel_velocity = m\<rparr>)))))"

text \<open>\<open>pre.get(flag) and not command.get(token)\<close>.\<close>

definition lacks_token :: "json \<Rightarrow> json \<Rightarrow> string \<Rightarrow> string \<Rightarrow> py_exn + bool" where
  "lacks_token pre command flag token =
     ebind (jget pre flag JNull) (\<lambda>f.
       if truthy f then ebind (jget command token JNull) (\<lambda>t. Inr (\<not> truthy t)) else Inr False)"

definition check_extended_preconditions :: "json \<Rightarrow> json \<Rightarrow> py_exn + cmd_reason verdict" where
  "check_extended_preconditions pre command =
     ebind (lacks_token pre command ''cable_inspection_signed_off'' ''cable_inspection_signed_off_token'')
       (\<lambda>no_inspection.
     if no_inspection then Inr (Reject ExtendedNeedsInspectionToken) else
     ebind (ebind (jget pre ''max_velocity_scale'' (JFloat (Fin (10/100)))) to_float) (\<lambda>cap.
     ebind (ebind (jget command ''velocity_scale'' (JFloat (Fin (6/100)))) to_float) (\<lambda>vel.
     if flt cap vel then Inr (Reject (ExtendedVelocityCap vel cap)) else
     ebind (lacks_token pre command ''requires_operator_confirm'' ''operator_confirm_token'')
       (\<lambda>no_operator.
     if no_operator then Inr (Reject ExtendedNeedsOperatorToken) else
     ebind (ebind (jget command ''estimated_duration_s'' (JInt 0)) to_float) (\<lambda>estimated.
     ebind (ebind (jget pre ''max_continuous_extended_time_s'' (JInt 30)) to_float) (\<lambda>limit.
     if flt limit estimated then Inr (Reject (ExtendedDurationCap estimated limit))
     else Inr Accept))))))"

definition check_extended_mode :: "json \<Rightarrow> json \<Rightarrow> py_exn + cmd_reason verdict" where
  "check_extended_mode rules command =
     ebind (jget command ''extended_mode'' JNull) (\<lambda>ext.
     if \<not> truthy ext then Inr Accept else
     ebind (ebind (jget rules ''operational_joint_limits'' (JObj []))
              (\<lambda>limits. jget limits ''joint_6_t'' JNull)) (\<lambda>cfg.
     if \<not> is_dict cfg then Inr (Reject ExtendedDisabled) else
     ebind (jcontains cfg ''extended'') (\<lambda>has_extended.
     if \<not> has_extended then Inr (Reject ExtendedDisabled) else
     ebind (jget cfg ''extended_preconditions'' (JObj [])) (\<lambda>pre.
     check_extended_preconditions pre command))))"

text \<open>
  One optional scale: absent is accepted; otherwise it must read as a float, not exceed the
  cap and be positive, in this order.
\<close>

definition check_scale :: "scale_field \<Rightarrow> json \<Rightarrow> json \<Rightarrow> py_exn + cmd_reason verdict" where
  "check_scale fld v cap =
     (if v = JNull then Inr Accept
      else try_value [ValueError, TypeError] (to_float v) (Inr (Reject (ScaleFormat fld))) (\<lambda>x.
        ebind (num cap) (\<lambda>c.
          if flt c x then Inr (Reject (ScaleExceeds fld x cap))
          else if fle x (Fin 0) then Inr (Reject (ScaleNotPositive fld))
          else Inr Accept)))"

definition then_verdict ::
  "'e + 'r verdict \<Rightarrow> 'e + 'r verdict \<Rightarrow> 'e + 'r verdict" where
  "then_verdict v rest = ebind v (\<lambda>d. case d of Accept \<Rightarrow> rest | Reject r \<Rightarrow> Inr (Reject r))"

definition validate_doc :: "validator \<Rightarrow> json \<Rightarrow> py_exn + cmd_reason verdict" where
  "validate_doc vd cmd =
     ebind (jget cmd ''primitive_type'' JNull) (\<lambda>prim.
     if \<not> truthy prim then Inr (Reject MissingPrimitiveType) else
     ebind (in_names prim velocity_bypass_primitives) (\<lambda>bypass.
     if bypass then Inr Accept else
     then_verdict (check_extended_mode (v_rules vd) cmd)
       (ebind (jget cmd ''velocity_scale'' JNull) (\<lambda>vel.
        then_verdict
          (check_scale VelocityScale vel
             (if is_str prim ''MOVE_REL'' then v_max_move_rel_velocity vd else v_max_velocity vd))
          (ebind (jget cmd ''acceleration_scale'' JNull) (\<lambda>acc.
           check_scale AccelerationScale acc (v_max_acceleration vd)))))))"

definition validate :: "validator \<Rightarrow> wire \<Rightarrow> py_exn + cmd_reason verdict" where
  "validate vd w =
     (case w of
        WEmpty \<Rightarrow> Inr (Reject EmptyJson)
      | WMalformed \<Rightarrow> Inr (Reject InvalidJson)
      | WDoc cmd \<Rightarrow> validate_doc vd cmd)"

subsection \<open>What an accepted command satisfies\<close>

lemma then_verdict_Accept [simp]:
  "then_verdict v rest = Inr Accept \<longleftrightarrow> v = Inr Accept \<and> rest = Inr Accept"
proof (cases v)
  case (Inr d)
  then show ?thesis by (cases d) (simp_all add: then_verdict_def)
qed (simp add: then_verdict_def)

definition scale_ok :: "json \<Rightarrow> pyfloat \<Rightarrow> bool" where
  "scale_ok v c \<longleftrightarrow> v = JNull \<or> (\<exists>x. to_float v = Inr x \<and> \<not> flt c x \<and> \<not> fle x (Fin 0))"

lemma check_scale_Accept:
  "num cap = Inr c \<Longrightarrow> check_scale fld v cap = Inr Accept \<longleftrightarrow> scale_ok v c"
  by (auto simp: check_scale_def scale_ok_def try_value_def ebind_def split: sum.splits)

text \<open>Of a number, the two comparisons say \<open>0 < x \<le> c\<close>; NaN passes both.\<close>

lemma scale_ok_Fin:
  "scale_ok v (Fin c) \<longleftrightarrow> v = JNull \<or> to_float v = Inr NaN
     \<or> (\<exists>x. to_float v = Inr (Fin x) \<and> 0 < x \<and> x \<le> c)"
proof -
  have "(\<not> flt (Fin c) x \<and> \<not> fle x (Fin 0)) \<longleftrightarrow> x = NaN \<or> (\<exists>y. x = Fin y \<and> 0 < y \<and> y \<le> c)" for x
    by (cases x) auto
  then show ?thesis by (auto simp: scale_ok_def)
qed

definition command_field :: "json \<Rightarrow> string \<Rightarrow> json" where
  "command_field cmd k = (case jget cmd k JNull of Inl _ \<Rightarrow> JNull | Inr v \<Rightarrow> v)"

lemma jget_obj_field: "jget cmd k JNull = Inr v \<Longrightarrow> command_field cmd k = v"
  by (simp add: command_field_def)

lemma jget_field_ok: "jget cmd k JNull = Inr v \<Longrightarrow> jget cmd k' JNull = Inr (command_field cmd k')"
  by (cases cmd) (auto simp: command_field_def)

lemma validate_doc_Accept:
  assumes acc: "validate_doc vd cmd = Inr Accept"
  shows "\<exists>d. cmd = JObj d" and "truthy (command_field cmd ''primitive_type'')"
    and "in_names (command_field cmd ''primitive_type'') velocity_bypass_primitives = Inr True \<or>
      in_names (command_field cmd ''primitive_type'') velocity_bypass_primitives = Inr False \<and>
      check_extended_mode (v_rules vd) cmd = Inr Accept \<and>
      check_scale VelocityScale (command_field cmd ''velocity_scale'')
        (if is_str (command_field cmd ''primitive_type'') ''MOVE_REL''
         then v_max_move_rel_velocity vd else v_max_velocity vd) = Inr Accept \<and>
      check_scale AccelerationScale (command_field cmd ''acceleration_scale'')
        (v_max_acceleration vd) = Inr Accept"
  using acc unfolding validate_doc_def
  by (auto simp: ebind_eq_Inr dest: jget_Inr_dict jget_obj_field split: if_splits)

lemma validate_Accept_doc: "validate vd w = Inr Accept \<Longrightarrow> \<exists>cmd. w = WDoc cmd \<and> validate_doc vd cmd = Inr Accept"
  by (cases w) (simp_all add: validate_def)

subsection \<open>The shipped policy\<close>

text \<open>The motion limits and the operational joint limits of \<open>safety_rules.yaml\<close>.\<close>

definition shipped_legacy_limits :: json where
  "shipped_legacy_limits = JObj [
     (''max_velocity_scale'', JFloat (Fin (6/100))),
     (''max_acceleration_scale'', JFloat (Fin (6/100)))]"

definition shipped_motion_limits :: json where
  "shipped_motion_limits = JObj [
     (''max_velocity_scale'', JFloat (Fin (6/100))),
     (''max_acceleration_scale'', JFloat (Fin (6/100))),
     (''max_move_rel_velocity_scale'', JFloat (Fin (9/100))),
     (''max_move_rel_translation'', JFloat (Fin (21/100)))]"

definition joint_range :: "rat \<Rightarrow> rat \<Rightarrow> json" where
  "joint_range lo hi = JObj [(''min'', JFloat (Fin lo)), (''max'', JFloat (Fin hi))]"

definition shipped_joint_limits :: json where
  "shipped_joint_limits = JObj [
     (''joint_1_s'', joint_range (-2967/1000) (2967/1000)),
     (''joint_2_l'', joint_range (-19198/10000) (22689/10000)),
     (''joint_3_u'', joint_range (-11344/10000) (34906/10000)),
     (''joint_4_r'', joint_range (-2443/1000) (2443/1000)),
     (''joint_5_b'', joint_range (-2) 2),
     (''joint_6_t'', JObj [(''default'', joint_range (-3142/1000) (3142/1000))])]"

definition shipped_motion_rules :: "(string \<times> json) list" where
  "shipped_motion_rules = [
     (''joint_limits_override'', shipped_legacy_limits),
     (''motion_limits'', shipped_motion_limits),
     (''operational_joint_limits'', shipped_joint_limits)]"

lemmas shipped_motion_defs =
  shipped_motion_rules_def shipped_legacy_limits_def shipped_motion_limits_def shipped_joint_limits_def

definition shipped_validator :: validator where
  "shipped_validator = \<lparr>v_rules = JObj shipped_motion_rules, v_max_velocity = JFloat (Fin (6/100)),
     v_max_acceleration = JFloat (Fin (6/100)), v_max_move_rel_velocity = JFloat (Fin (9/100))\<rparr>"

lemma shipped_validator_init:
  "command_validator_init (JObj shipped_motion_rules) = Inr shipped_validator"
  by (simp add: command_validator_init_def limit_of_def dget_def shipped_motion_defs
      shipped_validator_def)

lemma shipped_extended_refused:
  "truthy (command_field cmd ''extended_mode'') \<Longrightarrow>
    check_extended_mode (v_rules shipped_validator) cmd = Inr (Reject ExtendedDisabled)"
  by (cases cmd) (auto simp: check_extended_mode_def command_field_def shipped_validator_def
      shipped_motion_defs dget_def split: option.splits)

text \<open>The limits of the loader and the caps of the validator come from the same entries.\<close>

lemma limits_agree:
  assumes "command_validator_init rules = Inr vd" and "get_motion_limits rules = Inr ml"
  shows "to_float (v_max_velocity vd) = Inr (ml_velocity ml)"
    and "to_float (v_max_acceleration vd) = Inr (ml_acceleration ml)"
  using assms
  by (auto simp: command_validator_init_def get_motion_limits_def ebind_eq_Inr
      failsafe_velocity_def failsafe_acceleration_def)

end
