(* ===== verification/Safety_Manager.thy ===== *)
theory Safety_Manager
  imports Gp4_Prelude
begin

section \<open>The safety manager\<close>

text \<open>
  \<open>safety/safety_manager.py\<close>: the readiness state of \<open>SafetyManager\<close>, its two subscription
  callbacks and the status it publishes.  The node starts blocked; in hardware mode only
  \<open>/yaskawa/robot_status\<close> moves it, in simulation only \<open>/hw_adapter/ready\<close>.  Lemmas: the
  reason is empty exactly when the robot is ready (an invariant of every run), and the
  readiness after any run is decided by the last relevant message.
\<close>

datatype tristate = TriTrue | TriFalse | TriUnknown

record robot_status_msg =
  in_error :: tristate
  e_stopped :: tristate
  drives_powered :: tristate
  motion_possible :: tristate

record readiness_msg =
  adapter_ready :: bool
  adapter_status_message :: string

datatype block_reason =
    NoReason
  | NoStatusYet
  | NoAdapterReadinessYet
  | RobotInError
  | RobotEStopped
  | DrivesNotPowered
  | MotionNotPossible
  | AdapterReported string
  | AdapterNotReady

datatype status_text = StatusOK | StatusInError | StatusEStop | StatusBlocked block_reason

record manager =
  sim_mode :: bool
  robot_ready :: bool
  last_error_reason :: block_reason
  status_received :: bool
  adapter_ready_received :: bool
  published :: "status_text list"

definition safety_manager_init :: "bool \<Rightarrow> manager" where
  "safety_manager_init sim =
     \<lparr>sim_mode = sim, robot_ready = False,
      last_error_reason = (if sim then NoAdapterReadinessYet else NoStatusYet),
      status_received = False, adapter_ready_received = False, published = []\<rparr>"

definition publish_status :: "status_text \<Rightarrow> manager \<Rightarrow> manager" where
  "publish_status t m = m\<lparr>published := published m @ [t]\<rparr>"

definition set_blocked :: "block_reason \<Rightarrow> status_text \<Rightarrow> manager \<Rightarrow> manager" where
  "set_blocked r t m = publish_status t (m\<lparr>robot_ready := False, last_error_reason := r\<rparr>)"

definition set_ready :: "manager \<Rightarrow> manager" where
  "set_ready m = publish_status StatusOK (m\<lparr>robot_ready := True, last_error_reason := NoReason\<rparr>)"

definition status_callback :: "robot_status_msg \<Rightarrow> manager \<Rightarrow> manager" where
  "status_callback msg m0 =
     (if sim_mode m0 then m0
      else let m = m0\<lparr>status_received := True\<rparr> in
        if in_error msg = TriTrue then set_blocked RobotInError StatusInError m
        else if e_stopped msg = TriTrue then set_blocked RobotEStopped StatusEStop m
        else if drives_powered msg \<noteq> TriTrue
        then set_blocked DrivesNotPowered (StatusBlocked DrivesNotPowered) m
        else if motion_possible msg \<noteq> TriTrue
        then set_blocked MotionNotPossible (StatusBlocked MotionNotPossible) m
        else set_ready m)"

definition adapter_ready_callback :: "readiness_msg \<Rightarrow> manager \<Rightarrow> manager" where
  "adapter_ready_callback msg m0 =
     (if \<not> sim_mode m0 then m0
      else let m = m0\<lparr>adapter_ready_received := True\<rparr> in
        if \<not> adapter_ready msg
        then (let r = (if adapter_status_message msg \<noteq> [] then AdapterReported (adapter_status_message msg)
                       else AdapterNotReady)
              in set_blocked r (StatusBlocked r) m)
        else set_ready m)"

datatype manager_event = StatusEvent robot_status_msg | AdapterEvent readiness_msg

fun manager_step :: "manager_event \<Rightarrow> manager \<Rightarrow> manager" where
  "manager_step (StatusEvent msg) m = status_callback msg m"
| "manager_step (AdapterEvent msg) m = adapter_ready_callback msg m"

subsection \<open>Invariant\<close>

definition manager_inv :: "manager \<Rightarrow> bool" where
  "manager_inv m \<longleftrightarrow>
     (robot_ready m \<longleftrightarrow> last_error_reason m = NoReason) \<and>
     (robot_ready m \<longrightarrow> (if sim_mode m then adapter_ready_received m else status_received m))"

lemma manager_init_inv: "manager_inv (safety_manager_init sim)"
  by (simp add: manager_inv_def safety_manager_init_def)

lemma set_blocked_fields [simp]:
  "robot_ready (set_blocked r t m) = False" "last_error_reason (set_blocked r t m) = r"
  "sim_mode (set_blocked r t m) = sim_mode m"
  "status_received (set_blocked r t m) = status_received m"
  "adapter_ready_received (set_blocked r t m) = adapter_ready_received m"
  by (simp_all add: set_blocked_def publish_status_def)

lemma set_ready_fields [simp]:
  "robot_ready (set_ready m) = True" "last_error_reason (set_ready m) = NoReason"
  "sim_mode (set_ready m) = sim_mode m"
  "status_received (set_ready m) = status_received m"
  "adapter_ready_received (set_ready m) = adapter_ready_received m"
  by (simp_all add: set_ready_def publish_status_def)

lemma manager_step_sim_mode [simp]: "sim_mode (manager_step e m) = sim_mode m"
  by (cases e) (simp_all add: status_callback_def adapter_ready_callback_def Let_def)

lemma manager_step_inv: "manager_inv m \<Longrightarrow> manager_inv (manager_step e m)"
  by (cases e) (auto simp: status_callback_def adapter_ready_callback_def manager_inv_def Let_def)

interpretation manager: machine manager_step manager_inv
  by unfold_locales (rule manager_step_inv)

subsection \<open>Readiness is decided by the last relevant message\<close>

definition status_all_clear :: "robot_status_msg \<Rightarrow> bool" where
  "status_all_clear msg \<longleftrightarrow> in_error msg \<noteq> TriTrue \<and> e_stopped msg \<noteq> TriTrue
     \<and> drives_powered msg = TriTrue \<and> motion_possible msg = TriTrue"

fun event_verdict :: "bool \<Rightarrow> manager_event \<Rightarrow> bool option" where
  "event_verdict sim (StatusEvent msg) = (if sim then None else Some (status_all_clear msg))"
| "event_verdict sim (AdapterEvent msg) = (if sim then Some (adapter_ready msg) else None)"

definition last_verdict :: "bool \<Rightarrow> manager_event list \<Rightarrow> bool" where
  "last_verdict sim es =
     fold (\<lambda>e r. case event_verdict sim e of None \<Rightarrow> r | Some v \<Rightarrow> v) es False"

lemma manager_step_ready:
  "robot_ready (manager_step e m) =
     (case event_verdict (sim_mode m) e of None \<Rightarrow> robot_ready m | Some v \<Rightarrow> v)"
  by (cases e)
     (auto simp: status_callback_def adapter_ready_callback_def status_all_clear_def Let_def)

lemma run_ready:
  "robot_ready (fold manager_step es m) =
     fold (\<lambda>e r. case event_verdict (sim_mode m) e of None \<Rightarrow> r | Some v \<Rightarrow> v) es (robot_ready m)"
  by (induction es arbitrary: m) (simp_all add: manager_step_ready)

lemma manager_run_ready:
  "robot_ready (fold manager_step es (safety_manager_init sim)) = last_verdict sim es"
  by (simp add: run_ready last_verdict_def safety_manager_init_def)

lemma last_verdict_snoc:
  "last_verdict sim (es @ [e]) =
     (case event_verdict sim e of None \<Rightarrow> last_verdict sim es | Some v \<Rightarrow> v)"
  by (simp add: last_verdict_def split: option.split)

end
