(* ===== verification/Execution_Gate.thy ===== *)
theory Execution_Gate
  imports Workspace_Guard Command_Validator Safety_Manager
begin

section \<open>The execution gate\<close>

text \<open>
  \<open>safety/execution_gate.py\<close>: the \<open>/validate_command\<close> service of \<open>ExecutionGate\<close>.  The
  waypoint and step validators take the pose check as an argument, as the class takes the
  guard; the handler is an effect on the response and the trace topic.  The texts of traces
  and log lines are not modelled, the events are.
\<close>

datatype gate_reason =
    NotSet
  | GateOK
  | Blocked block_reason
  | CommandReason cmd_reason
  | PoseReason pose_reason
  | MoveRelFrame json
  | MoveRelNotNumeric
  | MoveRelNotFinite
  | MoveRelZero
  | MoveRelTooFar pyfloat
  | CircWaypointCount
  | CircWaypointShape
  | CircParseError
  | CircNotFinite
  | CircPose pose_reason
  | PathEmpty
  | PathNotObject nat
  | PathNoPosition nat
  | PathAxisMissing nat axis
  | PathNotNumeric nat
  | PathNotFinite nat
  | PathPose nat pose_reason
  | BlendTooFewSteps
  | BlendNotDict nat
  | BlendPrimitive nat string
  | BlendRadiusNotNumeric nat
  | BlendRadiusNegative nat
  | BlendLastRadius pyfloat
  | BlendScaleInvalid nat scale_field
  | BlendScaleExceeds nat scale_field pyfloat
  | BlendScaleNotPositive nat scale_field
  | BlendGoalJoints nat
  | BlendGoalNamed nat
  | BlendNoPosition nat
  | BlendPositionInvalid nat py_exn
  | BlendPose nat pose_reason

subsection \<open>Reading a position\<close>

text \<open>\<open>float(get("x")), float(get("y")), float(get("z"))\<close>.\<close>

definition read_point :: "(string \<Rightarrow> py_exn + json) \<Rightarrow> py_exn + point" where
  "read_point get =
     ebind (ebind (get ''x'') to_float) (\<lambda>x.
     ebind (ebind (get ''y'') to_float) (\<lambda>y.
     ebind (ebind (get ''z'') to_float) (\<lambda>z.
     Inr \<lparr>px = x, py = y, pz = z\<rparr>)))"

definition point_finite :: "point \<Rightarrow> bool" where
  "point_finite p \<longleftrightarrow> isfinite (px p) \<and> isfinite (py p) \<and> isfinite (pz p)"

text \<open>The verdict of the guard under a reason of the caller.\<close>

definition checked ::
  "(point \<Rightarrow> py_exn + pose_reason verdict) \<Rightarrow> point \<Rightarrow> (pose_reason \<Rightarrow> gate_reason)
     \<Rightarrow> py_exn + gate_reason verdict" where
  "checked check p wrap =
     ebind (check p) (\<lambda>v. Inr (case v of Accept \<Rightarrow> Accept | Reject r \<Rightarrow> Reject (wrap r)))"

subsection \<open>MOVE_REL\<close>

text \<open>The norm of the displacement against the limit, as \<open>math.sqrt\<close> compares.\<close>

definition norm_exceeds :: "point \<Rightarrow> pyfloat \<Rightarrow> bool" where
  "norm_exceeds d limit =
     sqrt_gt (fadd (fadd (fmul (px d) (px d)) (fmul (py d) (py d))) (fmul (pz d) (pz d))) limit"

definition read_delta :: "json \<Rightarrow> py_exn + point" where
  "read_delta cmd =
     ebind (ebind (jget cmd ''delta_x'' (JFloat (Fin 0))) to_float) (\<lambda>x.
     ebind (ebind (jget cmd ''delta_y'' (JFloat (Fin 0))) to_float) (\<lambda>y.
     ebind (ebind (jget cmd ''delta_z'' (JFloat (Fin 0))) to_float) (\<lambda>z.
     Inr \<lparr>px = x, py = y, pz = z\<rparr>)))"

definition validate_move_rel_deltas :: "pyfloat \<Rightarrow> json \<Rightarrow> py_exn + gate_reason verdict" where
  "validate_move_rel_deltas max_norm cmd =
     ebind (jget cmd ''reference_frame'' (JStr [])) (\<lambda>frame.
     ebind (in_names frame [[], ''base_link'']) (\<lambda>frame_ok.
     if \<not> frame_ok then Inr (Reject (MoveRelFrame frame)) else
     try_value [TypeError, ValueError] (read_delta cmd) (Inr (Reject MoveRelNotNumeric)) (\<lambda>d.
     if \<not> point_finite d then Inr (Reject MoveRelNotFinite)
     else if feq (px d) (Fin 0) \<and> feq (py d) (Fin 0) \<and> feq (pz d) (Fin 0)
     then Inr (Reject MoveRelZero)
     else if norm_exceeds d max_norm then Inr (Reject (MoveRelTooFar max_norm))
     else Inr Accept)))"

subsection \<open>CARTESIAN_PATH\<close>

definition check_path_waypoint ::
  "(point \<Rightarrow> py_exn + pose_reason verdict) \<Rightarrow> nat \<Rightarrow> json \<Rightarrow> py_exn + gate_reason verdict" where
  "check_path_waypoint check idx wp =
     (if \<not> is_dict wp then Inr (Reject (PathNotObject idx)) else
      ebind (jget wp ''position'' JNull) (\<lambda>pos.
      if \<not> is_dict pos then Inr (Reject (PathNoPosition idx)) else
      ebind (jcontains pos ''x'') (\<lambda>has_x.
      if \<not> has_x then Inr (Reject (PathAxisMissing idx AxisX)) else
      ebind (jcontains pos ''y'') (\<lambda>has_y.
      if \<not> has_y then Inr (Reject (PathAxisMissing idx AxisY)) else
      ebind (jcontains pos ''z'') (\<lambda>has_z.
      if \<not> has_z then Inr (Reject (PathAxisMissing idx AxisZ)) else
      try_value [TypeError, ValueError] (read_point (jindex pos)) (Inr (Reject (PathNotNumeric idx)))
        (\<lambda>p. if \<not> point_finite p then Inr (Reject (PathNotFinite idx))
             else checked check p (PathPose idx)))))))"

definition validate_cartesian_path_waypoints ::
  "(point \<Rightarrow> py_exn + pose_reason verdict) \<Rightarrow> json \<Rightarrow> py_exn + gate_reason verdict" where
  "validate_cartesian_path_waypoints check waypoints =
     (case waypoints of
        JList (w # ws) \<Rightarrow> check_each (check_path_waypoint check) 0 (w # ws)
      | _ \<Rightarrow> Inr (Reject PathEmpty))"

subsection \<open>CIRC\<close>

definition validate_circ_waypoint ::
  "(point \<Rightarrow> py_exn + pose_reason verdict) \<Rightarrow> json \<Rightarrow> py_exn + gate_reason verdict" where
  "validate_circ_waypoint check waypoints =
     (case waypoints of
        JList [aux] \<Rightarrow>
          if \<not> is_dict aux then Inr (Reject CircWaypointShape) else
          ebind (jget aux ''position'' JNull) (\<lambda>pos.
          if \<not> is_dict pos then Inr (Reject CircWaypointShape) else
          try_value [TypeError, ValueError] (read_point (\<lambda>k. jget pos k (JFloat (Fin 0))))
            (Inr (Reject CircParseError))
            (\<lambda>p. if \<not> point_finite p then Inr (Reject CircNotFinite)
                 else checked check p CircPose))
      | _ \<Rightarrow> Inr (Reject CircWaypointCount))"

subsection \<open>BLENDED_SEQUENCE\<close>

definition blended_step_primitives :: "string list" where
  "blended_step_primitives = [''LIN'', ''PTP'']"

definition check_blend_primitive :: "nat \<Rightarrow> json \<Rightarrow> py_exn + gate_reason verdict" where
  "check_blend_primitive idx step =
     ebind (jget step ''primitive_type'' (JStr [])) (\<lambda>v.
     let prim = upper (strip (to_str v)) in
     Inr (if prim \<noteq> [] \<and> prim \<notin> set blended_step_primitives then Reject (BlendPrimitive idx prim)
          else Accept))"

definition blend_radius_of :: "json \<Rightarrow> py_exn + json" where
  "blend_radius_of step =
     ebind (jget step ''blend_radius_m'' JNull) (\<lambda>r.
       if r = JNull then jget step ''blend_radius'' JNull else Inr r)"

definition check_blend_radius :: "nat \<Rightarrow> bool \<Rightarrow> json \<Rightarrow> py_exn + gate_reason verdict" where
  "check_blend_radius idx is_last step =
     ebind (blend_radius_of step) (\<lambda>r.
     try_value [TypeError, ValueError] (if r = JNull then Inr (Fin 0) else to_float r)
       (Inr (Reject (BlendRadiusNotNumeric idx)))
       (\<lambda>x. if flt x (Fin 0) then Inr (Reject (BlendRadiusNegative idx))
            else if is_last \<and> \<not> feq x (Fin 0) then Inr (Reject (BlendLastRadius x))
            else Inr Accept))"

definition check_blend_scale ::
  "nat \<Rightarrow> scale_field \<Rightarrow> string \<Rightarrow> json \<Rightarrow> json \<Rightarrow> py_exn + gate_reason verdict" where
  "check_blend_scale idx fld key cap step =
     ebind (jget step key JNull) (\<lambda>v.
     if v = JNull then Inr Accept
     else try_value [TypeError, ValueError] (to_float v) (Inr (Reject (BlendScaleInvalid idx fld)))
       (\<lambda>x. ebind (num cap) (\<lambda>c.
            if flt c x then Inr (Reject (BlendScaleExceeds idx fld x))
            else if fle x (Fin 0) then Inr (Reject (BlendScaleNotPositive idx fld))
            else Inr Accept)))"

definition check_blend_goal :: "nat \<Rightarrow> json \<Rightarrow> py_exn + gate_reason verdict" where
  "check_blend_goal idx step =
     ebind (ebind (jget step ''goal_type'' (JInt 0)) to_int) (\<lambda>g.
     Inr (if g = 1 then Reject (BlendGoalJoints idx)
          else if g = 2 then Reject (BlendGoalNamed idx) else Accept))"

definition check_blend_pose ::
  "(point \<Rightarrow> py_exn + pose_reason verdict) \<Rightarrow> nat \<Rightarrow> json \<Rightarrow> py_exn + gate_reason verdict" where
  "check_blend_pose check idx step =
     ebind (jget step ''target_pose'' JNull) (\<lambda>pose.
     if \<not> is_dict pose then Inr (Reject (BlendNoPosition idx)) else
     ebind (jcontains pose ''position'') (\<lambda>has_pos.
     if \<not> has_pos then Inr (Reject (BlendNoPosition idx)) else
     ebind (jindex pose ''position'') (\<lambda>pos.
     case read_point (jindex pos) of
       Inl e \<Rightarrow> if e \<in> {TypeError, ValueError, KeyError} then Inr (Reject (BlendPositionInvalid idx e))
                else Inl e
     | Inr p \<Rightarrow> checked check p (BlendPose idx))))"

definition check_blend_step ::
  "(point \<Rightarrow> py_exn + pose_reason verdict) \<Rightarrow> validator \<Rightarrow> nat \<Rightarrow> nat \<Rightarrow> json \<Rightarrow> py_exn + gate_reason verdict"
where
  "check_blend_step check vd n idx step =
     (if \<not> is_dict step then Inr (Reject (BlendNotDict idx)) else
      then_verdict (check_blend_primitive idx step)
      (then_verdict (check_blend_radius idx (idx = n - 1) step)
      (then_verdict (check_blend_scale idx VelocityScale ''velocity_scale'' (v_max_velocity vd) step)
      (then_verdict (check_blend_scale idx AccelerationScale ''acceleration_scale''
                       (v_max_acceleration vd) step)
      (then_verdict (check_blend_goal idx step)
      (check_blend_pose check idx step))))))"

definition validate_blended_sequence ::
  "(point \<Rightarrow> py_exn + pose_reason verdict) \<Rightarrow> validator \<Rightarrow> json \<Rightarrow> py_exn + gate_reason verdict" where
  "validate_blended_sequence check vd cmd =
     ebind (jget cmd ''sequence_steps'' JNull) (\<lambda>steps.
     case steps of
       JList ss \<Rightarrow>
         if length ss < 2 then Inr (Reject BlendTooFewSteps)
         else check_each (check_blend_step check vd (length ss)) 0 ss
     | _ \<Rightarrow> Inr (Reject BlendTooFewSteps))"

subsection \<open>The handler\<close>

text \<open>
  \<open>ExecutionGate.__init__\<close>: the MOVE_REL limit is read once; a missing entry falls back to
  the module constant.
\<close>

definition move_rel_max_delta_norm :: rat where "move_rel_max_delta_norm = 21/100"

record gate =
  gate_guard :: workspace_guard
  gate_validator :: validator
  gate_max_delta :: pyfloat

definition execution_gate_init :: "validator \<Rightarrow> workspace_guard \<Rightarrow> py_exn + gate" where
  "execution_gate_init vd g =
     ebind (jget (v_rules vd) ''motion_limits'' (JObj [])) (\<lambda>motion.
     ebind (jcontains motion ''max_move_rel_translation'') (\<lambda>_.
     ebind (ebind (jget motion ''max_move_rel_translation'' (JFloat (Fin move_rel_max_delta_norm)))
       to_float) (\<lambda>m.
     Inr \<lparr>gate_guard = g, gate_validator = vd, gate_max_delta = m\<rparr>)))"

record request =
  command_json :: wire
  target_pose :: point

record response =
  valid :: bool
  reason :: gate_reason
  sanitized_json :: "json option"

datatype trace_event =
    ValidateCalled | ReadinessBypass | ReadinessBlocked | ReadinessOK
  | ParamStart | ParamFailed | ParamPassed
  | MoveRelCheck | MoveRelRejected | MoveRelPassed
  | WorkspaceCheck | WorkspaceRejected | WorkspacePassed
  | ValidationPassed | ValidationFailed

record gate_state =
  resp :: response
  traces :: "trace_event list"

definition fresh_response :: gate_state where
  "fresh_response = \<lparr>resp = \<lparr>valid = False, reason = NotSet, sanitized_json = None\<rparr>, traces = []\<rparr>"

type_synonym 'a gate_eff = "(py_exn, gate_state, 'a) eff"

definition emit_trace :: "trace_event \<Rightarrow> unit gate_eff" where
  "emit_trace t = modify (\<lambda>s. s\<lparr>traces := traces s @ [t]\<rparr>)"

definition respond_invalid :: "gate_reason \<Rightarrow> unit gate_eff" where
  "respond_invalid r =
     modify (\<lambda>s. s\<lparr>resp := \<lparr>valid = False, reason = r, sanitized_json = None\<rparr>\<rparr>)"

definition respond_valid :: "json \<Rightarrow> unit gate_eff" where
  "respond_valid cmd =
     modify (\<lambda>s. s\<lparr>resp := \<lparr>valid = True, reason = GateOK, sanitized_json = Some cmd\<rparr>\<rparr>)"

text \<open>
  One check of the handler: a rejection is traced, becomes the response and ends the
  handler; an acceptance is traced and the handler goes on.
\<close>

definition gate_check ::
  "py_exn + gate_reason verdict \<Rightarrow> trace_event list \<Rightarrow> trace_event list \<Rightarrow> unit gate_eff \<Rightarrow> unit gate_eff"
where
  "gate_check v on_reject on_accept rest =
     bnd (lift v) (\<lambda>d. case d of
       Reject r \<Rightarrow> andthen (for_each on_reject emit_trace) (respond_invalid r)
     | Accept \<Rightarrow> andthen (for_each on_accept emit_trace) rest)"

definition pose_skip_primitives :: "string list" where
  "pose_skip_primitives =
     [''HOME'', ''STOP'', ''MOVE_REL'', ''SET_SPEED'', ''WAIT'', ''ALARM_RESET'', ''IO_SET'',
      ''MOVE_JOINT'', ''MOVE_JOINTS'', ''GET_POSE'', ''BLENDED_SEQUENCE'', ''FACTORY_TASK_RUNTIME'']"

definition raw_primitive_type :: "wire \<Rightarrow> string" where
  "raw_primitive_type w =
     (case w of
        WDoc (JObj d) \<Rightarrow> to_str (case dget d ''primitive_type'' of None \<Rightarrow> JStr [] | Some v \<Rightarrow> v)
      | _ \<Rightarrow> [])"

text \<open>\<open>json.loads\<close> of a text the validator has accepted.\<close>

definition loads_again :: "wire \<Rightarrow> py_exn + json" where
  "loads_again w = (case w of WDoc cmd \<Rightarrow> Inr cmd | _ \<Rightarrow> Inl ValueError)"

text \<open>Steps 3a to 3e and 4 of the handler.\<close>

definition ptp_with_joints :: "json \<Rightarrow> json \<Rightarrow> bool" where
  "ptp_with_joints prim joint_target \<longleftrightarrow>
     is_str prim ''PTP'' \<and> is_list joint_target \<and> truthy joint_target"

definition checks_pose :: "json \<Rightarrow> json \<Rightarrow> py_exn + bool" where
  "checks_pose prim joint_target =
     ebind (in_names prim pose_skip_primitives) (\<lambda>skip.
       Inr (\<not> skip \<and> \<not> ptp_with_joints prim joint_target))"

definition gate_if :: "bool \<Rightarrow> (unit gate_eff \<Rightarrow> unit gate_eff) \<Rightarrow> unit gate_eff \<Rightarrow> unit gate_eff" where
  "gate_if c m rest = (if c then m rest else rest)"

definition gate_geometry :: "gate \<Rightarrow> request \<Rightarrow> json \<Rightarrow> json \<Rightarrow> unit gate_eff" where
  "gate_geometry gt rq cmd prim =
     gate_if (is_str prim ''MOVE_REL'')
       (\<lambda>rest. andthen (emit_trace MoveRelCheck)
         (gate_check (validate_move_rel_deltas (gate_max_delta gt) cmd)
            [MoveRelRejected] [MoveRelPassed] rest))
     (bnd (lift (jget cmd ''joint_target'' JNull)) (\<lambda>joint_target.
      bnd (lift (checks_pose prim joint_target)) (\<lambda>with_pose.
      gate_if with_pose
       (\<lambda>rest. andthen (emit_trace WorkspaceCheck)
         (gate_check (checked (check_pose (gate_guard gt)) (target_pose rq) PoseReason)
            [WorkspaceRejected] [WorkspacePassed] rest))
     (gate_if (is_str prim ''CIRC'')
       (\<lambda>rest. bnd (lift (jget cmd ''waypoints'' JNull)) (\<lambda>ws.
         gate_check (validate_circ_waypoint (check_pose (gate_guard gt)) ws) [] [] rest))
     (gate_if (is_str prim ''CARTESIAN_PATH'')
       (\<lambda>rest. bnd (lift (jget cmd ''waypoints'' JNull)) (\<lambda>ws.
         gate_check (validate_cartesian_path_waypoints (check_pose (gate_guard gt)) ws) [] [] rest))
     (gate_if (is_str prim ''BLENDED_SEQUENCE'')
       (\<lambda>rest. gate_check
         (validate_blended_sequence (check_pose (gate_guard gt)) (gate_validator gt) cmd) [] [] rest)
     (respond_valid cmd)))))))"

text \<open>\<open>_validate_callback_inner\<close>.  The readiness of the safety manager is read when the
  handler starts; \<open>None\<close> is a gate without a manager.\<close>

definition gate_commands :: "gate \<Rightarrow> request \<Rightarrow> unit gate_eff" where
  "gate_commands gt rq =
     andthen (emit_trace ParamStart)
     (gate_check
       (ebind (validate (gate_validator gt) (command_json rq)) (\<lambda>v.
          Inr (case v of Accept \<Rightarrow> Accept | Reject r \<Rightarrow> Reject (CommandReason r))))
       [ParamFailed] [ParamPassed]
       (bnd (lift (loads_again (command_json rq))) (\<lambda>cmd.
        bnd (lift (jget cmd ''primitive_type'' (JStr []))) (\<lambda>prim.
        gate_geometry gt rq cmd prim))))"

definition validate_callback_inner :: "gate \<Rightarrow> manager option \<Rightarrow> request \<Rightarrow> unit gate_eff" where
  "validate_callback_inner gt mgr rq =
     (case mgr of
        None \<Rightarrow> gate_commands gt rq
      | Some m \<Rightarrow>
          if \<not> robot_ready m
          then (if raw_primitive_type (command_json rq) = ''ALARM_RESET''
                then andthen (emit_trace ReadinessBypass) (gate_commands gt rq)
                else andthen (emit_trace ReadinessBlocked)
                       (respond_invalid (Blocked (last_error_reason m))))
          else andthen (emit_trace ReadinessOK) (gate_commands gt rq))"

text \<open>\<open>validate_callback\<close>: the final trace is emitted in a \<open>finally\<close> block, also when the
  inner handler raises.\<close>

definition finally_trace :: "unit gate_eff \<Rightarrow> unit gate_eff" where
  "finally_trace m s =
     (case m s of (r, t) \<Rightarrow>
        (r, t\<lparr>traces := traces t @ [if valid (resp t) then ValidationPassed else ValidationFailed]\<rparr>))"

definition validate_callback :: "gate \<Rightarrow> manager option \<Rightarrow> request \<Rightarrow> unit gate_eff" where
  "validate_callback gt mgr rq =
     andthen (emit_trace ValidateCalled) (finally_trace (validate_callback_inner gt mgr rq))"

subsection \<open>Accepted paths and sequences, for any guard\<close>

text \<open>The point a waypoint or a blended step names.\<close>

definition waypoint_at :: "json \<Rightarrow> point \<Rightarrow> bool" where
  "waypoint_at wp p \<longleftrightarrow> (\<exists>pos. jget wp ''position'' JNull = Inr pos \<and> read_point (jindex pos) = Inr p)"

definition aux_waypoint_at :: "json \<Rightarrow> point \<Rightarrow> bool" where
  "aux_waypoint_at wp p \<longleftrightarrow> (\<exists>pos. jget wp ''position'' JNull = Inr pos
     \<and> read_point (\<lambda>k. jget pos k (JFloat (Fin 0))) = Inr p)"

definition blend_step_at :: "json \<Rightarrow> point \<Rightarrow> bool" where
  "blend_step_at step p \<longleftrightarrow> (\<exists>pose pos. jget step ''target_pose'' JNull = Inr pose
     \<and> jindex pose ''position'' = Inr pos \<and> read_point (jindex pos) = Inr p)"

lemma checked_Accept [simp]: "checked check p w = Inr Accept \<longleftrightarrow> check p = Inr Accept"
proof (cases "check p")
  case (Inr v)
  then show ?thesis by (cases v) (simp_all add: checked_def)
qed (simp add: checked_def)

lemma try_value_Accept:
  "try_value es r h f = Inr Accept \<Longrightarrow> h = Inr (Reject z) \<Longrightarrow> \<exists>x. r = Inr x \<and> f x = Inr Accept"
  by (cases r) (auto simp: try_value_def split: if_splits)

lemma path_waypoint_Accept:
  "check_path_waypoint check i wp = Inr Accept \<Longrightarrow> \<exists>p. waypoint_at wp p \<and> check p = Inr Accept"
  unfolding check_path_waypoint_def waypoint_at_def
  by (fastforce simp: ebind_eq_Inr dest!: try_value_Accept [OF _ refl] split: if_splits)

lemma circ_waypoint_Accept:
  "validate_circ_waypoint check ws = Inr Accept \<Longrightarrow>
    \<exists>wp p. ws = JList [wp] \<and> aux_waypoint_at wp p \<and> check p = Inr Accept"
  unfolding validate_circ_waypoint_def aux_waypoint_at_def
  by (fastforce simp: ebind_eq_Inr dest!: try_value_Accept [OF _ refl]
      split: if_splits json.splits list.splits)

lemma blend_pose_Accept:
  "check_blend_pose check i st = Inr Accept \<Longrightarrow> \<exists>p. blend_step_at st p \<and> check p = Inr Accept"
proof -
  assume acc: "check_blend_pose check i st = Inr Accept"
  then obtain pose pos where pos: "jget st ''target_pose'' JNull = Inr pose"
      "jindex pose ''position'' = Inr pos"
      and rest: "(case read_point (jindex pos) of
        Inl e \<Rightarrow> if e \<in> {TypeError, ValueError, KeyError} then Inr (Reject (BlendPositionInvalid i e))
                 else Inl e
      | Inr p \<Rightarrow> checked check p (BlendPose i)) = Inr Accept"
    unfolding check_blend_pose_def ebind_eq_Inr by (auto simp: ebind_eq_Inr split: if_splits)
  from rest obtain p where "read_point (jindex pos) = Inr p" "check p = Inr Accept"
    by (cases "read_point (jindex pos)") (auto split: if_splits)
  with pos show ?thesis unfolding blend_step_at_def by blast
qed

lemma blend_scale_Accept:
  "check_blend_scale i fld k cap st = Inr Accept \<Longrightarrow> num cap = Inr c \<Longrightarrow> scale_ok (command_field st k) c"
  unfolding check_blend_scale_def scale_ok_def
  by (fastforce simp: ebind_eq_Inr dest: jget_obj_field dest!: try_value_Accept [OF _ refl]
      split: if_splits)

context pose_guard
begin

lemma cartesian_path_in_region:
  assumes "validate_cartesian_path_waypoints check (JList ws) = Inr Accept" and "w \<in> set ws"
  shows "\<exists>p. waypoint_at w p \<and> region p"
proof -
  from assms have "check_each (check_path_waypoint check) 0 ws = Inr Accept"
    by (cases ws) (simp_all add: validate_cartesian_path_waypoints_def)
  with assms(2) obtain k where "check_path_waypoint check k w = Inr Accept"
    by (auto simp: check_each_Accept in_set_conv_nth)
  then show ?thesis using path_waypoint_Accept check_sound by blast
qed

lemma circ_in_region:
  "validate_circ_waypoint check ws = Inr Accept \<Longrightarrow>
    \<exists>wp p. ws = JList [wp] \<and> aux_waypoint_at wp p \<and> region p"
  using circ_waypoint_Accept check_sound by blast

lemma blended_step_accepted:
  assumes "validate_blended_sequence check vd cmd = Inr Accept"
    and "command_field cmd ''sequence_steps'' = JList ss" and "k < length ss"
  shows "check_blend_step check vd (length ss) k (ss ! k) = Inr Accept" and "2 \<le> length ss"
proof -
  obtain v where v: "jget cmd ''sequence_steps'' JNull = Inr v"
    using assms(1) unfolding validate_blended_sequence_def ebind_eq_Inr by blast
  with assms(2) have "v = JList ss" by (auto dest: jget_obj_field)
  with v assms(1) have "2 \<le> length ss \<and> check_each (check_blend_step check vd (length ss)) 0 ss = Inr Accept"
    by (auto simp: validate_blended_sequence_def split: if_splits)
  with assms(3) show "check_blend_step check vd (length ss) k (ss ! k) = Inr Accept" and "2 \<le> length ss"
    by (auto simp: check_each_Accept)
qed

lemma blended_sequence_in_region:
  assumes "validate_blended_sequence check vd cmd = Inr Accept"
    and "command_field cmd ''sequence_steps'' = JList ss" and "k < length ss"
  shows "\<exists>p. blend_step_at (ss ! k) p \<and> region p"
proof -
  from blended_step_accepted(1) [OF assms] have "check_blend_pose check k (ss ! k) = Inr Accept"
    by (simp add: check_blend_step_def split: if_splits)
  then show ?thesis using blend_pose_Accept check_sound by blast
qed

lemma blended_sequence_scales:
  assumes "validate_blended_sequence check vd cmd = Inr Accept"
    and "command_field cmd ''sequence_steps'' = JList ss" and "k < length ss"
    and "num (v_max_velocity vd) = Inr c" and "num (v_max_acceleration vd) = Inr a"
  shows "scale_ok (command_field (ss ! k) ''velocity_scale'') c"
    and "scale_ok (command_field (ss ! k) ''acceleration_scale'') a"
  using blended_step_accepted(1) [OF assms(1-3)] assms(4,5)
  by (auto simp: check_blend_step_def intro: blend_scale_Accept split: if_splits)

end

subsection \<open>MOVE_REL displacements\<close>

lemma norm_exceeds_Fin:
  "norm_exceeds \<lparr>px = Fin x, py = Fin y, pz = Fin z\<rparr> (Fin l)
     \<longleftrightarrow> real_of_rat l < sqrt (real_of_rat (x * x + y * y + z * z))"
proof -
  have "0 \<le> x * x + y * y + z * z" by simp
  from sqrt_gt_iff_sqrt [OF this, of l] show ?thesis by (simp add: norm_exceeds_def)
qed

lemma point_finite_iff: "point_finite p \<longleftrightarrow> (\<exists>x y z. p = \<lparr>px = Fin x, py = Fin y, pz = Fin z\<rparr>)"
proof (cases p)
  case (fields x y z)
  then show ?thesis by (cases x; cases y; cases z) (simp_all add: point_finite_def)
qed

lemma move_rel_Accept:
  assumes "validate_move_rel_deltas (Fin l) cmd = Inr Accept"
  shows "\<exists>x y z. read_delta cmd = Inr \<lparr>px = Fin x, py = Fin y, pz = Fin z\<rparr> \<and> (x, y, z) \<noteq> (0, 0, 0)
    \<and> sqrt (real_of_rat (x * x + y * y + z * z)) \<le> real_of_rat l"
proof -
  obtain d where d: "read_delta cmd = Inr d" and fin: "point_finite d"
      and nz: "\<not> (feq (px d) (Fin 0) \<and> feq (py d) (Fin 0) \<and> feq (pz d) (Fin 0))"
      and norm: "\<not> norm_exceeds d (Fin l)"
    using assms unfolding validate_move_rel_deltas_def
    by (fastforce simp: ebind_eq_Inr dest!: try_value_Accept [OF _ refl] split: if_splits)
  from fin obtain x y z where xyz: "d = \<lparr>px = Fin x, py = Fin y, pz = Fin z\<rparr>"
    by (auto simp: point_finite_iff)
  from norm have "sqrt (real_of_rat (x * x + y * y + z * z)) \<le> real_of_rat l"
    unfolding xyz norm_exceeds_Fin by simp
  with d nz show ?thesis by (auto simp: xyz)
qed

subsection \<open>When the response is valid\<close>

lemma emit_traces_run:
  "for_each ts emit_trace s = (Inr (), s\<lparr>traces := traces s @ ts\<rparr>)"
  by (induction ts arbitrary: s) (simp_all add: emit_trace_def py_simps)

text \<open>\<open>passes m s\<close>: run from an unset response, \<open>m\<close> ends with a valid one.\<close>

definition passes :: "unit gate_eff \<Rightarrow> gate_state \<Rightarrow> bool" where
  "passes m s \<longleftrightarrow> valid (resp (snd (m s)))"

definition with_traces :: "gate_state \<Rightarrow> trace_event list \<Rightarrow> gate_state" where
  "with_traces s ts = s\<lparr>traces := traces s @ ts\<rparr>"

lemma with_traces_valid [simp]: "valid (resp (with_traces s ts)) = valid (resp s)"
  by (simp add: with_traces_def)

lemma passes_trace [simp]: "passes (andthen (emit_trace t) m) s \<longleftrightarrow> passes m (with_traces s [t])"
  by (simp add: passes_def with_traces_def emit_trace_def py_simps)

lemma passes_check [simp]:
  "\<not> valid (resp s) \<Longrightarrow>
    passes (gate_check v a b rest) s \<longleftrightarrow> v = Inr Accept \<and> passes rest (with_traces s b)"
  by (auto simp: passes_def gate_check_def with_traces_def respond_invalid_def emit_traces_run py_simps
      split: sum.splits verdict.splits)

lemma passes_lift [simp]:
  "\<not> valid (resp s) \<Longrightarrow> passes (bnd (lift v) f) s \<longleftrightarrow> (\<exists>x. v = Inr x \<and> passes (f x) s)"
  by (cases v) (simp_all add: passes_def py_simps)

lemma passes_respond [simp]:
  "passes (respond_valid c) s" "\<not> passes (respond_invalid r) s"
  by (simp_all add: passes_def respond_valid_def respond_invalid_def py_simps)

lemma passes_finally [simp]: "passes (finally_trace m) s \<longleftrightarrow> passes m s"
  by (simp add: passes_def finally_trace_def split: prod.splits)

definition geometry_ok :: "gate \<Rightarrow> request \<Rightarrow> json \<Rightarrow> json \<Rightarrow> bool" where
  "geometry_ok gt rq cmd prim \<longleftrightarrow>
     (is_str prim ''MOVE_REL'' \<longrightarrow> validate_move_rel_deltas (gate_max_delta gt) cmd = Inr Accept) \<and>
     (\<exists>jt with_pose. jget cmd ''joint_target'' JNull = Inr jt \<and> checks_pose prim jt = Inr with_pose \<and>
        (with_pose \<longrightarrow> check_pose (gate_guard gt) (target_pose rq) = Inr Accept)) \<and>
     (is_str prim ''CIRC'' \<longrightarrow> (\<exists>ws. jget cmd ''waypoints'' JNull = Inr ws \<and>
        validate_circ_waypoint (check_pose (gate_guard gt)) ws = Inr Accept)) \<and>
     (is_str prim ''CARTESIAN_PATH'' \<longrightarrow> (\<exists>ws. jget cmd ''waypoints'' JNull = Inr ws \<and>
        validate_cartesian_path_waypoints (check_pose (gate_guard gt)) ws = Inr Accept)) \<and>
     (is_str prim ''BLENDED_SEQUENCE'' \<longrightarrow>
        validate_blended_sequence (check_pose (gate_guard gt)) (gate_validator gt) cmd = Inr Accept)"

text \<open>
  \<open>decides m R\<close>: from an unset response, whatever was traced before, \<open>m\<close> passes exactly if
  \<open>R\<close>.  The rules follow the handler from its last step to its first.
\<close>

definition decides :: "unit gate_eff \<Rightarrow> bool \<Rightarrow> bool" where
  "decides m R \<longleftrightarrow> (\<forall>s. \<not> valid (resp s) \<longrightarrow> passes m s = R)"

lemma decidesD: "decides m R \<Longrightarrow> \<not> valid (resp s) \<Longrightarrow> passes m s \<longleftrightarrow> R"
  by (simp add: decides_def)

lemma decides_valid: "decides (respond_valid c) True"
  by (simp add: decides_def)

lemma decides_check: "decides rest R \<Longrightarrow> decides (gate_check v a b rest) (v = Inr Accept \<and> R)"
  by (simp add: decides_def)

lemma decides_trace: "decides m R \<Longrightarrow> decides (andthen (emit_trace t) m) R"
  by (simp add: decides_def)

lemma decides_lift: "(\<And>x. decides (f x) (R x)) \<Longrightarrow> decides (bnd (lift v) f) (\<exists>x. v = Inr x \<and> R x)"
  by (simp add: decides_def)

lemma decides_if: "decides rest R \<Longrightarrow> decides (m rest) (A \<and> R) \<Longrightarrow> decides (gate_if c m rest) ((c \<longrightarrow> A) \<and> R)"
  by (auto simp: decides_def gate_if_def)

lemma decides_if_lift:
  assumes "decides rest R" and "\<And>x. decides (m x rest) (A x \<and> R)"
  shows "decides (gate_if c (\<lambda>rest. bnd (lift v) (\<lambda>x. m x rest)) rest)
    ((c \<longrightarrow> (\<exists>x. v = Inr x \<and> A x)) \<and> R)"
  using assms by (auto simp: decides_def gate_if_def)

lemma decides_gate_geometry: "decides (gate_geometry gt rq cmd prim) (geometry_ok gt rq cmd prim)"
proof -
  let ?check = "check_pose (gate_guard gt)"
  have blend: "decides (gate_if (is_str prim ''BLENDED_SEQUENCE'')
      (\<lambda>rest. gate_check (validate_blended_sequence ?check (gate_validator gt) cmd) [] [] rest)
      (respond_valid cmd))
    ((is_str prim ''BLENDED_SEQUENCE'' \<longrightarrow>
        validate_blended_sequence ?check (gate_validator gt) cmd = Inr Accept) \<and> True)" (is "decides ?m1 ?R1")
    by (intro decides_if decides_check decides_valid)
  have path: "decides (gate_if (is_str prim ''CARTESIAN_PATH'')
      (\<lambda>rest. bnd (lift (jget cmd ''waypoints'' JNull)) (\<lambda>ws.
         gate_check (validate_cartesian_path_waypoints ?check ws) [] [] rest)) ?m1)
    ((is_str prim ''CARTESIAN_PATH'' \<longrightarrow> (\<exists>ws. jget cmd ''waypoints'' JNull = Inr ws \<and>
        validate_cartesian_path_waypoints ?check ws = Inr Accept)) \<and> ?R1)" (is "decides ?m2 ?R2")
    by (intro decides_if_lift decides_check blend)
  have circ: "decides (gate_if (is_str prim ''CIRC'')
      (\<lambda>rest. bnd (lift (jget cmd ''waypoints'' JNull)) (\<lambda>ws.
         gate_check (validate_circ_waypoint ?check ws) [] [] rest)) ?m2)
    ((is_str prim ''CIRC'' \<longrightarrow> (\<exists>ws. jget cmd ''waypoints'' JNull = Inr ws \<and>
        validate_circ_waypoint ?check ws = Inr Accept)) \<and> ?R2)" (is "decides ?m3 ?R3")
    by (intro decides_if_lift decides_check path)
  have pose: "decides (gate_if c (\<lambda>rest. andthen (emit_trace WorkspaceCheck)
        (gate_check (checked ?check (target_pose rq) PoseReason) [WorkspaceRejected] [WorkspacePassed] rest)) ?m3)
    ((c \<longrightarrow> checked ?check (target_pose rq) PoseReason = Inr Accept) \<and> ?R3)" for c
    by (intro decides_if decides_trace decides_check circ)
  have "decides (gate_geometry gt rq cmd prim)
    ((is_str prim ''MOVE_REL'' \<longrightarrow> validate_move_rel_deltas (gate_max_delta gt) cmd = Inr Accept) \<and>
     (\<exists>jt. jget cmd ''joint_target'' JNull = Inr jt \<and> (\<exists>c. checks_pose prim jt = Inr c \<and>
       (c \<longrightarrow> checked ?check (target_pose rq) PoseReason = Inr Accept) \<and> ?R3)))"
    unfolding gate_geometry_def by (intro decides_if decides_trace decides_check decides_lift pose)
  then show ?thesis unfolding geometry_ok_def decides_def checked_Accept by blast
qed

lemma passes_gate_geometry:
  "\<not> valid (resp s) \<Longrightarrow> passes (gate_geometry gt rq cmd prim) s \<longleftrightarrow> geometry_ok gt rq cmd prim"
  by (rule decidesD [OF decides_gate_geometry])

lemma geometry_okD:
  assumes "geometry_ok gt rq cmd prim"
  shows "\<exists>c. checks_pose prim (command_field cmd ''joint_target'') = Inr c
      \<and> (c \<longrightarrow> check_pose (gate_guard gt) (target_pose rq) = Inr Accept)"
    and "is_str prim ''CIRC'' \<Longrightarrow>
      validate_circ_waypoint (check_pose (gate_guard gt)) (command_field cmd ''waypoints'') = Inr Accept"
    and "is_str prim ''CARTESIAN_PATH'' \<Longrightarrow>
      validate_cartesian_path_waypoints (check_pose (gate_guard gt)) (command_field cmd ''waypoints'')
        = Inr Accept"
    and "is_str prim ''BLENDED_SEQUENCE'' \<Longrightarrow>
      validate_blended_sequence (check_pose (gate_guard gt)) (gate_validator gt) cmd = Inr Accept"
    and "is_str prim ''MOVE_REL'' \<Longrightarrow> validate_move_rel_deltas (gate_max_delta gt) cmd = Inr Accept"
  using assms by (auto simp: geometry_ok_def dest!: jget_obj_field)

definition command_ok :: "gate \<Rightarrow> request \<Rightarrow> bool" where
  "command_ok gt rq \<longleftrightarrow>
     (\<exists>cmd prim. command_json rq = WDoc cmd \<and> validate (gate_validator gt) (WDoc cmd) = Inr Accept \<and>
        jget cmd ''primitive_type'' (JStr []) = Inr prim \<and> geometry_ok gt rq cmd prim)"

lemma wrapped_Accept:
  "ebind r (\<lambda>v. Inr (case v of Accept \<Rightarrow> Accept | Reject x \<Rightarrow> Reject (f x))) = Inr Accept
     \<longleftrightarrow> r = Inr Accept"
proof (cases r)
  case (Inr v)
  then show ?thesis by (cases v) simp_all
qed simp

lemma passes_gate_commands:
  "\<not> valid (resp s) \<Longrightarrow> passes (gate_commands gt rq) s \<longleftrightarrow> command_ok gt rq"
proof (cases "command_json rq")
  case (WDoc cmd)
  moreover assume "\<not> valid (resp s)"
  ultimately show ?thesis
    by (simp add: gate_commands_def command_ok_def wrapped_Accept passes_gate_geometry loads_again_def)
qed (simp_all add: gate_commands_def command_ok_def wrapped_Accept loads_again_def)

definition readiness_ok :: "manager option \<Rightarrow> request \<Rightarrow> bool" where
  "readiness_ok mgr rq \<longleftrightarrow>
     (\<forall>m. mgr = Some m \<longrightarrow> robot_ready m \<or> raw_primitive_type (command_json rq) = ''ALARM_RESET'')"

definition gate_valid :: "gate \<Rightarrow> manager option \<Rightarrow> request \<Rightarrow> bool" where
  "gate_valid gt mgr rq = valid (resp (snd (validate_callback gt mgr rq fresh_response)))"

lemma gate_valid_iff: "gate_valid gt mgr rq \<longleftrightarrow> readiness_ok mgr rq \<and> command_ok gt rq"
proof -
  have "\<not> valid (resp fresh_response)" by (simp add: fresh_response_def)
  then have "passes (validate_callback gt mgr rq) fresh_response \<longleftrightarrow> readiness_ok mgr rq \<and> command_ok gt rq"
    unfolding validate_callback_def validate_callback_inner_def readiness_ok_def
    by (cases mgr) (auto simp: passes_gate_commands)
  then show ?thesis by (simp add: gate_valid_def passes_def)
qed

subsection \<open>Exceptions leave the response unset\<close>

definition raises_unset :: "unit gate_eff \<Rightarrow> bool" where
  "raises_unset m \<longleftrightarrow> (\<forall>s e t. \<not> valid (resp s) \<longrightarrow> m s = (Inl e, t) \<longrightarrow> \<not> valid (resp t))"

lemma raises_unsetI:
  "(\<And>s e t. \<not> valid (resp s) \<Longrightarrow> m s = (Inl e, t) \<Longrightarrow> \<not> valid (resp t)) \<Longrightarrow> raises_unset m"
  unfolding raises_unset_def by blast

lemma raises_unset_traced:
  "raises_unset m \<Longrightarrow> \<not> valid (resp s) \<Longrightarrow> m (s\<lparr>traces := ts\<rparr>) = (Inl e, t) \<Longrightarrow> \<not> valid (resp t)"
proof -
  assume m: "raises_unset m" and s: "\<not> valid (resp s)" and run: "m (s\<lparr>traces := ts\<rparr>) = (Inl e, t)"
  have "\<not> valid (resp (s\<lparr>traces := ts\<rparr>))" using s by simp
  from m [unfolded raises_unset_def, rule_format, OF this run] show "\<not> valid (resp t)" .
qed

lemma raises_unset_respond: "raises_unset (respond_valid c)" "raises_unset (respond_invalid r)"
  by (simp_all add: raises_unset_def respond_valid_def respond_invalid_def py_simps)

lemma raises_unset_trace: "raises_unset m \<Longrightarrow> raises_unset (andthen (emit_trace t) m)"
  by (rule raises_unsetI) (auto simp: emit_trace_def py_simps dest: raises_unset_traced)

lemma raises_unset_check: "raises_unset rest \<Longrightarrow> raises_unset (gate_check v a b rest)"
  unfolding gate_check_def
  by (rule raises_unsetI, auto simp: emit_traces_run respond_invalid_def py_simps
      split: sum.splits verdict.splits dest: raises_unset_traced)

lemma raises_unset_lift: "(\<And>x. raises_unset (f x)) \<Longrightarrow> raises_unset (bnd (lift v) f)"
  by (cases v) (auto simp: raises_unset_def py_simps)

lemma raises_unset_if: "raises_unset (m rest) \<Longrightarrow> raises_unset rest \<Longrightarrow> raises_unset (gate_if c m rest)"
  by (simp add: gate_if_def)

lemmas raises_unset_rules =
  raises_unset_respond raises_unset_trace raises_unset_check raises_unset_lift raises_unset_if

lemma raises_unset_commands: "raises_unset (gate_commands gt rq)"
  unfolding gate_commands_def gate_geometry_def by (intro raises_unset_rules)

lemma raises_unset_inner: "raises_unset (validate_callback_inner gt mgr rq)"
  unfolding validate_callback_inner_def
  by (cases mgr) (auto intro!: raises_unset_rules raises_unset_commands)

end
