(* ===== verification/Safety_Properties.thy ===== *)
theory Safety_Properties
  imports Execution_Gate
begin

section \<open>Properties of the safety package\<close>

text \<open>
  The theorems about the guard, the validator, the manager and the gate together, each
  followed by a witness at the shipped rules (\<open>safety_rules.yaml\<close>).
\<close>

subsection \<open>The shipped gate and two requests\<close>

definition shipped_gate :: gate where
  "shipped_gate = \<lparr>gate_guard = shipped_guard, gate_validator = shipped_validator,
     gate_max_delta = Fin (21/100)\<rparr>"

lemma shipped_gate_init: "execution_gate_init shipped_validator shipped_guard = Inr shipped_gate"
  by (simp add: execution_gate_init_def shipped_gate_def shipped_validator_def
      shipped_motion_defs dget_def)

definition point_of :: "rat \<Rightarrow> rat \<Rightarrow> rat \<Rightarrow> point" where
  "point_of x y z = \<lparr>px = Fin x, py = Fin y, pz = Fin z\<rparr>"

definition lin_command :: "pyfloat \<Rightarrow> json" where
  "lin_command v = JObj [(''primitive_type'', JStr ''LIN''), (''velocity_scale'', JFloat v)]"

definition lin_request :: "pyfloat \<Rightarrow> request" where
  "lin_request v = \<lparr>command_json = WDoc (lin_command v), target_pose = point_of (2/10) (1/10) (3/10)\<rparr>"

definition ready_status :: robot_status_msg where
  "ready_status = \<lparr>in_error = TriFalse, e_stopped = TriFalse, drives_powered = TriTrue,
     motion_possible = TriTrue\<rparr>"

definition estop_status :: robot_status_msg where
  "estop_status = ready_status\<lparr>e_stopped := TriTrue\<rparr>"

definition ready_manager :: manager where
  "ready_manager = fold manager_step [StatusEvent ready_status] (safety_manager_init False)"

lemma ready_manager_ready: "robot_ready ready_manager"
  unfolding ready_manager_def manager_run_ready
  by (simp add: last_verdict_def status_all_clear_def ready_status_def)

lemma shipped_accepts_point: "check_pose shipped_guard (point_of (2/10) (1/10) (3/10)) = Inr Accept"
proof -
  have "spec_allows (shipped_box, shipped_aabbs) (2/10, 1/10, 3/10)"
    by (simp add: spec_allows_def in_aabb_def shipped_box_def shipped_aabbs_def)
  then show ?thesis
    unfolding pose_allowed_iff pose_allowed_abs [OF shipped_abs] point_of_def by blast
qed

lemma lin_command_validated: "validate shipped_validator (WDoc (lin_command (Fin (5/100)))) = Inr Accept"
  by (simp add: validate_def validate_doc_def lin_command_def dget_def velocity_bypass_primitives_def
      check_extended_mode_def shipped_validator_def check_scale_def is_str_def)

lemma lin_geometry: "geometry_ok shipped_gate (lin_request v) (lin_command v) (JStr ''LIN'')"
proof -
  have "checks_pose (JStr ''LIN'') JNull = Inr True"
    by (simp add: checks_pose_def pose_skip_primitives_def ptp_with_joints_def is_str_def)
  moreover have "jget (lin_command v) ''joint_target'' JNull = Inr JNull"
    by (simp add: lin_command_def dget_def)
  ultimately show ?thesis
    using shipped_accepts_point
    by (auto simp: geometry_ok_def is_str_def lin_request_def shipped_gate_def)
qed

lemma lin_request_valid_if:
  "validate shipped_validator (WDoc (lin_command v)) = Inr Accept \<Longrightarrow>
    gate_valid shipped_gate (Some ready_manager) (lin_request v)"
  using lin_geometry [of v]
  by (simp add: gate_valid_iff readiness_ok_def ready_manager_ready command_ok_def shipped_gate_def
      lin_request_def lin_command_def dget_def)

lemma lin_request_valid: "gate_valid shipped_gate (Some ready_manager) (lin_request (Fin (5/100)))"
  by (rule lin_request_valid_if [OF lin_command_validated])

subsection \<open>Properties\<close>

lemma gate_valid_sound:
  assumes "gate_valid gt mgr rq" and "command_json rq = WDoc cmd"
    and "command_field cmd ''primitive_type'' = JStr name"
  shows "(\<forall>m. mgr = Some m \<longrightarrow> robot_ready m \<or> name = ''ALARM_RESET'')
    \<and> validate (gate_validator gt) (WDoc cmd) = Inr Accept
    \<and> (name \<notin> set pose_skip_primitives \<and> \<not> ptp_with_joints (JStr name) (command_field cmd ''joint_target'')
        \<longrightarrow> pose_allowed (gate_guard gt) (target_pose rq))
    \<and> (name = ''CIRC'' \<longrightarrow> (\<exists>wp p. command_field cmd ''waypoints'' = JList [wp]
        \<and> aux_waypoint_at wp p \<and> pose_allowed (gate_guard gt) p))
    \<and> (name = ''CARTESIAN_PATH'' \<longrightarrow> (\<forall>ws. command_field cmd ''waypoints'' = JList ws \<longrightarrow>
        (\<forall>w \<in> set ws. \<exists>p. waypoint_at w p \<and> pose_allowed (gate_guard gt) p)))
    \<and> (name = ''BLENDED_SEQUENCE'' \<longrightarrow> (\<forall>ss. command_field cmd ''sequence_steps'' = JList ss \<longrightarrow>
        (\<forall>k < length ss. \<exists>p. blend_step_at (ss ! k) p \<and> pose_allowed (gate_guard gt) p)))
    \<and> (name = ''MOVE_REL'' \<longrightarrow> (\<forall>l. gate_max_delta gt = Fin l \<longrightarrow>
        (\<exists>x y z. read_delta cmd = Inr (point_of x y z) \<and> (x, y, z) \<noteq> (0, 0, 0)
          \<and> sqrt (real_of_rat (x * x + y * y + z * z)) \<le> real_of_rat l)))"
    (is "?ready \<and> ?validated \<and> ?pose \<and> ?circ \<and> ?path \<and> ?blend \<and> ?rel")
proof -
  from assms(1) have ready: "readiness_ok mgr rq" and ok: "command_ok gt rq"
    by (simp_all add: gate_valid_iff)
  from ok assms(2) obtain prim where val: ?validated
      and prim: "jget cmd ''primitive_type'' (JStr []) = Inr prim" and geo: "geometry_ok gt rq cmd prim"
    by (auto simp: command_ok_def)
  from prim assms(3) obtain d where d: "cmd = JObj d" and dp: "dget d ''primitive_type'' = Some (JStr name)"
    by (cases cmd) (auto simp: command_field_def split: option.splits)
  with prim have name: "prim = JStr name" by simp
  from ready assms(2) d dp have ?ready by (auto simp: readiness_ok_def raw_primitive_type_def)
  moreover have ?pose
    using geometry_okD(1) [OF geo] unfolding name by (auto simp: checks_pose_def workspace.check_sound)
  moreover have ?circ
    using geometry_okD(2) [OF geo] workspace.circ_in_region unfolding name is_str_def by blast
  moreover have ?path
    using geometry_okD(3) [OF geo] workspace.cartesian_path_in_region unfolding name is_str_def by metis
  moreover have ?blend
    using geometry_okD(4) [OF geo] workspace.blended_sequence_in_region unfolding name is_str_def by blast
  moreover have ?rel
    using geometry_okD(5) [OF geo] move_rel_Accept unfolding name is_str_def point_of_def by metis
  ultimately show ?thesis using val by blast
qed

text \<open>C1: the gate is sound.  Whatever the rules, a request gets a valid response only if the
  robot is ready (or the command is the ALARM_RESET recovery), the command validator accepted
  it, and every point it names is inside the guard's region: the target of a primitive whose
  pose is checked, the auxiliary point of CIRC, every waypoint of CARTESIAN_PATH, every step
  of BLENDED_SEQUENCE; a MOVE_REL displacement is non-zero and no longer than the limit.\<close>

theorem gate_sound:
  assumes "gate_valid gt mgr rq" and "command_json rq = WDoc cmd"
    and "command_field cmd ''primitive_type'' = JStr name"
  shows "(\<forall>m. mgr = Some m \<longrightarrow> robot_ready m \<or> name = ''ALARM_RESET'')
    \<and> validate (gate_validator gt) (WDoc cmd) = Inr Accept
    \<and> (name \<notin> set pose_skip_primitives \<and> \<not> ptp_with_joints (JStr name) (command_field cmd ''joint_target'')
        \<longrightarrow> pose_allowed (gate_guard gt) (target_pose rq))
    \<and> (name = ''CIRC'' \<longrightarrow> (\<exists>wp p. command_field cmd ''waypoints'' = JList [wp]
        \<and> aux_waypoint_at wp p \<and> pose_allowed (gate_guard gt) p))
    \<and> (name = ''CARTESIAN_PATH'' \<longrightarrow> (\<forall>ws. command_field cmd ''waypoints'' = JList ws \<longrightarrow>
        (\<forall>w \<in> set ws. \<exists>p. waypoint_at w p \<and> pose_allowed (gate_guard gt) p)))
    \<and> (name = ''BLENDED_SEQUENCE'' \<longrightarrow> (\<forall>ss. command_field cmd ''sequence_steps'' = JList ss \<longrightarrow>
        (\<forall>k < length ss. \<exists>p. blend_step_at (ss ! k) p \<and> pose_allowed (gate_guard gt) p)))
    \<and> (name = ''MOVE_REL'' \<longrightarrow> (\<forall>l. gate_max_delta gt = Fin l \<longrightarrow>
        (\<exists>x y z. read_delta cmd = Inr (point_of x y z) \<and> (x, y, z) \<noteq> (0, 0, 0)
          \<and> sqrt (real_of_rat (x * x + y * y + z * z)) \<le> real_of_rat l)))"
  by (rule gate_valid_sound [OF assms])

theorem gate_sound_witness:
  "pose_allowed (gate_guard shipped_gate) (target_pose (lin_request (Fin (5/100))))"
proof -
  have cmd: "command_json (lin_request (Fin (5/100))) = WDoc (lin_command (Fin (5/100)))"
    by (simp add: lin_request_def)
  have name: "command_field (lin_command (Fin (5/100))) ''primitive_type'' = JStr ''LIN''"
    by (simp add: lin_command_def command_field_def dget_def)
  have "''LIN'' \<notin> set pose_skip_primitives" by (simp add: pose_skip_primitives_def)
  moreover have "\<not> ptp_with_joints (JStr ''LIN'') j" for j by (simp add: ptp_with_joints_def is_str_def)
  ultimately show ?thesis using gate_sound [OF lin_request_valid cmd name] by blast
qed

text \<open>C3: the gate is fail-closed.  After any run of status and readiness messages whose last
  relevant one does not say that the robot may move (in particular before the first one),
  every request that is not an ALARM_RESET is answered invalid, with the manager's reason and
  no command, and nothing of the command is checked.\<close>

theorem gate_fail_closed:
  assumes "\<not> last_verdict sim es" and "m = fold manager_step es (safety_manager_init sim)"
    and "raw_primitive_type (command_json rq) \<noteq> ''ALARM_RESET''"
  shows "resp (snd (validate_callback gt (Some m) rq fresh_response)) =
      \<lparr>valid = False, reason = Blocked (last_error_reason m), sanitized_json = None\<rparr>
    \<and> last_error_reason m \<noteq> NoReason
    \<and> traces (snd (validate_callback gt (Some m) rq fresh_response)) =
      [ValidateCalled, ReadinessBlocked, ValidationFailed]"
proof -
  have blocked: "\<not> robot_ready m" using assms(1,2) by (simp add: manager_run_ready)
  have "manager_inv m" unfolding assms(2) by (rule manager.run_inv [OF manager_init_inv])
  with blocked have "last_error_reason m \<noteq> NoReason" by (simp add: manager_inv_def)
  with blocked assms(3) show ?thesis
    by (simp add: validate_callback_def validate_callback_inner_def finally_trace_def
        respond_invalid_def emit_trace_def fresh_response_def py_simps)
qed

theorem gate_fail_closed_witness:
  "resp (snd (validate_callback shipped_gate
      (Some (fold manager_step [StatusEvent ready_status, StatusEvent estop_status] (safety_manager_init False)))
      (lin_request (Fin (5/100))) fresh_response)) =
    \<lparr>valid = False, reason = Blocked RobotEStopped, sanitized_json = None\<rparr>"
proof -
  let ?es = "[StatusEvent ready_status, StatusEvent estop_status]"
  have last: "\<not> last_verdict False ?es"
    by (simp add: last_verdict_def status_all_clear_def ready_status_def estop_status_def)
  have not_reset: "raw_primitive_type (command_json (lin_request (Fin (5/100)))) \<noteq> ''ALARM_RESET''"
    by (simp add: raw_primitive_type_def lin_request_def lin_command_def dget_def)
  have "last_error_reason (fold manager_step ?es (safety_manager_init False)) = RobotEStopped"
    by (simp add: status_callback_def safety_manager_init_def ready_status_def estop_status_def Let_def)
  with gate_fail_closed [OF last refl not_reset, of shipped_gate] show ?thesis by simp
qed

text \<open>an exception never validates a command.  If the handler raises (the uncaught
  conversions of the code: \<open>OverflowError\<close> of a huge integer, a step's bad \<open>goal_type\<close>, a
  command that is not an object), the response it leaves behind is not valid.\<close>

theorem gate_raise_not_valid:
  assumes "validate_callback gt mgr rq fresh_response = (Inl e, s)"
  shows "\<not> valid (resp s) \<and> last (traces s) = ValidationFailed"
proof -
  obtain t where run: "validate_callback_inner gt mgr rq (with_traces fresh_response [ValidateCalled]) = (Inl e, t)"
      and s: "s = t\<lparr>traces := traces t @ [if valid (resp t) then ValidationPassed else ValidationFailed]\<rparr>"
    using assms
    by (auto simp: validate_callback_def finally_trace_def emit_trace_def with_traces_def py_simps
        split: prod.splits)
  have "\<not> valid (resp (with_traces fresh_response [ValidateCalled]))" by (simp add: fresh_response_def)
  from raises_unset_inner [unfolded raises_unset_def, rule_format, OF this run] s show ?thesis by simp
qed

theorem gate_raise_not_valid_witness:
  "\<not> valid (resp (snd (validate_callback shipped_gate None
      \<lparr>command_json = WDoc (JList []), target_pose = point_of 0 0 0\<rparr> fresh_response)))"
proof -
  let ?rq = "\<lparr>command_json = WDoc (JList []), target_pose = point_of 0 0 0\<rparr>"
  obtain r s where run: "validate_callback shipped_gate None ?rq fresh_response = (r, s)" by fastforce
  then have "r = Inl AttributeError"
    by (simp add: validate_callback_def validate_callback_inner_def gate_commands_def gate_check_def
        validate_def validate_doc_def finally_trace_def emit_trace_def py_simps split: prod.splits)
  with run have "validate_callback shipped_gate None ?rq fresh_response = (Inl AttributeError, s)" by simp
  from gate_raise_not_valid [OF this] run show ?thesis by simp
qed

text \<open>C11: on rules whose bounds and zones are finite numbers, the guard decides exactly the
  documented geometry: a pose is accepted if and only if its coordinates are finite, inside
  the closed bounds, and outside every closed zone (NaN and the infinities are refused).\<close>

theorem check_pose_refines_geometry:
  assumes "abs_guard g = Some s"
  shows "check_pose g p = Inr Accept \<longleftrightarrow> (\<exists>x y z. p = point_of x y z \<and> spec_allows s (x, y, z))"
  unfolding pose_allowed_iff pose_allowed_abs [OF assms] point_of_def by (rule refl)

theorem check_pose_refines_geometry_witness:
  "check_pose shipped_guard (point_of (2/10) (1/10) (3/10)) = Inr Accept
    \<and> check_pose shipped_guard \<lparr>px = NaN, py = Fin 0, pz = Fin (3/10)\<rparr> \<noteq> Inr Accept"
  using check_pose_refines_geometry [OF shipped_abs] shipped_accepts_point
  by (auto simp: point_of_def)

lemma shipped_allowed_iff:
  "pose_allowed shipped_guard p \<longleftrightarrow>
     (\<exists>x y z. p = point_of x y z \<and> -45/100 \<le> x \<and> x \<le> 45/100 \<and> -16/100 \<le> y \<and> y \<le> 52/100
        \<and> 10/100 \<le> z \<and> z \<le> 65/100)"
proof -
  have "spec_allows (shipped_box, shipped_aabbs) q \<longleftrightarrow> in_aabb shipped_box q" for q
    using shipped_zones_outside_box [of q] by (simp add: spec_allows_def) blast
  then show ?thesis
    unfolding pose_allowed_abs [OF shipped_abs] point_of_def
    by (auto simp: in_aabb_def shipped_box_def)
qed

text \<open>with the shipped rules the bounds alone decide: no forbidden zone meets the
  workspace box, so a pose is accepted exactly when it lies in
  X [-0.45, 0.45], Y [-0.16, 0.52], Z [0.10, 0.65].\<close>

theorem shipped_pose_accepted_iff:
  "check_pose shipped_guard p = Inr Accept \<longleftrightarrow>
     (\<exists>x y z. p = point_of x y z \<and> -45/100 \<le> x \<and> x \<le> 45/100 \<and> -16/100 \<le> y \<and> y \<le> 52/100
        \<and> 10/100 \<le> z \<and> z \<le> 65/100)"
  unfolding pose_allowed_iff by (rule shipped_allowed_iff)

text \<open>C12: the caps hold for every accepted motion command.  When the validator accepts a
  command whose primitive is not on the bypass list, each scale that is present reads as a
  float that is positive and not above the cap of the policy (the MOVE_REL cap for MOVE_REL),
  or as NaN, which passes both comparisons.\<close>

theorem accepted_scales_capped:
  assumes "validate vd (WDoc cmd) = Inr Accept"
    and "command_field cmd ''primitive_type'' = JStr name" and "name \<notin> set velocity_bypass_primitives"
    and "num (v_max_velocity vd) = Inr (Fin c)" and "num (v_max_move_rel_velocity vd) = Inr (Fin r)"
    and "num (v_max_acceleration vd) = Inr (Fin a)"
    and "field = ''velocity_scale'' \<and> cap = (if name = ''MOVE_REL'' then r else c)
      \<or> field = ''acceleration_scale'' \<and> cap = a"
  shows "command_field cmd field = JNull \<or> to_float (command_field cmd field) = Inr NaN
    \<or> (\<exists>x. to_float (command_field cmd field) = Inr (Fin x) \<and> 0 < x \<and> x \<le> cap)"
proof -
  have doc: "validate_doc vd cmd = Inr Accept" using assms(1) by (simp add: validate_def)
  have "scale_ok (command_field cmd ''velocity_scale'') (Fin (if name = ''MOVE_REL'' then r else c))"
      and "scale_ok (command_field cmd ''acceleration_scale'') (Fin a)"
    using validate_doc_Accept(3) [OF doc] assms(2-6)
    by (auto simp: is_str_def check_scale_Accept split: if_splits)
  with assms(7) show ?thesis unfolding scale_ok_Fin by blast
qed

theorem accepted_scales_capped_witness:
  "\<exists>x. to_float (command_field (lin_command (Fin (5/100))) ''velocity_scale'') = Inr (Fin x)
     \<and> 0 < x \<and> x \<le> 6/100"
proof -
  let ?cmd = "lin_command (Fin (5/100))"
  have name: "command_field ?cmd ''primitive_type'' = JStr ''LIN''"
    by (simp add: lin_command_def command_field_def dget_def)
  have caps: "num (v_max_velocity shipped_validator) = Inr (Fin (6/100))"
      "num (v_max_move_rel_velocity shipped_validator) = Inr (Fin (9/100))"
      "num (v_max_acceleration shipped_validator) = Inr (Fin (6/100))"
    by (simp_all add: shipped_validator_def)
  have bypass: "''LIN'' \<notin> set velocity_bypass_primitives" by (simp add: velocity_bypass_primitives_def)
  show ?thesis
    using accepted_scales_capped [OF lin_command_validated name bypass caps,
        of "''velocity_scale''" "6/100"]
    by (simp add: lin_command_def command_field_def dget_def)
qed

text \<open>the caps do not stop NaN.  The shipped gate answers valid to a LIN command whose
  velocity scale is NaN (a literal \<open>json.loads\<close> accepts), with a ready robot and a target
  inside the workspace.\<close>

theorem nan_velocity_accepted:
  "gate_valid shipped_gate (Some ready_manager) (lin_request NaN)"
proof -
  have "validate shipped_validator (WDoc (lin_command NaN)) = Inr Accept"
    by (simp add: validate_def validate_doc_def lin_command_def dget_def velocity_bypass_primitives_def
        check_extended_mode_def shipped_validator_def check_scale_def is_str_def)
  then show ?thesis by (rule lin_request_valid_if)
qed

text \<open>extended mode is refused with the shipped rules: any command with a truthy
  \<open>extended_mode\<close> whose primitive is not on the bypass list is rejected as disabled,
  whatever its other fields are.\<close>

theorem shipped_extended_mode_refused:
  assumes "command_field cmd ''primitive_type'' = JStr name"
    and "name \<noteq> []" and "name \<notin> set velocity_bypass_primitives"
    and "truthy (command_field cmd ''extended_mode'')"
  shows "validate shipped_validator (WDoc cmd) = Inr (Reject ExtendedDisabled)"
proof -
  from assms(1) obtain d where d: "cmd = JObj d" by (cases cmd) (auto simp: command_field_def)
  with assms(1) have "jget cmd ''primitive_type'' JNull = Inr (JStr name)" by (simp add: command_field_def)
  with assms(2,3) shipped_extended_refused [OF assms(4)] show ?thesis
    by (simp add: validate_def validate_doc_def then_verdict_def)
qed

theorem shipped_extended_mode_refused_witness:
  "validate shipped_validator (WDoc (JObj [(''primitive_type'', JStr ''MOVE_JOINTS''),
      (''extended_mode'', JBool True)])) = Inr (Reject ExtendedDisabled)"
  by (rule shipped_extended_mode_refused [of _ "''MOVE_JOINTS''"])
     (simp_all add: command_field_def dget_def velocity_bypass_primitives_def)

text \<open>the two readers of the motion limits agree.  Whenever both succeed on the same
  rules, the velocity and acceleration caps of the command validator are the ones
  \<open>get_motion_limits\<close> reports to the other consumers.\<close>

theorem validator_caps_are_the_policy_limits:
  assumes "command_validator_init rules = Inr vd" and "get_motion_limits rules = Inr ml"
  shows "to_float (v_max_velocity vd) = Inr (ml_velocity ml)
    \<and> to_float (v_max_acceleration vd) = Inr (ml_acceleration ml)"
  using limits_agree [OF assms] by blast

theorem validator_caps_are_the_policy_limits_witness:
  "to_float (v_max_velocity shipped_validator) = Inr (Fin (6/100))"
proof -
  have "get_motion_limits (JObj shipped_motion_rules) =
      Inr \<lparr>ml_velocity = Fin (6/100), ml_acceleration = Fin (6/100), ml_translation = Fin (21/100)\<rparr>"
    by (simp add: get_motion_limits_def limit_of_def dget_def shipped_motion_defs)
  from validator_caps_are_the_policy_limits [OF shipped_validator_init this] show ?thesis by simp
qed

text \<open>the readiness of the safety manager after any run of messages is the verdict of the
  last relevant one: in hardware mode the last robot status (ready exactly when it reports no
  error, no e-stop, powered drives and possible motion), in simulation the last adapter
  readiness; before any, and for the irrelevant topic, it stays blocked.\<close>

theorem readiness_follows_last_message:
  "robot_ready (fold manager_step es (safety_manager_init sim)) = last_verdict sim es
    \<and> (\<forall>e. last_verdict sim (es @ [e]) =
        (case event_verdict sim e of None \<Rightarrow> last_verdict sim es | Some v \<Rightarrow> v))
    \<and> \<not> last_verdict sim []"
  by (simp add: manager_run_ready last_verdict_snoc) (simp add: last_verdict_def)

end
