(* ===== verification/Factory_Task.thy ===== *)
theory Factory_Task
  imports Py_Values
begin

section \<open>FactoryTask trees: the parser, the world model, the compiler\<close>

text \<open>
  \<open>src/llm_gateway/llm_gateway/factory_task.py\<close>: the task tree an LLM proposes
  (\<open>TaskNode\<close>, \<open>FactoryTask\<close>), its parser (\<open>parse_factory_task\<close>), the grounding facts
  (\<open>WorldModel\<close>), the visible policy decisions (\<open>PolicyEngine\<close>) and the compiler of a
  tree without runtime control into the guarded Semantic IR (\<open>TaskCompiler\<close>).
  Payloads are decoded JSON values.  An error carries the text the code formats, so two
  errors of the model are equal when the messages are.
\<close>

subsection \<open>Shared readings of a payload\<close>

datatype task_exn = FactoryTaskError string | PyError py_exn

definition py :: "py_exn + 'a \<Rightarrow> task_exn + 'a" where
  "py r = (case r of Inl e \<Rightarrow> Inl (PyError e) | Inr x \<Rightarrow> Inr x)"

lemma py_simps2 [simp]: "py (Inr x) = Inr x" "py (Inl e) = Inl (PyError e)"
  by (simp_all add: py_def)

text \<open>\<open>d.get(k)\<close>, and \<open>str(d.get(k) or dflt)\<close>.\<close>

definition get_or_none :: "(string \<times> json) list \<Rightarrow> string \<Rightarrow> json" where
  "get_or_none d k = (case dget d k of None \<Rightarrow> JNull | Some v \<Rightarrow> v)"

definition str_or :: "json \<Rightarrow> string \<Rightarrow> string" where
  "str_or v dflt = (if truthy v then to_str v else dflt)"

definition or_else :: "json \<Rightarrow> json \<Rightarrow> json" where
  "or_else v w = (if truthy v then v else w)"

definition quoted :: "string \<Rightarrow> string" where
  "quoted s = CHR 0x27 # s @ [CHR 0x27]"

lemma get_or_none_Nil [simp]: "get_or_none [] k = JNull"
  by (simp add: get_or_none_def dget_def)

lemma get_or_none_Cons [simp]:
  "get_or_none ((k, v) # d) j = (if j = k then v else get_or_none d j)"
  by (simp add: get_or_none_def dget_def)

lemma str_or_simps [simp]:
  "str_or JNull dflt = dflt" "str_or (JStr s) dflt = (if s = [] then dflt else s)"
  by (simp_all add: str_or_def)

text \<open>\<open>strip\<close> is idempotent.\<close>

lemma dropWhile_idem [simp]: "dropWhile P (dropWhile P xs) = dropWhile P xs"
  by (induction xs) auto

lemma strip_idem [simp]: "strip (strip s) = strip s"
proof -
  define a where "a = dropWhile is_space s"
  define b where "b = rev (dropWhile is_space (rev a))"
  have a: "a = [] \<or> \<not> is_space (hd a)"
    using hd_dropWhile [of is_space s] unfolding a_def by (cases "dropWhile is_space s = []") auto
  obtain t where t: "a = b @ t"
    unfolding b_def by (metis append_take_drop_id dropWhile_eq_drop rev_append rev_rev_ident)
  have "dropWhile is_space b = b"
  proof (cases b)
    case Nil
    then show ?thesis by simp
  next
    case (Cons c cs)
    with a t show ?thesis by (simp add: dropWhile_eq_self_iff)
  qed
  then show ?thesis by (simp add: strip_def a_def [symmetric] b_def [symmetric]) (simp add: b_def)
qed

lemma strip_Nil [simp]: "strip [] = []"
  by (simp add: strip_def)

subsection \<open>Nodes and tasks\<close>

text \<open>\<open>count\<close> is \<open>int | None\<close>; \<open>True\<close> is the integer 1.  \<open>condition\<close>, \<open>until\<close> and
  \<open>on_failure\<close> hold whatever the payload has, \<open>JNull\<close> for \<open>None\<close>.\<close>

datatype task_node =
  TaskNode (ntype: string) (nname: string) (nargs: "(string \<times> json) list")
    (children: "task_node list") (condition: json) (ncount: "int option")
    (collection: string) (item_name: string) (until: json) (on_failure: json)

record factory_task =
  task_id :: string
  root :: task_node
  mode :: string
  version :: string
  operator_summary :: string
  limits :: "(string \<times> json) list"
  replan_policy :: "(string \<times> json) list"

definition factory_task_version :: string where
  "factory_task_version = ''1.0''"

definition supported_node_types :: "string list" where
  "supported_node_types =
     [''sequence'', ''skill'', ''repeat'', ''for_each'', ''until'', ''if'', ''retry'',
      ''fallback'', ''observe'', ''wait_until'']"

definition child_node_types :: "string list" where
  "child_node_types =
     [''sequence'', ''repeat'', ''for_each'', ''until'', ''if'', ''retry'', ''fallback'']"

definition runtime_control_node_types :: "string list" where
  "runtime_control_node_types =
     [''repeat'', ''for_each'', ''until'', ''if'', ''retry'', ''fallback'', ''wait_until'']"

subsection \<open>The parser\<close>

definition children_payload ::
  "(string \<times> json) list \<Rightarrow> string \<Rightarrow> string \<Rightarrow> task_exn + json list" where
  "children_payload d node_type path =
     (case (case dget d ''children'' of None \<Rightarrow> JList [] | Some v \<Rightarrow> v) of
        JList raw \<Rightarrow>
          (if node_type \<in> set child_node_types \<and> raw = []
           then Inl (FactoryTaskError (node_type @ '' at '' @ path @ '' requires at least one child''))
           else if node_type \<notin> set child_node_types \<and> raw \<noteq> []
           then Inl (FactoryTaskError (node_type @ '' at '' @ path @ '' cannot have children''))
           else Inr raw)
      | _ \<Rightarrow> Inl (FactoryTaskError (path @ ''.children must be a list'')))"

definition optional_positive_int ::
  "json \<Rightarrow> string \<Rightarrow> string \<Rightarrow> task_exn + int option" where
  "optional_positive_int v path node_type =
     (if node_type \<notin> {''repeat'', ''retry''} then Inr None
      else
        (let bad = FactoryTaskError (node_type @ '' requires positive integer count at '' @ path) in
         case v of
           JInt n \<Rightarrow> if n \<le> 0 then Inl bad else Inr (Some n)
         | JBool b \<Rightarrow> if b then Inr (Some 1) else Inl bad
         | _ \<Rightarrow> Inl bad))"

definition dict_or_empty :: "json \<Rightarrow> string \<Rightarrow> task_exn + (string \<times> json) list" where
  "dict_or_empty v field =
     (case v of
        JNull \<Rightarrow> Inr []
      | JObj d \<Rightarrow> Inr d
      | _ \<Rightarrow> Inl (FactoryTaskError (field @ '' must be an object'')))"

lemma ebind_cong [fundef_cong]:
  "r = r' \<Longrightarrow> (\<And>x. r' = Inr x \<Longrightarrow> f x = g x) \<Longrightarrow> ebind r f = ebind r' g"
  by (cases r') simp_all

lemma children_payload_smaller:
  assumes "children_payload d ty path = Inr raw"
  shows "size_list size raw < size (JObj d)"
proof (cases "map_of d ''children''")
  case None
  then show ?thesis using assms by (auto simp: children_payload_def dget_def split: if_splits)
next
  case (Some v)
  with assms have v: "v = JList raw"
    by (cases v) (auto simp: children_payload_def dget_def split: if_splits)
  from Some have "(''children'', v) \<in> set d" by (rule map_of_SomeD)
  then have "size_prod (\<lambda>_. 0) size (''children'', v) \<le> size_list (size_prod (\<lambda>_. 0) size) d"
    by (rule size_list_estimation') simp
  then show ?thesis using v by simp
qed

function parse_node :: "json \<Rightarrow> string \<Rightarrow> task_exn + task_node"
  and parse_children :: "json list \<Rightarrow> nat \<Rightarrow> string \<Rightarrow> task_exn + task_node list" where
  "parse_node payload path =
     (case payload of
        JObj d \<Rightarrow>
          (let node_type = strip (str_or (get_or_none d ''type'') '''') in
           if node_type \<notin> set supported_node_types
           then Inl (FactoryTaskError (''unsupported node type at '' @ path @ '': '' @ node_type))
           else
             ebind (optional_positive_int (get_or_none d ''count'') path node_type) (\<lambda>n.
             ebind (children_payload d node_type path) (\<lambda>raw.
             ebind (parse_children raw 0 path) (\<lambda>cs.
             let name = strip (str_or (get_or_none d ''name'') '''') in
             if node_type \<in> {''skill'', ''observe''} \<and> name = []
             then Inl (FactoryTaskError (node_type @ '' node at '' @ path @ '' requires name''))
             else
               let coll = strip (str_or (get_or_none d ''collection'') '''') in
               if node_type = ''for_each'' \<and> coll = []
               then Inl (FactoryTaskError (''for_each at '' @ path @ '' requires collection''))
               else
                 ebind (dict_or_empty (get_or_none d ''args'') (path @ ''.args'')) (\<lambda>args.
                 Inr (TaskNode node_type name args cs (get_or_none d ''condition'') n coll
                       (str_or (get_or_none d ''item_name'') ''item'')
                       (get_or_none d ''until'') (get_or_none d ''on_failure'')))))))
      | _ \<Rightarrow> Inl (FactoryTaskError (path @ '' must be an object'')))"
| "parse_children [] i path = Inr []"
| "parse_children (c # cs) i path =
     ebind (parse_node c (path @ ''.children['' @ str_nat i @ '']'')) (\<lambda>n.
     ebind (parse_children cs (Suc i) path) (\<lambda>ns. Inr (n # ns)))"
  by pat_completeness auto
termination
  by (relation "measure (\<lambda>x. case x of Inl (v, _) \<Rightarrow> size v | Inr (vs, _, _) \<Rightarrow> size_list size vs)")
    (auto dest: children_payload_smaller)

declare parse_node.simps [simp del]

definition parse_factory_task :: "json \<Rightarrow> task_exn + factory_task" where
  "parse_factory_task payload =
     (case payload of
        JObj d \<Rightarrow>
          (if \<not> is_str (get_or_none d ''task_type'') ''factory_task''
           then Inl (FactoryTaskError (''FactoryTask payload requires task_type='' @ quoted ''factory_task''))
           else
             let v = str_or (get_or_none d ''version'') factory_task_version in
             if v \<noteq> factory_task_version
             then Inl (FactoryTaskError (''unsupported FactoryTask version: '' @ v))
             else
               let tid = strip (str_or (get_or_none d ''task_id'') '''') in
               if tid = [] then Inl (FactoryTaskError ''FactoryTask requires non-empty task_id'')
               else
                 ebind (parse_node (get_or_none d ''root'') ''root'') (\<lambda>r.
                 ebind (dict_or_empty (get_or_none d ''limits'') ''limits'') (\<lambda>lims.
                 ebind (dict_or_empty (get_or_none d ''replan_policy'') ''replan_policy'') (\<lambda>rp.
                 Inr \<lparr>task_id = tid, root = r,
                      mode = str_or (get_or_none d ''mode'') ''supervised_hardware'',
                      version = v,
                      operator_summary = str_or (get_or_none d ''operator_summary'') '''',
                      limits = lims, replan_policy = rp\<rparr>))))
      | _ \<Rightarrow> Inl (FactoryTaskError ''FactoryTask payload must be an object''))"

fun is_factory_task :: "json \<Rightarrow> bool" where
  "is_factory_task (JObj d) = is_str (get_or_none d ''task_type'') ''factory_task''"
| "is_factory_task _ = False"

fun count_task_nodes :: "task_node \<Rightarrow> nat" where
  "count_task_nodes (TaskNode _ _ _ cs _ _ _ _ _ _) = 1 + sum_list (map count_task_nodes cs)"

subsection \<open>Well-formed trees\<close>

text \<open>What the parser promises about a tree it returns, at every node.\<close>

definition node_ok ::
  "string \<Rightarrow> string \<Rightarrow> task_node list \<Rightarrow> int option \<Rightarrow> string \<Rightarrow> string \<Rightarrow> bool" where
  "node_ok ty nm cs n coll it \<longleftrightarrow>
     ty \<in> set supported_node_types \<and> strip nm = nm \<and> strip coll = coll \<and> it \<noteq> [] \<and>
     (ty \<in> {''skill'', ''observe''} \<longrightarrow> nm \<noteq> []) \<and> (ty = ''for_each'' \<longrightarrow> coll \<noteq> []) \<and>
     (ty \<in> set child_node_types \<longleftrightarrow> cs \<noteq> []) \<and>
     (if ty \<in> {''repeat'', ''retry''} then (\<exists>k > 0. n = Some k) else n = None)"

fun well_formed :: "task_node \<Rightarrow> bool" where
  "well_formed (TaskNode ty nm args cs c n coll it u f) =
     (node_ok ty nm cs n coll it \<and> (\<forall>x \<in> set cs. well_formed x))"

lemma to_str_nonempty: "truthy v \<Longrightarrow> to_str v \<noteq> []"
proof (cases v)
  case (JInt n)
  then show ?thesis by (simp add: str_int_def str_nat_def)
qed auto

lemma str_or_nonempty: "dflt \<noteq> [] \<Longrightarrow> str_or v dflt \<noteq> []"
  by (simp add: str_or_def to_str_nonempty)

lemma optional_positive_int_ok:
  "optional_positive_int v path ty = Inr n \<Longrightarrow>
     (if ty \<in> {''repeat'', ''retry''} then (\<exists>k > 0. n = Some k) else n = None)"
  by (cases v) (auto simp: optional_positive_int_def Let_def split: if_splits)

lemma children_payload_ok:
  "children_payload d ty path = Inr raw \<Longrightarrow> (ty \<in> set child_node_types \<longleftrightarrow> raw \<noteq> [])"
  by (auto simp: children_payload_def split: json.splits if_splits)

lemma parse_children_length: "parse_children vs i path = Inr ns \<Longrightarrow> length ns = length vs"
  by (induction vs arbitrary: i ns) (auto simp: ebind_eq_Inr)

text \<open>The shape of a successful parse of one node, stated once for the proofs below.\<close>

lemma parse_node_InrE:
  assumes "parse_node v path = Inr node"
  obtains d raw cs n args ty nm coll where "v = JObj d"
    and "ty = strip (str_or (get_or_none d ''type'') '''')" and "ty \<in> set supported_node_types"
    and "optional_positive_int (get_or_none d ''count'') path ty = Inr n"
    and "children_payload d ty path = Inr raw" and "parse_children raw 0 path = Inr cs"
    and "nm = strip (str_or (get_or_none d ''name'') '''')"
    and "ty \<in> {''skill'', ''observe''} \<longrightarrow> nm \<noteq> []"
    and "coll = strip (str_or (get_or_none d ''collection'') '''')"
    and "ty = ''for_each'' \<longrightarrow> coll \<noteq> []"
    and "dict_or_empty (get_or_none d ''args'') (path @ ''.args'') = Inr args"
    and "node = TaskNode ty nm args cs (get_or_none d ''condition'') n coll
          (str_or (get_or_none d ''item_name'') ''item'')
          (get_or_none d ''until'') (get_or_none d ''on_failure'')"
proof -
  obtain d where d: "v = JObj d"
    using assms by (cases v) (simp_all add: parse_node.simps)
  from assms that [OF d refl] show thesis
    unfolding d by (auto simp: parse_node.simps Let_def ebind_eq_Inr split: if_splits)
qed

lemma parse_node_InrI:
  assumes "strip (str_or (get_or_none d ''type'') []) = ty" and "ty \<in> set supported_node_types"
    and "optional_positive_int (get_or_none d ''count'') path ty = Inr n"
    and "children_payload d ty path = Inr raw" and "parse_children raw 0 path = Inr cs"
    and "strip (str_or (get_or_none d ''name'') []) = nm"
    and "ty \<in> {''skill'', ''observe''} \<longrightarrow> nm \<noteq> []"
    and "strip (str_or (get_or_none d ''collection'') []) = coll"
    and "ty = ''for_each'' \<longrightarrow> coll \<noteq> []"
    and "dict_or_empty (get_or_none d ''args'') (path @ ''.args'') = Inr args"
  shows "parse_node (JObj d) path = Inr (TaskNode ty nm args cs (get_or_none d ''condition'') n coll
          (str_or (get_or_none d ''item_name'') ''item'')
          (get_or_none d ''until'') (get_or_none d ''on_failure''))"
  using assms(2,7,9) by (auto simp: parse_node.simps Let_def assms(1,3-6,8,10))

lemma parse_well_formed:
  "parse_node v path = Inr node \<Longrightarrow> well_formed node"
  "parse_children vs i path' = Inr nodes \<Longrightarrow> \<forall>x \<in> set nodes. well_formed x"
proof (induction v path and vs i path' arbitrary: node and nodes rule: parse_node_parse_children.induct)
  case (1 payload path)
  from 1(2) show ?case
  proof (rule parse_node_InrE)
    fix d raw cs n args ty nm coll
    assume A: "payload = JObj d" "ty = strip (str_or (get_or_none d ''type'') '''')"
      "ty \<in> set supported_node_types"
      "optional_positive_int (get_or_none d ''count'') path ty = Inr n"
      "children_payload d ty path = Inr raw" "parse_children raw 0 path = Inr cs"
      "nm = strip (str_or (get_or_none d ''name'') '''')"
      "ty \<in> {''skill'', ''observe''} \<longrightarrow> nm \<noteq> []"
      "coll = strip (str_or (get_or_none d ''collection'') '''')"
      "ty = ''for_each'' \<longrightarrow> coll \<noteq> []"
      and node: "node = TaskNode ty nm args cs (get_or_none d ''condition'') n coll
          (str_or (get_or_none d ''item_name'') ''item'')
          (get_or_none d ''until'') (get_or_none d ''on_failure'')"
    have "\<forall>x \<in> set cs. well_formed x"
      using 1(1) [OF A(1,2) _ A(4) A(5) A(6)] A(3) by blast
    moreover have "ty \<in> set child_node_types \<longleftrightarrow> cs \<noteq> []"
      using children_payload_ok [OF A(5)] parse_children_length [OF A(6)] by auto
    moreover have "if ty \<in> {''repeat'', ''retry''} then (\<exists>k > 0. n = Some k) else n = None"
      using A(4) by (rule optional_positive_int_ok)
    ultimately show ?thesis
      using A(3,7-10) unfolding node
      by (simp add: node_ok_def str_or_nonempty del: insert_iff)
  qed
next
  case (2 i path)
  then show ?case by simp
next
  case (3 c cs i path)
  then show ?case by (auto simp: ebind_eq_Inr)
qed

subsection \<open>The runtime plan of a tree\<close>

text \<open>\<open>TaskCompiler._node_to_runtime_plan\<close>: the payload of a tree, with the empty fields
  left out.\<close>

definition field_if :: "bool \<Rightarrow> string \<Rightarrow> json \<Rightarrow> (string \<times> json) list" where
  "field_if c k v = (if c then [(k, v)] else [])"

fun node_to_runtime_plan :: "task_node \<Rightarrow> json" where
  "node_to_runtime_plan (TaskNode ty nm args cs c n coll it u f) =
     JObj ((''type'', JStr ty)
       # field_if (nm \<noteq> []) ''name'' (JStr nm)
       @ field_if (args \<noteq> []) ''args'' (JObj args)
       @ (case n of None \<Rightarrow> [] | Some k \<Rightarrow> [(''count'', JInt k)])
       @ field_if (coll \<noteq> []) ''collection'' (JStr coll)
       @ field_if (coll \<noteq> []) ''item_name'' (JStr it)
       @ field_if (c \<noteq> JNull) ''condition'' c
       @ field_if (u \<noteq> JNull) ''until'' u
       @ field_if (f \<noteq> JNull) ''on_failure'' f
       @ field_if (cs \<noteq> []) ''children'' (JList (map node_to_runtime_plan cs)))"

subsection \<open>The world model\<close>

record world_model =
  objects :: "(string \<times> (string \<times> json) list) list"
  regions :: "(string \<times> (string \<times> json) list) list"
  collections :: "(string \<times> json list) list"

fun first_text :: "(string \<times> json) list \<Rightarrow> string list \<Rightarrow> string \<Rightarrow> string" where
  "first_text d [] dflt = dflt"
| "first_text d (k # ks) dflt =
     (let v = strip (str_or (get_or_none d k) '''') in if v \<noteq> [] then v else first_text d ks dflt)"

fun object_key :: "json \<Rightarrow> string" where
  "object_key (JObj d) = first_text d [''id'', ''name'', ''label''] ''<object>''"
| "object_key v = strip (str_or v '''')"

definition identity_orientation :: json where
  "identity_orientation = JObj [(''x'', JFloat (Fin 0)), (''y'', JFloat (Fin 0)),
     (''z'', JFloat (Fin 0)), (''w'', JFloat (Fin 1))]"

definition tool_down_orientation :: json where
  "tool_down_orientation = JObj [(''x'', JFloat (Fin 1)), (''y'', JFloat (Fin 0)),
     (''z'', JFloat (Fin 0)), (''w'', JFloat (Fin 0))]"

text \<open>The candidate: the reference itself when it is a dict, else the object of that key,
  else the region of that key.\<close>

fun pose_candidate :: "world_model \<Rightarrow> json \<Rightarrow> (string \<times> json) list option" where
  "pose_candidate w (JObj d) = Some d"
| "pose_candidate w ref =
     (case map_of (objects w) (object_key ref) of
        None \<Rightarrow> map_of (regions w) (object_key ref) | Some d \<Rightarrow> Some d)"

definition geometry_pose :: "(string \<times> json) list \<Rightarrow> json \<Rightarrow> task_exn + json" where
  "geometry_pose cand pose =
     (if \<not> is_dict pose \<and> dget cand ''geometry'' \<noteq> None
      then ebind (py (jget (get_or_none cand ''geometry'') ''center'' JNull)) (\<lambda>center.
        Inr (if is_dict center
             then JObj [(''position'', center), (''orientation'', identity_orientation)]
             else pose))
      else Inr pose)"

definition object_pose :: "world_model \<Rightarrow> json \<Rightarrow> task_exn + (string \<times> json) list" where
  "object_pose w ref =
     (let missing = FactoryTaskError (''world model has no grounded pose for object ''
            @ quoted (object_key ref)) in
      case pose_candidate w ref of
        None \<Rightarrow> Inl missing
      | Some cand \<Rightarrow>
          ebind (geometry_pose cand
                  (or_else (get_or_none cand ''pose'') (get_or_none cand ''target_pose'')))
            (\<lambda>pose. case pose of JObj d \<Rightarrow> Inr d | _ \<Rightarrow> Inl missing))"

definition collection_items :: "world_model \<Rightarrow> string \<Rightarrow> task_exn + json list" where
  "collection_items w name =
     (let key = strip name in
      case map_of (collections w) key of
        Some items \<Rightarrow> Inr items
      | None \<Rightarrow>
          if key = ''visible_objects'' then Inr (map (\<lambda>(_, d). JObj d) (objects w))
          else Inl (FactoryTaskError (''world model collection is unavailable: '' @ key)))"

subsection \<open>Policy decisions\<close>

record policy_decision =
  node_path :: string
  node_type :: string
  node_name :: string
  decision :: string
  reason :: string
  risk_level :: string

definition evaluate_node :: "task_node \<Rightarrow> string \<Rightarrow> policy_decision" where
  "evaluate_node node path =
     (let (why, risk) =
        (if ntype node = ''skill''
         then (''skill compiles to guarded Semantic IR and remains behind supervisor validation'',
               if nname node \<in> {''wait'', ''observe_station''} then ''low'' else ''medium'')
         else if ntype node \<in> {''repeat'', ''retry'', ''fallback'', ''for_each'', ''until'', ''if''}
         then (''runtime control is preserved and not statically expanded'', ''medium'')
         else (''task node allowed for supervised runtime planning before supervisor validation'',
               ''low'')) in
      \<lparr>node_path = path, node_type = ntype node, node_name = nname node,
       decision = ''allow'', reason = why, risk_level = risk\<rparr>)"

definition decision_to_dict :: "policy_decision \<Rightarrow> json" where
  "decision_to_dict p = JObj
     [(''node_path'', JStr (node_path p)), (''node_type'', JStr (node_type p)),
      (''node_name'', JStr (node_name p)), (''decision'', JStr (decision p)),
      (''reason'', JStr (reason p)), (''risk_level'', JStr (risk_level p))]"

subsection \<open>The compiler\<close>

record gripper_config =
  gripper_close :: "int \<times> int"
  gripper_open :: "int \<times> int"

record task_compiler =
  tc_world :: world_model
  tc_gripper :: "gripper_config option"

text \<open>\<open>_payload_from_args\<close>: the required fields, each of which must be present, then the
  optional ones that are.\<close>

fun add_required ::
  "string \<Rightarrow> (string \<times> json) list \<Rightarrow> string list \<Rightarrow> (string \<times> json) list
    \<Rightarrow> task_exn + (string \<times> json) list" where
  "add_required intent args [] p = Inr p"
| "add_required intent args (k # ks) p =
     (case dget args k of
        None \<Rightarrow> Inl (FactoryTaskError (intent @ '' requires '' @ k))
      | Some v \<Rightarrow> add_required intent args ks (dict_set k v p))"

fun add_optional ::
  "(string \<times> json) list \<Rightarrow> string list \<Rightarrow> (string \<times> json) list \<Rightarrow> (string \<times> json) list" where
  "add_optional args [] p = p"
| "add_optional args (k # ks) p =
     add_optional args ks (case dget args k of None \<Rightarrow> p | Some v \<Rightarrow> dict_set k v p)"

definition payload_from_args ::
  "string \<Rightarrow> (string \<times> json) list \<Rightarrow> string list \<Rightarrow> string list \<Rightarrow> task_exn + json" where
  "payload_from_args intent args required optional =
     ebind (add_required intent args required [(''intent'', JStr intent)]) (\<lambda>p.
       Inr (JObj (add_optional args optional p)))"

text \<open>The payload skills: their Semantic IR intent with its required and optional fields.\<close>

definition scale_fields :: "string list" where
  "scale_fields = [''velocity_scale'', ''acceleration_scale'']"

definition compile_payload_skill ::
  "string \<Rightarrow> (string \<times> json) list \<Rightarrow> (task_exn + json) option" where
  "compile_payload_skill name args =
     (if name = ''get_pose''
      then Some (payload_from_args ''get_pose'' args [] [''reference_frame''])
      else if name = ''set_speed''
      then Some (payload_from_args ''set_speed'' args [''velocity_scale''] [''acceleration_scale''])
      else if name = ''move_relative''
      then Some (payload_from_args ''move_relative'' args [''delta'']
             ([''reference_frame'', ''linear_unit''] @ scale_fields))
      else if name = ''move_cartesian''
      then Some (payload_from_args
             (if is_str (get_or_none args ''motion_type'') ''lin'' then ''absolute_move_lin''
              else ''absolute_move_ptp'') args [''target_pose'']
             ([''reference_frame'', ''linear_unit'', ''orientation_preset'',
               ''keep_current_orientation''] @ scale_fields @ [''planner_id'']))
      else if name = ''move_joint''
      then Some (payload_from_args ''move_joint'' args [''joint_index'', ''joint_angle'']
             (''angular_unit'' # scale_fields))
      else if name = ''move_joint_delta''
      then Some (payload_from_args ''move_joint_delta'' args [''joint_index'', ''delta_angle'']
             (''angular_unit'' # scale_fields))
      else if name = ''move_joints''
      then Some (payload_from_args ''move_joints'' args [''joint_target'']
             (''angular_unit'' # scale_fields))
      else if name = ''draw_shape''
      then Some (payload_from_args ''draw_shape'' args [''shape_type'', ''params'']
             [''units'', ''frame_id'', ''workplane''])
      else if name = ''draw_text''
      then Some (payload_from_args ''draw_text'' args [''text'', ''font'']
             [''units'', ''frame_id'', ''workplane''])
      else None)"

text \<open>\<open>float(args.get(k, d))\<close> and \<open>float(pos[k])\<close>.\<close>

definition float_arg :: "(string \<times> json) list \<Rightarrow> string \<Rightarrow> pyfloat \<Rightarrow> task_exn + pyfloat" where
  "float_arg args k dflt = (case dget args k of None \<Rightarrow> Inr dflt | Some v \<Rightarrow> py (to_float v))"

definition float_at :: "json \<Rightarrow> string \<Rightarrow> task_exn + pyfloat" where
  "float_at pos k = py (ebind (jindex pos k) to_float)"

text \<open>The point above a grounded pose, the tool pointing down.\<close>

definition pose_above :: "(string \<times> json) list \<Rightarrow> pyfloat \<Rightarrow> task_exn + json" where
  "pose_above target clearance =
     (let pos = or_else (get_or_none target ''position'') (JObj target) in
      ebind (float_at pos ''x'') (\<lambda>x.
      ebind (float_at pos ''y'') (\<lambda>y.
      ebind (float_at pos ''z'') (\<lambda>z.
      Inr (JObj
        [(''position'', JObj [(''x'', JFloat x), (''y'', JFloat y),
            (''z'', JFloat (fadd z clearance))]),
         (''orientation'', tool_down_orientation)])))))"

definition compile_move_to_object ::
  "world_model \<Rightarrow> (string \<times> json) list \<Rightarrow> string \<Rightarrow> task_exn + json" where
  "compile_move_to_object w args path =
     (let ref = or_else (get_or_none args ''object_ref'') (get_or_none args ''object'') in
      if ref = JNull
      then Inl (FactoryTaskError (''move_to_object at '' @ path @ '' requires object_ref''))
      else
        ebind (object_pose w ref) (\<lambda>target.
        ebind (float_arg args ''approach_clearance_m'' (Fin (8 / 100))) (\<lambda>clearance.
        ebind (pose_above target clearance) (\<lambda>pose.
        Inr (JObj
          [(''intent'', JStr ''absolute_move_ptp''), (''target_pose'', pose),
           (''reference_frame'',
             JStr (str_or (get_or_none args ''reference_frame'') ''base_link''))])))))"

definition grasp_move_rel_velocity_scale :: pyfloat where
  "grasp_move_rel_velocity_scale = Fin (9 / 100)"

definition purpose_metadata :: "string \<Rightarrow> string \<times> json" where
  "purpose_metadata p = (''metadata'', JObj [(''purpose'', JStr p)])"

definition vertical_move :: "pyfloat \<Rightarrow> string \<Rightarrow> string \<Rightarrow> json" where
  "vertical_move dz frame purpose = JObj
     [(''intent'', JStr ''move_relative''),
      (''delta'', JObj [(''x'', JFloat (Fin 0)), (''y'', JFloat (Fin 0)), (''z'', JFloat dz)]),
      (''reference_frame'', JStr frame),
      (''velocity_scale'', JFloat grasp_move_rel_velocity_scale), purpose_metadata purpose]"

text \<open>Approach above the target, descend, switch the gripper, lift.\<close>

definition grasp_sequence ::
  "string \<Rightarrow> string \<Rightarrow> json \<Rightarrow> string \<Rightarrow> pyfloat \<Rightarrow> int \<times> int \<Rightarrow> json" where
  "grasp_sequence name purpose approach frame descend io = JObj
     [(''intent'', JStr ''sequence''),
      (''metadata'', JObj [(''source'', JStr (''factory_task.'' @ name)),
         (''tool_changed_world'', JBool True)]),
      (''steps'', JList
        [JObj [(''intent'', JStr ''absolute_move_ptp''), (''target_pose'', approach),
               (''reference_frame'', JStr frame), purpose_metadata (purpose @ ''_approach'')],
         vertical_move (fneg descend) frame (purpose @ ''_descend''),
         JObj [(''intent'', JStr ''io_set''), (''io_address'', JInt (fst io)),
               (''io_value'', JInt (snd io)), purpose_metadata (purpose @ ''_gripper'')],
         vertical_move descend frame (purpose @ ''_lift'')])]"

definition grasp_target ::
  "world_model \<Rightarrow> gripper_config \<Rightarrow> string \<Rightarrow> (string \<times> json) list \<Rightarrow> string
    \<Rightarrow> task_exn + ((string \<times> json) list \<times> (int \<times> int) \<times> string)" where
  "grasp_target w g name args path =
     (if name = ''place_object''
      then
        (let dest = get_or_none args ''destination'' in
         if \<not> truthy dest
         then Inl (FactoryTaskError (''place_object at '' @ path @ '' requires destination''))
         else ebind (object_pose w dest) (\<lambda>target. Inr (target, gripper_open g, ''place'')))
      else
        (let ref = or_else (or_else (get_or_none args ''object_ref'') (get_or_none args ''object''))
                     (get_or_none args ''object_id'') in
         if ref = JNull
         then Inl (FactoryTaskError (name @ '' at '' @ path @ '' requires object_ref''))
         else ebind (object_pose w ref) (\<lambda>target. Inr (target, gripper_close g, ''pick''))))"

definition compile_grasp ::
  "task_compiler \<Rightarrow> string \<Rightarrow> (string \<times> json) list \<Rightarrow> string \<Rightarrow> task_exn + json" where
  "compile_grasp tc name args path =
     (case tc_gripper tc of
        None \<Rightarrow> Inl (FactoryTaskError (name @ '' at '' @ path @ '' requires gripper config''))
      | Some g \<Rightarrow>
          (let frame = str_or (get_or_none args ''reference_frame'') ''base_link'' in
           ebind (float_arg args ''approach_clearance_m'' (Fin (8 / 100))) (\<lambda>clearance.
           ebind (float_arg args ''descend_m'' clearance) (\<lambda>descend.
           ebind (grasp_target (tc_world tc) g name args path) (\<lambda>(target, io, purpose).
           ebind (pose_above target clearance) (\<lambda>approach.
           Inr (grasp_sequence name purpose approach frame descend io)))))))"

definition compile_observation :: "string \<Rightarrow> (string \<times> json) list \<Rightarrow> json" where
  "compile_observation name args = JObj
     [(''intent'', JStr ''get_pose''),
      (''metadata'', JObj
        (if name = ''verify_scene''
         then [(''purpose'', JStr ''verify_scene''),
               (''object'', JStr (str_or (or_else (get_or_none args ''object'')
                                    (get_or_none args ''object_ref'')) '''')),
               (''expected'', JStr (str_or (get_or_none args ''expected'') ''visible''))]
         else [(''purpose'', JStr name),
               (''region'', JStr (str_or (get_or_none args ''region'') ''''))]))]"

definition compile_named_pose ::
  "string \<Rightarrow> (string \<times> json) list \<Rightarrow> string \<Rightarrow> task_exn + json" where
  "compile_named_pose name args path =
     (let pose_name = strip (str_or (or_else (or_else (get_or_none args ''pose_name'')
            (get_or_none args ''pose'')) (get_or_none args ''region'')) '''') in
      if pose_name = []
      then Inl (FactoryTaskError (name @ '' at '' @ path @ '' requires pose_name or region''))
      else Inr (JObj [(''intent'', JStr ''move_named_pose''), (''pose_name'', JStr pose_name)]))"

definition compile_skill :: "task_compiler \<Rightarrow> task_node \<Rightarrow> string \<Rightarrow> task_exn + json" where
  "compile_skill tc node path =
     (let name = nname node; args = nargs node in
      if name = ''go_home'' then Inr (JObj [(''intent'', JStr ''go_home'')])
      else if name \<in> {''stop'', ''alarm_reset''} then Inr (JObj [(''intent'', JStr name)])
      else if name = ''wait''
      then ebind (float_arg args ''wait_duration_sec'' (Fin 2)) (\<lambda>x.
             Inr (JObj [(''intent'', JStr ''wait''), (''wait_duration_sec'', JFloat x)]))
      else case compile_payload_skill name args of
        Some r \<Rightarrow> r
      | None \<Rightarrow>
          if name \<in> {''move_named_pose'', ''move_to_region''} then compile_named_pose name args path
          else if name = ''move_to_object'' then compile_move_to_object (tc_world tc) args path
          else if name \<in> {''pick_object'', ''place_object'', ''pick_and_place''}
          then compile_grasp tc name args path
          else if name = ''verify_scene'' then Inr (compile_observation name args)
          else if name = ''place_relative''
          then payload_from_args ''move_relative''
                 [(''delta'', or_else (get_or_none args ''delta'') (JObj [])),
                  (''reference_frame'', (case dget args ''reference_frame'' of
                      None \<Rightarrow> JStr ''base_link'' | Some v \<Rightarrow> v))]
                 [''delta''] ([''reference_frame'', ''linear_unit''] @ scale_fields)
          else if name \<in> {''observe_station'', ''refresh_scene''}
          then Inr (compile_observation name args)
          else Inl (FactoryTaskError (''unsupported FactoryTask skill at '' @ path @ '': '' @ name
                 @ ''; provide a runtime executor or compiler mapping'')))"

fun compile_node ::
  "task_compiler \<Rightarrow> task_node \<Rightarrow> string \<Rightarrow> task_exn + (json list \<times> policy_decision list)"
  and compile_children ::
  "task_compiler \<Rightarrow> task_node list \<Rightarrow> nat \<Rightarrow> string \<Rightarrow> task_exn + (json list \<times> policy_decision list)"
where
  "compile_node tc (TaskNode ty nm args cs c n coll it u f) path =
     (let node = TaskNode ty nm args cs c n coll it u f; d = evaluate_node node path in
      if ty \<in> set runtime_control_node_types
      then Inl (FactoryTaskError (ty @ '' at '' @ path @
             '' requires TaskRuntime; static Semantic IR review cannot preserve runtime control flow''))
      else if ty = ''skill'' then ebind (compile_skill tc node path) (\<lambda>s. Inr ([s], [d]))
      else if ty = ''observe'' then Inr ([], [d])
      else ebind (compile_children tc cs 0 path) (\<lambda>(ss, ds). Inr (ss, d # ds)))"
| "compile_children tc [] i path = Inr ([], [])"
| "compile_children tc (c # cs) i path =
     ebind (compile_node tc c (path @ ''.children['' @ str_nat i @ '']'')) (\<lambda>(ss, ds).
     ebind (compile_children tc cs (Suc i) path) (\<lambda>(ss', ds').
     Inr (ss @ ss', ds @ ds')))"

record compiled_task =
  ct_task :: factory_task
  ct_semantic_ir :: json
  ct_runtime_plan :: json
  ct_policy_decisions :: "policy_decision list"

definition task_metadata :: "factory_task \<Rightarrow> json" where
  "task_metadata t = JObj
     [(''task_id'', JStr (task_id t)), (''version'', JStr (version t)), (''mode'', JStr (mode t)),
      (''operator_summary'', JStr (operator_summary t)), (''limits'', JObj (limits t)),
      (''replan_policy'', JObj (replan_policy t))]"

definition semantic_ir_base :: "json list \<Rightarrow> (string \<times> json) list" where
  "semantic_ir_base steps = (case steps of
       [JObj d] \<Rightarrow> d
     | _ \<Rightarrow> [(''intent'', JStr ''sequence''), (''steps'', JList steps)])"

definition compile_task :: "task_compiler \<Rightarrow> factory_task \<Rightarrow> task_exn + compiled_task" where
  "compile_task tc t =
     ebind (compile_node tc (root t) ''root'') (\<lambda>(steps, decisions).
     let plan = node_to_runtime_plan (root t);
         meta = JObj [(''factory_task'', task_metadata t), (''runtime_plan'', plan),
                      (''policy_decisions'', JList (map decision_to_dict decisions))] in
     Inr \<lparr>ct_task = t, ct_semantic_ir = JObj (dict_set ''metadata'' meta (semantic_ir_base steps)),
          ct_runtime_plan = plan, ct_policy_decisions = decisions\<rparr>)"

end
