(* ===== verification/Task_Properties.thy ===== *)
theory Task_Properties
  imports Factory_Task
begin

section \<open>What the task layer promises\<close>

text \<open>
  The properties of the task tree: what the parser accepts, that the runtime plan of a
  parsed tree parses back to it, and what a compiled task contains.
\<close>

subsection \<open>The plan of a tree and its parse\<close>

text \<open>\<open>item_name\<close> is only written next to a collection, so a tree read back has the default
  name where it names no collection.\<close>

fun forget_item :: "task_node \<Rightarrow> task_node" where
  "forget_item (TaskNode ty nm args cs c n coll it u f) =
     TaskNode ty nm args (map forget_item cs) c n coll
       (if coll = [] then ''item'' else it) u f"

lemma dget_plan:
  "get_or_none (field_if b k v @ d) j = (if b \<and> j = k then v else get_or_none d j)"
  by (simp add: field_if_def)

lemma plan_fields:
  assumes "node_to_runtime_plan (TaskNode ty nm args cs c n coll it u f) = JObj d"
  shows "get_or_none d ''type'' = JStr ty"
    "get_or_none d ''name'' = (if nm = [] then JNull else JStr nm)"
    "get_or_none d ''args'' = (if args = [] then JNull else JObj args)"
    "get_or_none d ''count'' = (case n of None \<Rightarrow> JNull | Some k \<Rightarrow> JInt k)"
    "get_or_none d ''collection'' = (if coll = [] then JNull else JStr coll)"
    "get_or_none d ''item_name'' = (if coll = [] then JNull else JStr it)"
    "get_or_none d ''condition'' = c" "get_or_none d ''until'' = u"
    "get_or_none d ''on_failure'' = f"
    "dget d ''children'' = (if cs = [] then None else Some (JList (map node_to_runtime_plan cs)))"
  using assms by (auto simp: field_if_def dget_def split: option.splits)

lemma plan_is_object: "\<exists>d. node_to_runtime_plan node = JObj d"
  by (cases node) simp

lemma optional_positive_int_plan:
  "(if ty \<in> {''repeat'', ''retry''} then (\<exists>k > 0. n = Some k) else n = None) \<Longrightarrow>
     optional_positive_int (case n of None \<Rightarrow> JNull | Some k \<Rightarrow> JInt k) path ty = Inr n"
  by (auto simp: optional_positive_int_def Let_def split: if_splits)

lemma supported_strip: "ty \<in> set supported_node_types \<Longrightarrow> strip ty = ty"
  by (auto simp: supported_node_types_def strip_def is_space_def)

lemma supported_nonempty: "ty \<in> set supported_node_types \<Longrightarrow> ty \<noteq> []"
  by (auto simp: supported_node_types_def)

lemma parse_children_map:
  "(\<And>x p. x \<in> set nodes \<Longrightarrow> parse_node (f x) p = Inr (g x)) \<Longrightarrow>
     parse_children (map f nodes) i path = Inr (map g nodes)"
  by (induction nodes arbitrary: i) simp_all

lemma plan_parses:
  "well_formed node \<Longrightarrow> parse_node (node_to_runtime_plan node) path = Inr (forget_item node)"
proof (induction node arbitrary: path)
  case (TaskNode ty nm args cs c n coll it u f)
  from TaskNode.prems have ok: "node_ok ty nm cs n coll it" and sub: "\<forall>x \<in> set cs. well_formed x"
    by simp_all
  obtain d where d: "node_to_runtime_plan (TaskNode ty nm args cs c n coll it u f) = JObj d"
    by simp
  note fields = plan_fields [OF d]
  have raw: "children_payload d ty path = Inr (map node_to_runtime_plan cs)"
    using ok by (cases "cs = []") (simp_all add: children_payload_def fields node_ok_def)
  have n: "optional_positive_int (get_or_none d ''count'') path ty = Inr n"
    unfolding fields using ok unfolding node_ok_def by (intro optional_positive_int_plan) blast
  have args: "dict_or_empty (get_or_none d ''args'') (path @ ''.args'') = Inr args"
    by (simp add: fields dict_or_empty_def)
  have cs: "parse_children (map node_to_runtime_plan cs) 0 path = Inr (map forget_item cs)"
    using TaskNode.IH sub by (intro parse_children_map) blast
  have item: "str_or (get_or_none d ''item_name'') ''item'' = (if coll = [] then ''item'' else it)"
    using ok by (simp add: fields node_ok_def)
  have "parse_node (JObj d) path = Inr (TaskNode ty nm args (map forget_item cs)
      (get_or_none d ''condition'') n coll (str_or (get_or_none d ''item_name'') ''item'')
      (get_or_none d ''until'') (get_or_none d ''on_failure''))"
    using ok by (intro parse_node_InrI [OF _ _ n raw cs _ _ _ _ args])
      (auto simp: fields(1,2,5) node_ok_def supported_strip dest: supported_nonempty)
  then show ?case by (simp only: d item fields(7-9) forget_item.simps)
qed

subsection \<open>What the compiler emits\<close>






text \<open>The writes and the vertical moves of a compiled step.\<close>

fun steps_of :: "json \<Rightarrow> json list" where
  "steps_of (JObj d) = (case get_or_none d ''steps'' of JList ss \<Rightarrow> ss | _ \<Rightarrow> [JObj d])"
| "steps_of v = [v]"

definition io_writes :: "json \<Rightarrow> (json \<times> json) list" where
  "io_writes ir = concat (map (\<lambda>v. case v of
       JObj d \<Rightarrow> (if is_str (get_or_none d ''intent'') ''io_set''
                  then [(get_or_none d ''io_address'', get_or_none d ''io_value'')] else [])
     | _ \<Rightarrow> []) (steps_of ir))"

definition vertical_deltas :: "json \<Rightarrow> json list" where
  "vertical_deltas ir = concat (map (\<lambda>v. case v of
       JObj d \<Rightarrow> (case get_or_none d ''delta'' of
                    JObj e \<Rightarrow> [get_or_none e ''z''] | _ \<Rightarrow> [])
     | _ \<Rightarrow> []) (steps_of ir))"

lemma compile_grasp_InrE:
  assumes "compile_grasp tc name args path = Inr ir"
  obtains g approach frame d where "tc_gripper tc = Some g"
    and "ir = grasp_sequence name (if name = ''place_object'' then ''place'' else ''pick'')
           approach frame d (if name = ''place_object'' then gripper_open g else gripper_close g)"
  using assms
  by (auto simp: compile_grasp_def grasp_target_def Let_def ebind_eq_Inr split: option.splits if_splits)

subsection \<open>Properties of the task tree\<close>



definition pick_tree :: task_node where
  "pick_tree = TaskNode ''sequence'' [] []
     [TaskNode ''observe'' ''refresh_scene'' [] [] JNull None [] ''item'' JNull JNull,
      TaskNode ''skill'' ''pick_object'' [(''object_ref'', JStr ''block'')] [] JNull None []
        ''item'' JNull JNull,
      TaskNode ''skill'' ''go_home'' [] [] JNull None [] ''item'' JNull JNull]
     JNull None [] ''item'' JNull JNull"




text \<open>C14: The runtime plan published for a parsed tree is itself a payload of that tree: parsing
  it gives the tree back, field by field, except that a node without a collection has the
  default item name (which no such node uses).\<close>

theorem runtime_plan_roundtrip:
  assumes "parse_node v path = Inr node"
  shows "parse_node (node_to_runtime_plan node) path' = Inr (forget_item node)"
  by (rule plan_parses) (rule parse_well_formed(1) [OF assms])

definition sort_payload :: json where
  "sort_payload = JObj
     [(''type'', JStr ''repeat''), (''count'', JInt 2),
      (''children'', JList
        [JObj [(''type'', JStr ''skill''), (''name'', JStr ''go_home''), (''item_name'', JStr ''x'')]])]"

lemma runtime_plan_roundtrip_witness:
  "\<exists>node. parse_node sort_payload ''root'' = Inr node \<and> ncount node = Some 2 \<and>
     parse_node (node_to_runtime_plan node) ''root'' = Inr (forget_item node)"
proof -
  let ?n = "TaskNode ''repeat'' [] []
     [TaskNode ''skill'' ''go_home'' [] [] JNull None [] ''x'' JNull JNull] JNull (Some 2) []
     ''item'' JNull JNull"
  have "parse_node sort_payload ''root'' = Inr ?n" by code_simp
  from this runtime_plan_roundtrip [OF this, of "''root''"] show ?thesis
    by (intro exI [of _ ?n]) simp
qed


definition block_compiler :: task_compiler where
  "block_compiler =
     \<lparr>tc_world = \<lparr>objects = [(''block'', [(''pose'', JObj [(''position'',
          JObj [(''x'', JFloat (Fin (3/10))), (''y'', JInt 0), (''z'', JFloat (Fin (2/10)))])])])],
        regions = [], collections = []\<rparr>,
      tc_gripper = Some \<lparr>gripper_close = (17, 1), gripper_open = (17, 0)\<rparr>\<rparr>"


text \<open>A grasp skill never compiles without the gripper's addresses, and a compiled one
  writes exactly one output: the open pair for place_object, the close pair for pick_object
  and pick_and_place (so pick_and_place compiles to a pick alone).  Its two vertical moves
  descend and lift by the same length.\<close>

theorem grasp_switches_gripper_once:
  assumes "nname node \<in> {''pick_object'', ''place_object'', ''pick_and_place''}"
    and "compile_skill tc node path = Inr ir"
  shows "\<exists>g d. tc_gripper tc = Some g \<and> vertical_deltas ir = [JFloat (fneg d), JFloat d] \<and>
    io_writes ir = [(let io = if nname node = ''place_object'' then gripper_open g else gripper_close g
                     in (JInt (fst io), JInt (snd io)))]"
proof -
  from assms have "compile_grasp tc (nname node) (nargs node) path = Inr ir"
    by (auto simp: compile_skill_def compile_payload_skill_def)
  then show ?thesis
    by (rule compile_grasp_InrE)
      (auto simp: grasp_sequence_def vertical_deltas_def io_writes_def vertical_move_def
        purpose_metadata_def is_str_def Let_def)
qed

lemma grasp_switches_gripper_once_witness:
  "\<exists>ir. compile_skill block_compiler (children pick_tree ! 1) ''root'' = Inr ir \<and>
     io_writes ir = [(JInt 17, JInt 1)]"
proof -
  have "is_ok (compile_skill block_compiler (children pick_tree ! 1) ''root'')" by code_simp
  then obtain ir where ir: "compile_skill block_compiler (children pick_tree ! 1) ''root'' = Inr ir"
    by (auto simp: is_ok_iff)
  with grasp_switches_gripper_once [OF _ ir] show ?thesis
    by (auto simp: pick_tree_def block_compiler_def)
qed

end
