(* ===== verification/Task_Runtime.thy ===== *)
theory Task_Runtime
  imports Factory_Task
begin

section \<open>The task runtime\<close>

text \<open>
  \<open>src/llm_gateway/llm_gateway/task_runtime.py\<close>: the interpreter of a task tree.  It calls an
  injected skill executor, an operator stop flag, a replan handler and an event callback.
  These are parameters of the model (\<open>'w runtime_env\<close>): the executor and the replan handler act
  on a world of any type \<open>'w\<close> and may raise, the stop flag reads it.  Published events are
  recorded in order (without time stamp and formatted text; the callback itself only records).
  The state of a run is \<open>_RuntimeState\<close> with that world and the record of events.
\<close>

subsection \<open>Results, events, state\<close>

record step_result =
  success :: bool
  why :: string
  requests_replan :: bool
  observation :: json

datatype executor_result = StepResult step_result | Bare bool

definition step_ok :: step_result where
  "step_ok = \<lparr>success = True, why = [], requests_replan = False, observation = JNull\<rparr>"

definition step_failed :: "string \<Rightarrow> step_result" where
  "step_failed r = \<lparr>success = False, why = r, requests_replan = False, observation = JNull\<rparr>"

record runtime_decision =
  rd_node_path :: string
  rd_decision :: string
  rd_reason :: string
  rd_risk_level :: string

definition runtime_decision :: "string \<Rightarrow> string \<Rightarrow> string \<Rightarrow> runtime_decision" where
  "runtime_decision p d r =
     \<lparr>rd_node_path = p, rd_decision = d, rd_reason = r, rd_risk_level = ''medium''\<rparr>"

record runtime_report =
  rep_success :: bool
  rep_reason :: string
  rep_attempts_by_skill :: "(string \<times> nat) list"
  rep_fallback_count :: nat
  rep_replan_count :: nat
  rep_policy_decisions :: "runtime_decision list"

datatype runtime_event =
    TaskStart string
  | TaskReplan string nat
  | TaskDone string
  | TaskFailed string string
  | LoopStart nat
  | RetryAttempt nat int
  | ForEachItem json nat string
  | StepStart string json
  | StepDone string
  | StepFailed string string

record 'w runtime_state =
  attempts_by_skill :: "(string \<times> nat) list"
  fallback_count :: nat
  replan_count :: nat
  policy_decisions :: "runtime_decision list"
  events :: "runtime_event list"
  world :: 'w

record 'w runtime_env =
  skill_executor :: "string \<Rightarrow> json \<Rightarrow> 'w \<Rightarrow> (task_exn + executor_result) \<times> 'w"
  is_stopped_fn :: "('w \<Rightarrow> bool) option"
  replan_handler :: "(runtime_report \<Rightarrow> 'w \<Rightarrow> (task_exn + factory_task option) \<times> 'w) option"
  max_replans :: int
  runtime_world_model :: world_model

type_synonym ('w, 'a) run = "(task_exn, 'w runtime_state, 'a) eff"

definition publish_event :: "runtime_event \<Rightarrow> ('w, unit) run" where
  "publish_event e = modify (\<lambda>s. s\<lparr>events := events s @ [e]\<rparr>)"

definition note_decision :: "runtime_decision \<Rightarrow> ('w, unit) run" where
  "note_decision d = modify (\<lambda>s. s\<lparr>policy_decisions := policy_decisions s @ [d]\<rparr>)"

text \<open>A call of a parameter: it acts on the world only.\<close>

definition on_world :: "('w \<Rightarrow> (task_exn + 'a) \<times> 'w) \<Rightarrow> ('w, 'a) run" where
  "on_world f s = (case f (world s) of (r, w) \<Rightarrow> (r, s\<lparr>world := w\<rparr>))"

subsection \<open>Bindings\<close>

fun resolve_bindings :: "(string \<rightharpoonup> json) \<Rightarrow> json \<Rightarrow> task_exn + json"
  and resolve_items :: "(string \<rightharpoonup> json) \<Rightarrow> json list \<Rightarrow> task_exn + json list"
  and resolve_fields :: "(string \<rightharpoonup> json) \<Rightarrow> (string \<times> json) list \<Rightarrow> task_exn + (string \<times> json) list"
where
  "resolve_bindings b (JStr s) =
     (case s of
        c # key \<Rightarrow>
          (if c = CHR ''$''
           then (case b key of
                   None \<Rightarrow> Inl (FactoryTaskError (''runtime binding is unavailable: '' @ s))
                 | Some v \<Rightarrow> Inr v)
           else Inr (JStr s))
      | [] \<Rightarrow> Inr (JStr s))"
| "resolve_bindings b (JObj d) = ebind (resolve_fields b d) (\<lambda>e. Inr (JObj e))"
| "resolve_bindings b (JList vs) = ebind (resolve_items b vs) (\<lambda>ws. Inr (JList ws))"
| "resolve_bindings b v = Inr v"
| "resolve_items b [] = Inr []"
| "resolve_items b (v # vs) =
     ebind (resolve_bindings b v) (\<lambda>w. ebind (resolve_items b vs) (\<lambda>ws. Inr (w # ws)))"
| "resolve_fields b [] = Inr []"
| "resolve_fields b ((k, v) # d) =
     ebind (resolve_bindings b v) (\<lambda>w. ebind (resolve_fields b d) (\<lambda>e. Inr ((k, w) # e)))"

subsection \<open>The interpreter\<close>

definition count_attempt :: "string \<Rightarrow> ('w, unit) run" where
  "count_attempt name = modify (\<lambda>s. s\<lparr>attempts_by_skill :=
     dict_set name
       ((case map_of (attempts_by_skill s) name of None \<Rightarrow> 0 | Some n \<Rightarrow> n) + 1)
       (attempts_by_skill s)\<rparr>)"

definition run_skill ::
  "'w runtime_env \<Rightarrow> string \<Rightarrow> (string \<times> json) list \<Rightarrow> (string \<rightharpoonup> json) \<Rightarrow> ('w, step_result) run"
where
  "run_skill env name args b =
     bnd (lift (resolve_bindings b (JObj args))) (\<lambda>resolved.
     andthen (count_attempt name) (
     andthen (publish_event (StepStart name resolved)) (
     bnd (on_world (skill_executor env name resolved)) (\<lambda>result.
     let step_res = (case result of StepResult r \<Rightarrow> r
                     | Bare ok \<Rightarrow> \<lparr>success = ok, why = [], requests_replan = False,
                                   observation = JNull\<rparr>) in
     andthen (publish_event (if success step_res then StepDone name
                             else StepFailed name (why step_res)))
       (ret step_res)))))"

text \<open>\<open>for i in range(n)\<close> of \<open>repeat\<close> and \<open>retry\<close>, and \<open>for item in items\<close> of \<open>for_each\<close>;
  \<open>i\<close> counts the iterations done.\<close>

fun repeat_loop :: "nat \<Rightarrow> nat \<Rightarrow> ('w, step_result) run \<Rightarrow> ('w, step_result) run" where
  "repeat_loop i 0 body = ret step_ok"
| "repeat_loop i (Suc k) body =
     andthen (publish_event (LoopStart (Suc i)))
       (bnd body (\<lambda>r. if \<not> success r then ret r else repeat_loop (Suc i) k body))"

fun retry_loop ::
  "nat \<Rightarrow> nat \<Rightarrow> int \<Rightarrow> step_result \<Rightarrow> ('w, step_result) run \<Rightarrow> ('w, step_result) run" where
  "retry_loop i 0 attempts prev body =
     andthen (note_decision (runtime_decision ''retry'' ''retry_exhausted''
        (if why prev = [] then ''all retry attempts failed'' else why prev))) (ret prev)"
| "retry_loop i (Suc k) attempts prev body =
     andthen (publish_event (RetryAttempt (Suc i) attempts))
       (bnd body (\<lambda>r. if success r \<or> requests_replan r then ret r
                       else retry_loop (Suc i) k attempts r body))"

fun for_each_loop ::
  "nat \<Rightarrow> string \<Rightarrow> json list \<Rightarrow> (json \<Rightarrow> ('w, step_result) run) \<Rightarrow> ('w, step_result) run" where
  "for_each_loop i coll [] body = ret step_ok"
| "for_each_loop i coll (x # xs) body =
     andthen (publish_event (ForEachItem x i coll))
       (bnd (body x) (\<lambda>r. if \<not> success r then ret r else for_each_loop (Suc i) coll xs body))"

definition stopped :: "'w runtime_env \<Rightarrow> 'w runtime_state \<Rightarrow> bool" where
  "stopped env s = (case is_stopped_fn env of None \<Rightarrow> False | Some f \<Rightarrow> f (world s))"

definition count_fallback :: "('w, unit) run" where
  "count_fallback = modify (\<lambda>s. s\<lparr>fallback_count := fallback_count s + 1\<rparr>)"

text \<open>\<open>int(node.count or 0)\<close>.\<close>

definition attempts_of :: "int option \<Rightarrow> int" where
  "attempts_of n = (case n of None \<Rightarrow> 0 | Some k \<Rightarrow> k)"

fun run_node ::
  "'w runtime_env \<Rightarrow> task_node \<Rightarrow> (string \<rightharpoonup> json) \<Rightarrow> ('w, step_result) run"
  and run_children ::
  "'w runtime_env \<Rightarrow> task_node list \<Rightarrow> (string \<rightharpoonup> json) \<Rightarrow> ('w, step_result) run"
  and run_fallback ::
  "'w runtime_env \<Rightarrow> nat \<Rightarrow> task_node list \<Rightarrow> (string \<rightharpoonup> json) \<Rightarrow> ('w, step_result) run"
where
  "run_node env (TaskNode ty nm args cs c n coll it u f) b =
     bnd (gets (stopped env)) (\<lambda>st.
     if st then ret (step_failed ''operator_stopped'')
     else if ty \<in> {''skill'', ''observe''} then run_skill env nm args b
     else if ty = ''sequence'' then run_children env cs b
     else if ty = ''repeat'' then repeat_loop 0 (nat (attempts_of n)) (run_children env cs b)
     else if ty = ''retry''
     then retry_loop 0 (nat (attempts_of n)) (attempts_of n) (step_failed ''retry had no attempts'')
            (run_children env cs b)
     else if ty = ''fallback'' then run_fallback env 0 cs b
     else if ty = ''for_each''
     then bnd (lift (collection_items (runtime_world_model env) coll)) (\<lambda>items.
            for_each_loop 0 coll items (\<lambda>item. run_children env cs (b(it \<mapsto> item))))
     else if ty \<in> {''if'', ''until'', ''wait_until''}
     then ret (step_failed (ty @ '' requires an explicit condition evaluator''))
     else ret (step_failed (''unsupported runtime node: '' @ ty)))"
| "run_children env [] b = ret step_ok"
| "run_children env (c # cs) b =
     bnd (run_node env c b) (\<lambda>r. if \<not> success r then ret r else run_children env cs b)"
| "run_fallback env i [] b = ret (step_failed ''all fallback branches failed'')"
| "run_fallback env i (c # cs) b =
     bnd (run_node env c b) (\<lambda>r.
     if success r
     then andthen (when_do (0 < i)
            (andthen count_fallback
              (note_decision (runtime_decision ''fallback'' ''fallback_selected''
                 (if nname c = [] then ntype c else nname c))))) (ret r)
     else if requests_replan r then ret r
     else run_fallback env (Suc i) cs b)"

subsection \<open>Nothing but the loop of \<open>run\<close> counts replans\<close>

fun loop_event :: "runtime_event \<Rightarrow> bool" where
  "loop_event (LoopStart _) = True"
| "loop_event (RetryAttempt _ _) = True"
| "loop_event (ForEachItem _ _ _) = True"
| "loop_event _ = False"

lemma keeps_loops [keeps_intros]:
  assumes "keeps P body" and "\<And>e. loop_event e \<Longrightarrow> keeps P (publish_event e)" and "\<And>d. keeps P (note_decision d)"
  shows "keeps P (repeat_loop i k body)" "keeps P (retry_loop i k n prev body)"
proof -
  show "keeps P (repeat_loop i k body)"
    by (induction k arbitrary: i) (auto intro!: keeps_intros assms)
  show "keeps P (retry_loop i k n prev body)"
    by (induction k arbitrary: i prev) (auto intro!: keeps_intros assms)
qed

lemma keeps_for_each_loop [keeps_intros]:
  assumes "\<And>x. keeps P (body x)" and "\<And>e. loop_event e \<Longrightarrow> keeps P (publish_event e)"
  shows "keeps P (for_each_loop i coll xs body)"
  by (induction xs arbitrary: i) (auto intro!: keeps_intros assms)

text \<open>
  What a run of the interpreter preserves, from what its primitive actions preserve: the
  skill, the events, the decisions and the fallback counter.
\<close>

lemma keeps_run_children:
  "(\<And>x b. x \<in> set cs \<Longrightarrow> keeps P (run_node env x b)) \<Longrightarrow> keeps P (run_children env cs b)"
  by (induction cs) (auto intro!: keeps_intros)

lemma keeps_run_fallback:
  assumes "\<And>d. keeps P (note_decision d)"
    and "keeps P count_fallback"
  shows "(\<And>x b. x \<in> set cs \<Longrightarrow> keeps P (run_node env x b)) \<Longrightarrow> keeps P (run_fallback env i cs b)"
  by (induction cs arbitrary: i) (auto intro!: keeps_intros assms)

lemma keeps_run_node:
  assumes "\<And>nm args b. keeps P (run_skill env nm args b)"
    and "\<And>e. loop_event e \<Longrightarrow> keeps P (publish_event e)" and "\<And>d. keeps P (note_decision d)"
    and "keeps P count_fallback"
  shows "keeps P (run_node env node b)"
proof (induction node arbitrary: b)
  case (TaskNode ty nm args cs c n coll it u f)
  have "keeps P (run_children env cs b')" "keeps P (run_fallback env i cs b')" for b' i
    using TaskNode by (auto intro!: keeps_run_children keeps_run_fallback assms)
  then show ?case unfolding run_node.simps by (intro keeps_intros assms) auto
qed

definition same_replans :: "nat \<Rightarrow> 'w runtime_state \<Rightarrow> bool" where
  "same_replans n s \<longleftrightarrow> replan_count s = n"

lemma keeps_on_world: "(\<And>s w. P s \<Longrightarrow> P (s\<lparr>world := w\<rparr>)) \<Longrightarrow> keeps P (on_world f)"
  by (auto simp: keeps_def on_world_def split: prod.splits)

lemma run_node_same_replans: "keeps (same_replans n) (run_node env node b)"
  by (intro keeps_run_node)
    (auto intro!: keeps_intros keeps_modify keeps_on_world
      simp: run_skill_def count_attempt_def publish_event_def note_decision_def count_fallback_def
        same_replans_def Let_def)

lemma run_node_replan_count: "run_node env node b s = (r, t) \<Longrightarrow> replan_count t = replan_count s"
  using keepsD_eq [OF run_node_same_replans, of "replan_count s" s env node b r t]
  by (simp add: same_replans_def)

subsection \<open>The run of a task\<close>

definition report :: "bool \<Rightarrow> string \<Rightarrow> 'w runtime_state \<Rightarrow> runtime_report" where
  "report ok r s =
     \<lparr>rep_success = ok, rep_reason = r, rep_attempts_by_skill = attempts_by_skill s,
      rep_fallback_count = fallback_count s, rep_replan_count = replan_count s,
      rep_policy_decisions = policy_decisions s\<rparr>"

text \<open>\<open>_max_replans_for_task\<close>: the task's own bound if it has one; \<open>int\<close> of an infinite float
  raises an error the code does not catch.\<close>

definition max_replans_for_task :: "'w runtime_env \<Rightarrow> factory_task \<Rightarrow> task_exn + int" where
  "max_replans_for_task env t =
     (let raw = get_or_none (replan_policy t) ''max_replans'' in
      if raw = JNull then Inr (max 0 (max_replans env))
      else (case to_int raw of
              Inr n \<Rightarrow> Inr (max 0 n)
            | Inl e \<Rightarrow>
                (if e \<in> {TypeError, ValueError}
                 then Inl (FactoryTaskError ''replan_policy.max_replans must be an integer'')
                 else Inl (PyError e))))"

definition begin_replan :: "factory_task \<Rightarrow> step_result \<Rightarrow> 'w runtime_state \<Rightarrow> 'w runtime_state" where
  "begin_replan t res s =
     s\<lparr>replan_count := replan_count s + 1,
       policy_decisions := policy_decisions s @ [runtime_decision ''root'' ''replan''
         (if why res = [] then ''skill requested replan'' else why res)],
       events := events s @ [TaskReplan (task_id t) (replan_count s + 1)]\<rparr>"

text \<open>\<open>while state.replan_count < max_replans\<close>, with the result so far.\<close>

function replan_loop ::
  "'w runtime_env \<Rightarrow> (runtime_report \<Rightarrow> 'w \<Rightarrow> (task_exn + factory_task option) \<times> 'w)
    \<Rightarrow> factory_task \<Rightarrow> int \<Rightarrow> step_result \<Rightarrow> 'w runtime_state
    \<Rightarrow> (task_exn + step_result) \<times> 'w runtime_state" where
  "replan_loop env handler t m res s =
     (if int (replan_count s) < m
      then
        (let s1 = begin_replan t res s in
         case on_world (handler (report False
                 (if why res = [] then ''replan requested'' else why res) s1)) s1 of
           (Inl e, s2) \<Rightarrow> (Inl e, s2)
         | (Inr None, s2) \<Rightarrow> (Inr res, s2)
         | (Inr (Some next_task), s2) \<Rightarrow>
             (case run_node env (root next_task) Map.empty s2 of
                (Inl e, s3) \<Rightarrow> (Inl e, s3)
              | (Inr r, s3) \<Rightarrow>
                  if \<not> requests_replan r then (Inr r, s3)
                  else replan_loop env handler t m r s3))
      else (Inr res, s))"
  by pat_completeness auto
termination
  by (relation "measure (\<lambda>(env, h, t, m, res, s). nat (m - int (replan_count s)))")
    (auto simp: begin_replan_def on_world_def split: prod.splits dest!: run_node_replan_count [OF sym])

declare replan_loop.simps [simp del]

definition initial_state :: "'w \<Rightarrow> 'w runtime_state" where
  "initial_state w = \<lparr>attempts_by_skill = [], fallback_count = 0, replan_count = 0,
     policy_decisions = [], events = [], world = w\<rparr>"

definition replan_phase ::
  "'w runtime_env \<Rightarrow> factory_task \<Rightarrow> step_result \<Rightarrow> ('w, step_result) run" where
  "replan_phase env t res =
     (case replan_handler env of
        None \<Rightarrow> ret res
      | Some handler \<Rightarrow>
          if requests_replan res
          then bnd (lift (max_replans_for_task env t)) (\<lambda>m. replan_loop env handler t m res)
          else ret res)"

definition run_task :: "'w runtime_env \<Rightarrow> factory_task \<Rightarrow> ('w, runtime_report) run" where
  "run_task env t =
     andthen (publish_event (TaskStart (task_id t)))
      (bnd (run_node env (root t) Map.empty) (\<lambda>res0.
       bnd (replan_phase env t res0) (\<lambda>res.
       bnd (gets (report (success res) (why res))) (\<lambda>rep.
       andthen (publish_event (if rep_success rep then TaskDone (task_id t)
                               else TaskFailed (task_id t) (rep_reason rep)))
         (ret rep)))))"

subsection \<open>Preservation by a whole run\<close>

lemma replan_loop_inv:
  assumes start: "\<And>s res. P s \<Longrightarrow> int (replan_count s) < m \<Longrightarrow> P (begin_replan t res s)"
    and handler: "\<And>rep. keeps P (on_world (h rep))"
    and node: "\<And>node. keeps P (run_node env node Map.empty)"
  shows "P s \<Longrightarrow> P (snd (replan_loop env h t m res s))"
proof (induction "nat (m - int (replan_count s))" arbitrary: s res rule: less_induct)
  case less
  define s1 where "s1 = begin_replan t res s"
  define rep where "rep = report False (if why res = [] then ''replan requested'' else why res) s1"
  note loop = replan_loop.simps [of env h t m res s, unfolded Let_def, folded s1_def, folded rep_def]
  show ?case
  proof (cases "int (replan_count s) < m")
    case False
    with less.prems show ?thesis by (simp add: replan_loop.simps)
  next
    case True
    obtain a s2 where h: "on_world (h rep) s1 = (a, s2)" by (cases "on_world (h rep) s1")
    have "P s1" unfolding s1_def using less.prems True by (rule start)
    with h have s2: "P s2" using keepsD_eq [OF handler] by blast
    show ?thesis
    proof (cases "\<exists>t'. a = Inr (Some t')")
      case False
      with True h s2 show ?thesis by (cases a) (auto simp: loop split: option.splits)
    next
      case True': True
      then obtain t' where a: "a = Inr (Some t')" by blast
      obtain r s3 where run: "run_node env (root t') Map.empty s2 = (r, s3)"
        by (cases "run_node env (root t') Map.empty s2")
      with s2 have s3: "P s3" using keepsD_eq [OF node] by blast
      have "replan_count s3 = Suc (replan_count s)"
        using run_node_replan_count [OF run] h
        by (auto simp: on_world_def s1_def begin_replan_def split: prod.splits)
      with True have "nat (m - int (replan_count s3)) < nat (m - int (replan_count s))" by simp
      then have "P (snd (replan_loop env h t m x s3))" for x using s3 by (rule less.hyps)
      with True h a run s3 show ?thesis by (cases r) (simp_all add: loop)
    qed
  qed
qed

lemma keeps_run_task:
  assumes "\<And>s res m. P s \<Longrightarrow> max_replans_for_task env t = Inr m \<Longrightarrow> int (replan_count s) < m
      \<Longrightarrow> P (begin_replan t res s)"
    and "\<And>h rep. replan_handler env = Some h \<Longrightarrow> keeps P (on_world (h rep))"
    and "\<And>node. keeps P (run_node env node Map.empty)"
    and "\<And>e. (\<And>n a. e \<noteq> StepStart n a) \<Longrightarrow> keeps P (publish_event e)"
  shows "keeps P (run_task env t)"
proof -
  have loop: "keeps P (replan_loop env h t m res)"
    if "replan_handler env = Some h" "max_replans_for_task env t = Inr m" for h m res
    using replan_loop_inv [of P m t h env, OF assms(1) [OF _ that(2)] assms(2) [OF that(1)] assms(3)]
    by (intro keepsI)
  have "keeps P (bnd (lift (max_replans_for_task env t)) (\<lambda>m. replan_loop env h t m res))"
    if "replan_handler env = Some h" for h res
  proof (cases "max_replans_for_task env t")
    case (Inl e)
    then show ?thesis by (simp add: keeps_def py_simps)
  next
    case (Inr m)
    have "bnd (lift (Inr m)) (\<lambda>m. replan_loop env h t m res) = replan_loop env h t m res"
      by (rule ext) (simp add: py_simps)
    with loop [OF that Inr] Inr show ?thesis by simp
  qed
  then have "keeps P (replan_phase env t res)" for res
    by (auto simp: replan_phase_def keeps_ret split: option.splits)
  then show ?thesis
    unfolding run_task_def by (intro keeps_intros assms(3,4)) auto
qed

end
