(* ===== verification/Runtime_Properties.thy ===== *)
theory Runtime_Properties
  imports Task_Runtime "HOL-Library.Sublist"
begin

section \<open>What the task runtime promises\<close>

text \<open>
  The calls the interpreter makes to its executor, compared with the tree it runs.  The
  executor, the stop flag and the replan handler stay parameters; to speak of the calls,
  \<open>recorded\<close> runs the same environment next to a log of every call it receives.
\<close>

subsection \<open>The log of the executor\<close>

type_synonym call = "string \<times> json"

definition recorded :: "'w runtime_env \<Rightarrow> ('w \<times> call list) runtime_env" where
  "recorded env =
     \<lparr>skill_executor = (\<lambda>nm args (w, log). case skill_executor env nm args w of
        (r, w') \<Rightarrow> (r, (w', log @ [(nm, args)]))),
      is_stopped_fn = map_option (\<lambda>f (w, log). f w) (is_stopped_fn env),
      replan_handler = map_option (\<lambda>h rep (w, log). case h rep w of (r, w') \<Rightarrow> (r, (w', log)))
        (replan_handler env),
      max_replans = max_replans env, runtime_world_model = runtime_world_model env\<rparr>"

definition calls :: "('w \<times> call list) runtime_state \<Rightarrow> call list" where
  "calls s = snd (world s)"

lemma recorded_world_model [simp]: "runtime_world_model (recorded env) = runtime_world_model env"
  by (simp add: recorded_def)

lemma calls_updates [simp]:
  "calls (s\<lparr>events := e\<rparr>) = calls s" "calls (s\<lparr>policy_decisions := d\<rparr>) = calls s"
  "calls (s\<lparr>attempts_by_skill := a\<rparr>) = calls s" "calls (s\<lparr>fallback_count := k\<rparr>) = calls s"
  "calls (s\<lparr>replan_count := k\<rparr>) = calls s" "calls (s\<lparr>world := w\<rparr>) = snd w"
  by (simp_all add: calls_def)

text \<open>One skill: either its arguments do not resolve and nothing is called, or it is called
  once.\<close>

lemma run_skill_calls:
  assumes "run_skill (recorded env) nm args b s = (r, t)"
  shows "(\<exists>e. resolve_bindings b (JObj args) = Inl e \<and> r = Inl e \<and> t = s) \<or>
    (\<exists>a. resolve_bindings b (JObj args) = Inr a \<and> calls t = calls s @ [(nm, a)] \<and>
       attempts_by_skill t = dict_set nm
         ((case map_of (attempts_by_skill s) nm of None \<Rightarrow> 0 | Some n \<Rightarrow> n) + 1) (attempts_by_skill s))"
  using assms
  by (auto simp: run_skill_def py_simps count_attempt_def publish_event_def on_world_def recorded_def
      calls_def Let_def split: prod.splits sum.splits)

subsection \<open>The expansion of a tree\<close>
















subsection \<open>Attempts are executor calls\<close>

definition attempts :: "'w runtime_state \<Rightarrow> string \<Rightarrow> nat" where
  "attempts s nm = (case map_of (attempts_by_skill s) nm of None \<Rightarrow> 0 | Some n \<Rightarrow> n)"

definition accounted :: "('w \<times> call list) runtime_state \<Rightarrow> bool" where
  "accounted s \<longleftrightarrow> (\<forall>nm. attempts s nm = count_list (map fst (calls s)) nm)"

lemma accounted_cong:
  "accounted s \<Longrightarrow> attempts_by_skill t = attempts_by_skill s \<Longrightarrow> calls t = calls s \<Longrightarrow> accounted t"
  by (simp add: accounted_def attempts_def)

lemma accounted_skill: "keeps accounted (run_skill (recorded env) nm args b)"
proof (rule keepsI)
  fix s :: "('a \<times> call list) runtime_state"
  assume s: "accounted s"
  obtain r t where run: "run_skill (recorded env) nm args b s = (r, t)"
    by (cases "run_skill (recorded env) nm args b s")
  from run_skill_calls [OF run] show "accounted (snd (run_skill (recorded env) nm args b s))"
    using s run by (auto simp: accounted_def attempts_def)
qed

lemma accounted_event: "keeps accounted (publish_event e)"
  by (auto intro!: keeps_modify elim!: accounted_cong simp: publish_event_def)

lemma accounted_run_node: "keeps accounted (run_node (recorded env) node b)"
  by (intro keeps_run_node accounted_skill accounted_event)
    (auto intro!: keeps_modify elim!: accounted_cong simp: note_decision_def count_fallback_def)

lemma accounted_begin_replan: "accounted s \<Longrightarrow> accounted (begin_replan t res s)"
  by (erule accounted_cong) (simp_all add: begin_replan_def)

lemma recorded_handler:
  assumes "replan_handler (recorded env) = Some h"
  shows "calls (snd (on_world (h rep) s)) = calls s"
    "attempts_by_skill (snd (on_world (h rep) s)) = attempts_by_skill s"
    "replan_count (snd (on_world (h rep) s)) = replan_count s"
  using assms by (auto simp: recorded_def on_world_def calls_def split: prod.splits)

lemma accounted_run_task: "keeps accounted (run_task (recorded env) t)"
  by (intro keeps_run_task accounted_begin_replan accounted_run_node accounted_event)
    (auto simp: keeps_def recorded_handler elim!: accounted_cong)

subsection \<open>Replans are bounded\<close>

lemma max_replans_nonneg: "max_replans_for_task env t = Inr m \<Longrightarrow> 0 \<le> m"
  by (auto simp: max_replans_for_task_def Let_def split: if_splits sum.splits)

subsection \<open>A stopped executor is not consulted\<close>

definition with_executor ::
  "(string \<Rightarrow> json \<Rightarrow> 'w \<Rightarrow> (task_exn + executor_result) \<times> 'w) \<Rightarrow> 'w runtime_env \<Rightarrow> 'w runtime_env"
where
  "with_executor ex env = env\<lparr>skill_executor := ex\<rparr>"

lemma with_executor_simps [simp]:
  "is_stopped_fn (with_executor ex env) = is_stopped_fn env"
  "replan_handler (with_executor ex env) = replan_handler env"
  "max_replans (with_executor ex env) = max_replans env"
  "runtime_world_model (with_executor ex env) = runtime_world_model env"
  "skill_executor (with_executor ex env) = ex"
  "stopped (with_executor ex env) = stopped env"
  by (simp_all add: with_executor_def stopped_def fun_eq_iff)

lemma run_children_cong:
  "(\<And>x b. x \<in> set cs \<Longrightarrow> run_node env' x b = run_node env x b) \<Longrightarrow>
     run_children env' cs b = run_children env cs b"
  by (induction cs) (simp_all cong del: if_weak_cong)

lemma run_fallback_cong:
  "(\<And>x b. x \<in> set cs \<Longrightarrow> run_node env' x b = run_node env x b) \<Longrightarrow>
     run_fallback env' i cs b = run_fallback env i cs b"
proof (induction cs arbitrary: i)
  case Nil
  then show ?case by simp
next
  case (Cons c cs)
  then have "run_node env' c b = run_node env c b"
    "\<And>i. run_fallback env' i cs b = run_fallback env i cs b" by simp_all
  then show ?case by (simp only: run_fallback.simps)
qed

lemma stopped_skill:
  assumes "\<And>nm a w. \<not> f w \<Longrightarrow> ex nm a w = skill_executor env nm a w" and "\<not> f (world s)"
  shows "run_skill (with_executor ex env) nm args b s = run_skill env nm args b s"
  using assms by (simp add: run_skill_def py_simps count_attempt_def publish_event_def on_world_def
      split: sum.split)

lemma stopped_run_node:
  assumes f: "is_stopped_fn env = Some f"
    and ex: "\<And>nm a w. \<not> f w \<Longrightarrow> ex nm a w = skill_executor env nm a w"
  shows "run_node (with_executor ex env) node b = run_node env node b"
proof (induction node arbitrary: b)
  case (TaskNode ty nm args cs c n coll it u g)
  have sub: "run_children (with_executor ex env) cs b = run_children env cs b"
    "run_fallback (with_executor ex env) i cs b = run_fallback env i cs b" for b i
    using TaskNode by (auto intro!: run_children_cong run_fallback_cong)
  show ?case
  proof (rule ext)
    fix s
    show "run_node (with_executor ex env) (TaskNode ty nm args cs c n coll it u g) b s =
      run_node env (TaskNode ty nm args cs c n coll it u g) b s"
    proof (cases "f (world s)")
      case True
      then show ?thesis by (simp add: f stopped_def py_simps)
    next
      case False
      with ex have "run_skill (with_executor ex env) nm args b s = run_skill env nm args b s"
        by (rule stopped_skill)
      with False show ?thesis by (simp add: f stopped_def py_simps sub)
    qed
  qed
qed

lemma stopped_replan_loop:
  assumes "is_stopped_fn env = Some f"
    and "\<And>nm a w. \<not> f w \<Longrightarrow> ex nm a w = skill_executor env nm a w"
  shows "replan_loop (with_executor ex env) h t m res s = replan_loop env h t m res s"
proof (induction "nat (m - int (replan_count s))" arbitrary: s res rule: less_induct)
  case less
  have node: "run_node (with_executor ex env) n b = run_node env n b" for n b
    using assms by (rule stopped_run_node)
  define s1 where "s1 = begin_replan t res s"
  define rep where "rep = report False (if why res = [] then ''replan requested'' else why res) s1"
  note loop = replan_loop.simps [of _ h t m res s, unfolded Let_def, folded s1_def, folded rep_def]
  have IH: "replan_loop (with_executor ex env) h t m x s3 = replan_loop env h t m x s3"
    if "int (replan_count s) < m" "on_world (h rep) s1 = (a, s2)"
      "run_node env n Map.empty s2 = (r, s3)" for x a s2 n r s3
  proof -
    have "replan_count s3 = Suc (replan_count s)"
      using run_node_replan_count [OF that(3)] that(2)
      by (auto simp: on_world_def s1_def begin_replan_def split: prod.splits)
    with that(1) show ?thesis by (intro less.hyps) simp
  qed
  show ?case
    unfolding loop by (auto split: prod.split sum.split option.split simp: IH node)
qed

subsection \<open>How many calls a tree can make\<close>

fun max_calls :: "world_model \<Rightarrow> task_node \<Rightarrow> nat" where
  "max_calls w (TaskNode ty nm args cs c n coll it u f) =
     (if ty \<in> {''skill'', ''observe''} then 1
      else if ty \<in> {''sequence'', ''fallback''} then sum_list (map (max_calls w) cs)
      else if ty \<in> {''repeat'', ''retry''} then nat (attempts_of n) * sum_list (map (max_calls w) cs)
      else if ty = ''for_each''
      then (case collection_items w coll of
              Inl _ \<Rightarrow> 0 | Inr items \<Rightarrow> length items * sum_list (map (max_calls w) cs))
      else 0)"

definition at_most :: "nat \<Rightarrow> ('w \<times> call list, 'a) run \<Rightarrow> bool" where
  "at_most k m \<longleftrightarrow> (\<forall>s. length (calls (snd (m s))) \<le> length (calls s) + k)"

lemma at_most_mono: "at_most k m \<Longrightarrow> k \<le> n \<Longrightarrow> at_most n m"
  unfolding at_most_def by (meson add_le_mono le_refl order_trans)

lemma at_most_zero:
  "at_most k (ret x)" "at_most k (publish_event e)" "at_most k (note_decision d)"
  "at_most k count_fallback" "at_most k (gets g)" "at_most k (lift y)"
  by (simp_all add: at_most_def py_simps publish_event_def note_decision_def count_fallback_def)

lemma at_most_bnd:
  assumes "at_most j m" and "\<And>x. at_most k (f x)"
  shows "at_most (j + k) (bnd m f)"
  unfolding at_most_def
proof
  fix s
  obtain r s1 where m: "m s = (r, s1)" by (cases "m s")
  have "length (calls s1) \<le> length (calls s) + j"
    using assms(1) m unfolding at_most_def by (metis snd_conv)
  moreover have "length (calls (snd (f x s1))) \<le> length (calls s1) + k" for x
    using assms(2) unfolding at_most_def by blast
  ultimately have "length (calls (snd (f x s1))) \<le> length (calls s) + (j + k)"
    "length (calls s1) \<le> length (calls s) + (j + k)" for x
    by (metis add.assoc add_le_mono1 order_trans, metis add.assoc le_add1 order_trans)
  then show "length (calls (snd (bnd m f s))) \<le> length (calls s) + (j + k)"
    using m by (cases r) (auto simp: py_simps)
qed

lemma at_most_bnd0: "at_most 0 m \<Longrightarrow> (\<And>x. at_most k (f x)) \<Longrightarrow> at_most k (bnd m f)"
  using at_most_bnd [of 0 m k f] by simp

lemma at_most_bnd_last: "at_most k m \<Longrightarrow> (\<And>x. at_most 0 (f x)) \<Longrightarrow> at_most k (bnd m f)"
  using at_most_bnd [of k m 0 f] by simp

lemma at_most_andthen0: "at_most 0 m \<Longrightarrow> at_most k n \<Longrightarrow> at_most k (andthen m n)"
  unfolding andthen_def by (rule at_most_bnd0)

lemma at_most_if: "at_most k m \<Longrightarrow> at_most k n \<Longrightarrow> at_most k (if c then m else n)"
  by simp

lemma at_most_when: "at_most k m \<Longrightarrow> at_most k (when_do c m)"
  by (simp add: when_do_def at_most_zero)

lemmas at_most_intros = at_most_zero at_most_bnd at_most_andthen0 at_most_if at_most_when

lemma at_most_skill: "at_most 1 (run_skill (recorded env) nm args b)"
  unfolding at_most_def
proof
  fix s
  obtain r t where "run_skill (recorded env) nm args b s = (r, t)"
    by (cases "run_skill (recorded env) nm args b s")
  then show "length (calls (snd (run_skill (recorded env) nm args b s))) \<le> length (calls s) + 1"
    using run_skill_calls [of env nm args b s r t] by auto
qed

lemma at_most_repeat: "at_most j m \<Longrightarrow> at_most (k * j) (repeat_loop i k m)"
  by (induction k arbitrary: i) (auto intro!: at_most_intros)

lemma at_most_retry: "at_most j m \<Longrightarrow> at_most (k * j) (retry_loop i k n p m)"
  by (induction k arbitrary: i p) (auto intro!: at_most_intros)

lemma at_most_for_each: "(\<And>x. at_most j (m x)) \<Longrightarrow> at_most (length xs * j) (for_each_loop i coll xs m)"
  by (induction xs arbitrary: i) (auto intro!: at_most_intros)

lemma at_most_children:
  "(\<And>x b. x \<in> set cs \<Longrightarrow> at_most (k x) (run_node env x b)) \<Longrightarrow>
     at_most (sum_list (map k cs)) (run_children env cs b)"
  by (induction cs) (auto intro!: at_most_intros)

lemma at_most_fallback:
  "(\<And>x b. x \<in> set cs \<Longrightarrow> at_most (k x) (run_node env x b)) \<Longrightarrow>
     at_most (sum_list (map k cs)) (run_fallback env i cs b)"
  by (induction cs arbitrary: i) (auto intro!: at_most_intros)

lemma at_most_lift: "(\<And>x. y = Inr x \<Longrightarrow> at_most k (f x)) \<Longrightarrow> at_most k (bnd (lift y) f)"
  by (cases y) (simp_all add: at_most_def py_simps)

lemma at_most_run_node:
  "at_most (max_calls (runtime_world_model env) node) (run_node (recorded env) node b)"
proof (induction node arbitrary: b)
  case (TaskNode ty nm args cs c n coll it u f)
  let ?w = "runtime_world_model env"
  let ?k = "max_calls ?w (TaskNode ty nm args cs c n coll it u f)"
  have sub: "at_most (sum_list (map (max_calls ?w) cs)) (run_children (recorded env) cs b')"
    "at_most (sum_list (map (max_calls ?w) cs)) (run_fallback (recorded env) 0 cs b')" for b'
    using TaskNode by (auto intro!: at_most_children at_most_fallback)
  have rep: "at_most ?k (repeat_loop 0 (nat (attempts_of n)) (run_children (recorded env) cs b))"
    if "ty = ''repeat''" using that at_most_repeat [OF sub(1)] by simp
  have retry: "at_most ?k (retry_loop 0 (nat (attempts_of n)) (attempts_of n)
      (step_failed ''retry had no attempts'') (run_children (recorded env) cs b))"
    if "ty = ''retry''" using that at_most_retry [OF sub(1)] by simp
  have each: "at_most ?k (for_each_loop 0 coll items
      (\<lambda>item. run_children (recorded env) cs (b(it \<mapsto> item))))"
    if "ty = ''for_each''" "collection_items ?w coll = Inr items" for items
    using that at_most_for_each [OF sub(1)] by simp
  have "at_most ?k (run_skill (recorded env) nm args b)" if "ty \<in> {''skill'', ''observe''}"
    unfolding max_calls.simps if_P [OF that] by (rule at_most_skill)
  moreover have "at_most ?k (run_children (recorded env) cs b)" if "ty = ''sequence''"
    using that sub by simp
  moreover have "at_most ?k (run_fallback (recorded env) 0 cs b)" if "ty = ''fallback''"
    using that sub by simp
  moreover have "at_most ?k (bnd (lift (collection_items ?w coll)) (\<lambda>items.
      for_each_loop 0 coll items (\<lambda>item. run_children (recorded env) cs (b(it \<mapsto> item)))))"
    if "ty = ''for_each''" using each [OF that] by (rule at_most_lift)
  ultimately show ?case
    unfolding run_node.simps recorded_world_model
    using rep retry by (intro at_most_bnd0 at_most_zero(5)) (simp add: at_most_zero)
qed

subsection \<open>Properties of a run\<close>

text \<open>A cell for the witnesses: a workpiece list, an executor that counts its calls in the
  world and fails the third, a stop flag that is set after the fifth.\<close>

definition bin_world :: world_model where
  "bin_world = \<lparr>objects = [], regions = [],
     collections = [(''bins'', [JStr ''a'', JStr ''b''])]\<rparr>"

definition cell_env :: "nat \<Rightarrow> nat runtime_env" where
  "cell_env bad = \<lparr>skill_executor = (\<lambda>nm args k. (Inr (Bare (k \<noteq> bad)), Suc k)),
     is_stopped_fn = Some (\<lambda>k. 5 \<le> k), replan_handler = None, max_replans = 1,
     runtime_world_model = bin_world\<rparr>"

definition skill_node :: "string \<Rightarrow> (string \<times> json) list \<Rightarrow> task_node" where
  "skill_node nm args = TaskNode ''skill'' nm args [] JNull None [] ''item'' JNull JNull"

definition sort_task :: factory_task where
  "sort_task = \<lparr>task_id = ''sort'', root =
       TaskNode ''for_each'' [] []
         [skill_node ''pick_object'' [(''object_ref'', JStr ''$bin'')], skill_node ''go_home'' []]
         JNull None ''bins'' ''bin'' JNull JNull,
     mode = ''supervised_hardware'', version = ''1.0'', operator_summary = [], limits = [],
     replan_policy = [(''max_replans'', JInt 2)]\<rparr>"



text \<open>The attempts a report gives for each skill are the calls its executor received for
  that skill, over the whole run, retries, fallbacks and replans included; the same holds of the
  state when the run raises.\<close>

theorem attempts_are_calls:
  assumes "run_task (recorded env) t (initial_state (w, [])) = (r, s)"
  shows "(\<forall>nm. attempts s nm = count_list (map fst (calls s)) nm) \<and>
    (\<forall>rep. r = Inr rep \<longrightarrow> rep_attempts_by_skill rep = attempts_by_skill s)"
proof -
  have "accounted (initial_state (w, []) :: ('a \<times> call list) runtime_state)"
    by (simp add: accounted_def attempts_def initial_state_def calls_def)
  then have "accounted s" using assms by (rule keepsD_eq [OF accounted_run_task])
  moreover have "rep_attempts_by_skill rep = attempts_by_skill s" if "r = Inr rep" for rep
    using assms that
    by (auto simp: run_task_def py_simps publish_event_def report_def split: prod.splits sum.splits)
  ultimately show ?thesis by (auto simp: accounted_def)
qed

lemma attempts_are_calls_witness:
  "attempts (snd (run_task (recorded (cell_env 2)) sort_task (initial_state (0, [])))) ''pick_object'' = 2"
proof -
  let ?m = "run_task (recorded (cell_env 2)) sort_task (initial_state (0, []))"
  have "map fst (calls (snd ?m)) = [''pick_object'', ''go_home'', ''pick_object'']" by code_simp
  moreover have "?m = (fst ?m, snd ?m)" by simp
  ultimately show ?thesis using attempts_are_calls [of "cell_env 2" sort_task 0 "fst ?m" "snd ?m"]
    by simp
qed

text \<open>C18: A run replans at most as often as the task's replan policy allows (the runtime's own
  bound where the task gives none), whatever the executor and the replan handler do, so the
  loop of \<open>run\<close> ends, and the report counts the replans that were made.\<close>

theorem replans_bounded:
  assumes "max_replans_for_task env t = Inr m"
    and "run_task env t (initial_state w) = (r, s)"
  shows "int (replan_count s) \<le> m \<and> (\<forall>rep. r = Inr rep \<longrightarrow> rep_replan_count rep = replan_count s)"
proof -
  have "keeps (\<lambda>s. int (replan_count s) \<le> m) (run_task env t)"
  proof (rule keeps_run_task)
    show "keeps (\<lambda>s. int (replan_count s) \<le> m) (run_node env node Map.empty)" for node
      by (rule keepsI) (metis prod.collapse run_node_replan_count)
  qed (use assms(1) in \<open>auto simp: begin_replan_def publish_event_def
        intro!: keeps_on_world keeps_modify\<close>)
  moreover have "int (replan_count (initial_state w :: 'a runtime_state)) \<le> m"
    using max_replans_nonneg [OF assms(1)] by (simp add: initial_state_def)
  ultimately have "int (replan_count s) \<le> m" using assms(2) by (metis keepsD_eq)
  moreover have "rep_replan_count rep = replan_count s" if "r = Inr rep" for rep
    using assms(2) that
    by (auto simp: run_task_def py_simps publish_event_def report_def split: prod.splits sum.splits)
  ultimately show ?thesis by blast
qed

definition replanning_env :: "nat runtime_env" where
  "replanning_env =
     \<lparr>skill_executor = (\<lambda>nm args k. (Inr (StepResult
        \<lparr>success = False, why = ''dropped'', requests_replan = True, observation = JNull\<rparr>), Suc k)),
      is_stopped_fn = None, replan_handler = Some (\<lambda>rep k. (Inr (Some sort_task), k)),
      max_replans = 7, runtime_world_model = bin_world\<rparr>"

lemma replans_bounded_witness:
  "replan_count (snd (run_task replanning_env sort_task (initial_state 0))) = 2"
proof -
  let ?m = "run_task replanning_env sort_task (initial_state 0)"
  have "max_replans_for_task replanning_env sort_task = Inr 2" by code_simp
  moreover have "?m = (fst ?m, snd ?m)" by simp
  ultimately have "replan_count (snd ?m) \<le> 2" using replans_bounded by fastforce
  moreover have "replan_count (snd ?m) = 2" by code_simp
  ultimately show ?thesis by simp
qed

text \<open>C17: Once the operator's stop flag is set, no skill is started any more: what the executor
  would do in a stopped world never matters to a run, through sequences, loops, retries,
  fallbacks and replans.\<close>

theorem stopped_executor_never_called:
  assumes "is_stopped_fn env = Some f"
    and "\<And>nm a w. \<not> f w \<Longrightarrow> ex nm a w = skill_executor env nm a w"
  shows "run_task (with_executor ex env) t = run_task env t"
proof -
  have node: "run_node (with_executor ex env) n b = run_node env n b" for n b
    using assms by (rule stopped_run_node)
  have loop: "replan_loop (with_executor ex env) h t m r = replan_loop env h t m r" for h m r
    by (rule ext) (rule stopped_replan_loop [OF assms])
  have "max_replans_for_task (with_executor ex env) t = max_replans_for_task env t"
    by (simp add: max_replans_for_task_def Let_def)
  then have "replan_phase (with_executor ex env) t r = replan_phase env t r" for r
    by (simp add: replan_phase_def loop split: option.split)
  then have phase: "replan_phase (with_executor ex env) t = replan_phase env t"
    by (rule ext)
  show ?thesis
    by (simp only: run_task_def node phase)
qed

definition forbidden_when_stopped :: "nat runtime_env" where
  "forbidden_when_stopped = with_executor
     (\<lambda>nm args k. if 5 \<le> k then (Inl (FactoryTaskError ''moved while stopped''), k)
                  else skill_executor (cell_env 9) nm args k) (cell_env 9)"

lemma stopped_executor_never_called_witness:
  "run_task forbidden_when_stopped sort_task (initial_state 3) =
     run_task (cell_env 9) sort_task (initial_state 3)"
  unfolding forbidden_when_stopped_def
  by (subst stopped_executor_never_called [where f = "\<lambda>k. 5 \<le> k"]) (simp_all add: cell_env_def)

text \<open>A task started with the stop flag set fails with \<open>operator_stopped\<close>: nothing is
  attempted, nothing is replanned and the world is as it was.\<close>

theorem stopped_start_does_nothing:
  assumes "is_stopped_fn env = Some f" and "f w"
  shows "\<exists>rep s. run_task env t (initial_state w) = (Inr rep, s) \<and> \<not> rep_success rep \<and>
    rep_reason rep = ''operator_stopped'' \<and> rep_attempts_by_skill rep = [] \<and>
    rep_replan_count rep = 0 \<and> world s = w \<and>
    events s = [TaskStart (task_id t), TaskFailed (task_id t) ''operator_stopped'']"
proof (cases t)
  case (fields tid r m v os l rp)
  obtain ty nm args cs c n coll it u f' where "r = TaskNode ty nm args cs c n coll it u f'"
    by (cases r)
  with assms fields show ?thesis
    by (simp add: run_task_def py_simps publish_event_def initial_state_def stopped_def
        replan_phase_def step_failed_def report_def split: option.split)
qed

lemma stopped_start_does_nothing_witness:
  "\<exists>rep s. run_task (cell_env 9) sort_task (initial_state 6) = (Inr rep, s) \<and> world s = 6"
  using stopped_start_does_nothing [of "cell_env 9" "\<lambda>k. 5 \<le> k" 6 sort_task]
  by (auto simp: cell_env_def)

text \<open>A run without a replan handler calls its executor at most as often as the tree
  bounds it: nested counts of repeat and retry multiply, and every fallback branch counts.  The
  interpreter therefore ends after finitely many skills on every tree.\<close>

theorem run_calls_bounded:
  assumes "replan_handler env = None"
  shows "length (calls (snd (run_task (recorded env) t (initial_state (w, [])))))
    \<le> max_calls (runtime_world_model env) (root t)"
proof -
  have none: "replan_handler (recorded env) = None"
    using assms by (simp add: recorded_def)
  have "at_most (max_calls (runtime_world_model env) (root t)) (run_task (recorded env) t)"
    unfolding run_task_def replan_phase_def none option.case
    by (rule at_most_andthen0 [OF at_most_zero(2)], rule at_most_bnd_last [OF at_most_run_node])
      (auto intro!: at_most_bnd0 at_most_andthen0 at_most_zero)
  then show ?thesis
    unfolding at_most_def by (metis add_0 calls_def initial_state_def list.size(3) runtime_state.select_convs(6) snd_conv)
qed

definition retry_task :: factory_task where
  "retry_task = \<lparr>task_id = ''retry'', root =
       TaskNode ''retry'' [] [] [skill_node ''pick_object'' [], skill_node ''verify_scene'' []]
         JNull (Some 3) [] ''item'' JNull JNull,
     mode = ''supervised_hardware'', version = ''1.0'', operator_summary = [], limits = [],
     replan_policy = []\<rparr>"

lemma run_calls_bounded_witness:
  "length (calls (snd (run_task (recorded (cell_env 1)) retry_task (initial_state (0, []))))) \<le> 6"
proof -
  have "max_calls (runtime_world_model (cell_env 1)) (root retry_task) = 6" by code_simp
  with run_calls_bounded [of "cell_env 1" retry_task 0] show ?thesis by (simp add: cell_env_def)
qed

end
