(* ===== verification/Hmi_Domain.thy ===== *)
theory Hmi_Domain
  imports Py_Values
begin

section \<open>The HMI domain: lifecycle states and their transitions\<close>

text \<open>
  \<open>hmi/backend/domain/models.py\<close> and \<open>hmi/backend/domain/state_machine.py\<close>: the
  enumerations of the HMI backend and the table of allowed command transitions.
\<close>

datatype runtime_mode = SIM | HARDWARE | UNKNOWN_MODE

datatype lifecycle =
    RECEIVED | PARSING | VALIDATING | NEEDS_CONFIRMATION | CONFIRMED | EXECUTION_REQUESTED
  | EXECUTING | SUCCEEDED | FAILED | REJECTED | CANCELLED | EXPIRED

datatype risk = LOW | MEDIUM | HIGH | CRITICAL

datatype command_kind = COMMAND | SEQUENCE

datatype system_state = NORMAL | FAULT | ESTOP | HOLD | TIMEOUT | LOST_CONN | SAFETY_BLOCKED

datatype freshness = FRESH | STALE | UNAVAILABLE

text \<open>The \<open>value\<close> of the enumerations, as the texts and payloads use them.\<close>

fun lifecycle_value :: "lifecycle \<Rightarrow> string" where
  "lifecycle_value RECEIVED = ''RECEIVED''"
| "lifecycle_value PARSING = ''PARSING''"
| "lifecycle_value VALIDATING = ''VALIDATING''"
| "lifecycle_value NEEDS_CONFIRMATION = ''NEEDS_CONFIRMATION''"
| "lifecycle_value CONFIRMED = ''CONFIRMED''"
| "lifecycle_value EXECUTION_REQUESTED = ''EXECUTION_REQUESTED''"
| "lifecycle_value EXECUTING = ''EXECUTING''"
| "lifecycle_value SUCCEEDED = ''SUCCEEDED''"
| "lifecycle_value FAILED = ''FAILED''"
| "lifecycle_value REJECTED = ''REJECTED''"
| "lifecycle_value CANCELLED = ''CANCELLED''"
| "lifecycle_value EXPIRED = ''EXPIRED''"

fun mode_value :: "runtime_mode \<Rightarrow> string" where
  "mode_value SIM = ''sim''"
| "mode_value HARDWARE = ''hardware''"
| "mode_value UNKNOWN_MODE = ''unknown''"

fun system_state_value :: "system_state \<Rightarrow> string" where
  "system_state_value NORMAL = ''NORMAL''"
| "system_state_value FAULT = ''FAULT''"
| "system_state_value ESTOP = ''ESTOP''"
| "system_state_value HOLD = ''HOLD''"
| "system_state_value TIMEOUT = ''TIMEOUT''"
| "system_state_value LOST_CONN = ''LOST_CONN''"
| "system_state_value SAFETY_BLOCKED = ''SAFETY_BLOCKED''"

fun risk_value :: "risk \<Rightarrow> string" where
  "risk_value LOW = ''low''"
| "risk_value MEDIUM = ''medium''"
| "risk_value HIGH = ''high''"
| "risk_value CRITICAL = ''critical''"

subsection \<open>The transition table\<close>

definition terminal_command_states :: "lifecycle list" where
  "terminal_command_states = [SUCCEEDED, FAILED, REJECTED, CANCELLED, EXPIRED]"

definition blocking_runtime_states :: "system_state list" where
  "blocking_runtime_states = [FAULT, ESTOP, LOST_CONN, SAFETY_BLOCKED]"

fun allowed_command_transitions :: "lifecycle \<Rightarrow> lifecycle list" where
  "allowed_command_transitions RECEIVED = [PARSING, REJECTED, CANCELLED]"
| "allowed_command_transitions PARSING = [VALIDATING, REJECTED, CANCELLED]"
| "allowed_command_transitions VALIDATING =
     [NEEDS_CONFIRMATION, SUCCEEDED, FAILED, REJECTED, CANCELLED, EXPIRED]"
| "allowed_command_transitions NEEDS_CONFIRMATION = [CONFIRMED, CANCELLED, EXPIRED]"
| "allowed_command_transitions CONFIRMED = [EXECUTION_REQUESTED, FAILED, CANCELLED]"
| "allowed_command_transitions EXECUTION_REQUESTED = [EXECUTING, FAILED, CANCELLED]"
| "allowed_command_transitions EXECUTING = [SUCCEEDED, FAILED, CANCELLED]"
| "allowed_command_transitions SUCCEEDED = []"
| "allowed_command_transitions FAILED = []"
| "allowed_command_transitions REJECTED = []"
| "allowed_command_transitions CANCELLED = []"
| "allowed_command_transitions EXPIRED = []"

definition allowed :: "lifecycle \<Rightarrow> lifecycle \<Rightarrow> bool" where
  "allowed previous next_state \<longleftrightarrow> next_state \<in> set (allowed_command_transitions previous)"

definition is_terminal_command_state :: "lifecycle \<Rightarrow> bool" where
  "is_terminal_command_state s \<longleftrightarrow> s \<in> set terminal_command_states"

definition is_blocking_runtime_state :: "system_state \<Rightarrow> bool" where
  "is_blocking_runtime_state s \<longleftrightarrow> s \<in> set blocking_runtime_states"

subsection \<open>The table is a lifecycle\<close>

lemma terminal_iff_final: "is_terminal_command_state s \<longleftrightarrow> (\<forall>t. \<not> allowed s t)"
  by (cases s) (auto simp: is_terminal_command_state_def terminal_command_states_def allowed_def)

text \<open>The distance of a state from the end: every transition moves strictly on, so no command
  is transitioned more than seven times.\<close>

fun stage :: "lifecycle \<Rightarrow> nat" where
  "stage RECEIVED = 7"
| "stage PARSING = 6"
| "stage VALIDATING = 5"
| "stage NEEDS_CONFIRMATION = 4"
| "stage CONFIRMED = 3"
| "stage EXECUTION_REQUESTED = 2"
| "stage EXECUTING = 1"
| "stage _ = 0"

lemma allowed_stage: "allowed s t \<Longrightarrow> stage t < stage s"
  by (cases s) (auto simp: allowed_def)

inductive lifecycle_path :: "lifecycle \<Rightarrow> lifecycle list \<Rightarrow> lifecycle \<Rightarrow> bool" where
  stay: "lifecycle_path s [] s"
| step: "lifecycle_path s p t \<Longrightarrow> allowed t u \<Longrightarrow> lifecycle_path s (p @ [u]) u"

inductive_simps lifecycle_path_Nil [simp]: "lifecycle_path s [] t"

lemma lifecycle_path_stage: "lifecycle_path s p t \<Longrightarrow> length p + stage t \<le> stage s"
  by (induction rule: lifecycle_path.induct) (auto dest: allowed_stage)

lemma to_executing: "allowed t EXECUTING \<Longrightarrow> t = EXECUTION_REQUESTED"
  by (cases t) (auto simp: allowed_def)

lemma to_execution_requested: "allowed t EXECUTION_REQUESTED \<Longrightarrow> t = CONFIRMED"
  by (cases t) (auto simp: allowed_def)

lemma to_confirmed: "allowed t CONFIRMED \<Longrightarrow> t = NEEDS_CONFIRMATION"
  by (cases t) (auto simp: allowed_def)

lemma to_needs_confirmation: "allowed t NEEDS_CONFIRMATION \<Longrightarrow> t = VALIDATING"
  by (cases t) (auto simp: allowed_def)

text \<open>On every path the states up to an execution are those of the table: a command reaches
  \<open>EXECUTING\<close> only through a confirmation.\<close>

lemma lifecycle_path_confirmed:
  "lifecycle_path s p t \<Longrightarrow> stage CONFIRMED < stage s \<Longrightarrow> t \<in> {CONFIRMED, EXECUTION_REQUESTED, EXECUTING}
    \<Longrightarrow> CONFIRMED \<in> set p"
proof (induction rule: lifecycle_path.induct)
  case (stay s)
  then show ?case by auto
next
  case (step s p t u)
  show ?case
  proof (cases "u = CONFIRMED")
    case False
    with step.prems step.hyps(2) have "t \<in> {CONFIRMED, EXECUTION_REQUESTED}"
      by (auto dest: to_executing to_execution_requested)
    with step.IH step.prems(1) show ?thesis by auto
  qed simp
qed

end
