(* ===== verification/Session_Lock.thy ===== *)
theory Session_Lock
  imports Hmi_Domain
begin

section \<open>The controller lease\<close>

text \<open>
  \<open>hmi/backend/services/session_lock_service.py\<close>: one slot that holds the lease of the
  session allowed to command the robot.  Each method runs under the service's lock, so a call
  is one atomic step.  Its clock reading \<open>now\<close> (in seconds, any origin) and the two identifiers
  \<open>uuid4\<close> draws are arguments of the model.
\<close>

record lease_record =
  lease_id :: string
  lease_token :: string
  lease_session :: string
  lease_operator :: string
  acquired_at :: int
  expires_at :: int
  force_takeover :: bool
  takeover_reason :: "string option"

record session_lock =
  ttl :: int
  active_controller :: "lease_record option"

datatype lease_exn = LeaseRejectedError string | LeaseNotOwnedError string

type_synonym 'a lock_eff = "(lease_exn, session_lock, 'a) eff"

definition session_lock_init :: "int \<Rightarrow> session_lock" where
  "session_lock_init ttl_seconds = \<lparr>ttl = ttl_seconds, active_controller = None\<rparr>"

definition is_expired :: "lease_record \<Rightarrow> int \<Rightarrow> bool" where
  "is_expired l now \<longleftrightarrow> expires_at l \<le> now"

definition purge_if_expired :: "int \<Rightarrow> unit lock_eff" where
  "purge_if_expired now = modify (\<lambda>s. case active_controller s of
       None \<Rightarrow> s
     | Some l \<Rightarrow> if is_expired l now then s\<lparr>active_controller := None\<rparr> else s)"

definition store_lease :: "lease_record \<Rightarrow> lease_record lock_eff" where
  "store_lease l = andthen (modify (\<lambda>s. s\<lparr>active_controller := Some l\<rparr>)) (ret l)"

definition current_controller :: "int \<Rightarrow> lease_record option lock_eff" where
  "current_controller now = andthen (purge_if_expired now) (gets active_controller)"

text \<open>\<open>if not takeover_reason\<close>: \<open>None\<close> and the empty text.\<close>

definition no_reason :: "string option \<Rightarrow> bool" where
  "no_reason r \<longleftrightarrow> r = None \<or> r = Some []"

definition acquire_controller ::
  "int \<Rightarrow> string \<Rightarrow> string \<Rightarrow> string \<Rightarrow> string \<Rightarrow> bool \<Rightarrow> string option \<Rightarrow> lease_record lock_eff" where
  "acquire_controller now new_id new_token session_id operator_id force why =
     andthen (purge_if_expired now)
     (bnd (gets id) (\<lambda>s. case active_controller s of
        Some l \<Rightarrow>
          if lease_session l \<noteq> session_id \<and> \<not> force
          then throw (LeaseRejectedError ''controller lease is already held by another session'')
          else if lease_session l \<noteq> session_id \<and> no_reason why
          then throw (LeaseRejectedError ''force takeover requires a non-empty takeover reason'')
          else if lease_session l = session_id
          then store_lease (l\<lparr>lease_operator := operator_id, expires_at := now + ttl s\<rparr>)
          else store_lease
            \<lparr>lease_id = new_id, lease_token = new_token, lease_session = session_id,
             lease_operator = operator_id, acquired_at = now, expires_at = now + ttl s,
             force_takeover = force, takeover_reason = why\<rparr>
      | None \<Rightarrow>
          store_lease
            \<lparr>lease_id = new_id, lease_token = new_token, lease_session = session_id,
             lease_operator = operator_id, acquired_at = now, expires_at = now + ttl s,
             force_takeover = force, takeover_reason = why\<rparr>))"

text \<open>The ownership checks, in the order \<open>renew\<close>, \<open>release\<close> and \<open>assert_controller\<close> make them.\<close>

definition check_owner :: "lease_record \<Rightarrow> string \<Rightarrow> string \<Rightarrow> string \<Rightarrow> unit lock_eff" where
  "check_owner l session_id operator_id token = block
     [guard (lease_session l = session_id)
        (LeaseNotOwnedError ''controller lease belongs to another session''),
      guard (lease_operator l = operator_id)
        (LeaseNotOwnedError ''controller lease belongs to another operator''),
      guard (lease_token l = token) (LeaseNotOwnedError ''lease token mismatch'')]"

definition renew :: "int \<Rightarrow> string \<Rightarrow> string \<Rightarrow> string \<Rightarrow> lease_record lock_eff" where
  "renew now session_id operator_id token =
     andthen (purge_if_expired now)
     (bnd (gets id) (\<lambda>s. case active_controller s of
        None \<Rightarrow> throw (LeaseNotOwnedError ''no active controller lease to renew'')
      | Some l \<Rightarrow> andthen (check_owner l session_id operator_id token)
                   (store_lease (l\<lparr>expires_at := now + ttl s\<rparr>))))"

definition release :: "string \<Rightarrow> string \<Rightarrow> string \<Rightarrow> unit lock_eff" where
  "release session_id operator_id token =
     bnd (gets active_controller) (\<lambda>a. case a of
        None \<Rightarrow> ret ()
      | Some l \<Rightarrow> andthen (check_owner l session_id operator_id token)
                   (modify (\<lambda>s. s\<lparr>active_controller := None\<rparr>)))"

definition assert_controller ::
  "int \<Rightarrow> string \<Rightarrow> string \<Rightarrow> string option \<Rightarrow> lease_record lock_eff" where
  "assert_controller now session_id operator_id token =
     (case token of
        Some (c # cs) \<Rightarrow>
          andthen (purge_if_expired now)
          (bnd (gets active_controller) (\<lambda>a. case a of
             None \<Rightarrow> throw (LeaseNotOwnedError ''no active controller lease'')
           | Some l \<Rightarrow> andthen (check_owner l session_id operator_id (c # cs)) (ret l)))
      | _ \<Rightarrow> throw (LeaseNotOwnedError ''controller lease token is required''))"

subsection \<open>The holder of the lease\<close>

text \<open>Abstractly the service is a partial function of time: the lease that is in force.\<close>

definition holder :: "session_lock \<Rightarrow> int \<Rightarrow> lease_record option" where
  "holder s now = (case active_controller s of
     None \<Rightarrow> None | Some l \<Rightarrow> if is_expired l now then None else Some l)"

definition owns :: "lease_record \<Rightarrow> string \<Rightarrow> string \<Rightarrow> string \<Rightarrow> bool" where
  "owns l session_id operator_id token \<longleftrightarrow>
     lease_session l = session_id \<and> lease_operator l = operator_id \<and> lease_token l = token"

lemma purge_run [py_simps]:
  "purge_if_expired now s = (Inr (), s\<lparr>active_controller := holder s now\<rparr>)"
  by (auto simp: purge_if_expired_def py_simps holder_def split: option.split)

lemma store_run [py_simps]: "store_lease l s = (Inr l, s\<lparr>active_controller := Some l\<rparr>)"
  by (simp add: store_lease_def py_simps)

lemma check_owner_run:
  "check_owner l a b t s = (Inr (), s) \<and> owns l a b t \<or>
   (\<exists>e. check_owner l a b t s = (Inl (LeaseNotOwnedError e), s)) \<and> \<not> owns l a b t"
  by (auto simp: check_owner_def py_simps owns_def)

lemma holder_purged [simp]:
  "holder (s\<lparr>active_controller := holder s now\<rparr>) now = holder s now"
  by (auto simp: holder_def split: option.splits)

subsection \<open>The interface the supervisor relies on\<close>

text \<open>
  A controller lock: a check of a caller's credentials that succeeds only for the lease in
  force and does not change who holds it.  Two callers that pass at the same moment are the
  same operator of the same session.
\<close>

locale controller_lock =
  fixes check :: "int \<Rightarrow> string \<Rightarrow> string \<Rightarrow> string option \<Rightarrow> 's \<Rightarrow> ('e + lease_record) \<times> 's"
    and in_force :: "'s \<Rightarrow> int \<Rightarrow> lease_record option"
  assumes check_sound: "check now a b t s = (Inr l, s') \<Longrightarrow>
      in_force s now = Some l \<and> (\<exists>tok. t = Some tok \<and> tok \<noteq> [] \<and> owns l a b tok)"
    and check_keeps: "in_force (snd (check now a b t s)) now = in_force s now"
begin

lemma exclusive:
  assumes "check now a b t s = (Inr l, s1)" and "check now a' b' t' s = (Inr l', s2)"
  shows "l = l' \<and> a = a' \<and> b = b' \<and> t = t'"
  using check_sound [OF assms(1)] check_sound [OF assms(2)] by (auto simp: owns_def)

lemma refused_without_lease: "in_force s now = None \<Longrightarrow> \<exists>e. fst (check now a b t s) = Inl e"
  by (cases "check now a b t s"; cases "fst (check now a b t s)") (auto dest: check_sound)

lemma recheck:
  assumes "check now a b t s = (Inr l, s1)" and "check now a' b' t' s1 = (Inr l', s2)"
  shows "l = l' \<and> a = a' \<and> b = b' \<and> t = t'"
proof -
  have "in_force s1 now = in_force s now" using check_keeps [of now a b t s] assms(1) by simp
  with check_sound [OF assms(1)] check_sound [OF assms(2)] show ?thesis by (auto simp: owns_def)
qed

end

lemma assert_controller_cases:
  "(\<exists>tok l. t = Some tok \<and> tok \<noteq> [] \<and> holder s now = Some l \<and> owns l a b tok \<and>
      assert_controller now a b t s = (Inr l, s\<lparr>active_controller := Some l\<rparr>)) \<or>
   (\<exists>e. assert_controller now a b t s = (Inl e, s)) \<or>
   (\<exists>e. assert_controller now a b t s = (Inl e, s\<lparr>active_controller := holder s now\<rparr>))"
proof (cases "t = None \<or> t = Some [] \<or> holder s now = None")
  case True
  then show ?thesis
    by (auto simp: assert_controller_def py_simps split: option.splits list.splits)
next
  case False
  then obtain c cs l where t: "t = Some (c # cs)" and l: "holder s now = Some l"
    by (metis list.exhaust option.exhaust)
  then show ?thesis
    using check_owner_run [of l a b "c # cs" "s\<lparr>active_controller := Some l\<rparr>"]
    by (auto simp: assert_controller_def py_simps)
qed

interpretation lease: controller_lock assert_controller holder
proof unfold_locales
  fix now a b t s l s'
  assume "assert_controller now a b t s = (Inr l, s')"
  then show "holder s now = Some l \<and> (\<exists>tok. t = Some tok \<and> tok \<noteq> [] \<and> owns l a b tok)"
    using assert_controller_cases [of t s now a b] by auto
next
  fix now a b t s
  show "holder (snd (assert_controller now a b t s)) now = holder s now"
    using assert_controller_cases [of t s now a b] by (metis holder_purged snd_conv)
qed

end
