(* ===== verification/Lock_Properties.thy ===== *)
theory Lock_Properties
  imports Session_Lock
begin

section \<open>What the controller lease promises\<close>

text \<open>
  Calls of the lease service as events, so that what other sessions do between two calls of the
  holder is a sequence of steps.
\<close>

datatype lock_call =
    Acquire int string string string string bool "string option"
  | Renew int string string string
  | Release string string string
  | Assert int string string "string option"
  | Current int

fun lock_step :: "lock_call \<Rightarrow> session_lock \<Rightarrow> session_lock" where
  "lock_step (Acquire now i tok a b force why) s = snd (acquire_controller now i tok a b force why s)"
| "lock_step (Renew now a b tok) s = snd (renew now a b tok s)"
| "lock_step (Release a b tok) s = snd (release a b tok s)"
| "lock_step (Assert now a b tok) s = snd (assert_controller now a b tok s)"
| "lock_step (Current now) s = snd (current_controller now s)"

text \<open>A call that is not the holder's: before the lease expires, from other credentials, and no
  justified forced takeover.\<close>

fun foreign :: "lease_record \<Rightarrow> lock_call \<Rightarrow> bool" where
  "foreign l (Acquire now i tok a b force why) =
     (now < expires_at l \<and> a \<noteq> lease_session l \<and> (\<not> force \<or> no_reason why))"
| "foreign l (Renew now a b tok) = (now < expires_at l \<and> \<not> owns l a b tok)"
| "foreign l (Release a b tok) = (\<not> owns l a b tok)"
| "foreign l (Assert now a b tok) = (now < expires_at l)"
| "foreign l (Current now) = (now < expires_at l)"

lemma holder_active:
  "active_controller s = Some l \<Longrightarrow> now < expires_at l \<Longrightarrow> holder s now = Some l"
  by (simp add: holder_def is_expired_def)

lemma foreign_keeps:
  assumes "active_controller s = Some l" and "foreign l c"
  shows "active_controller (lock_step c s) = Some l"
proof (cases c)
  case (Acquire now i tok a b force why)
  with assms show ?thesis by (auto simp: acquire_controller_def py_simps holder_active)
next
  case (Renew now a b tok)
  with assms have "\<not> owns l a b tok" "holder s now = Some l" by (simp_all add: holder_active)
  with check_owner_run [of l a b tok "s\<lparr>active_controller := Some l\<rparr>"] Renew show ?thesis
    by (auto simp: renew_def py_simps)
next
  case (Release a b tok)
  with assms check_owner_run [of l a b tok s] show ?thesis by (auto simp: release_def py_simps)
next
  case (Assert now a b tok)
  with assms have "holder s now = Some l" by (simp add: holder_active)
  with assert_controller_cases [of tok s now a b] assms(1) Assert show ?thesis by auto
next
  case (Current now)
  with assms show ?thesis by (simp add: current_controller_def py_simps holder_active)
qed

lemma foreign_run:
  "active_controller s = Some l \<Longrightarrow> \<forall>c \<in> set cs. foreign l c \<Longrightarrow>
     active_controller (fold lock_step cs s) = Some l"
  by (induction cs arbitrary: s) (simp_all add: foreign_keeps)

lemma assert_controller_holder:
  assumes "holder s now = Some l"
  shows "fst (assert_controller now a b (Some tok) s) = Inr l \<longleftrightarrow> tok \<noteq> [] \<and> owns l a b tok"
proof (cases tok)
  case Nil
  then show ?thesis by (simp add: assert_controller_def py_simps)
next
  case (Cons c cs)
  with assms check_owner_run [of l a b "c # cs" "s\<lparr>active_controller := Some l\<rparr>"] show ?thesis
    by (auto simp: assert_controller_def py_simps)
qed

subsection \<open>Properties\<close>

text \<open>C9: Authority to command the robot is exactly ownership of the lease in force: the check
  every controller action makes succeeds with a lease if and only if that lease has not expired
  and the caller presents its session, its operator and its (non-empty) token; in particular no
  two different callers hold it at the same moment, and without a lease in force every caller
  is refused.\<close>

theorem lease_authority:
  "(fst (assert_controller now a b t s) = Inr l \<longleftrightarrow>
      holder s now = Some l \<and> (\<exists>tok. t = Some tok \<and> tok \<noteq> [] \<and> owns l a b tok))
   \<and> (fst (assert_controller now a b t s) = Inr l \<longrightarrow>
      fst (assert_controller now a' b' t' s) = Inr l' \<longrightarrow> a = a' \<and> b = b' \<and> t = t')"
proof -
  have sound: "holder s now = Some l \<and> (\<exists>tok. t = Some tok \<and> tok \<noteq> [] \<and> owns l a b tok)"
    if "fst (assert_controller now a b t s) = Inr l"
    using lease.check_sound that by (metis prod.collapse)
  moreover have "a = a' \<and> b = b' \<and> t = t'"
    if "fst (assert_controller now a b t s) = Inr l" "fst (assert_controller now a' b' t' s) = Inr l'"
    using lease.exclusive that by (metis prod.collapse)
  ultimately show ?thesis using assert_controller_holder by metis
qed

text \<open>The lease of the first console, valid until second 15, and a second console.\<close>

definition first_lease :: lease_record where
  "first_lease = \<lparr>lease_id = ''l1'', lease_token = ''k1'', lease_session = ''s1'',
     lease_operator = ''ann'', acquired_at = 0, expires_at = 15, force_takeover = False,
     takeover_reason = None\<rparr>"

definition locked :: session_lock where
  "locked = \<lparr>ttl = 15, active_controller = Some first_lease\<rparr>"

lemma lease_authority_witness:
  "fst (assert_controller 14 ''s1'' ''ann'' (Some ''k1'') locked) = Inr first_lease \<and>
   fst (assert_controller 15 ''s1'' ''ann'' (Some ''k1'') locked) \<noteq> Inr first_lease"
  unfolding lease_authority [THEN conjunct1]
  by (simp add: locked_def first_lease_def holder_def is_expired_def owns_def)

text \<open>C10: Nobody else can take a running lease away: while it has not expired, whatever other
  sessions ask in whatever order, short of a forced takeover with a stated reason, the holder
  still passes the controller check.\<close>

theorem lease_is_kept:
  assumes "active_controller s = Some l" and "lease_token l \<noteq> []"
    and "\<forall>c \<in> set cs. foreign l c" and "now < expires_at l"
  shows "fst (assert_controller now (lease_session l) (lease_operator l) (Some (lease_token l))
           (fold lock_step cs s)) = Inr l"
proof -
  have "holder (fold lock_step cs s) now = Some l"
    using foreign_run [OF assms(1,3)] assms(4) by (rule holder_active)
  then show ?thesis using assms(2) by (simp add: assert_controller_holder owns_def)
qed

lemma lease_is_kept_witness:
  "fst (assert_controller 14 ''s1'' ''ann'' (Some ''k1'')
     (fold lock_step
       [Acquire 3 ''l2'' ''k2'' ''s2'' ''bob'' False None,
        Acquire 4 ''l3'' ''k3'' ''s2'' ''bob'' True (Some []),
        Release ''s2'' ''bob'' ''k1'', Assert 9 ''s1'' ''bob'' (Some ''k1'')] locked)) = Inr first_lease"
  using lease_is_kept [of locked first_lease
      "[Acquire 3 ''l2'' ''k2'' ''s2'' ''bob'' False None,
        Acquire 4 ''l3'' ''k3'' ''s2'' ''bob'' True (Some []),
        Release ''s2'' ''bob'' ''k1'', Assert 9 ''s1'' ''bob'' (Some ''k1'')]" 14]
  by (simp add: locked_def first_lease_def no_reason_def owns_def)

text \<open>A forced takeover with a reason, or an acquisition after expiry, gives the lease to the
  new session for one period, under its own token, and from that moment every check of any
  other session is refused.\<close>

theorem takeover_revokes:
  assumes "(force \<and> \<not> no_reason why) \<or> holder s now = None"
    and "\<And>l. holder s now = Some l \<Longrightarrow> lease_session l \<noteq> a"
    and "acquire_controller now i tok a b force why s = (r, s')"
  shows "\<exists>l. r = Inr l \<and> active_controller s' = Some l \<and> owns l a b tok \<and>
    expires_at l = now + ttl s \<and>
    (\<forall>t' a' b' k. a' \<noteq> a \<longrightarrow> (\<exists>e. fst (assert_controller t' a' b' k s') = Inl e))"
proof -
  define l where "l = \<lparr>lease_id = i, lease_token = tok, lease_session = a, lease_operator = b,
    acquired_at = now, expires_at = now + ttl s, force_takeover = force, takeover_reason = why\<rparr>"
  have "r = Inr l \<and> s' = s\<lparr>active_controller := Some l\<rparr>"
    using assms by (auto simp: acquire_controller_def py_simps l_def split: option.splits)
  moreover have "\<exists>e. fst (assert_controller t' a' b' k s') = Inl e" if "a' \<noteq> a" for t' a' b' k
  proof (cases "assert_controller t' a' b' k s'")
    case (Pair r2 s2)
    have "holder s' t' = None \<or> holder s' t' = Some l"
      using calculation by (auto simp: holder_def)
    with Pair that show ?thesis
      by (cases r2) (auto dest!: lease.check_sound simp: owns_def l_def)
  qed
  ultimately show ?thesis by (intro exI [of _ l]) (simp add: owns_def l_def)
qed

lemma takeover_revokes_witness:
  "\<exists>e. fst (assert_controller 5 ''s1'' ''ann'' (Some ''k1'')
     (snd (acquire_controller 4 ''l2'' ''k2'' ''s2'' ''bob'' True (Some ''shift change'') locked))) = Inl e"
proof -
  let ?r = "acquire_controller 4 ''l2'' ''k2'' ''s2'' ''bob'' True (Some ''shift change'') locked"
  have "lease_session l \<noteq> ''s2''" if "holder locked 4 = Some l" for l
    using that by (auto simp: locked_def first_lease_def holder_def split: if_splits)
  from takeover_revokes [OF _ this, where s = locked and now = 4 and force = True and why = "Some ''shift change''"
      and i = "''l2''" and tok = "''k2''" and b = "''bob''" and r = "fst ?r" and s' = "snd ?r"]
  obtain l where "\<forall>t' a' b' k. a' \<noteq> ''s2'' \<longrightarrow> (\<exists>e. fst (assert_controller t' a' b' k (snd ?r)) = Inl e)"
    by (auto simp: no_reason_def)
  then show ?thesis by simp
qed

lemma path_step:
  "lifecycle_path s p t \<Longrightarrow> allowed t u \<Longrightarrow> q = p @ [u] \<Longrightarrow> lifecycle_path s q u"
  by (simp add: lifecycle_path.step)

text \<open>The lifecycle table admits no shortcut and no revival: along any path of allowed
  transitions from the receipt of a command, at most seven transitions are made, nothing follows
  a terminal state, and a command that is confirmed, requested or executing has been confirmed
  on the way.\<close>

theorem lifecycle_table:
  assumes "lifecycle_path RECEIVED p t"
  shows "length p \<le> 7 \<and> (is_terminal_command_state t \<longleftrightarrow> (\<forall>u. \<not> allowed t u)) \<and>
    (t \<in> {CONFIRMED, EXECUTION_REQUESTED, EXECUTING} \<longrightarrow> CONFIRMED \<in> set p)"
proof -
  have "stage CONFIRMED < stage RECEIVED" by simp
  with assms lifecycle_path_confirmed [of RECEIVED p t] lifecycle_path_stage [of RECEIVED p t]
  show ?thesis by (auto simp: terminal_iff_final)
qed

lemma lifecycle_table_witness:
  "lifecycle_path RECEIVED
     [PARSING, VALIDATING, NEEDS_CONFIRMATION, CONFIRMED, EXECUTION_REQUESTED, EXECUTING, SUCCEEDED]
     SUCCEEDED \<and> is_terminal_command_state SUCCEEDED"
proof -
  have "lifecycle_path RECEIVED [PARSING] PARSING"
    by (rule path_step [OF lifecycle_path.stay]) (simp_all add: allowed_def)
  then have "lifecycle_path RECEIVED [PARSING, VALIDATING] VALIDATING"
    by (rule path_step) (simp_all add: allowed_def)
  then have "lifecycle_path RECEIVED [PARSING, VALIDATING, NEEDS_CONFIRMATION] NEEDS_CONFIRMATION"
    by (rule path_step) (simp_all add: allowed_def)
  then have "lifecycle_path RECEIVED [PARSING, VALIDATING, NEEDS_CONFIRMATION, CONFIRMED] CONFIRMED"
    by (rule path_step) (simp_all add: allowed_def)
  then have "lifecycle_path RECEIVED
      [PARSING, VALIDATING, NEEDS_CONFIRMATION, CONFIRMED, EXECUTION_REQUESTED] EXECUTION_REQUESTED"
    by (rule path_step) (simp_all add: allowed_def)
  then have "lifecycle_path RECEIVED
      [PARSING, VALIDATING, NEEDS_CONFIRMATION, CONFIRMED, EXECUTION_REQUESTED, EXECUTING] EXECUTING"
    by (rule path_step) (simp_all add: allowed_def)
  then have p: "lifecycle_path RECEIVED
     [PARSING, VALIDATING, NEEDS_CONFIRMATION, CONFIRMED, EXECUTION_REQUESTED, EXECUTING, SUCCEEDED]
     SUCCEEDED"
    by (rule path_step) (simp_all add: allowed_def)
  have "\<not> allowed SUCCEEDED u" for u by (simp add: allowed_def)
  with lifecycle_table [OF p] p show ?thesis by blast
qed

end
