(* ===== verification/Supervisor_State.thy ===== *)
theory Supervisor_State
  imports Session_Lock
begin

section \<open>The supervisor: records, environment, primitive effects\<close>

text \<open>
  The state of \<open>SupervisorService\<close> (\<open>hmi/backend/services/supervisor_service.py\<close>) and the
  primitive actions its mixins share: the command records, the audit log, messages, console
  events and broadcasts, and the guarded lifecycle transition.

  What the service reads from outside (clock, \<open>uuid4\<close>, the ROS adapter) is an environment
  \<open>hmi_env\<close> of functions of a tick; every reading takes the next tick, so all behaviours of the
  outside are covered.  What the service does outside (audit rows, dispatches and aborts at the
  adapter, broadcasts) is logged in order.  A handler runs as one step.
\<close>

subsection \<open>Records\<close>

record robot_status =
  servo_state :: string
  e_stop :: string
  alarm_state :: string
  motion_mode :: "string option"

record runtime_snapshot =
  rt_system_state :: system_state
  rt_mode :: runtime_mode
  rt_robot_status :: robot_status

record source_status =
  src_name :: string
  src_active :: bool
  src_freshness :: freshness

record validation =
  v_accepted :: bool
  v_lease_valid :: bool
  v_runtime_allowed :: bool
  v_telemetry_fresh :: bool
  v_requires_confirmation :: bool
  v_risk_level :: "risk option"
  v_blocking_reasons :: "string list"
  v_confirmation_reasons :: "string list"
  v_plan_fingerprint :: "string option"
  v_critical_sources :: "string list"

type_synonym dict = "(string \<times> json) list"

record command_record =
  command_id :: string
  session_id :: string
  operator_id :: string
  raw_text :: string
  lifecycle_state :: lifecycle
  summary_label :: string
  cmd_mode :: runtime_mode
  created_at :: int
  kind :: command_kind
  intent_source :: string
  correlation_id :: string
  planner_used :: "string option"
  frame_used :: "string option"
  risk_level :: "risk option"
  plan_fingerprint :: "string option"
  reject_reason :: "string option"
  structured_intent :: "dict option"
  parsed_intent :: "dict option"
  validation_result :: "validation option"
  confirmation_expires_at :: "int option"
  confirm_at :: "int option"
  execute_at :: "int option"
  execution_result :: "dict option"
  final_state :: "lifecycle option"
  parent_sequence_id :: "string option"
  sequence_step_index :: "nat option"
  sequence_step_count :: "nat option"
  current_step_index :: "nat option"
  sequence_diagnostics :: "string list"
  child_command_ids :: "string list"
  manual_recovery_required :: bool
  pipeline_traces :: "json list"

record chat_message =
  message_id :: string
  msg_command_id :: string
  origin :: string
  msg_text :: string
  msg_tag :: "string option"
  msg_source :: string

record console_event =
  stage_name :: string
  ev_session :: "string option"
  ev_operator :: "string option"

datatype audit_entry =
    Upsert command_record
  | Transition string "lifecycle option" lifecycle system_state string
  | RuntimeEvent system_state string string "string option" string

datatype broadcast = CommandLifecycle string | SequenceLifecycle string | ReplayUpdated | LeaseState

text \<open>The arguments of \<open>ros.confirm_command\<close>.\<close>

record dispatch =
  d_command_id :: string
  d_plan_fingerprint :: string
  d_operator_id :: string
  d_session_id :: string
  d_lease_id :: string
  d_correlation_id :: string
  d_parsed_intent :: "dict option"
  d_requested_mode :: string

datatype hmi_exn =
    ForbiddenActionError string
  | NotFoundError string
  | ConflictError string
  | InvalidTransition lifecycle lifecycle
  | AdapterError string
  | PyRaise py_exn
  | MissingKey string

text \<open>What the intent parser makes of a multi-step request (\<open>_prepare_sequence_request\<close>,
  \<open>_parse_sequence_steps\<close>); of the route metadata, what a label shows.\<close>

record prepared_sequence =
  ps_steps :: "dict list option"
  ps_diagnostics :: "string list"
  ps_error :: "string option"
  ps_macro :: json
  ps_shape_type :: json
  ps_text :: json
  ps_intent :: "dict option"

text \<open>The environment: clock, identifiers, the ROS adapter (an answer per tick; a JSON value that
  is not a dict stands for a missing method or an invalid answer), and four functions the
  supervisor only calls: the intent parser (\<open>Intent_Parsing\<close>) and the sequence preparation
  (\<open>Sequence_Preparation\<close>), the SHA-256 fingerprint of the sorted JSON text, and \<open>json.loads\<close>.\<close>

record hmi_env =
  env_now :: "nat \<Rightarrow> int"
  env_uuid :: "nat \<Rightarrow> string"
  env_runtime :: "nat \<Rightarrow> runtime_snapshot"
  env_sources :: "nat \<Rightarrow> source_status list"
  env_preflight :: "nat \<Rightarrow> runtime_mode \<Rightarrow> json"
  env_confirm :: "nat \<Rightarrow> dispatch \<Rightarrow> hmi_exn + dict"
  env_abort :: "nat \<Rightarrow> string \<Rightarrow> bool \<times> string"
  env_pose :: "nat \<Rightarrow> string \<Rightarrow> json"
  env_servo :: "nat \<Rightarrow> string \<Rightarrow> json"
  env_joints :: "nat \<Rightarrow> hmi_exn + pyfloat option list"
  env_review :: "(nat \<Rightarrow> string \<Rightarrow> string \<Rightarrow> string \<Rightarrow> string \<Rightarrow> string \<Rightarrow> string + json) option"
  env_fingerprint :: "dict list \<Rightarrow> string \<Rightarrow> string \<Rightarrow> string"
  env_parse_intent :: "nat \<Rightarrow> string \<Rightarrow> dict option \<Rightarrow> runtime_mode \<Rightarrow> string + dict"
  env_prepare_sequence :: "nat \<Rightarrow> string \<Rightarrow> dict \<Rightarrow> runtime_mode \<Rightarrow> prepared_sequence option"
  env_parse_steps :: "nat \<Rightarrow> string \<Rightarrow> dict \<Rightarrow> runtime_mode \<Rightarrow> prepared_sequence"
  env_json_loads :: "string \<Rightarrow> json option"
  confirmation_window :: int
  sim_auto_confirm :: bool

record supervisor =
  commands :: "(string \<times> command_record) list"
  active_command_id :: "string option"
  active_sequence_id :: "string option"
  messages :: "chat_message list"
  console_events :: "console_event list"
  session_lock_state :: session_lock
  telemetry_bound :: bool
  audit :: "audit_entry list"
  dispatched :: "dispatch list"
  aborted :: "string list"
  servo_calls :: "string list"
  broadcasts :: "broadcast list"
  tick :: nat

type_synonym 'a sup = "(hmi_exn, supervisor, 'a) eff"

definition supervisor_init :: "int \<Rightarrow> supervisor" where
  "supervisor_init ttl_seconds =
     \<lparr>commands = [], active_command_id = None, active_sequence_id = None, messages = [],
      console_events = [], session_lock_state = session_lock_init ttl_seconds,
      telemetry_bound = False, audit = [], dispatched = [], aborted = [], servo_calls = [],
      broadcasts = [], tick = 0\<rparr>"

subsection \<open>Readings and logs\<close>

text \<open>\<open>d.get(k, dflt)\<close>, \<open>str(v or "")\<close>, and an exception of a pure part.\<close>

definition get_or :: "dict \<Rightarrow> string \<Rightarrow> json \<Rightarrow> json" where
  "get_or d k dflt = (case dget d k of None \<Rightarrow> dflt | Some v \<Rightarrow> v)"

definition str_of :: "json \<Rightarrow> string" where
  "str_of v = (if truthy v then to_str v else [])"

definition raise_py :: "py_exn + 'a \<Rightarrow> hmi_exn + 'a" where
  "raise_py r = (case r of Inl e \<Rightarrow> Inl (PyRaise e) | Inr x \<Rightarrow> Inr x)"

definition ask :: "(nat \<Rightarrow> 'a) \<Rightarrow> 'a sup" where
  "ask f s = (Inr (f (tick s)), s\<lparr>tick := Suc (tick s)\<rparr>)"

definition ask_try :: "(nat \<Rightarrow> hmi_exn + 'a) \<Rightarrow> 'a sup" where
  "ask_try f s = (f (tick s), s\<lparr>tick := Suc (tick s)\<rparr>)"

definition find_command :: "string \<Rightarrow> command_record sup" where
  "find_command cid s = (case map_of (commands s) cid of
     None \<Rightarrow> (Inl (MissingKey cid), s) | Some c \<Rightarrow> (Inr c, s))"

definition update_command :: "string \<Rightarrow> (command_record \<Rightarrow> command_record) \<Rightarrow> unit sup" where
  "update_command cid f = modify (\<lambda>s. s\<lparr>commands := dict_map_at cid f (commands s)\<rparr>)"

definition store_command :: "command_record \<Rightarrow> unit sup" where
  "store_command c = modify (\<lambda>s. s\<lparr>commands := dict_set (command_id c) c (commands s)\<rparr>)"

definition set_active :: "string option \<Rightarrow> string option \<Rightarrow> unit sup" where
  "set_active c q = modify (\<lambda>s. s\<lparr>active_command_id := c, active_sequence_id := q\<rparr>)"

definition log_audit :: "audit_entry \<Rightarrow> unit sup" where
  "log_audit a = modify (\<lambda>s. s\<lparr>audit := audit s @ [a]\<rparr>)"

definition upsert_command :: "string \<Rightarrow> unit sup" where
  "upsert_command cid = bnd (find_command cid) (\<lambda>c. log_audit (Upsert c))"

definition record_transition ::
  "string \<Rightarrow> lifecycle option \<Rightarrow> lifecycle \<Rightarrow> system_state \<Rightarrow> string \<Rightarrow> unit sup" where
  "record_transition cid from_state to_state rs why =
     log_audit (Transition cid from_state to_state rs why)"

definition record_runtime_event ::
  "system_state \<Rightarrow> string \<Rightarrow> string \<Rightarrow> string option \<Rightarrow> string \<Rightarrow> unit sup" where
  "record_runtime_event rs sid oid cid text = log_audit (RuntimeEvent rs sid oid cid text)"

definition broadcast_event :: "broadcast \<Rightarrow> unit sup" where
  "broadcast_event b = bnd (gets telemetry_bound) (\<lambda>bound.
     when_do bound (modify (\<lambda>s. s\<lparr>broadcasts := broadcasts s @ [b]\<rparr>)))"

definition broadcast_replay_update :: "unit sup" where
  "broadcast_replay_update = broadcast_event ReplayUpdated"

definition broadcast_lease_state :: "unit sup" where
  "broadcast_lease_state = broadcast_event LeaseState"

text \<open>\<open>_emit_command_event\<close> and \<open>_emit_sequence_event\<close>: the event, then the replay list.\<close>

definition emit_command_event :: "string \<Rightarrow> unit sup" where
  "emit_command_event cid =
     andthen (broadcast_event (CommandLifecycle cid)) broadcast_replay_update"

definition emit_sequence_event :: "string \<Rightarrow> unit sup" where
  "emit_sequence_event cid =
     andthen (broadcast_event (SequenceLifecycle cid)) broadcast_replay_update"

definition append_message ::
  "hmi_env \<Rightarrow> string \<Rightarrow> string \<Rightarrow> string \<Rightarrow> string option \<Rightarrow> string \<Rightarrow> unit sup" where
  "append_message E from text cid tag src = bnd (ask (env_uuid E)) (\<lambda>i.
     modify (\<lambda>s. s\<lparr>messages := deque_append 200
       \<lparr>message_id = i, msg_command_id = cid, origin = from, msg_text = text, msg_tag = tag,
        msg_source = src\<rparr> (messages s)\<rparr>))"

text \<open>\<open>_trace\<close>: the console event, attributed to the session and operator it names or else to
  those of its command.  Rendered fields and the log line are left out.\<close>

definition trace :: "string \<Rightarrow> string option \<Rightarrow> string option \<Rightarrow> string option \<Rightarrow> unit sup" where
  "trace stg cid sid oid = modify (\<lambda>s.
     let rec = (case cid of None \<Rightarrow> None | Some c \<Rightarrow> map_of (commands s) c);
         either = (\<lambda>v f. case v of Some x \<Rightarrow> Some x | None \<Rightarrow> map_option f rec) in
     s\<lparr>console_events := deque_append 100
       \<lparr>stage_name = stg, ev_session = either sid session_id, ev_operator = either oid operator_id\<rparr>
       (console_events s)\<rparr>)"

definition trace_command :: "string \<Rightarrow> string \<Rightarrow> unit sup" where
  "trace_command stg cid = trace stg (Some cid) None None"

subsection \<open>Transitions\<close>

definition ensure_command_transition :: "lifecycle \<Rightarrow> lifecycle \<Rightarrow> unit sup" where
  "ensure_command_transition previous next_state =
     guard (allowed previous next_state) (InvalidTransition previous next_state)"

fun source_from_lifecycle_tag :: "string option \<Rightarrow> string" where
  "source_from_lifecycle_tag None = ''supervisor''"
| "source_from_lifecycle_tag (Some tag) =
     (let t = lower tag in
      if t \<in> {''validating'', ''validated'', ''needs_confirmation''} then ''safety''
      else if t \<in> {''executing'', ''execution_requested''} then ''motion_core''
      else if t \<in> {''succeeded'', ''failed''} then ''hw_adapter''
      else ''supervisor'')"

text \<open>The body \<open>_transition_command\<close> and \<open>_transition_top_level_record\<close> share: check, change,
  audit, and the message with its tag if there is one.  They differ in the event they emit.\<close>

definition transition_record ::
  "hmi_env \<Rightarrow> string \<Rightarrow> lifecycle \<Rightarrow> string \<Rightarrow> system_state \<Rightarrow> (string \<times> lifecycle) option \<Rightarrow> unit sup"
where
  "transition_record E cid next_state why rs message =
     bnd (find_command cid) (\<lambda>c. block
       [ensure_command_transition (lifecycle_state c) next_state,
        update_command cid (\<lambda>c. c\<lparr>lifecycle_state := next_state\<rparr>),
        upsert_command cid,
        record_transition cid (Some (lifecycle_state c)) next_state rs why,
        (case message of
           None \<Rightarrow> ret ()
         | Some (text, tag) \<Rightarrow>
             append_message E ''system'' text cid (Some (lifecycle_value tag))
               (source_from_lifecycle_tag (Some (lifecycle_value tag))))])"

definition transition_command ::
  "hmi_env \<Rightarrow> string \<Rightarrow> lifecycle \<Rightarrow> string \<Rightarrow> system_state \<Rightarrow> (string \<times> lifecycle) option \<Rightarrow> unit sup"
where
  "transition_command E cid next_state why rs message =
     andthen (transition_record E cid next_state why rs message) (emit_command_event cid)"

definition transition_top_level_record ::
  "hmi_env \<Rightarrow> string \<Rightarrow> lifecycle \<Rightarrow> string \<Rightarrow> system_state \<Rightarrow> (string \<times> lifecycle) option \<Rightarrow> unit sup"
where
  "transition_top_level_record E cid next_state why rs message =
     andthen (transition_record E cid next_state why rs message)
     (bnd (find_command cid) (\<lambda>c.
        if kind c = SEQUENCE then emit_sequence_event cid else emit_command_event cid))"

end
