(* ===== verification/Supervisor_Validation.thy ===== *)
theory Supervisor_Validation
  imports Supervisor_State
begin

section \<open>Validation of a command against the runtime\<close>

text \<open>
  \<open>hmi/backend/services/supervisor_validation.py\<close> and \<open>_validate_sequence\<close> of
  \<open>supervisor_lifecycle.py\<close>: the reasons that block a parsed command or sequence, its risk level
  and its plan fingerprint.  The views of telemetry sources, hardware gate and preflight that the
  result carries for display are reduced to the names of the critical sources.
\<close>

subsection \<open>Which sources matter\<close>

definition event_driven_source_names :: "string list" where
  "event_driven_source_names = [''llm_debug'', ''llm_command'', ''review_intent_service'']"

definition post_parse_info_only_source_names :: "string list" where
  "post_parse_info_only_source_names = [''gateway_status'', ''supervisor_alerts'']"

definition execution_boundary_source_names :: "string list" where
  "execution_boundary_source_names = [''validate_command_service'', ''execute_motion_action'']"

definition nonblocking_source_names :: "bool \<Rightarrow> string list" where
  "nonblocking_source_names enforce =
     event_driven_source_names @ post_parse_info_only_source_names
     @ (if enforce then [] else execution_boundary_source_names)"

definition filtered_preflight_reasons :: "string list \<Rightarrow> bool \<Rightarrow> string list" where
  "filtered_preflight_reasons reasons enforce =
     (if enforce then reasons
      else filter (\<lambda>text. \<not> (\<exists>n \<in> set (post_parse_info_only_source_names
                                  @ execution_boundary_source_names). is_infix n text)) reasons)"

subsection \<open>Preflight\<close>

record preflight =
  pf_accepted :: bool
  pf_reasons :: "string list"

text \<open>\<open>_execution_preflight\<close>: an answer of the adapter that is not a dict counts as accepted (as
  does an adapter without an evaluator); one without \<open>accepted\<close> as refused.\<close>

definition execution_preflight :: "hmi_env \<Rightarrow> runtime_mode \<Rightarrow> preflight sup" where
  "execution_preflight E m = bnd (ask (\<lambda>t. env_preflight E t m)) (\<lambda>payload.
     ret (case payload of
        JObj d \<Rightarrow>
          \<lparr>pf_accepted = truthy (get_or d ''accepted'' (JBool False)),
           pf_reasons = (let rs = get_or d ''reasons'' JNull in
             if \<not> truthy rs then []
             else case rs of JList xs \<Rightarrow> map to_str xs | v \<Rightarrow> [to_str v])\<rparr>
      | _ \<Rightarrow> \<lparr>pf_accepted = True, pf_reasons = []\<rparr>))"

subsection \<open>Risk\<close>

text \<open>\<open>math.radians(5.0)\<close> and \<open>math.radians(20.0)\<close>, as the shortest decimals of the floats.\<close>

definition radians_5 :: pyfloat where
  "radians_5 = Fin (8726646259971647 / 10 ^ 17)"

definition radians_20 :: pyfloat where
  "radians_20 = Fin (3490658503988659 / 10 ^ 16)"

definition fabs :: "pyfloat \<Rightarrow> pyfloat" where
  "fabs x = (if fle x (Fin 0) then fneg x else x)"

definition float_param :: "dict \<Rightarrow> string \<Rightarrow> py_exn + pyfloat" where
  "float_param d k = (case dget d k of None \<Rightarrow> Inr (Fin 0) | Some v \<Rightarrow> to_float v)"

text \<open>\<open>math.sqrt(s) <= b\<close>; with NaN the comparison is false.\<close>

definition sqrt_le :: "pyfloat \<Rightarrow> pyfloat \<Rightarrow> bool" where
  "sqrt_le s b \<longleftrightarrow> s \<noteq> NaN \<and> \<not> sqrt_gt s b"

definition action_of :: "dict \<Rightarrow> string" where
  "action_of p = upper (str_of (get_or p ''action'' JNull))"

definition params_of :: "dict \<Rightarrow> json" where
  "params_of p =
     (let n = get_or p ''normalizedCommand'' JNull; q = get_or p ''parameters'' JNull in
      if truthy n then n else if truthy q then q else JObj [])"

definition low_risk_actions :: "string list" where
  "low_risk_actions = [''STOP'', ''WAIT'', ''GET_POSE'', ''ALARM_RESET'', ''IO_SET'', ''SET_SPEED'']"

definition risk_of_action :: "string \<Rightarrow> dict \<Rightarrow> py_exn + risk" where
  "risk_of_action action d =
     (if action = ''MOVE_JOINT''
      then ebind (float_param d ''joint_angle'') (\<lambda>a.
        let m = fabs a in
        Inr (if fle m radians_5 then LOW else if fle m radians_20 then MEDIUM else HIGH))
      else if action = ''MOVE_JOINTS'' then Inr HIGH
      else if action = ''MOVE_REL''
      then ebind (float_param d ''delta_x'') (\<lambda>x.
        ebind (float_param d ''delta_y'') (\<lambda>y.
        ebind (float_param d ''delta_z'') (\<lambda>z.
        let s = fadd (fadd (fmul x x) (fmul y y)) (fmul z z) in
        Inr (if sqrt_le s (Fin (2 / 100)) then MEDIUM
             else if sqrt_le s (Fin (10 / 100)) then HIGH else CRITICAL))))
      else if action \<in> {''PTP'', ''LIN'', ''CIRC'', ''CARTESIAN_PATH''}
      then ebind (float_param d ''velocity_scale'') (\<lambda>v.
        Inr (if fle v (Fin (3 / 100)) then MEDIUM else HIGH))
      else Inr HIGH)"

definition assess_risk :: "dict option \<Rightarrow> py_exn + risk option" where
  "assess_risk p =
     (case p of
        None \<Rightarrow> Inr None
      | Some d \<Rightarrow>
          (if action_of d \<in> set low_risk_actions then Inr (Some LOW)
           else if action_of d = ''HOME'' then Inr (Some MEDIUM)
           else case params_of d of
             JObj q \<Rightarrow> ebind (risk_of_action (action_of d) q) (\<lambda>r. Inr (Some r))
           | _ \<Rightarrow> (if action_of d \<in> {''MOVE_JOINT'', ''MOVE_REL'', ''PTP'', ''LIN'', ''CIRC'', ''CARTESIAN_PATH''}
                   then Inl AttributeError else Inr (Some HIGH))))"

subsection \<open>The blocking reasons\<close>

definition mode_reasons :: "runtime_snapshot \<Rightarrow> runtime_mode \<Rightarrow> string list" where
  "mode_reasons rt m =
     (if m \<notin> {SIM, HARDWARE}
      then [''runtime mode '' @ mode_value m @ '' is not command-capable for HMI v2.''] else [])
     @ (if rt_mode rt \<noteq> m
        then [''requested mode '' @ mode_value m @ '' does not match runtime mode ''
              @ mode_value (rt_mode rt) @ ''.''] else [])
     @ (if is_blocking_runtime_state (rt_system_state rt)
        then [''runtime state '' @ system_state_value (rt_system_state rt)
              @ '' is hard-blocking for command-capable actions''] else [])"

definition stale_sources :: "source_status list \<Rightarrow> string list \<Rightarrow> string list" where
  "stale_sources sources nonblocking =
     map src_name (filter (\<lambda>x. src_active x \<and> src_name x \<notin> set nonblocking \<and> src_freshness x \<noteq> FRESH)
       sources)"

definition stale_reason :: "string list \<Rightarrow> string list" where
  "stale_reason stale =
     (if stale \<noteq> []
      then [''freshness-critical telemetry is stale or unavailable: '' @ join '', '' stale] else [])"

definition blocking_reasons ::
  "dict option \<Rightarrow> runtime_snapshot \<Rightarrow> runtime_mode \<Rightarrow> string list \<Rightarrow> preflight \<Rightarrow> bool \<Rightarrow> string list"
where
  "blocking_reasons p rt m stale pf enforce =
     (if p = None then [''parsed intent is unavailable''] else [])
     @ mode_reasons rt m @ stale_reason stale
     @ (if pf_accepted pf then [] else filtered_preflight_reasons (pf_reasons pf) enforce)"

definition motion_actions :: "string list" where
  "motion_actions = [''MOVE_REL'', ''MOVE_JOINT'', ''MOVE_JOINTS'', ''PTP'', ''LIN'', ''CIRC'',
     ''CARTESIAN_PATH'', ''BLENDED_SEQUENCE'']"

definition confirmation_reasons_of :: "risk option \<Rightarrow> dict option \<Rightarrow> string list" where
  "confirmation_reasons_of r p =
     ''HMI v2 requires explicit operator confirmation before a validated plan may cross the execution boundary.''
     # (case r of
          Some l \<Rightarrow> (if l \<in> {HIGH, CRITICAL}
            then [''Risk assessment is '' @ risk_value l
                  @ ''; high-risk actions must stay behind confirmation.''] else [])
        | None \<Rightarrow> [])
     @ (case p of
          Some d \<Rightarrow> (if upper (to_str (get_or d ''action'' JNull)) \<in> set motion_actions
            then [''Motion primitives always require explicit confirmation in v2.''] else [])
        | None \<Rightarrow> [])"

definition validate_command ::
  "hmi_env \<Rightarrow> runtime_snapshot \<Rightarrow> lease_record \<Rightarrow> dict option \<Rightarrow> runtime_mode \<Rightarrow> bool \<Rightarrow> validation sup"
where
  "validate_command E rt l p m enforce =
     bnd (ask (env_sources E)) (\<lambda>sources.
     bnd (execution_preflight E m) (\<lambda>pf.
     let quiet = nonblocking_source_names enforce;
         stale = stale_sources sources quiet;
         blocking = blocking_reasons p rt m stale pf enforce in
     bnd (lift (raise_py (assess_risk p))) (\<lambda>r.
     ret \<lparr>v_accepted = (blocking = []), v_lease_valid = True,
          v_runtime_allowed = (\<not> is_blocking_runtime_state (rt_system_state rt)),
          v_telemetry_fresh = (stale = []), v_requires_confirmation = True, v_risk_level = r,
          v_blocking_reasons = ordered_unique blocking,
          v_confirmation_reasons = confirmation_reasons_of r p,
          v_plan_fingerprint = (case p of
             Some d \<Rightarrow> (if blocking = [] then Some (env_fingerprint E [d] (lease_id l) (mode_value m))
                        else None)
           | None \<Rightarrow> None),
          v_critical_sources = map src_name
            (filter (\<lambda>x. src_active x \<and> src_name x \<notin> set quiet) sources)\<rparr>)))"

text \<open>\<open>_build_validation_result\<close>, for a command refused before its validation.  The preflight of
  the runtime's own mode is still read for display.\<close>

definition build_validation_result ::
  "hmi_env \<Rightarrow> runtime_snapshot \<Rightarrow> string list \<Rightarrow> validation sup" where
  "build_validation_result E rt reasons =
     bnd (execution_preflight E (rt_mode rt)) (\<lambda>_.
     ret \<lparr>v_accepted = (reasons = []), v_lease_valid = True,
          v_runtime_allowed = (\<not> is_blocking_runtime_state (rt_system_state rt)),
          v_telemetry_fresh = False, v_requires_confirmation = False, v_risk_level = None,
          v_blocking_reasons = ordered_unique reasons, v_confirmation_reasons = [],
          v_plan_fingerprint = None, v_critical_sources = []\<rparr>)"

subsection \<open>Validation of a sequence\<close>

fun risk_order :: "risk \<Rightarrow> nat" where
  "risk_order LOW = 0"
| "risk_order MEDIUM = 1"
| "risk_order HIGH = 2"
| "risk_order CRITICAL = 3"

text \<open>The highest risk of the steps, the first of the highest.\<close>

fun highest_risk :: "risk option \<Rightarrow> dict list \<Rightarrow> py_exn + risk option" where
  "highest_risk r [] = Inr r"
| "highest_risk r (p # ps) =
     ebind (assess_risk (Some p)) (\<lambda>x. highest_risk
       (case (x, r) of
          (None, _) \<Rightarrow> r
        | (Some n, None) \<Rightarrow> Some n
        | (Some n, Some k) \<Rightarrow> if risk_order k < risk_order n then Some n else r) ps)"

definition validate_sequence ::
  "hmi_env \<Rightarrow> runtime_snapshot \<Rightarrow> lease_record \<Rightarrow> dict list \<Rightarrow> runtime_mode \<Rightarrow> string list \<Rightarrow> validation sup"
where
  "validate_sequence E rt l steps m diagnostics =
     bnd (ask (env_sources E)) (\<lambda>sources.
     bnd (execution_preflight E m) (\<lambda>pf.
     let quiet = event_driven_source_names;
         stale = stale_sources sources quiet;
         blocking = mode_reasons rt m @ stale_reason stale
           @ (if pf_accepted pf then [] else pf_reasons pf) in
     bnd (lift (raise_py (highest_risk None steps))) (\<lambda>r.
     ret \<lparr>v_accepted = (blocking = []), v_lease_valid = True,
          v_runtime_allowed = (\<not> is_blocking_runtime_state (rt_system_state rt)),
          v_telemetry_fresh = (stale = []), v_requires_confirmation = True, v_risk_level = r,
          v_blocking_reasons = ordered_unique blocking,
          v_confirmation_reasons = ordered_unique
            (''HMI v2 requires explicit operator confirmation before a validated sequence may cross the execution boundary.''
             # (case r of
                  Some x \<Rightarrow> (if x \<in> {HIGH, CRITICAL}
                    then [''Sequence risk assessment is '' @ risk_value x
                          @ ''; high-risk sequences must stay behind confirmation.''] else [])
                | None \<Rightarrow> [])
             @ [''Sequence contains '' @ str_nat (length steps) @ '' ordered steps.''] @ diagnostics),
          v_plan_fingerprint =
            (if blocking = [] then Some (env_fingerprint E steps (lease_id l) (mode_value m)) else None),
          v_critical_sources = map src_name
            (filter (\<lambda>x. src_active x \<and> src_name x \<notin> set quiet) sources)\<rparr>)))"

end
