(* ===== verification/Supervisor_Execution.thy ===== *)
theory Supervisor_Execution
  imports Supervisor_Validation
begin

section \<open>Expiry, responses and the execution of a confirmed command\<close>

text \<open>
  \<open>_expire_pending_confirmations\<close>, \<open>_reject_command\<close> and their record variants
  (\<open>supervisor_lifecycle.py\<close>), the response builders with the snapshot they take
  (\<open>supervisor_views.py\<close>, \<open>snapshot_overlay\<close>), and \<open>supervisor_execution.py\<close>: the confirmation
  gate, the hand-off of a confirmed command to the ROS adapter, and the pose query.
\<close>

definition utcnow :: "hmi_env \<Rightarrow> int sup" where
  "utcnow E = ask (env_now E)"

definition current_runtime :: "hmi_env \<Rightarrow> runtime_snapshot sup" where
  "current_runtime E = ask (env_runtime E)"

definition run_lock :: "(lease_exn \<Rightarrow> hmi_exn) \<Rightarrow> 'a lock_eff \<Rightarrow> 'a sup" where
  "run_lock conv m s = (case m (session_lock_state s) of
     (Inl e, l) \<Rightarrow> (Inl (conv e), s\<lparr>session_lock_state := l\<rparr>)
   | (Inr x, l) \<Rightarrow> (Inr x, s\<lparr>session_lock_state := l\<rparr>))"

fun lease_text :: "lease_exn \<Rightarrow> string" where
  "lease_text (LeaseRejectedError t) = t"
| "lease_text (LeaseNotOwnedError t) = t"

definition result_text :: "string \<Rightarrow> string" where
  "result_text t = ''Step 6/6 RESULT: '' @ t"

subsection \<open>Expiry\<close>

definition expire_record ::
  "(hmi_env \<Rightarrow> string \<Rightarrow> lifecycle \<Rightarrow> string \<Rightarrow> system_state \<Rightarrow> (string \<times> lifecycle) option \<Rightarrow> unit sup)
    \<Rightarrow> unit sup \<Rightarrow> hmi_env \<Rightarrow> string \<Rightarrow> string \<Rightarrow> unit sup" where
  "expire_record transition traced E cid why =
     bnd (current_runtime E) (\<lambda>rt. block
       [update_command cid (\<lambda>c. c\<lparr>final_state := Some EXPIRED, reject_reason := Some why\<rparr>),
        transition E cid EXPIRED why (rt_system_state rt) (Some (result_text (why @ ''.''), EXPIRED)),
        traced, upsert_command cid, broadcast_replay_update])"

definition expire_command :: "hmi_env \<Rightarrow> string \<Rightarrow> string \<Rightarrow> unit sup" where
  "expire_command E cid why =
     expire_record transition_command (trace_command ''terminal.expired'' cid) E cid why"

definition expire_top_level_record :: "hmi_env \<Rightarrow> string \<Rightarrow> string \<Rightarrow> unit sup" where
  "expire_top_level_record E cid why = expire_record transition_top_level_record (ret ()) E cid why"

definition expired_at :: "int \<Rightarrow> command_record \<Rightarrow> bool" where
  "expired_at now c \<longleftrightarrow> lifecycle_state c = NEEDS_CONFIRMATION \<and> parent_sequence_id c = None \<and>
     (case confirmation_expires_at c of None \<Rightarrow> False | Some t \<Rightarrow> t \<le> now)"

definition expire_pending_confirmations :: "hmi_env \<Rightarrow> unit sup" where
  "expire_pending_confirmations E =
     bnd (utcnow E) (\<lambda>now.
     bnd (gets (\<lambda>s. filter (expired_at now) (map snd (commands s)))) (\<lambda>expiring.
     for_each expiring (\<lambda>c.
       if kind c = SEQUENCE
       then expire_top_level_record E (command_id c) ''confirmation window expired''
       else expire_command E (command_id c) ''confirmation window expired'')))"

subsection \<open>Responses\<close>

record response =
  rsp_accepted :: bool
  rsp_kind :: command_kind
  rsp_reason :: "string option"
  rsp_record :: "command_record option"

text \<open>\<open>snapshot_overlay\<close>: taking the snapshot of the session expires what has timed out and reads
  the lease.  The rest of it only serialises.\<close>

definition snapshot_overlay :: "hmi_env \<Rightarrow> unit sup" where
  "snapshot_overlay E =
     andthen (expire_pending_confirmations E)
     (bnd (utcnow E) (\<lambda>now.
      andthen (run_lock (\<lambda>e. ForbiddenActionError (lease_text e)) (current_controller now)) (ret ())))"

definition get_snapshot :: "hmi_env \<Rightarrow> unit sup" where
  "get_snapshot E = bnd (gets telemetry_bound) (\<lambda>bound. when_do bound (snapshot_overlay E))"

definition command_response ::
  "hmi_env \<Rightarrow> string \<Rightarrow> bool \<Rightarrow> string option \<Rightarrow> response sup" where
  "command_response E cid accepted why =
     andthen (get_snapshot E) (bnd (find_command cid) (\<lambda>c.
       ret \<lparr>rsp_accepted = accepted, rsp_kind = COMMAND, rsp_reason = why, rsp_record = Some c\<rparr>))"

definition sequence_response ::
  "hmi_env \<Rightarrow> string \<Rightarrow> bool \<Rightarrow> string option \<Rightarrow> response sup" where
  "sequence_response E cid accepted why =
     andthen (get_snapshot E) (bnd (find_command cid) (\<lambda>c.
       ret \<lparr>rsp_accepted = accepted, rsp_kind = SEQUENCE, rsp_reason = why, rsp_record = Some c\<rparr>))"

subsection \<open>Rejection\<close>

definition reject_record ::
  "(hmi_env \<Rightarrow> string \<Rightarrow> lifecycle \<Rightarrow> string \<Rightarrow> system_state \<Rightarrow> (string \<times> lifecycle) option \<Rightarrow> unit sup)
    \<Rightarrow> unit sup \<Rightarrow> (command_kind \<Rightarrow> string) \<Rightarrow> hmi_env \<Rightarrow> string \<Rightarrow> string \<Rightarrow> system_state \<Rightarrow> string
    \<Rightarrow> string \<Rightarrow> unit sup" where
  "reject_record transition traced text E cid why rs sid oid = block
     [update_command cid (\<lambda>c. c\<lparr>final_state := Some REJECTED, reject_reason := Some why\<rparr>),
      transition E cid REJECTED why rs (Some (result_text why, REJECTED)),
      traced, upsert_command cid,
      bnd (find_command cid) (\<lambda>c. record_runtime_event rs sid oid (Some cid) (text (kind c))),
      broadcast_replay_update]"

definition reject_command ::
  "hmi_env \<Rightarrow> string \<Rightarrow> string \<Rightarrow> system_state \<Rightarrow> string \<Rightarrow> string \<Rightarrow> unit sup" where
  "reject_command E cid why rs sid oid =
     reject_record transition_command (trace_command ''terminal.rejected'' cid)
       (\<lambda>_. ''command rejected'') E cid why rs sid oid"

definition reject_top_level_record ::
  "hmi_env \<Rightarrow> string \<Rightarrow> string \<Rightarrow> system_state \<Rightarrow> string \<Rightarrow> string \<Rightarrow> unit sup" where
  "reject_top_level_record E cid why rs sid oid =
     reject_record transition_top_level_record (ret ())
       (\<lambda>k. if k = SEQUENCE then ''sequence rejected'' else ''command rejected'') E cid why rs sid oid"

subsection \<open>The pose query\<close>

definition normalized_command :: "command_record \<Rightarrow> json" where
  "normalized_command c = (case parsed_intent c of
     None \<Rightarrow> JObj []
   | Some p \<Rightarrow> (let n = get_or p ''normalizedCommand'' JNull in if truthy n then n else JObj []))"

definition is_get_pose_command :: "command_record \<Rightarrow> hmi_exn + bool" where
  "is_get_pose_command c =
     ebind (raise_py (jget (normalized_command c) ''primitive_type'' JNull)) (\<lambda>prim.
     let act = get_or (case parsed_intent c of None \<Rightarrow> [] | Some p \<Rightarrow> p) ''action'' JNull in
     Inr (upper (if truthy prim then to_str prim else str_of act) = ''GET_POSE''))"

definition query_result :: "bool \<Rightarrow> string \<Rightarrow> string \<Rightarrow> (string \<times> json) list \<Rightarrow> dict" where
  "query_result ok summary frame extra =
     [(''accepted'', JBool ok), (''adapter'', JStr ''workspace_ros_adapter''),
      (''status'', JStr (if ok then ''succeeded'' else ''failed'')), (''summary'', JStr summary),
      (''dispatchedToRos'', JBool False), (''queryOnly'', JBool True),
      (''referenceFrame'', JStr frame)] @ extra"

definition float_key :: "json \<Rightarrow> string \<Rightarrow> pyfloat \<Rightarrow> py_exn + pyfloat" where
  "float_key v k dflt = ebind (jget v k (JFloat dflt)) to_float"

text \<open>The pose in millimetres, and the text of the result (a float stands for its digits).\<close>

definition pose_result :: "json \<Rightarrow> string \<Rightarrow> py_exn + dict" where
  "pose_result pose frame =
     (let part = (\<lambda>k. case pose of JObj d \<Rightarrow> get_or d k (JObj []) | _ \<Rightarrow> JObj []);
          pos = part ''position''; ori = part ''orientation'';
          mm = (\<lambda>v. JFloat (fmul v (Fin 1000))) in
      ebind (float_key pos ''x'' (Fin 0)) (\<lambda>x.
      ebind (float_key pos ''y'' (Fin 0)) (\<lambda>y.
      ebind (float_key pos ''z'' (Fin 0)) (\<lambda>z.
      ebind (float_key ori ''x'' (Fin 0)) (\<lambda>qx.
      ebind (float_key ori ''y'' (Fin 0)) (\<lambda>qy.
      ebind (float_key ori ''z'' (Fin 0)) (\<lambda>qz.
      ebind (float_key ori ''w'' (Fin 1)) (\<lambda>qw.
      Inr (query_result True
        (''GET_POSE result: x='' @ to_str (mm x) @ '' mm, y='' @ to_str (mm y) @ '' mm, z=''
           @ to_str (mm z) @ '' mm in '' @ frame @ ''.'')
        frame
        [(''pose'', pose),
         (''poseMm'', JObj
           [(''position'', JObj [(''x'', mm x), (''y'', mm y), (''z'', mm z)]),
            (''orientation'', JObj [(''x'', JFloat qx), (''y'', JFloat qy), (''z'', JFloat qz),
               (''w'', JFloat qw)])])]))))))))) "

definition finish_query ::
  "hmi_env \<Rightarrow> string \<Rightarrow> string \<Rightarrow> string \<Rightarrow> system_state \<Rightarrow> dict \<Rightarrow> response sup" where
  "finish_query E cid sid oid rs result =
     (let ok = is_str (get_or result ''status'' JNull) ''succeeded'';
          summary = to_str (get_or result ''summary'' JNull);
          final = (if ok then SUCCEEDED else FAILED) in
      andthen (block
        [update_command cid (\<lambda>c. c\<lparr>execution_result := Some result\<rparr>),
         record_runtime_event rs sid oid (Some cid) ''pose query response recorded'',
         trace_command ''query.get_pose.response'' cid,
         bnd (find_command cid) (\<lambda>c. when_do (lifecycle_state c \<noteq> VALIDATING)
           (transition_command E cid EXECUTING
              ''supervisor queried current pose via dedicated ROS service'' rs
              (Some (''Step 5/6 QUERYING: current TCP pose requested from /get_current_pose.'',
                     EXECUTING)))),
         update_command cid (\<lambda>c. c\<lparr>final_state := Some final,
           reject_reason := (if ok then None else Some summary)\<rparr>),
         transition_command E cid final summary rs (Some (result_text summary, final)),
         upsert_command cid, broadcast_replay_update])
       (command_response E cid ok (if ok then None else Some summary)))"

definition execute_get_pose_query ::
  "hmi_env \<Rightarrow> string \<Rightarrow> string \<Rightarrow> string \<Rightarrow> runtime_snapshot \<Rightarrow> response sup" where
  "execute_get_pose_query E cid sid oid rt =
     bnd (find_command cid) (\<lambda>c.
     bnd (lift (raise_py (jget (normalized_command c) ''reference_frame'' JNull))) (\<lambda>fr.
     let frame = (if truthy fr then to_str fr else ''base_link'') in
     bnd (ask (\<lambda>t. env_pose E t frame)) (\<lambda>pose.
     bnd (lift (raise_py
       (if pose = JNull
        then Inr (query_result False
          ''GET_POSE query failed: /get_current_pose is unavailable or returned no pose.'' frame [])
        else pose_result pose frame))) (\<lambda>result.
     finish_query E cid sid oid (rt_system_state rt) result))))"

subsection \<open>The hand-off\<close>

definition send_to_ros :: "hmi_env \<Rightarrow> dispatch \<Rightarrow> dict sup" where
  "send_to_ros E d =
     andthen (modify (\<lambda>s. s\<lparr>dispatched := dispatched s @ [d]\<rparr>)) (ask_try (\<lambda>t. env_confirm E t d))"

definition summary_of :: "dict \<Rightarrow> string option" where
  "summary_of d = (let v = get_or d ''summary'' JNull in if v = JNull then None else Some (to_str v))"

definition summary_or :: "dict \<Rightarrow> string \<Rightarrow> string" where
  "summary_or d dflt = (let v = get_or d ''summary'' JNull in if truthy v then to_str v else dflt)"

definition finish_as ::
  "hmi_env \<Rightarrow> string \<Rightarrow> system_state \<Rightarrow> dict \<Rightarrow> lifecycle \<Rightarrow> string option \<Rightarrow> string \<Rightarrow> string
    \<Rightarrow> string \<Rightarrow> unit sup" where
  "finish_as E cid rs result final rejected dflt shown stg = block
     [update_command cid (\<lambda>c. c\<lparr>final_state := Some final, reject_reason := rejected\<rparr>),
      transition_command E cid final (summary_or result dflt) rs
        (Some (result_text (summary_or result shown), final)),
      trace_command stg cid]"

text \<open>What the adapter's answer makes of the command.\<close>

definition finish_execution :: "hmi_env \<Rightarrow> string \<Rightarrow> system_state \<Rightarrow> dict \<Rightarrow> unit sup" where
  "finish_execution E cid rs result =
     (let status = lower (str_of (get_or result ''status'' JNull));
          sent = truthy (get_or result ''dispatchedToRos'' JNull) in
      andthen
       (when_do sent (block
         [trace_command ''execution.dispatched'' cid,
          transition_command E cid EXECUTING
            ''execution adapter dispatched the validated request to ROS'' rs
            (Some (''Step 5/6 EXECUTING: execution adapter dispatched the validated request to ROS.'',
                   EXECUTING)),
          update_command cid (\<lambda>c. c\<lparr>final_state := None\<rparr>)]))
       (if status = ''succeeded''
        then finish_as E cid rs result SUCCEEDED None ''execution completed successfully''
               ''Execution completed successfully.'' ''terminal.succeeded''
        else if status = ''cancelled''
        then andthen
          (when_do (\<not> sent) (transition_command E cid EXECUTING
             ''execution adapter reported a cancellation outcome'' rs
             (Some (''Step 5/6 EXECUTING: execution adapter reported a cancellation outcome.'',
                    EXECUTING))))
          (finish_as E cid rs result CANCELLED (summary_of result) ''execution was cancelled''
             ''Execution was cancelled.'' ''terminal.cancelled'')
        else finish_as E cid rs result FAILED (summary_of result) ''execution boundary rejected request''
               ''Execution boundary rejected the request.'' ''terminal.failed''))"

definition hand_off ::
  "hmi_env \<Rightarrow> string \<Rightarrow> lease_record \<Rightarrow> string \<Rightarrow> string \<Rightarrow> string \<Rightarrow> system_state \<Rightarrow> response sup" where
  "hand_off E cid l sid oid fp rs =
     bnd (find_command cid) (\<lambda>c.
     bnd (if correlation_id c = [] then ask (env_uuid E) else ret (correlation_id c)) (\<lambda>corr.
     bnd (send_to_ros E
        \<lparr>d_command_id = cid, d_plan_fingerprint = fp, d_operator_id = oid, d_session_id = sid,
         d_lease_id = lease_id l, d_correlation_id = corr, d_parsed_intent = parsed_intent c,
         d_requested_mode = mode_value (cmd_mode c)\<rparr>) (\<lambda>result.
     andthen (block
       [update_command cid (\<lambda>c. c\<lparr>execution_result := Some result\<rparr>),
        record_runtime_event rs sid oid (Some cid) ''execution boundary response recorded'',
        trace_command ''execution.response'' cid,
        finish_execution E cid rs result,
        upsert_command cid, broadcast_replay_update])
     (bnd (find_command cid) (\<lambda>c.
        let ok = (final_state c = Some SUCCEEDED) in
        command_response E cid ok (if ok then None else summary_of result))))))"

definition execute_confirmed_command ::
  "hmi_env \<Rightarrow> string \<Rightarrow> lease_record \<Rightarrow> string \<Rightarrow> string \<Rightarrow> string \<Rightarrow> runtime_snapshot \<Rightarrow> response sup"
where
  "execute_confirmed_command E cid l sid oid fp rt =
     (let rs = rt_system_state rt in
      andthen (block
        [transition_command E cid CONFIRMED ''operator confirmed validated plan'' rs
           (Some (''Step 4/6 CONFIRMED: operator confirmed the validated plan fingerprint. Execution handoff is now allowed.'',
                  CONFIRMED)),
         trace_command ''confirmation.accepted'' cid,
         bnd (utcnow E) (\<lambda>t. update_command cid (\<lambda>c. c\<lparr>confirm_at := Some t\<rparr>)),
         upsert_command cid,
         transition_command E cid EXECUTION_REQUESTED
           ''supervisor forwarding confirmed command to execution boundary'' rs
           (Some (''Step 5/6 EXECUTION_REQUESTED: confirmed plan forwarded to the supervisor-owned execution boundary.'',
                  EXECUTION_REQUESTED)),
         trace ''execution.requested'' (Some cid) None (Some oid),
         bnd (utcnow E) (\<lambda>t. update_command cid (\<lambda>c. c\<lparr>execute_at := Some t\<rparr>))])
      (bnd (find_command cid) (\<lambda>c.
       bnd (lift (is_get_pose_command c)) (\<lambda>query.
       if query then execute_get_pose_query E cid sid oid rt
       else hand_off E cid l sid oid fp rs))))"

text \<open>The gate before the hand-off: the command is validated again, now with the sources of the
  execution boundary required.\<close>

definition confirm_command_internal ::
  "hmi_env \<Rightarrow> string \<Rightarrow> lease_record \<Rightarrow> string \<Rightarrow> string \<Rightarrow> string \<Rightarrow> response sup" where
  "confirm_command_internal E cid l sid oid fp =
     bnd (current_runtime E) (\<lambda>rt.
     bnd (find_command cid) (\<lambda>c.
     bnd (validate_command E rt l (parsed_intent c) (cmd_mode c) True) (\<lambda>gate.
     andthen (when_do (cmd_mode c = HARDWARE) (block
       [record_runtime_event (rt_system_state rt) sid oid (Some cid) ''hardware gate evaluation'',
        record_runtime_event (rt_system_state rt) sid oid (Some cid) ''hardware preflight result'']))
     (if \<not> v_accepted gate
      then
        (let why = (if v_blocking_reasons gate = [] then ''confirmation gate rejected command''
                    else join ''; '' (v_blocking_reasons gate)) in
         andthen (block
           [trace_command ''confirmation.rejected'' cid,
            update_command cid (\<lambda>c. c\<lparr>validation_result := Some gate\<rparr>),
            upsert_command cid, emit_command_event cid])
         (command_response E cid False (Some why)))
      else execute_confirmed_command E cid l sid oid fp rt))))"

end
