(* ===== verification/Supervisor_Lifecycle.thy ===== *)
theory Supervisor_Lifecycle
  imports Supervisor_Execution
begin

section \<open>Confirming and cancelling\<close>

text \<open>
  The operator's decisions on a submitted command or sequence: \<open>confirm_command\<close>,
  \<open>confirm_sequence\<close>, \<open>cancel_command\<close> and \<open>cancel_sequence\<close> of
  \<open>hmi/backend/services/supervisor_lifecycle.py\<close>, with the guards of
  \<open>supervisor_service.py\<close> they call first.
\<close>

subsection \<open>Guards\<close>

definition check_controller ::
  "hmi_env \<Rightarrow> string \<Rightarrow> string \<Rightarrow> string option \<Rightarrow> lease_record sup" where
  "check_controller E sid oid tok = bnd (utcnow E) (\<lambda>now.
     run_lock (\<lambda>e. ForbiddenActionError (lease_text e)) (assert_controller now sid oid tok))"

definition require_owned_command :: "string \<Rightarrow> string \<Rightarrow> string \<Rightarrow> command_record sup" where
  "require_owned_command cid sid oid =
     bnd (gets (\<lambda>s. map_of (commands s) cid)) (\<lambda>r. case r of
       None \<Rightarrow> throw (NotFoundError ''command not found'')
     | Some c \<Rightarrow>
         andthen (guard (session_id c = sid \<and> operator_id c = oid)
                    (ForbiddenActionError ''command belongs to another session''))
           (ret c))"

definition require_owned_sequence :: "string \<Rightarrow> string \<Rightarrow> string \<Rightarrow> command_record sup" where
  "require_owned_sequence cid sid oid =
     bnd (require_owned_command cid sid oid) (\<lambda>c.
       andthen (guard (kind c = SEQUENCE) (NotFoundError ''sequence not found'')) (ret c))"

text \<open>The command an active id names; an empty id is no id.\<close>

definition active_record :: "(supervisor \<Rightarrow> string option) \<Rightarrow> supervisor \<Rightarrow> command_record option" where
  "active_record f s = (case f s of
     None \<Rightarrow> None | Some i \<Rightarrow> if i = [] then None else map_of (commands s) i)"

definition assert_no_active_job :: "unit sup" where
  "assert_no_active_job =
     bnd (gets (active_record active_sequence_id)) (\<lambda>q.
     bnd (gets (active_record active_command_id)) (\<lambda>a. block
       [guard (case q of None \<Rightarrow> True | Some c \<Rightarrow> is_terminal_command_state (lifecycle_state c))
          (ConflictError ''another sequence is already pending or executing''),
        guard (case a of None \<Rightarrow> True
               | Some c \<Rightarrow> \<not> (kind c = COMMAND \<and> parent_sequence_id c = None
                   \<and> \<not> is_terminal_command_state (lifecycle_state c)))
          (ConflictError ''another command is already pending or executing'')]))"

subsection \<open>Confirmation\<close>

text \<open>The checks of a confirmation after ownership: the state, the window, the fingerprint.  A
  confirmation that comes too late expires the record before it is refused.\<close>

definition check_confirmable ::
  "hmi_env \<Rightarrow> (hmi_env \<Rightarrow> string \<Rightarrow> string \<Rightarrow> unit sup) \<Rightarrow> string \<Rightarrow> string \<Rightarrow> string \<Rightarrow> unit sup" where
  "check_confirmable E expire what cid fp =
     bnd (find_command cid) (\<lambda>c.
     andthen (guard (lifecycle_state c = NEEDS_CONFIRMATION)
       (ConflictError (what @ '' is not waiting for confirmation'')))
     (andthen
       (case confirmation_expires_at c of
          None \<Rightarrow>
            andthen (expire E cid ''confirmation window expired before operator confirmation'')
              (throw (ConflictError ''confirmation window expired''))
        | Some t \<Rightarrow> bnd (utcnow E) (\<lambda>now. when_do (t \<le> now)
            (andthen (expire E cid ''confirmation window expired before operator confirmation'')
              (throw (ConflictError ''confirmation window expired'')))))
       (guard (plan_fingerprint c = Some fp) (ConflictError ''plan fingerprint mismatch''))))"

definition confirm_command ::
  "hmi_env \<Rightarrow> string \<Rightarrow> string \<Rightarrow> string option \<Rightarrow> string \<Rightarrow> string \<Rightarrow> response sup" where
  "confirm_command E sid oid tok cid fp =
     andthen (expire_pending_confirmations E)
     (bnd (check_controller E sid oid tok) (\<lambda>l.
      bnd (require_owned_command cid sid oid) (\<lambda>c.
      andthen (guard (kind c = COMMAND \<and> parent_sequence_id c = None)
        (ConflictError ''sequence steps are controlled by the parent sequence''))
      (andthen (trace ''confirmation.requested'' (Some cid) None (Some oid))
      (andthen (check_confirmable E expire_command ''command'' cid fp)
        (confirm_command_internal E cid l sid oid fp))))))"

text \<open>The outcome of a sequence whose step did not succeed.\<close>

definition is_io_step :: "supervisor \<Rightarrow> string \<Rightarrow> bool" where
  "is_io_step s i = (case map_of (commands s) i of
     None \<Rightarrow> False
   | Some c \<Rightarrow> (case parsed_intent c of
       None \<Rightarrow> False
     | Some p \<Rightarrow> p \<noteq> [] \<and> upper (str_of (get_or p ''action'' JNull)) = ''IO_SET''))"

definition sequence_step_failed ::
  "hmi_env \<Rightarrow> string \<Rightarrow> command_record \<Rightarrow> response sup" where
  "sequence_step_failed E qid child =
     (let final = (case final_state child of None \<Rightarrow> FAILED | Some f \<Rightarrow> f);
          rejected = (case reject_reason child of Some (r # rs) \<Rightarrow> Some (r # rs) | _ \<Rightarrow> None);
          upto = (case sequence_step_index child of None \<Rightarrow> 1 | Some i \<Rightarrow> Suc i) in
      andthen (block
        [update_command qid (\<lambda>q. q\<lparr>final_state := final_state child,
           reject_reason := reject_reason child\<rparr>),
         bnd (find_command qid) (\<lambda>q.
         bnd (gets (\<lambda>s. list_ex (is_io_step s) (take upto (child_command_ids q)))) (\<lambda>io.
           update_command qid (\<lambda>q. q\<lparr>manual_recovery_required := io,
             execution_result := Some
               [(''accepted'', JBool False), (''adapter'', JStr ''workspace_ros_adapter''),
                (''status'', JStr (lower (lifecycle_value final))),
                (''summary'', JStr (case rejected of None \<Rightarrow> ''sequence step failed'' | Some r \<Rightarrow> r)),
                (''dispatchedToRos'', JBool (case execution_result child of
                   None \<Rightarrow> False | Some d \<Rightarrow> truthy (get_or d ''dispatchedToRos'' JNull)))]\<rparr>))),
         bnd (current_runtime E) (\<lambda>rt.
           transition_top_level_record E qid final
             (case rejected of None \<Rightarrow> ''sequence step failed'' | Some r \<Rightarrow> r) (rt_system_state rt)
             (Some (result_text (case rejected of None \<Rightarrow> ''Sequence step failed.'' | Some r \<Rightarrow> r),
                    final)))])
       (sequence_response E qid False (reject_reason child)))"

definition sequence_succeeded :: "hmi_env \<Rightarrow> string \<Rightarrow> response sup" where
  "sequence_succeeded E qid = andthen (block
     [update_command qid (\<lambda>q. q\<lparr>
        current_step_index := (case sequence_step_count q of
            Some (Suc n) \<Rightarrow> Some n | _ \<Rightarrow> current_step_index q),
        final_state := Some SUCCEEDED, reject_reason := None,
        execution_result := Some
          [(''accepted'', JBool True), (''adapter'', JStr ''workspace_ros_adapter''),
           (''status'', JStr ''succeeded''), (''summary'', JStr ''Sequence executed successfully.''),
           (''dispatchedToRos'', JBool True)]\<rparr>),
      bnd (current_runtime E) (\<lambda>rt.
        transition_top_level_record E qid SUCCEEDED ''all sequence steps completed successfully''
          (rt_system_state rt) (Some (result_text ''Sequence executed successfully.'', SUCCEEDED)))])
     (sequence_response E qid True None)"

text \<open>The steps in order: each is confirmed on its own (so it is validated again), and the first
  one that does not succeed ends the sequence.\<close>

fun run_steps ::
  "hmi_env \<Rightarrow> string \<Rightarrow> lease_record \<Rightarrow> string \<Rightarrow> string \<Rightarrow> string list \<Rightarrow> response sup" where
  "run_steps E qid l sid oid [] = sequence_succeeded E qid"
| "run_steps E qid l sid oid (i # is) =
     bnd (find_command i) (\<lambda>child.
     andthen (block
       [update_command qid (\<lambda>q. q\<lparr>current_step_index := sequence_step_index child\<rparr>),
        modify (\<lambda>s. s\<lparr>active_command_id := Some i\<rparr>),
        upsert_command qid, emit_sequence_event qid])
     (bnd (confirm_command_internal E i l sid oid
             (case plan_fingerprint child of None \<Rightarrow> [] | Some f \<Rightarrow> f)) (\<lambda>_.
      bnd (find_command i) (\<lambda>done.
      if final_state done \<noteq> Some SUCCEEDED then sequence_step_failed E qid done
      else run_steps E qid l sid oid is))))"

definition confirm_sequence ::
  "hmi_env \<Rightarrow> string \<Rightarrow> string \<Rightarrow> string option \<Rightarrow> string \<Rightarrow> string \<Rightarrow> response sup" where
  "confirm_sequence E sid oid tok qid fp =
     andthen (expire_pending_confirmations E)
     (bnd (check_controller E sid oid tok) (\<lambda>l.
      bnd (require_owned_sequence qid sid oid) (\<lambda>_.
      andthen (check_confirmable E expire_top_level_record ''sequence'' qid fp)
      (bnd (current_runtime E) (\<lambda>rt.
       andthen (block
         [transition_top_level_record E qid CONFIRMED ''operator confirmed validated sequence plan''
            (rt_system_state rt)
            (Some (''Step 4/6 CONFIRMED: operator confirmed the validated sequence fingerprint. Ordered execution is now allowed.'',
                   CONFIRMED)),
          bnd (utcnow E) (\<lambda>t. update_command qid (\<lambda>q. q\<lparr>confirm_at := Some t\<rparr>)),
          transition_top_level_record E qid EXECUTION_REQUESTED
            ''supervisor forwarding confirmed sequence to execution boundary'' (rt_system_state rt)
            (Some (''Step 5/6 EXECUTION_REQUESTED: confirmed sequence queued for ordered execution.'',
                   EXECUTION_REQUESTED)),
          bnd (utcnow E) (\<lambda>t. update_command qid (\<lambda>q. q\<lparr>execute_at := Some t\<rparr>)),
          transition_top_level_record E qid EXECUTING ''sequence execution started''
            (rt_system_state rt)
            (Some (''Step 5/6 EXECUTING: sequence steps are being dispatched in order.'', EXECUTING))])
       (bnd (find_command qid) (\<lambda>q. run_steps E qid l sid oid (child_command_ids q))))))))"

subsection \<open>Cancelling\<close>

definition abort_at_ros :: "hmi_env \<Rightarrow> string \<Rightarrow> unit sup" where
  "abort_at_ros E cid =
     andthen (modify (\<lambda>s. s\<lparr>aborted := aborted s @ [cid]\<rparr>))
     (bnd (ask (\<lambda>t. env_abort E t cid)) (\<lambda>(ok, why). guard ok (ConflictError why)))"

text \<open>\<open>reason or "\<dots>"\<close>.\<close>

definition given_or :: "string option \<Rightarrow> string \<Rightarrow> string" where
  "given_or why dflt = (case why of Some (c # cs) \<Rightarrow> c # cs | _ \<Rightarrow> dflt)"

definition cancel_command ::
  "hmi_env \<Rightarrow> string \<Rightarrow> string \<Rightarrow> string option \<Rightarrow> string \<Rightarrow> string option \<Rightarrow> response sup" where
  "cancel_command E sid oid tok cid why =
     andthen (expire_pending_confirmations E)
     (bnd (check_controller E sid oid tok) (\<lambda>_.
      bnd (require_owned_command cid sid oid) (\<lambda>c.
      andthen (guard (parent_sequence_id c = None)
        (ConflictError ''sequence steps are controlled by the parent sequence''))
      (if is_terminal_command_state (lifecycle_state c)
       then command_response E cid True (Some ''command already terminal'')
       else andthen (when_do (lifecycle_state c \<in> {EXECUTION_REQUESTED, EXECUTING}) (abort_at_ros E cid))
        (bnd (current_runtime E) (\<lambda>rt.
         andthen (block
           [update_command cid (\<lambda>c. c\<lparr>final_state := Some CANCELLED, reject_reason := why\<rparr>),
            transition_command E cid CANCELLED (given_or why ''operator cancelled command'')
              (rt_system_state rt)
              (Some (result_text (given_or why ''Command cancelled.''), CANCELLED)),
            trace_command ''terminal.cancelled'' cid,
            upsert_command cid, broadcast_replay_update])
         (command_response E cid True why)))))))"

definition cancel_step :: "hmi_env \<Rightarrow> system_state \<Rightarrow> string option \<Rightarrow> string \<Rightarrow> unit sup" where
  "cancel_step E rs why i =
     bnd (find_command i) (\<lambda>c. when_do (\<not> is_terminal_command_state (lifecycle_state c)) (block
       [update_command i (\<lambda>c. c\<lparr>final_state := Some CANCELLED, reject_reason := why\<rparr>),
        transition_command E i CANCELLED (given_or why ''operator cancelled parent sequence'') rs None]))"

definition cancel_sequence ::
  "hmi_env \<Rightarrow> string \<Rightarrow> string \<Rightarrow> string option \<Rightarrow> string \<Rightarrow> string option \<Rightarrow> response sup" where
  "cancel_sequence E sid oid tok qid why =
     andthen (expire_pending_confirmations E)
     (bnd (check_controller E sid oid tok) (\<lambda>_.
      bnd (require_owned_sequence qid sid oid) (\<lambda>q.
      if is_terminal_command_state (lifecycle_state q)
      then sequence_response E qid True (Some ''sequence already terminal'')
      else
        bnd (gets (active_record active_command_id)) (\<lambda>child.
        andthen
          (case child of
             None \<Rightarrow> ret ()
           | Some c \<Rightarrow> when_do (parent_sequence_id c = Some qid
                 \<and> lifecycle_state c \<in> {EXECUTION_REQUESTED, EXECUTING})
               (abort_at_ros E (command_id c)))
        (bnd (current_runtime E) (\<lambda>rt.
         andthen (block
           [for_each (child_command_ids q) (cancel_step E (rt_system_state rt) why),
            update_command qid (\<lambda>q. q\<lparr>final_state := Some CANCELLED, reject_reason := why\<rparr>),
            transition_top_level_record E qid CANCELLED
              (given_or why ''operator cancelled parent sequence'') (rt_system_state rt)
              (Some (result_text (given_or why ''Sequence cancelled.''), CANCELLED))])
         (sequence_response E qid True why)))))))"

end
