(* ===== verification/Supervisor_Submission.thy ===== *)
theory Supervisor_Submission
  imports Supervisor_Lifecycle
begin

section \<open>Submitting an intent\<close>

text \<open>
  \<open>hmi/backend/services/supervisor_submission.py\<close>: from the operator's text or quick command to
  a record that waits for confirmation, and the collapse of a pure motion sequence into one
  \<open>BLENDED_SEQUENCE\<close> step (\<open>supervisor_sequence.py\<close>).
\<close>

subsection \<open>Quick commands\<close>

definition intent_dict :: "string \<Rightarrow> dict \<Rightarrow> dict" where
  "intent_dict i rest = (''intent'', JStr i) # rest"

definition base_link :: "string \<times> json" where
  "base_link = (''reference_frame'', JStr ''base_link'')"

definition up_down :: "rat \<Rightarrow> dict" where
  "up_down z = intent_dict ''move_relative''
     [(''delta'', JObj [(''x'', JFloat (Fin 0)), (''y'', JFloat (Fin 0)), (''z'', JFloat (Fin z))]),
      base_link]"

definition quick_command_static_map :: "(string \<times> dict) list" where
  "quick_command_static_map =
     [(''home'', intent_dict ''go_home'' []),
      (''stop'', intent_dict ''stop'' []),
      (''get_pose'', intent_dict ''get_pose'' [base_link]),
      (''up_5cm'', up_down (5 / 100)),
      (''down_2cm'', up_down (- 2 / 100)),
      (''wait_2s'', intent_dict ''wait'' [(''wait_duration_sec'', JFloat (Fin 2))]),
      (''blended_sequence'', intent_dict ''sequence''
        [(''steps'', JList
          [JObj (intent_dict ''move_named_pose'' [(''pose_name'', JStr ''poseA'')]),
           JObj (intent_dict ''move_named_pose'' [(''pose_name'', JStr ''poseB'')]),
           JObj (intent_dict ''go_home'' [])])]),
      (''air_on'', intent_dict ''io_set'' [(''io_address'', JInt 10017), (''io_value'', JInt 1)]),
      (''air_off'', intent_dict ''io_set'' [(''io_address'', JInt 10017), (''io_value'', JInt 0)])]"

text \<open>\<open>math.radians\<close>: the product with the float \<open>pi / 180\<close>.\<close>

definition radians :: "pyfloat \<Rightarrow> pyfloat" where
  "radians x = fmul x (Fin (17453292519943295 / 10 ^ 18))"

fun add_deltas :: "pyfloat option list \<Rightarrow> pyfloat list \<Rightarrow> json list option" where
  "add_deltas [] [] = Some []"
| "add_deltas (Some p # ps) (d # ds) =
     map_option (\<lambda>rest. JFloat (radians (fadd p d)) # rest) (add_deltas ps ds)"
| "add_deltas _ _ = None"

definition build_joint_delta_semantic_ir ::
  "hmi_exn + pyfloat option list \<Rightarrow> pyfloat list \<Rightarrow> dict option" where
  "build_joint_delta_semantic_ir joints deltas =
     (case joints of
        Inl _ \<Rightarrow> None
      | Inr ps \<Rightarrow> map_option (\<lambda>target. intent_dict ''move_joints''
                    [(''joint_target'', JList target), base_link]) (add_deltas ps deltas))"

definition resolve_quick_command_semantic_ir :: "hmi_env \<Rightarrow> string \<Rightarrow> dict option sup" where
  "resolve_quick_command_semantic_ir E q =
     (case map_of quick_command_static_map q of
        Some d \<Rightarrow> ret (Some d)
      | None \<Rightarrow>
          if q = ''joint_1_plus_5''
          then bnd (ask (env_joints E)) (\<lambda>js. ret (build_joint_delta_semantic_ir js
                 [Fin 5, Fin 0, Fin 0, Fin 0, Fin 0, Fin 0]))
          else ret None)"

subsection \<open>The review of a text\<close>

definition first_truthy :: "dict \<Rightarrow> string \<Rightarrow> string \<Rightarrow> json" where
  "first_truthy d k k' = (let v = get_or d k JNull in if truthy v then v else get_or d k' JNull)"

definition semantic_ir_from_review_result :: "hmi_env \<Rightarrow> json \<Rightarrow> dict option" where
  "semantic_ir_from_review_result E v =
     (case v of
        JObj d \<Rightarrow>
          (if \<not> truthy (get_or d ''accepted'' JNull) then None
           else case first_truthy d ''semanticIr'' ''semantic_ir'' of
             JObj ir \<Rightarrow> Some ir
           | _ \<Rightarrow>
             (case first_truthy d ''semanticIrJson'' ''semantic_ir_json'' of
                JStr text \<Rightarrow>
                  (if strip text = [] then None
                   else case env_json_loads E text of Some (JObj ir) \<Rightarrow> Some ir | _ \<Rightarrow> None)
              | _ \<Rightarrow> None))
      | _ \<Rightarrow> None)"

definition refused_review :: "string \<Rightarrow> json" where
  "refused_review e = JObj [(''accepted'', JBool False), (''error'', JStr e)]"

definition submit_text_for_gateway_review ::
  "hmi_env \<Rightarrow> string \<Rightarrow> runtime_mode \<Rightarrow> string \<Rightarrow> string \<Rightarrow> string \<Rightarrow> json sup" where
  "submit_text_for_gateway_review E text m sid oid cid =
     (case env_review E of
        None \<Rightarrow> ret (JObj [])
      | Some review \<Rightarrow>
          if text = [] then ret (JObj [])
          else bnd (ask (\<lambda>t. review t text (mode_value m) sid oid cid)) (\<lambda>r. case r of
            Inl e \<Rightarrow>
              andthen (trace ''review.unavailable'' (Some cid) (Some sid) (Some oid))
                (ret (refused_review e))
          | Inr (JObj d) \<Rightarrow>
              andthen (trace (if semantic_ir_from_review_result E (JObj d) = None
                              then ''review.fallback_to_local_parse''
                              else ''review.semantic_ir_accepted'') (Some cid) (Some sid) (Some oid))
                (ret (JObj d))
          | Inr _ \<Rightarrow> ret (refused_review ''review result was not a mapping'')))"

subsection \<open>New records\<close>

definition new_record ::
  "string \<Rightarrow> string \<Rightarrow> string \<Rightarrow> string \<Rightarrow> string \<Rightarrow> runtime_mode \<Rightarrow> int \<Rightarrow> command_kind
    \<Rightarrow> string \<Rightarrow> dict option \<Rightarrow> command_record" where
  "new_record cid sid oid text label m now k corr intent =
     \<lparr>command_id = cid, session_id = sid, operator_id = oid, raw_text = text,
      lifecycle_state = RECEIVED, summary_label = label, cmd_mode = m, created_at = now, kind = k,
      intent_source = (if text \<noteq> [] then ''text'' else ''structured''), correlation_id = corr,
      planner_used = None, frame_used = None, risk_level = None, plan_fingerprint = None,
      reject_reason = None, structured_intent = intent, parsed_intent = None,
      validation_result = None, confirmation_expires_at = None, confirm_at = None,
      execute_at = None, execution_result = None, final_state = None, parent_sequence_id = None,
      sequence_step_index = None, sequence_step_count = None, current_step_index = None,
      sequence_diagnostics = [], child_command_ids = [], manual_recovery_required = False,
      pipeline_traces = []\<rparr>"

definition text_or :: "string \<Rightarrow> string \<Rightarrow> string" where
  "text_or t dflt = (if t = [] then dflt else t)"

text \<open>A received record is stored, made the active job, and its receipt is logged.\<close>

definition receive_record ::
  "hmi_env \<Rightarrow> command_record \<Rightarrow> string \<Rightarrow> string \<Rightarrow> system_state \<Rightarrow> unit sup" where
  "receive_record E c shown why rs = block
     [store_command c,
      (if kind c = SEQUENCE then set_active None (Some (command_id c))
       else set_active (Some (command_id c)) None),
      append_message E ''operator'' shown (command_id c) None ''operator'',
      upsert_command (command_id c),
      record_transition (command_id c) None RECEIVED rs why]"

definition reject_intent_submission ::
  "hmi_env \<Rightarrow> string \<Rightarrow> string \<Rightarrow> runtime_snapshot \<Rightarrow> runtime_mode \<Rightarrow> string \<Rightarrow> dict option
    \<Rightarrow> string \<Rightarrow> string \<Rightarrow> string \<Rightarrow> response sup" where
  "reject_intent_submission E sid oid rt m text intent cid corr why =
     bnd (utcnow E) (\<lambda>now.
     bnd (build_validation_result E rt [why]) (\<lambda>v.
     andthen (block
       [receive_record E
          ((new_record cid sid oid text (take 80 (text_or text ''rejected structured command'')) m now
             COMMAND corr intent)\<lparr>validation_result := Some v\<rparr>)
          (text_or text ''Submitted structured command.'')
          ''command received from HMI v2 intent endpoint'' (rt_system_state rt),
        reject_command E cid why (rt_system_state rt) sid oid])
     (command_response E cid False (Some why))))"

subsection \<open>One command\<close>

definition planner_for_intent :: "dict \<Rightarrow> py_exn + string option" where
  "planner_for_intent p =
     (let n = get_or p ''normalizedCommand'' JNull in
      ebind (jget (if truthy n then n else JObj []) ''planner_id'' JNull) (\<lambda>v.
        Inr (if v = JNull then None else Some (to_str v))))"

definition frame_for_intent :: "dict \<Rightarrow> py_exn + string option" where
  "frame_for_intent p =
     (if upper (str_of (get_or p ''action'' JNull)) \<in> {''MOVE_JOINT'', ''MOVE_JOINTS''}
      then Inr (Some ''joint_space'')
      else
        let n = get_or p ''normalizedCommand'' JNull in
        ebind (jget (if truthy n then n else JObj []) ''reference_frame'' JNull) (\<lambda>v.
          Inr (if v = JNull then None else Some (to_str v))))"

definition dict_index :: "dict \<Rightarrow> string \<Rightarrow> hmi_exn + json" where
  "dict_index d k = raise_py (jindex (JObj d) k)"

text \<open>The message of the validating step; an absent planner or frame shows as two dashes.\<close>

definition validating_text :: "dict \<Rightarrow> string option \<Rightarrow> string option \<Rightarrow> string" where
  "validating_text p planner fr =
     ''Step 2/6 VALIDATING: action='' @ to_str (get_or p ''action'' JNull) @ '' planner=''
     @ (case planner of Some (c # cs) \<Rightarrow> c # cs | _ \<Rightarrow> ''--'') @ '' frame=''
     @ (case fr of Some (c # cs) \<Rightarrow> c # cs | _ \<Rightarrow> ''--'') @ ''.''"

definition reject_unparsed ::
  "hmi_env \<Rightarrow> string \<Rightarrow> string \<Rightarrow> runtime_snapshot \<Rightarrow> string \<Rightarrow> string \<Rightarrow> response sup" where
  "reject_unparsed E sid oid rt cid why = andthen (block
     [trace_command ''parse.rejected'' cid,
      record_runtime_event (rt_system_state rt) sid oid (Some cid) ''intent resolution failed'',
      update_command cid (\<lambda>c. c\<lparr>reject_reason := Some why\<rparr>),
      bnd (build_validation_result E rt [why]) (\<lambda>v.
        update_command cid (\<lambda>c. c\<lparr>validation_result := Some v\<rparr>)),
      reject_command E cid why (rt_system_state rt) sid oid])
     (command_response E cid False (Some why))"

text \<open>After a successful parse: the command is described, validated and its verdict recorded.\<close>

definition validate_parsed ::
  "hmi_env \<Rightarrow> string \<Rightarrow> string \<Rightarrow> lease_record \<Rightarrow> runtime_snapshot \<Rightarrow> runtime_mode \<Rightarrow> string \<Rightarrow> dict
    \<Rightarrow> validation sup" where
  "validate_parsed E sid oid l rt m cid p =
     (let rs = rt_system_state rt in
      andthen (update_command cid (\<lambda>c. c\<lparr>parsed_intent := Some p\<rparr>))
      (andthen (record_runtime_event rs sid oid (Some cid) ''intent resolution accepted'')
      (bnd (lift (dict_index p ''targetSummary'')) (\<lambda>label.
       andthen (update_command cid (\<lambda>c. c\<lparr>summary_label := to_str label\<rparr>))
      (bnd (lift (raise_py (planner_for_intent p))) (\<lambda>planner.
       andthen (update_command cid (\<lambda>c. c\<lparr>planner_used := planner\<rparr>))
      (bnd (lift (raise_py (frame_for_intent p))) (\<lambda>fr.
       andthen (block
         [update_command cid (\<lambda>c. c\<lparr>frame_used := fr\<rparr>),
          trace_command ''parse.accepted'' cid,
          transition_command E cid VALIDATING ''supervisor validating parsed intent'' rs
            (Some (validating_text p planner fr, VALIDATING))])
      (bnd (validate_command E rt l (Some p) m False) (\<lambda>v.
       andthen (update_command cid (\<lambda>c. c\<lparr>validation_result := Some v\<rparr>))
      (bnd (lift (dict_index p ''normalizedText'')) (\<lambda>_.
       bnd (lift (dict_index p ''action'')) (\<lambda>_.
       andthen (block
         [update_command cid (\<lambda>c. c\<lparr>plan_fingerprint := v_plan_fingerprint v,
            risk_level := v_risk_level v\<rparr>),
          upsert_command cid,
          record_runtime_event rs sid oid (Some cid) ''validation result recorded'',
          trace_command (if v_accepted v then ''validation.accepted'' else ''validation.rejected'') cid])
       (ret v))))))))))))))"

definition await_confirmation ::
  "hmi_env \<Rightarrow> string \<Rightarrow> string \<Rightarrow> lease_record \<Rightarrow> runtime_snapshot \<Rightarrow> runtime_mode \<Rightarrow> string
    \<Rightarrow> response sup" where
  "await_confirmation E sid oid l rt m cid =
     bnd (utcnow E) (\<lambda>now.
     andthen (block
       [update_command cid (\<lambda>c. c\<lparr>confirmation_expires_at := Some (now + confirmation_window E)\<rparr>),
        transition_command E cid NEEDS_CONFIRMATION
          ''validated plan now requires operator confirmation'' (rt_system_state rt)
          (Some (''Step 3/6 NEEDS_CONFIRMATION: validation passed. Review the normalized plan and confirm before execution boundary handoff.'',
                 NEEDS_CONFIRMATION))])
     (bnd (find_command cid) (\<lambda>c.
      case plan_fingerprint c of
        Some fp \<Rightarrow>
          if sim_auto_confirm E \<and> m = SIM then confirm_command_internal E cid l sid oid fp
          else command_response E cid True None
      | None \<Rightarrow> command_response E cid True None)))"

definition submit_single_command ::
  "hmi_env \<Rightarrow> string \<Rightarrow> string \<Rightarrow> lease_record \<Rightarrow> runtime_snapshot \<Rightarrow> runtime_mode \<Rightarrow> string
    \<Rightarrow> dict option \<Rightarrow> string \<Rightarrow> string \<Rightarrow> response sup" where
  "submit_single_command E sid oid l rt m text intent cid corr =
     bnd (utcnow E) (\<lambda>now.
     andthen (block
       [trace ''request.received'' (Some cid) (Some sid) (Some oid),
        receive_record E
          (new_record cid sid oid text (take 80 (text_or text ''structured command'')) m now COMMAND
             corr intent)
          (text_or text ''Submitted structured command.'')
          ''command received from HMI v2 intent endpoint'' (rt_system_state rt),
        transition_command E cid PARSING ''supervisor parsing operator intent'' (rt_system_state rt)
          (Some (''Step 1/6 PARSING: received intent '' @ [CHR 0x27]
                 @ text_or text ''structured command'' @ [CHR 0x27] @ ''.'', PARSING))])
     (bnd (ask (\<lambda>t. env_parse_intent E t text intent m)) (\<lambda>parsed.
      case parsed of
        Inl why \<Rightarrow> reject_unparsed E sid oid rt cid why
      | Inr p \<Rightarrow>
          bnd (validate_parsed E sid oid l rt m cid p) (\<lambda>v.
          if \<not> v_accepted v
          then
            (let why = (if v_blocking_reasons v = [] then ''validation failed''
                        else join ''; '' (v_blocking_reasons v)) in
             andthen (block
               [update_command cid (\<lambda>c. c\<lparr>reject_reason := Some why\<rparr>),
                reject_command E cid why (rt_system_state rt) sid oid])
             (command_response E cid False (Some why)))
          else
            bnd (find_command cid) (\<lambda>c.
            bnd (lift (is_get_pose_command c)) (\<lambda>query.
            if query then execute_get_pose_query E cid sid oid rt
            else await_confirmation E sid oid l rt m cid))))))"

subsection \<open>Collapsing a motion sequence\<close>

definition blended_sequence_eligible :: "string list" where
  "blended_sequence_eligible = [''PTP'', ''LIN'']"

definition default_blend_radius_m :: pyfloat where
  "default_blend_radius_m = Fin (1 / 100)"

definition stripped_action :: "dict \<Rightarrow> string" where
  "stripped_action p = upper (strip (str_of (get_or p ''action'' JNull)))"

definition dict_or_nothing :: "json \<Rightarrow> py_exn + dict" where
  "dict_or_nothing v = (if \<not> truthy v then Inr []
     else case v of JObj d \<Rightarrow> Inr d | _ \<Rightarrow> Inl AttributeError)"

definition step_blends :: "dict \<Rightarrow> py_exn + bool" where
  "step_blends p =
     (if stripped_action p \<notin> set blended_sequence_eligible then Inr False
      else
        ebind (dict_or_nothing (get_or p ''normalizedCommand'' JNull)) (\<lambda>n.
        if is_str (get_or n ''primitive_type'' (JStr (stripped_action p))) ''HOME'' then Inr False
        else if truthy (get_or n ''joint_target'' JNull) then Inr False
        else if truthy (get_or n ''named_target'' JNull) then Inr False
        else
          ebind (dict_or_nothing (get_or p ''parameters'' JNull)) (\<lambda>q.
          Inr (\<not> truthy (get_or q ''joint_target'' JNull)))))"

fun all_blend :: "dict list \<Rightarrow> py_exn + bool" where
  "all_blend [] = Inr True"
| "all_blend (p # ps) = ebind (step_blends p) (\<lambda>ok. if ok then all_blend ps else Inr False)"

definition should_emit_blended_sequence :: "dict list \<Rightarrow> json \<Rightarrow> py_exn + bool" where
  "should_emit_blended_sequence ps macro =
     (if length ps < 2 then Inr False
      else if lower (strip (str_of macro)) \<in> {''draw_shape'', ''draw_text''} then Inr False
      else all_blend ps)"

text \<open>The target of a blended step, with its goal type: home, joints, or a pose, taken from the
  normalized command and else from the parameters.\<close>

definition blended_target :: "dict \<Rightarrow> dict \<Rightarrow> json \<Rightarrow> py_exn + dict" where
  "blended_target p n prim =
     (let joints = get_or n ''joint_target'' JNull; pose = get_or n ''target_pose'' JNull;
          goal = (\<lambda>k. (''goal_type'', JInt k)) in
      if is_str prim ''HOME'' then Inr [goal 2, (''named_target'', JStr ''home'')]
      else if truthy joints
      then ebind (jiter joints) (\<lambda>xs. Inr [goal 1, (''joint_target'', JList xs)])
      else if truthy pose
      then ebind (dict_or_nothing pose) (\<lambda>d. Inr [goal 0, (''target_pose'', JObj d)])
      else
        ebind (dict_or_nothing (get_or p ''parameters'' JNull)) (\<lambda>q.
        let qpose = get_or q ''target_pose'' JNull; qjoints = get_or q ''joint_target'' JNull in
        if truthy qpose
        then ebind (dict_or_nothing qpose) (\<lambda>d. Inr [goal 0, (''target_pose'', JObj d)])
        else if truthy qjoints
        then ebind (jiter qjoints) (\<lambda>xs. Inr [goal 1, (''joint_target'', JList xs)])
        else Inr [goal 0]))"

definition scale_field :: "dict \<Rightarrow> string \<Rightarrow> py_exn + dict" where
  "scale_field n k =
     (let v = get_or n k JNull in
      if v = JNull then Inr [] else ebind (to_float v) (\<lambda>x. Inr [(k, JFloat x)]))"

definition blended_step :: "bool \<Rightarrow> dict \<Rightarrow> py_exn + json" where
  "blended_step is_last p =
     ebind (dict_or_nothing (get_or p ''normalizedCommand'' JNull)) (\<lambda>n.
     let prim = get_or n ''primitive_type'' (JStr (stripped_action p)) in
     ebind (blended_target p n prim) (\<lambda>target.
     ebind (scale_field n ''velocity_scale'') (\<lambda>vel.
     ebind (scale_field n ''acceleration_scale'') (\<lambda>acc.
     Inr (JObj ([(''primitive_type'', prim)] @ target
       @ [(''blend_radius_m'', JFloat (if is_last then Fin 0 else default_blend_radius_m)),
          (''planner_id'', get_or n ''planner_id'' (JStr ''''))] @ vel @ acc))))))"

fun blended_steps :: "dict list \<Rightarrow> py_exn + json list" where
  "blended_steps [] = Inr []"
| "blended_steps (p # ps) =
     ebind (blended_step (ps = []) p) (\<lambda>x. ebind (blended_steps ps) (\<lambda>xs. Inr (x # xs)))"

definition build_blended_sequence_step :: "dict list \<Rightarrow> string \<Rightarrow> dict option \<Rightarrow> py_exn + dict" where
  "build_blended_sequence_step ps text intent =
     ebind (blended_steps ps) (\<lambda>xs.
     Inr [(''source'', JStr ''blended''),
          (''normalizedText'', JStr (if text \<noteq> [] then text
             else case intent of None \<Rightarrow> [] | Some d \<Rightarrow> to_str (JObj d))),
          (''action'', JStr ''BLENDED_SEQUENCE''),
          (''parameters'', JObj [(''sequence_steps'', JList xs)]),
          (''targetSummary'', JStr (take 120 (join '' -> ''
             (map (\<lambda>p. to_str (get_or p ''targetSummary'' (JStr ''''))) ps)))),
          (''normalizedCommand'', JObj [(''primitive_type'', JStr ''BLENDED_SEQUENCE''),
             (''sequence_steps'', JList xs)]),
          (''normalizationNotes'', JList [JStr ''collapsed_into_blended_sequence''])])"

subsection \<open>A sequence\<close>

definition sequence_summary_label :: "prepared_sequence \<Rightarrow> string \<Rightarrow> dict option \<Rightarrow> string" where
  "sequence_summary_label r text intent =
     (let macro = lower (strip (str_of (ps_macro r)));
          ps = (case ps_steps r of None \<Rightarrow> [] | Some ps \<Rightarrow> ps) in
      if macro = ''draw_shape''
      then take 120 (''Draw '' @ text_or (lower (strip (to_str (if truthy (ps_shape_type r)
             then ps_shape_type r else JStr ''shape'')))) ''shape'')
      else if macro = ''draw_text''
      then (let word = upper (strip (str_of (ps_text r))) in
            if word = [] then ''Draw text''
            else take 120 (''Draw text '' @ [CHR 0x27] @ word @ [CHR 0x27]))
      else if ps \<noteq> []
      then take 120 (join '' -> '' (map (\<lambda>p. to_str (get_or p ''targetSummary'' JNull)) ps))
      else if text \<noteq> [] then take 120 text
      else case intent of Some d \<Rightarrow> take 120 (to_str (JObj d)) | None \<Rightarrow> ''structured sequence'')"

definition add_step ::
  "hmi_env \<Rightarrow> string \<Rightarrow> string \<Rightarrow> runtime_snapshot \<Rightarrow> runtime_mode \<Rightarrow> string \<Rightarrow> string \<Rightarrow> string
    \<Rightarrow> nat \<Rightarrow> nat \<Rightarrow> dict \<Rightarrow> string sup" where
  "add_step E sid oid rt m text qid corr n i p =
     bnd (ask (env_uuid E)) (\<lambda>cid.
     bnd (lift (dict_index p ''targetSummary'')) (\<lambda>label.
     bnd (utcnow E) (\<lambda>now.
     bnd (lift (raise_py (planner_for_intent p))) (\<lambda>planner.
     bnd (lift (raise_py (frame_for_intent p))) (\<lambda>fr.
     bnd (find_command qid) (\<lambda>q.
     andthen (block
       [update_command qid (\<lambda>q. q\<lparr>child_command_ids := child_command_ids q @ [cid]\<rparr>),
        store_command
          ((new_record cid sid oid (if text \<noteq> [] then text else to_str label) (to_str label) m now
              COMMAND (corr @ '':'' @ str_nat (Suc i)) None)
           \<lparr>intent_source := intent_source q, parsed_intent := Some p, planner_used := planner, frame_used := fr,
            parent_sequence_id := Some qid, sequence_step_index := Some i,
            sequence_step_count := Some n\<rparr>),
        upsert_command cid,
        record_transition cid None RECEIVED (rt_system_state rt)
          ''sequence step received from HMI v2 intent endpoint'',
        transition_command E cid PARSING ''supervisor parsing sequence step intent''
          (rt_system_state rt) None,
        transition_command E cid VALIDATING ''supervisor validating parsed sequence step''
          (rt_system_state rt) None])
     (ret cid)))))))"

fun add_steps ::
  "hmi_env \<Rightarrow> string \<Rightarrow> string \<Rightarrow> runtime_snapshot \<Rightarrow> runtime_mode \<Rightarrow> string \<Rightarrow> string \<Rightarrow> nat
    \<Rightarrow> nat \<Rightarrow> string list \<Rightarrow> dict list \<Rightarrow> string list sup" where
  "add_steps E sid oid rt m qid corr n i segments [] = ret []"
| "add_steps E sid oid rt m qid corr n i segments (p # ps) =
     bnd (add_step E sid oid rt m (if i < length segments then segments ! i else [])
            qid corr n i p) (\<lambda>cid.
     bnd (add_steps E sid oid rt m qid corr n (Suc i) segments ps) (\<lambda>cids. ret (cid # cids)))"

text \<open>Each step is validated on its own; its reasons join those of the sequence.\<close>

fun validate_steps ::
  "hmi_env \<Rightarrow> runtime_snapshot \<Rightarrow> lease_record \<Rightarrow> validation \<Rightarrow> string list \<Rightarrow> validation sup" where
  "validate_steps E rt l v [] = ret v"
| "validate_steps E rt l v (i # is) =
     bnd (find_command i) (\<lambda>c.
     bnd (validate_command E rt l (parsed_intent c) (cmd_mode c) False) (\<lambda>w.
     andthen (block
       [update_command i (\<lambda>c. c\<lparr>validation_result := Some w,
          plan_fingerprint := v_plan_fingerprint w,
          risk_level := (if v_risk_level w = None then risk_level c else v_risk_level w)\<rparr>),
        upsert_command i])
     (validate_steps E rt l
       (if v_accepted w then v
        else v\<lparr>v_accepted := False,
               v_blocking_reasons := ordered_unique (v_blocking_reasons v @ v_blocking_reasons w)\<rparr>)
       is)))"

definition reject_sequence ::
  "hmi_env \<Rightarrow> string \<Rightarrow> string \<Rightarrow> runtime_snapshot \<Rightarrow> string \<Rightarrow> string \<Rightarrow> string option \<Rightarrow> response sup"
where
  "reject_sequence E sid oid rt qid why answer = andthen
     (reject_top_level_record E qid why (rt_system_state rt) sid oid)
     (sequence_response E qid False answer)"

definition await_sequence_confirmation ::
  "hmi_env \<Rightarrow> string \<Rightarrow> string \<Rightarrow> lease_record \<Rightarrow> runtime_snapshot \<Rightarrow> runtime_mode \<Rightarrow> string
    \<Rightarrow> string list \<Rightarrow> response sup" where
  "await_sequence_confirmation E sid oid l rt m qid kids =
     bnd (utcnow E) (\<lambda>now.
     let until = Some (now + confirmation_window E) in
     andthen (block
       [update_command qid (\<lambda>q. q\<lparr>confirmation_expires_at := until\<rparr>),
        for_each kids (\<lambda>i. block
          [update_command i (\<lambda>c. c\<lparr>confirmation_expires_at := until\<rparr>),
           transition_command E i NEEDS_CONFIRMATION
             ''sequence-level validation passed; waiting for parent confirmation''
             (rt_system_state rt) None]),
        transition_top_level_record E qid NEEDS_CONFIRMATION
          ''validated sequence now requires operator confirmation'' (rt_system_state rt)
          (Some (''Step 3/6 NEEDS_CONFIRMATION: sequence validation passed. Review the ordered steps and confirm once before execution.'',
                 NEEDS_CONFIRMATION))])
     (bnd (find_command qid) (\<lambda>q.
      case plan_fingerprint q of
        Some fp \<Rightarrow>
          if sim_auto_confirm E \<and> m = SIM
          then confirm_sequence E sid oid (Some (lease_token l)) qid fp
          else sequence_response E qid True None
      | None \<Rightarrow> sequence_response E qid True None)))"

definition validate_and_queue ::
  "hmi_env \<Rightarrow> string \<Rightarrow> string \<Rightarrow> lease_record \<Rightarrow> runtime_snapshot \<Rightarrow> runtime_mode \<Rightarrow> string
    \<Rightarrow> dict list \<Rightarrow> string list \<Rightarrow> string list \<Rightarrow> response sup" where
  "validate_and_queue E sid oid l rt m qid steps diagnostics kids =
     andthen (block
       [modify (\<lambda>s. s\<lparr>active_command_id := (case kids of [] \<Rightarrow> None | i # _ \<Rightarrow> Some i)\<rparr>),
        transition_top_level_record E qid VALIDATING ''supervisor validating parsed sequence''
          (rt_system_state rt)
          (Some (''Step 2/6 VALIDATING: '' @ str_nat (length steps)
                 @ '' ordered steps accepted for sequence validation.'', VALIDATING))])
     (bnd (validate_sequence E rt l steps m diagnostics) (\<lambda>v.
      andthen (update_command qid (\<lambda>q. q\<lparr>validation_result := Some v,
          plan_fingerprint := v_plan_fingerprint v,
          risk_level := (if v_risk_level v = None then risk_level q else v_risk_level v)\<rparr>))
     (bnd (validate_steps E rt l v kids) (\<lambda>w.
      andthen (block
        [update_command qid (\<lambda>q. q\<lparr>validation_result := Some w\<rparr>), upsert_command qid])
      (if \<not> v_accepted w
       then
         (let why = (if v_blocking_reasons w = [] then ''sequence validation failed''
                     else join ''; '' (v_blocking_reasons w)) in
          andthen (update_command qid (\<lambda>q. q\<lparr>reject_reason := Some why\<rparr>))
            (reject_sequence E sid oid rt qid why (Some why)))
       else await_sequence_confirmation E sid oid l rt m qid kids)))))"

definition submit_sequence ::
  "hmi_env \<Rightarrow> string \<Rightarrow> string \<Rightarrow> lease_record \<Rightarrow> runtime_snapshot \<Rightarrow> runtime_mode \<Rightarrow> string
    \<Rightarrow> dict \<Rightarrow> prepared_sequence option \<Rightarrow> string \<Rightarrow> string \<Rightarrow> response sup" where
  "submit_sequence E sid oid l rt m text intent prepared qid corr =
     bnd (utcnow E) (\<lambda>now.
     andthen (block
       [receive_record E
          (new_record qid sid oid text (take 80 (text_or text ''structured sequence'')) m now SEQUENCE
             corr (Some intent))
          (text_or text ''Submitted structured sequence.'')
          ''sequence received from HMI v2 intent endpoint'' (rt_system_state rt),
        transition_top_level_record E qid PARSING ''supervisor parsing sequence intent''
          (rt_system_state rt)
          (Some (''Step 1/6 PARSING: received multi-step sequence intent.'', PARSING))])
     (bnd (case prepared of
             Some r \<Rightarrow> andthen (case ps_intent r of
                 None \<Rightarrow> ret ()
               | Some d \<Rightarrow> update_command qid (\<lambda>q. q\<lparr>structured_intent := Some d\<rparr>)) (ret r)
           | None \<Rightarrow> ask (\<lambda>t. env_parse_steps E t text intent m)) (\<lambda>r.
      andthen (update_command qid (\<lambda>q. q\<lparr>summary_label :=
          sequence_summary_label r text (structured_intent q)\<rparr>))
      (case ps_steps r of
         None \<Rightarrow>
           (let why = given_or (ps_error r) ''sequence parsing failed'' in
            andthen (block
              [update_command qid (\<lambda>q. q\<lparr>reject_reason := ps_error r\<rparr>),
               bnd (build_validation_result E rt [why]) (\<lambda>v.
                 update_command qid (\<lambda>q. q\<lparr>validation_result := Some v\<rparr>))])
            (reject_sequence E sid oid rt qid why (ps_error r)))
       | Some ps \<Rightarrow>
           bnd (lift (raise_py (should_emit_blended_sequence ps (ps_macro r)))) (\<lambda>blend.
           bnd (if blend
                then bnd (lift (raise_py (build_blended_sequence_step ps text (Some intent))))
                       (\<lambda>p. ret ([p], if text \<noteq> [] then [text] else []))
                else ret (ps, [])) (\<lambda>(steps, segments).
           andthen (update_command qid (\<lambda>q. q\<lparr>sequence_step_count := Some (length steps),
               current_step_index := Some 0, sequence_diagnostics := ps_diagnostics r\<rparr>))
           (bnd (add_steps E sid oid rt m qid corr (length steps) 0 segments steps) (\<lambda>kids.
              validate_and_queue E sid oid l rt m qid steps (ps_diagnostics r) kids))))))))"

subsection \<open>The endpoint\<close>

definition parse_mode :: "string \<Rightarrow> runtime_snapshot \<Rightarrow> runtime_mode" where
  "parse_mode m rt =
     (if m = ''sim'' then SIM else if m = ''hardware'' then HARDWARE
      else if m = ''unknown'' then UNKNOWN_MODE else rt_mode rt)"

definition is_sequence_request :: "dict \<Rightarrow> bool" where
  "is_sequence_request d \<longleftrightarrow> lower (strip (str_of (get_or d ''intent'' JNull))) = ''sequence''"

definition route_intent ::
  "hmi_env \<Rightarrow> string \<Rightarrow> string \<Rightarrow> lease_record \<Rightarrow> runtime_snapshot \<Rightarrow> runtime_mode \<Rightarrow> string
    \<Rightarrow> dict \<Rightarrow> string \<Rightarrow> string \<Rightarrow> response sup" where
  "route_intent E sid oid l rt m text ir cid corr =
     bnd (ask (\<lambda>t. env_prepare_sequence E t text ir m)) (\<lambda>prepared.
     if prepared \<noteq> None \<or> is_sequence_request ir
     then submit_sequence E sid oid l rt m text ir prepared cid corr
     else submit_single_command E sid oid l rt m text (Some ir) cid corr)"

definition review_failure :: "json \<Rightarrow> string" where
  "review_failure r = ''review_intent did not accept this command: '' @
     (case r of
        JObj d \<Rightarrow> (let e = get_or d ''error'' JNull in if truthy e then to_str e else ''missing Semantic IR'')
      | _ \<Rightarrow> ''review_intent returned no Semantic IR'')"

definition submit_intent ::
  "hmi_env \<Rightarrow> string \<Rightarrow> string \<Rightarrow> string option \<Rightarrow> string option \<Rightarrow> string option \<Rightarrow> dict option
    \<Rightarrow> string \<Rightarrow> response sup" where
  "submit_intent E sid oid tok raw quick intent mode_text =
     andthen (expire_pending_confirmations E)
     (let text = strip (case raw of None \<Rightarrow> [] | Some x \<Rightarrow> x);
          q = strip (case quick of None \<Rightarrow> [] | Some x \<Rightarrow> x) in
      andthen (guard (\<not> (text = [] \<and> q = [] \<and> intent = None))
        (ConflictError ''intentText or quickCommandId is required''))
      (andthen (guard (\<not> (text \<noteq> [] \<and> q \<noteq> []))
        (ConflictError ''submit exactly one of intentText or quickCommandId''))
      (bnd (check_controller E sid oid tok) (\<lambda>l.
       bnd (current_runtime E) (\<lambda>rt.
       let m = parse_mode mode_text rt in
       andthen assert_no_active_job
      (bnd (ask (env_uuid E)) (\<lambda>cid.
       bnd (ask (env_uuid E)) (\<lambda>corr.
       let reject = (\<lambda>d why. reject_intent_submission E sid oid rt m text d cid corr why) in
       case intent of
         Some d \<Rightarrow> reject (Some d)
           ''structuredIntent is not accepted from the HMI command API; submit intentText or quickCommandId.''
       | None \<Rightarrow>
           if q \<noteq> []
           then bnd (resolve_quick_command_semantic_ir E q) (\<lambda>ir. case ir of
               None \<Rightarrow> reject None
                 (if q = ''joint_1_plus_5''
                  then ''Joint state unavailable or incomplete for quickCommandId '' @ [CHR 0x27] @ q
                       @ [CHR 0x27] @ ''.''
                  else ''Unknown quickCommandId: '' @ [CHR 0x27] @ q @ [CHR 0x27] @ ''.'')
             | Some d \<Rightarrow>
                 andthen (trace_command ''quick_command.deterministic_semantic_ir'' cid)
                   (route_intent E sid oid l rt m text d cid corr))
           else bnd (submit_text_for_gateway_review E text m sid oid cid) (\<lambda>r.
             case semantic_ir_from_review_result E r of
               None \<Rightarrow> reject None (review_failure r)
             | Some d \<Rightarrow> route_intent E sid oid l rt m text d cid corr)))))))))"

end
