(* ===== verification/Supervisor_Service.thy ===== *)
theory Supervisor_Service
  imports Supervisor_Submission
begin

section \<open>The service: leases, servo control, queries, and its calls\<close>

text \<open>
  The remaining operations of \<open>hmi/backend/services/supervisor_service.py\<close> and the servo
  control of \<open>supervisor_execution.py\<close>, and the calls the HTTP endpoints of
  \<open>hmi/backend/api/app.py\<close> make, as the events of one machine.
\<close>

subsection \<open>Leases\<close>

text \<open>\<open>_bridge_capabilities\<close>: the capability that decides about a lease.\<close>

definition can_acquire_lease :: "runtime_snapshot \<Rightarrow> bool" where
  "can_acquire_lease rt \<longleftrightarrow> rt_mode rt \<in> {SIM, HARDWARE}"

text \<open>The lease view a mutation answers with: it reads the clock and drops an expired lease.\<close>

record lease_view =
  lv_lease_id :: "string option"
  lv_token :: "string option"
  lv_owns_control :: bool
  lv_holder :: "(string \<times> string) option"
  lv_can_force :: bool

definition serialize_lease_view :: "hmi_env \<Rightarrow> string \<Rightarrow> string \<Rightarrow> lease_view sup" where
  "serialize_lease_view E sid oid =
     bnd (current_runtime E) (\<lambda>rt.
     bnd (utcnow E) (\<lambda>now.
     bnd (run_lock (\<lambda>e. ForbiddenActionError (lease_text e)) (current_controller now)) (\<lambda>lo.
     ret (case lo of
        None \<Rightarrow> \<lparr>lv_lease_id = None, lv_token = None, lv_owns_control = False, lv_holder = None,
                 lv_can_force = can_acquire_lease rt\<rparr>
      | Some l \<Rightarrow>
          (let mine = (lease_session l = sid \<and> lease_operator l = oid) in
           \<lparr>lv_lease_id = Some (lease_id l), lv_token = (if mine then Some (lease_token l) else None),
            lv_owns_control = mine, lv_holder = Some (lease_session l, lease_operator l),
            lv_can_force = (can_acquire_lease rt \<and> \<not> mine)\<rparr>)))))"

record lease_answer =
  la_accepted :: bool
  la_lease :: lease_view
  la_reason :: "string option"

definition answer_lease ::
  "hmi_env \<Rightarrow> string \<Rightarrow> string \<Rightarrow> bool \<Rightarrow> string option \<Rightarrow> lease_answer sup" where
  "answer_lease E sid oid ok why = bnd (serialize_lease_view E sid oid) (\<lambda>v.
     ret \<lparr>la_accepted = ok, la_lease = v, la_reason = why\<rparr>)"

definition acquire_lease ::
  "hmi_env \<Rightarrow> string \<Rightarrow> string \<Rightarrow> bool \<Rightarrow> string option \<Rightarrow> lease_answer sup" where
  "acquire_lease E sid oid force why =
     bnd (current_runtime E) (\<lambda>rt.
     andthen (guard (can_acquire_lease rt) (ConflictError
       ''Supervisor-owned command ingress is sim-only. Control lease acquisition is disabled outside sim mode.''))
     (bnd (utcnow E) (\<lambda>now. bnd (ask (env_uuid E)) (\<lambda>i. bnd (ask (env_uuid E)) (\<lambda>tok.
      bnd (\<lambda>s. case acquire_controller now i tok sid oid force why (session_lock_state s) of
             (r, l) \<Rightarrow> (Inr r, s\<lparr>session_lock_state := l\<rparr>)) (\<lambda>r.
      case r of
        Inl e \<Rightarrow> answer_lease E sid oid False (Some (lease_text e))
      | Inr _ \<Rightarrow>
          bnd (current_runtime E) (\<lambda>rt2.
          andthen (block
            [record_runtime_event (rt_system_state rt2) sid oid None ''controller lease acquired'',
             broadcast_lease_state])
          (answer_lease E sid oid True None))))))))"

definition renew_lease :: "hmi_env \<Rightarrow> string \<Rightarrow> string \<Rightarrow> string \<Rightarrow> lease_answer sup" where
  "renew_lease E sid oid tok =
     bnd (utcnow E) (\<lambda>now.
     andthen (run_lock (\<lambda>e. ForbiddenActionError (lease_text e)) (renew now sid oid tok))
     (andthen broadcast_lease_state (answer_lease E sid oid True None)))"

definition release_lease :: "hmi_env \<Rightarrow> string \<Rightarrow> string \<Rightarrow> string \<Rightarrow> lease_answer sup" where
  "release_lease E sid oid tok =
     andthen (run_lock (\<lambda>e. ForbiddenActionError (lease_text e)) (release sid oid tok))
     (bnd (current_runtime E) (\<lambda>rt.
      andthen (block
        [record_runtime_event (rt_system_state rt) sid oid None ''controller lease released'',
         broadcast_lease_state])
      (answer_lease E sid oid True None)))"

subsection \<open>Servo control\<close>

definition servo_control_preflight :: "runtime_snapshot \<Rightarrow> string \<Rightarrow> bool \<Rightarrow> string list" where
  "servo_control_preflight rt label require_auto =
     (let rb = rt_robot_status rt in
      (if rt_mode rt \<noteq> HARDWARE then [label @ '' is allowed only in hardware mode.''] else [])
      @ (if rt_system_state rt \<in> {ESTOP, FAULT, LOST_CONN, TIMEOUT}
         then [''runtime state '' @ system_state_value (rt_system_state rt)
               @ '' blocks servo control.''] else [])
      @ (if e_stop rb \<noteq> ''CLEAR''
         then [''e-stop state must be CLEAR, got '' @ e_stop rb @ ''.''] else [])
      @ (if alarm_state rb \<noteq> ''NONE''
         then [''alarm state must be NONE, got '' @ alarm_state rb @ ''.''] else [])
      @ (if require_auto \<and> motion_mode rb \<noteq> Some ''AUTO''
         then [''robot motion mode must be AUTO before Servo START, got ''
               @ (case motion_mode rb of None \<Rightarrow> ''None'' | Some x \<Rightarrow> x) @ ''.''] else []))"

definition run_servo_control ::
  "hmi_env \<Rightarrow> string \<Rightarrow> string \<Rightarrow> string option \<Rightarrow> string \<Rightarrow> string \<Rightarrow> (bool \<times> string) sup" where
  "run_servo_control E sid oid tok label adapter =
     bnd (check_controller E sid oid tok) (\<lambda>l.
     bnd (current_runtime E) (\<lambda>rt.
     let reasons = servo_control_preflight rt label (label = ''Servo START'') in
     if reasons \<noteq> [] then ret (False, join ''; '' reasons)
     else
       andthen (record_runtime_event (rt_system_state rt) sid oid None (label @ '' requested''))
       (andthen (modify (\<lambda>s. s\<lparr>servo_calls := servo_calls s @ [adapter]\<rparr>))
       (bnd (ask (\<lambda>t. env_servo E t adapter)) (\<lambda>r. case r of
          JObj d \<Rightarrow> ret (truthy (get_or d ''accepted'' (JBool False)),
                       to_str (get_or d ''message'' (JStr '''')))
        | _ \<Rightarrow> ret (False, label @ '' returned an invalid response.''))))))"

definition start_servo :: "hmi_env \<Rightarrow> string \<Rightarrow> string \<Rightarrow> string option \<Rightarrow> (bool \<times> string) sup" where
  "start_servo E sid oid tok = run_servo_control E sid oid tok ''Servo START'' ''start_traj_mode''"

definition hold_servo :: "hmi_env \<Rightarrow> string \<Rightarrow> string \<Rightarrow> string option \<Rightarrow> (bool \<times> string) sup" where
  "hold_servo E sid oid tok = run_servo_control E sid oid tok ''Servo HOLD'' ''stop_motion''"

subsection \<open>Queries and callbacks\<close>

text \<open>Queries expire what has timed out before they read.  Rows of the audit store are not read
  back here.\<close>

definition get_command :: "hmi_env \<Rightarrow> string \<Rightarrow> command_record option sup" where
  "get_command E cid = andthen (expire_pending_confirmations E)
     (bnd (gets (\<lambda>s. map_of (commands s) cid)) (\<lambda>r. case r of
        None \<Rightarrow> ret None
      | Some c \<Rightarrow> andthen (guard (kind c = COMMAND) (NotFoundError ''command not found'')) (ret (Some c))))"

definition get_sequence :: "hmi_env \<Rightarrow> string \<Rightarrow> command_record option sup" where
  "get_sequence E cid = andthen (expire_pending_confirmations E)
     (bnd (gets (\<lambda>s. map_of (commands s) cid)) (\<lambda>r. case r of
        None \<Rightarrow> ret None
      | Some c \<Rightarrow> andthen (guard (kind c = SEQUENCE) (NotFoundError ''sequence not found'')) (ret (Some c))))"

definition list_commands :: "hmi_env \<Rightarrow> unit sup" where
  "list_commands E = expire_pending_confirmations E"

definition on_llm_debug_trace :: "dict \<Rightarrow> unit sup" where
  "on_llm_debug_trace payload =
     (let cid = to_str (get_or payload ''cmd_id'' (JStr '''')) in
      when_do (cid \<noteq> []) (update_command cid
        (\<lambda>c. c\<lparr>pipeline_traces := pipeline_traces c @ [JObj payload]\<rparr>)))"

definition bind_telemetry_service :: "unit sup" where
  "bind_telemetry_service = modify (\<lambda>s. s\<lparr>telemetry_bound := True\<rparr>)"

text \<open>A console sees the events of its own session and operator, and those of no session.\<close>

definition console_events_for :: "string \<Rightarrow> string \<Rightarrow> supervisor \<Rightarrow> string list" where
  "console_events_for sid oid s = map stage_name (filter (\<lambda>e.
     (ev_session e = None \<and> ev_operator e = None)
     \<or> (ev_session e = Some sid \<and> ev_operator e = Some oid)) (console_events s))"

subsection \<open>The calls of the endpoints\<close>

datatype hmi_call =
    AcquireLease string string bool "string option"
  | RenewLease string string string
  | ReleaseLease string string string
  | SubmitIntent string string "string option" "string option" "string option" string
  | ConfirmCommand string string "string option" string string
  | CancelCommand string string "string option" string "string option"
  | ConfirmSequence string string "string option" string string
  | CancelSequence string string "string option" string "string option"
  | StartServo string string "string option"
  | HoldServo string string "string option"
  | GetCommand string
  | GetSequence string
  | GetSnapshot
  | ListCommands
  | BindTelemetry
  | LlmDebugTrace dict

fun hmi_step :: "hmi_env \<Rightarrow> hmi_call \<Rightarrow> supervisor \<Rightarrow> supervisor" where
  "hmi_step E (AcquireLease a b force why) s = snd (acquire_lease E a b force why s)"
| "hmi_step E (RenewLease a b tok) s = snd (renew_lease E a b tok s)"
| "hmi_step E (ReleaseLease a b tok) s = snd (release_lease E a b tok s)"
| "hmi_step E (SubmitIntent a b tok raw quick m) s = snd (submit_intent E a b tok raw quick None m s)"
| "hmi_step E (ConfirmCommand a b tok cid fp) s = snd (confirm_command E a b tok cid fp s)"
| "hmi_step E (CancelCommand a b tok cid why) s = snd (cancel_command E a b tok cid why s)"
| "hmi_step E (ConfirmSequence a b tok cid fp) s = snd (confirm_sequence E a b tok cid fp s)"
| "hmi_step E (CancelSequence a b tok cid why) s = snd (cancel_sequence E a b tok cid why s)"
| "hmi_step E (StartServo a b tok) s = snd (start_servo E a b tok s)"
| "hmi_step E (HoldServo a b tok) s = snd (hold_servo E a b tok s)"
| "hmi_step E (GetCommand cid) s = snd (get_command E cid s)"
| "hmi_step E (GetSequence cid) s = snd (get_sequence E cid s)"
| "hmi_step E GetSnapshot s = snd (get_snapshot E s)"
| "hmi_step E ListCommands s = snd (list_commands E s)"
| "hmi_step E BindTelemetry s = snd (bind_telemetry_service s)"
| "hmi_step E (LlmDebugTrace payload) s = snd (on_llm_debug_trace payload s)"

end
