(* ===== verification/Supervisor_Frame.thy ===== *)
theory Supervisor_Frame
  imports Supervisor_Service
begin

section \<open>What the operations of the supervisor leave alone\<close>

text \<open>
  A predicate of the supervisor's state that survives its primitive actions survives every
  operation built from them.  The locales state the primitive actions once; a predicate that
  interprets them gets the preservation lemma of each operation.  The storing of a new record
  and the hand-off to ROS are left out: the invariants prove those on their own.
\<close>

definition untransitioned :: "audit_entry \<Rightarrow> bool" where
  "untransitioned a = (case a of Transition _ (Some _) _ _ _ \<Rightarrow> False | _ \<Rightarrow> True)"

text \<open>What a confirmation relies on in a record: who it belongs to and what it will do.\<close>

definition plan_of :: "command_record \<Rightarrow>
    string \<times> string \<times> string \<times> command_kind \<times> string option \<times> runtime_mode \<times> dict option \<times> string option" where
  "plan_of c = (command_id c, session_id c, operator_id c, kind c, parent_sequence_id c, cmd_mode c,
     parsed_intent c, plan_fingerprint c)"

text \<open>A mild edit keeps a record's identity and its place in the lifecycle; a calm one also its
  plan.\<close>

definition mild :: "(command_record \<Rightarrow> command_record) \<Rightarrow> bool" where
  "mild f \<longleftrightarrow> (\<forall>c. command_id (f c) = command_id c \<and> lifecycle_state (f c) = lifecycle_state c)"

lemma mildI: "(\<And>c. command_id (f c) = command_id c) \<Longrightarrow> (\<And>c. lifecycle_state (f c) = lifecycle_state c)
    \<Longrightarrow> mild f"
  by (simp add: mild_def)

definition calm :: "(command_record \<Rightarrow> command_record) \<Rightarrow> bool" where
  "calm f \<longleftrightarrow> (\<forall>c. plan_of (f c) = plan_of c \<and> lifecycle_state (f c) = lifecycle_state c)"

lemma calmI: "(\<And>c. plan_of (f c) = plan_of c) \<Longrightarrow> (\<And>c. lifecycle_state (f c) = lifecycle_state c)
    \<Longrightarrow> calm f"
  by (simp add: calm_def)

lemma calm_mild: "calm f \<Longrightarrow> mild f"
  by (simp add: calm_def mild_def plan_of_def)

locale supervisor_logs =
  fixes E :: hmi_env and P :: "supervisor \<Rightarrow> bool"
  assumes on_tick: "P s \<Longrightarrow> P (s\<lparr>tick := Suc (tick s)\<rparr>)"
    and on_console: "P s \<Longrightarrow> P (s\<lparr>console_events := ces\<rparr>)"
    and on_messages: "P s \<Longrightarrow> P (s\<lparr>messages := ms\<rparr>)"
    and on_broadcasts: "P s \<Longrightarrow> P (s\<lparr>broadcasts := bs\<rparr>)"
    and on_active: "P s \<Longrightarrow> P (s\<lparr>active_command_id := ac\<rparr>)"
    and on_active_sequence: "P s \<Longrightarrow> P (s\<lparr>active_sequence_id := aq\<rparr>)"
    and on_aborted: "P s \<Longrightarrow> P (s\<lparr>aborted := abt\<rparr>)"
    and on_servo: "P s \<Longrightarrow> P (s\<lparr>servo_calls := ss\<rparr>)"
    and on_audit: "untransitioned a \<Longrightarrow> P s \<Longrightarrow> P (s\<lparr>audit := audit s @ [a]\<rparr>)"
begin

lemma keeps_ask: "keeps P (ask f)"
  by (rule keepsI) (simp add: ask_def on_tick)

lemma keeps_ask_try: "keeps P (ask_try f)"
  by (rule keepsI) (simp add: ask_try_def on_tick)

lemma keeps_find: "keeps P (find_command cid)"
  by (rule keepsI) (simp add: find_command_def split: option.split)

lemma keeps_log: "untransitioned a \<Longrightarrow> keeps P (log_audit a)"
  unfolding log_audit_def by (rule keeps_modify) (rule on_audit)

lemma keeps_upsert: "keeps P (upsert_command cid)"
  unfolding upsert_command_def
  by (intro keeps_intros keeps_find keeps_log) (simp add: untransitioned_def)

lemma keeps_received: "keeps P (record_transition cid None st rs why)"
  unfolding record_transition_def by (rule keeps_log) (simp add: untransitioned_def)

lemma keeps_runtime_event: "keeps P (record_runtime_event rs sid oid cid text)"
  unfolding record_runtime_event_def by (rule keeps_log) (simp add: untransitioned_def)

lemma keeps_broadcast: "keeps P (broadcast_event b)"
  unfolding broadcast_event_def
  by (intro keeps_intros keeps_modify on_broadcasts)

lemma keeps_emits:
  "keeps P broadcast_replay_update" "keeps P broadcast_lease_state"
  "keeps P (emit_command_event cid)" "keeps P (emit_sequence_event cid)"
  unfolding broadcast_replay_update_def broadcast_lease_state_def emit_command_event_def
    emit_sequence_event_def
  by (intro keeps_intros keeps_broadcast)+

lemma keeps_message: "keeps P (append_message E from text cid tag src)"
  unfolding append_message_def by (intro keeps_intros keeps_ask keeps_modify on_messages)

lemma keeps_trace: "keeps P (trace stg cid sid oid)"
  unfolding trace_def Let_def by (intro keeps_modify on_console)

lemma keeps_trace_command: "keeps P (trace_command stg cid)"
  unfolding trace_command_def by (rule keeps_trace)

lemma keeps_set_active: "keeps P (set_active a q)"
  unfolding set_active_def
  by (rule keeps_modify) (use on_active on_active_sequence in fastforce)

lemma keeps_readings: "keeps P (utcnow E)" "keeps P (current_runtime E)"
  unfolding utcnow_def current_runtime_def by (rule keeps_ask)+

lemmas quiet = keeps_ask keeps_ask_try keeps_find keeps_upsert keeps_received keeps_runtime_event
  keeps_emits keeps_message keeps_trace keeps_trace_command keeps_set_active keeps_readings

lemma keeps_preflight: "keeps P (execution_preflight E m)"
  unfolding execution_preflight_def by (intro keeps_intros keeps_ask)

lemma keeps_validate: "keeps P (validate_command E rt l p m enforce)"
  unfolding validate_command_def Let_def by (intro keeps_intros keeps_ask keeps_preflight)

lemma keeps_validate_sequence: "keeps P (validate_sequence E rt l steps m ds)"
  unfolding validate_sequence_def Let_def by (intro keeps_intros keeps_ask keeps_preflight)

lemma keeps_build_validation: "keeps P (build_validation_result E rt reasons)"
  unfolding build_validation_result_def by (intro keeps_intros keeps_preflight)

end

text \<open>With the calm edits.\<close>

locale supervisor_quiet = supervisor_logs +
  assumes on_edit: "calm f \<Longrightarrow> P s \<Longrightarrow> P (s\<lparr>commands := dict_map_at cid f (commands s)\<rparr>)"
begin

lemma keeps_update: "calm f \<Longrightarrow> keeps P (update_command cid f)"
  unfolding update_command_def by (rule keeps_modify) (rule on_edit)

lemma keeps_edit: "(\<And>c. plan_of (f c) = plan_of c) \<Longrightarrow>
    (\<And>c. lifecycle_state (f c) = lifecycle_state c) \<Longrightarrow> keeps P (update_command cid f)"
  by (intro keeps_update calmI)

end

text \<open>With the transition to \<open>EXPIRED\<close>, the one that a query makes on its own.\<close>

locale supervisor_expiring = supervisor_quiet +
  assumes on_expired: "keeps P (transition_record E cid EXPIRED why rs msg)"
begin

lemma keeps_transition_expired:
  "keeps P (transition_command E cid EXPIRED why rs msg)"
  "keeps P (transition_top_level_record E cid EXPIRED why rs msg)"
  unfolding transition_command_def transition_top_level_record_def
  by (intro keeps_intros keeps_find keeps_emits on_expired)+

lemma keeps_expire:
  "keeps P (expire_command E cid why)" "keeps P (expire_top_level_record E cid why)"
  unfolding expire_command_def expire_top_level_record_def expire_record_def
  by (auto simp: plan_of_def intro!: keeps_intros quiet keeps_transition_expired keeps_edit)

lemma keeps_expire_pending: "keeps P (expire_pending_confirmations E)"
  unfolding expire_pending_confirmations_def by (intro keeps_intros quiet keeps_expire)

end

text \<open>With the transitions: the predicate says nothing that a guarded transition breaks.\<close>

locale supervisor_frame = supervisor_quiet +
  assumes on_transition: "keeps P (transition_record E cid nxt why rs msg)"

sublocale supervisor_frame \<subseteq> supervisor_expiring
  by unfold_locales (rule on_transition)

context supervisor_frame
begin

lemma keeps_transition:
  "keeps P (transition_command E cid nxt why rs msg)"
  "keeps P (transition_top_level_record E cid nxt why rs msg)"
  unfolding transition_command_def transition_top_level_record_def
  by (intro keeps_intros keeps_find keeps_emits on_transition)+

lemmas basic = quiet keeps_transition

lemma keeps_reject:
  "keeps P (reject_command E cid why rs sid oid)"
  "keeps P (reject_top_level_record E cid why rs sid oid)"
  unfolding reject_command_def reject_top_level_record_def reject_record_def
  by (auto simp: plan_of_def intro!: keeps_intros basic keeps_edit)

end

text \<open>With the lock: the predicate says nothing of the lease.\<close>

locale supervisor_frame_lock = supervisor_frame +
  assumes on_lock: "P s \<Longrightarrow> P (s\<lparr>session_lock_state := lk\<rparr>)"
begin

lemma keeps_run_lock: "keeps P (run_lock conv m)"
  by (rule keepsI) (simp add: run_lock_def on_lock split: prod.split sum.split)

lemma keeps_snapshot: "keeps P (get_snapshot E)"
  unfolding get_snapshot_def snapshot_overlay_def
  by (intro keeps_intros basic keeps_expire_pending keeps_run_lock)

lemma keeps_response: "keeps P (command_response E cid ok why)" "keeps P (sequence_response E cid ok why)"
  unfolding command_response_def sequence_response_def
  by (intro keeps_intros basic keeps_snapshot)+

lemma keeps_finish_query: "keeps P (finish_query E cid sid oid rs result)"
  unfolding finish_query_def Let_def
  by (auto simp: plan_of_def intro!: keeps_intros basic keeps_edit keeps_response)

lemma keeps_query: "keeps P (execute_get_pose_query E cid sid oid rt)"
  unfolding execute_get_pose_query_def Let_def
  by (intro keeps_intros basic keeps_finish_query)

lemma keeps_finish_as: "keeps P (finish_as E cid rs result final rejected dflt shown stg)"
  unfolding finish_as_def by (auto simp: plan_of_def intro!: keeps_intros basic keeps_edit)

lemma keeps_finish: "keeps P (finish_execution E cid rs result)"
  unfolding finish_execution_def Let_def
  by (auto simp: plan_of_def intro!: keeps_intros basic keeps_edit keeps_finish_as)

lemma keeps_check_controller: "keeps P (check_controller E sid oid tok)"
  unfolding check_controller_def by (intro keeps_intros basic keeps_run_lock)

lemma keeps_owned:
  "keeps P (require_owned_command cid sid oid)" "keeps P (require_owned_sequence cid sid oid)"
  unfolding require_owned_sequence_def require_owned_command_def by (intro keeps_intros)+

lemma keeps_no_active_job: "keeps P assert_no_active_job"
  unfolding assert_no_active_job_def by (auto intro!: keeps_intros)

lemma keeps_confirmable:
  "(\<And>cid why. keeps P (expire E cid why)) \<Longrightarrow> keeps P (check_confirmable E expire what cid fp)"
  unfolding check_confirmable_def by (intro keeps_intros basic)

lemma keeps_abort: "keeps P (abort_at_ros E cid)"
  unfolding abort_at_ros_def by (intro keeps_intros basic keeps_modify on_aborted)

lemma keeps_cancel_step: "keeps P (cancel_step E rs why i)"
  unfolding cancel_step_def by (auto simp: plan_of_def intro!: keeps_intros basic keeps_edit)

lemma keeps_cancel:
  "keeps P (cancel_command E sid oid tok cid why)" "keeps P (cancel_sequence E sid oid tok cid why)"
  unfolding cancel_command_def cancel_sequence_def Let_def
  by (auto simp: plan_of_def intro!: keeps_intros basic keeps_edit keeps_expire_pending keeps_check_controller keeps_owned
      keeps_response keeps_abort keeps_cancel_step)

lemma keeps_sequence_end:
  "keeps P (sequence_step_failed E qid child)" "keeps P (sequence_succeeded E qid)"
  unfolding sequence_step_failed_def sequence_succeeded_def Let_def
  by (auto simp: plan_of_def intro!: keeps_intros basic keeps_edit keeps_response)

lemma keeps_lease_view: "keeps P (answer_lease E sid oid ok why)"
  unfolding answer_lease_def serialize_lease_view_def
  by (intro keeps_intros basic keeps_run_lock)

lemma keeps_leases:
  "keeps P (acquire_lease E sid oid force why)" "keeps P (renew_lease E sid oid tok)"
  "keeps P (release_lease E sid oid tok)"
proof -
  have "keeps P (\<lambda>s. case m (session_lock_state s) of (r, l) \<Rightarrow> (Inr r, s\<lparr>session_lock_state := l\<rparr>))" for m
    by (rule keepsI) (simp add: on_lock split: prod.split)
  then show "keeps P (acquire_lease E sid oid force why)"
    unfolding acquire_lease_def by (auto intro!: keeps_intros basic keeps_lease_view)
qed (unfold renew_lease_def release_lease_def,
    auto intro!: keeps_intros basic keeps_lease_view keeps_run_lock)

lemma keeps_servo: "keeps P (run_servo_control E sid oid tok label adapter)"
  unfolding run_servo_control_def Let_def
  by (auto intro!: keeps_intros basic keeps_check_controller keeps_modify on_servo split: json.split)

lemma keeps_queries: "keeps P (get_command E cid)" "keeps P (get_sequence E cid)"
  unfolding get_command_def get_sequence_def by (intro keeps_intros keeps_expire_pending)+

lemma keeps_debug: "keeps P (on_llm_debug_trace payload)"
  unfolding on_llm_debug_trace_def Let_def by (auto simp: plan_of_def intro!: keeps_intros keeps_edit)

end

end
