(* ===== verification/Supervisor_Invariant.thy ===== *)
theory Supervisor_Invariant
  imports Supervisor_Frame
begin

section \<open>The invariant of the supervisor\<close>

text \<open>
  What holds after any sequence of calls, for every environment whose identifiers are fresh
  (\<open>uuid4\<close> does not repeat): records are filed under their own id; the audit log holds only
  allowed transitions; a record that is past its confirmation has one in the log; no command is
  handed to ROS twice, and one that was handed over has left \<open>CONFIRMED\<close>; and no record of an
  earlier state disappears or moves except along the transition table.
\<close>

definition lifecycle_at :: "supervisor \<Rightarrow> string \<Rightarrow> lifecycle option" where
  "lifecycle_at s cid = map_option lifecycle_state (map_of (commands s) cid)"

definition filed :: "supervisor \<Rightarrow> bool" where
  "filed s \<longleftrightarrow> (\<forall>k c. map_of (commands s) k = Some c \<longrightarrow> command_id c = k)"

definition confirmed_in :: "audit_entry list \<Rightarrow> string \<Rightarrow> bool" where
  "confirmed_in entries cid \<longleftrightarrow> (\<exists>rs why. Transition cid (Some NEEDS_CONFIRMATION) CONFIRMED rs why \<in> set entries)"

lemma confirmed_in_append: "confirmed_in xs k \<Longrightarrow> confirmed_in (xs @ ys) k"
  unfolding confirmed_in_def by (metis Un_iff set_append)

definition past_confirmation :: "lifecycle list" where
  "past_confirmation = [CONFIRMED, EXECUTION_REQUESTED, EXECUTING]"

definition trail :: "supervisor \<Rightarrow> bool" where
  "trail s \<longleftrightarrow> (\<forall>k st. lifecycle_at s k = Some st \<longrightarrow> st \<in> set past_confirmation
     \<longrightarrow> confirmed_in (audit s) k)"

definition lawful_entry :: "audit_entry \<Rightarrow> bool" where
  "lawful_entry a = (case a of Transition _ (Some x) y _ _ \<Rightarrow> allowed x y | _ \<Rightarrow> True)"

definition lawful_log :: "audit_entry list \<Rightarrow> bool" where
  "lawful_log entries \<longleftrightarrow> (\<forall>a \<in> set entries. lawful_entry a)"

lemma lawful_untransitioned: "untransitioned a \<Longrightarrow> lawful_entry a"
  by (simp add: untransitioned_def lawful_entry_def split: audit_entry.splits option.splits)

definition sent_once :: "supervisor \<Rightarrow> bool" where
  "sent_once s \<longleftrightarrow> distinct (map d_command_id (dispatched s)) \<and>
     (\<forall>d \<in> set (dispatched s). confirmed_in (audit s) (d_command_id d) \<and>
        (\<exists>st. lifecycle_at s (d_command_id d) = Some st \<and> stage st \<le> 2))"

definition evolves :: "supervisor \<Rightarrow> supervisor \<Rightarrow> bool" where
  "evolves s0 s \<longleftrightarrow> (\<forall>k a. lifecycle_at s0 k = Some a \<longrightarrow>
     (\<exists>p b. lifecycle_at s k = Some b \<and> lifecycle_path a p b))"

text \<open>\<open>pending K\<close>: the identifiers in \<open>K\<close> are drawn but not yet used.\<close>

definition known_ids :: "hmi_env \<Rightarrow> string set \<Rightarrow> supervisor \<Rightarrow> bool" where
  "known_ids E K s \<longleftrightarrow>
     (\<forall>k. k \<in> K \<or> lifecycle_at s k \<noteq> None \<longrightarrow> (\<exists>n < tick s. k = env_uuid E n)) \<and>
     (\<forall>k \<in> K. lifecycle_at s k = None)"

definition sound :: "hmi_env \<Rightarrow> supervisor \<Rightarrow> string set \<Rightarrow> supervisor \<Rightarrow> bool" where
  "sound E s0 K s \<longleftrightarrow> filed s \<and> trail s \<and> lawful_log (audit s) \<and> sent_once s \<and> evolves s0 s \<and>
     known_ids E K s"

lemma lifecycle_at_map [simp]:
  "mild f \<Longrightarrow> lifecycle_at (s\<lparr>commands := dict_map_at cid f (commands s)\<rparr>) k = lifecycle_at s k"
  by (simp add: lifecycle_at_def mild_def option.map_comp comp_def)

lemma lifecycle_at_other [simp]:
  "lifecycle_at (s\<lparr>tick := n\<rparr>) = lifecycle_at s" "lifecycle_at (s\<lparr>audit := a\<rparr>) = lifecycle_at s"
  "lifecycle_at (s\<lparr>messages := ms\<rparr>) = lifecycle_at s"
  "lifecycle_at (s\<lparr>console_events := ce\<rparr>) = lifecycle_at s"
  "lifecycle_at (s\<lparr>broadcasts := bs\<rparr>) = lifecycle_at s"
  "lifecycle_at (s\<lparr>active_command_id := x\<rparr>) = lifecycle_at s"
  "lifecycle_at (s\<lparr>active_sequence_id := x\<rparr>) = lifecycle_at s"
  "lifecycle_at (s\<lparr>aborted := l\<rparr>) = lifecycle_at s" "lifecycle_at (s\<lparr>servo_calls := l\<rparr>) = lifecycle_at s"
  "lifecycle_at (s\<lparr>session_lock_state := lk\<rparr>) = lifecycle_at s"
  "lifecycle_at (s\<lparr>dispatched := ds\<rparr>) = lifecycle_at s"
  by (simp_all add: lifecycle_at_def fun_eq_iff)

text \<open>A change of the state that the invariant does not see.\<close>

lemma sound_frame:
  assumes "sound E s0 K s" and "lifecycle_at t = lifecycle_at s" and "filed t"
    and "audit t = audit s \<or> (\<exists>a. untransitioned a \<and> audit t = audit s @ [a])"
    and "dispatched t = dispatched s" and "tick s \<le> tick t"
  shows "sound E s0 K t"
proof -
  have conf: "confirmed_in (audit t) k" if "confirmed_in (audit s) k" for k
    using assms(4) that confirmed_in_append by metis
  have log: "lawful_log (audit t)"
    using assms(1,4) by (auto simp: sound_def lawful_log_def lawful_untransitioned)
  have ids: "known_ids E K t"
    unfolding known_ids_def assms(2)
  proof (intro conjI allI ballI impI)
    fix k
    assume "k \<in> K \<or> lifecycle_at s k \<noteq> None"
    with assms(1) obtain n where "n < tick s" "k = env_uuid E n"
      unfolding sound_def known_ids_def by blast
    with assms(6) show "\<exists>n < tick t. k = env_uuid E n" by (intro exI [of _ n]) simp
  next
    fix k
    assume "k \<in> K"
    with assms(1) show "lifecycle_at s k = None" unfolding sound_def known_ids_def by blast
  qed
  have "trail t" "evolves s0 t"
    using assms(1) conf unfolding sound_def trail_def evolves_def assms(2) by blast+
  moreover have "sent_once t"
    using assms(1) conf unfolding sound_def sent_once_def assms(2,5) by blast
  ultimately show ?thesis
    using assms(3) log ids by (simp add: sound_def)
qed

lemma sound_filed: "sound E s0 K s \<Longrightarrow> commands t = commands s \<Longrightarrow> filed t"
  by (simp add: sound_def filed_def)

lemma sound_other:
  assumes "sound E s0 K s" and "commands t = commands s" and "audit t = audit s"
    and "dispatched t = dispatched s" and "tick s \<le> tick t"
  shows "sound E s0 K t"
  using assms(1) by (rule sound_frame)
    (use assms in \<open>simp_all add: sound_filed lifecycle_at_def fun_eq_iff\<close>)

lemma filed_edit: "mild f \<Longrightarrow> filed s \<Longrightarrow> filed (s\<lparr>commands := dict_map_at cid f (commands s)\<rparr>)"
  by (auto simp: filed_def mild_def split: if_splits)

subsection \<open>One transition\<close>

lemma append_message_run:
  "append_message E orig text cid tag src s = (Inr (), s\<lparr>messages := deque_append 200
     \<lparr>message_id = env_uuid E (tick s), msg_command_id = cid, origin = orig, msg_text = text,
      msg_tag = tag, msg_source = src\<rparr> (messages s), tick := Suc (tick s)\<rparr>)"
  by (simp add: append_message_def py_simps ask_def)

lemma message_run:
  "\<exists>ms k. (case message of None \<Rightarrow> ret () | Some (text, tag) \<Rightarrow> append_message E orig text cid (g tag) (h tag)) s
     = (Inr (), s\<lparr>messages := ms, tick := k\<rparr>) \<and> tick s \<le> k"
proof (cases message)
  case None
  then show ?thesis by (intro exI [of _ "messages s"] exI [of _ "tick s"]) (simp add: py_simps)
next
  case (Some p)
  show ?thesis
  proof (intro exI conjI)
    show "(case message of None \<Rightarrow> ret () | Some (text, tag) \<Rightarrow>
        append_message E orig text cid (g tag) (h tag)) s = (Inr (), s\<lparr>messages := deque_append 200
     \<lparr>message_id = env_uuid E (tick s), msg_command_id = cid, origin = orig, msg_text = fst p,
      msg_tag = g (snd p), msg_source = h (snd p)\<rparr> (messages s), tick := Suc (tick s)\<rparr>)"
      by (simp add: Some append_message_run split: prod.split)
  qed simp
qed

lemma transition_record_run:
  assumes "transition_record E cid nxt why rs msg s = (r, t)"
  shows "(\<exists>e. r = Inl e) \<and> t = s \<or>
    (\<exists>c a ms k. map_of (commands s) cid = Some c \<and> allowed (lifecycle_state c) nxt \<and> r = Inr () \<and>
       tick s \<le> k \<and>
       t = s\<lparr>commands := dict_map_at cid (\<lambda>c. c\<lparr>lifecycle_state := nxt\<rparr>) (commands s),
             audit := audit s @ [Upsert a, Transition cid (Some (lifecycle_state c)) nxt rs why],
             messages := ms, tick := k\<rparr>)"
proof (cases "map_of (commands s) cid")
  case None
  with assms show ?thesis by (auto simp: transition_record_def py_simps find_command_def)
next
  case (Some c)
  show ?thesis
  proof (cases "allowed (lifecycle_state c) nxt")
    case False
    with Some assms show ?thesis
      by (auto simp: transition_record_def py_simps find_command_def ensure_command_transition_def)
  next
    case True
    let ?s1 = "s\<lparr>commands := dict_map_at cid (\<lambda>c. c\<lparr>lifecycle_state := nxt\<rparr>) (commands s),
      audit := audit s @ [Upsert (c\<lparr>lifecycle_state := nxt\<rparr>),
        Transition cid (Some (lifecycle_state c)) nxt rs why]\<rparr>"
    obtain ms k where m: "(case msg of None \<Rightarrow> ret () | Some (text, tag) \<Rightarrow>
        append_message E ''system'' text cid (Some (lifecycle_value tag))
          (source_from_lifecycle_tag (Some (lifecycle_value tag)))) ?s1
        = (Inr (), ?s1\<lparr>messages := ms, tick := k\<rparr>)" and k: "tick ?s1 \<le> k"
      using message_run [where message = msg and orig = "''system''"
          and g = "\<lambda>tag. Some (lifecycle_value tag)"
          and h = "\<lambda>tag. source_from_lifecycle_tag (Some (lifecycle_value tag))" and s = ?s1]
      by blast
    have "transition_record E cid nxt why rs msg s = (Inr (), ?s1\<lparr>messages := ms, tick := k\<rparr>)"
      using Some True m
      by (simp add: transition_record_def py_simps find_command_def ensure_command_transition_def
          update_command_def upsert_command_def log_audit_def record_transition_def)
    with assms Some True k show ?thesis by auto
  qed
qed

lemma transition_lifecycle:
  assumes "map_of (commands s) cid = Some c"
  shows "lifecycle_at (s\<lparr>commands := dict_map_at cid (\<lambda>c. c\<lparr>lifecycle_state := nxt\<rparr>) (commands s)\<rparr>) k
    = (if k = cid then Some nxt else lifecycle_at s k)"
  using assms by (simp add: lifecycle_at_def)

lemma sound_transition:
  assumes s: "sound E s0 K s" and c: "map_of (commands s) cid = Some c"
    and ok: "allowed (lifecycle_state c) nxt" and k: "tick s \<le> k"
  shows "sound E s0 K (s\<lparr>commands := dict_map_at cid (\<lambda>c. c\<lparr>lifecycle_state := nxt\<rparr>) (commands s),
      audit := audit s @ [Upsert a, Transition cid (Some (lifecycle_state c)) nxt rs why],
      messages := ms, tick := k\<rparr>)"
    (is "sound E s0 K ?t")
proof -
  have at: "lifecycle_at ?t j = (if j = cid then Some nxt else lifecycle_at s j)" for j
    using transition_lifecycle [OF c] by simp
  have old: "lifecycle_at s cid = Some (lifecycle_state c)"
    using c by (simp add: lifecycle_at_def)
  have conf: "confirmed_in (audit ?t) j" if "confirmed_in (audit s) j" for j
    using that by (simp add: confirmed_in_append)
  have "filed ?t" using s c by (auto simp: sound_def filed_def split: if_splits)
  moreover have "trail ?t"
    unfolding trail_def at
  proof (intro allI impI)
    fix j st
    assume st: "(if j = cid then Some nxt else lifecycle_at s j) = Some st"
      and past: "st \<in> set past_confirmation"
    show "confirmed_in (audit ?t) j"
    proof (cases "j = cid")
      case False
      with st past s have "confirmed_in (audit s) j" by (auto simp: sound_def trail_def)
      then show ?thesis by (rule conf)
    next
      case True
      with st have nxt: "st = nxt" by simp
      show ?thesis
      proof (cases "nxt = CONFIRMED")
        case True
        with ok have "lifecycle_state c = NEEDS_CONFIRMATION" by (auto dest: to_confirmed)
        with True \<open>j = cid\<close> show ?thesis by (auto simp: confirmed_in_def)
      next
        case False
        with past nxt ok have "lifecycle_state c \<in> set past_confirmation"
          by (auto simp: past_confirmation_def dest: to_executing to_execution_requested)
        with s old have "confirmed_in (audit s) cid" by (auto simp: sound_def trail_def)
        then show ?thesis using conf True by blast
      qed
    qed
  qed
  moreover have "lawful_log (audit ?t)"
    using s ok by (auto simp: sound_def lawful_log_def lawful_entry_def)
  moreover have "sent_once ?t"
  proof -
    have "\<exists>st. lifecycle_at ?t (d_command_id d) = Some st \<and> stage st \<le> 2"
      if "d \<in> set (dispatched s)" for d
    proof (cases "d_command_id d = cid")
      case True
      with s that old have "stage (lifecycle_state c) \<le> 2" by (auto simp: sound_def sent_once_def)
      with allowed_stage [OF ok] True at [of cid] show ?thesis by auto
    next
      case False
      with s that at [of "d_command_id d"] show ?thesis by (auto simp: sound_def sent_once_def)
    qed
    with s conf show ?thesis by (auto simp: sound_def sent_once_def)
  qed
  moreover have "evolves s0 ?t"
    unfolding evolves_def at
  proof (intro allI impI)
    fix j a
    assume "lifecycle_at s0 j = Some a"
    with s obtain p b where p: "lifecycle_at s j = Some b" "lifecycle_path a p b"
      unfolding sound_def evolves_def by blast
    then show "\<exists>p b. (if j = cid then Some nxt else lifecycle_at s j) = Some b \<and> lifecycle_path a p b"
      using old ok by (cases "j = cid") (auto intro: lifecycle_path.step)
  qed
  moreover have "known_ids E K ?t"
    unfolding known_ids_def
  proof (intro conjI allI ballI impI)
    fix j assume "j \<in> K \<or> lifecycle_at ?t j \<noteq> None"
    then have "j \<in> K \<or> lifecycle_at s j \<noteq> None"
      unfolding at using old by (cases "j = cid") auto
    with s obtain n where "n < tick s" "j = env_uuid E n"
      unfolding sound_def known_ids_def by blast
    with k show "\<exists>n < tick ?t. j = env_uuid E n" by (intro exI [of _ n]) simp
  next
    fix j assume "j \<in> K"
    with s have "lifecycle_at s j = None" unfolding sound_def known_ids_def by blast
    with old show "lifecycle_at ?t j = None" unfolding at by (cases "j = cid") auto
  qed
  ultimately show ?thesis by (simp add: sound_def)
qed

lemma sound_transition_keeps: "keeps (sound E s0 K) (transition_record E cid nxt why rs msg)"
proof (rule keepsI)
  fix s
  assume s: "sound E s0 K s"
  obtain r t where run: "transition_record E cid nxt why rs msg s = (r, t)"
    by (cases "transition_record E cid nxt why rs msg s")
  from transition_record_run [OF run] have "sound E s0 K t"
    using s sound_transition by blast
  then show "sound E s0 K (snd (transition_record E cid nxt why rs msg s))" by (simp add: run)
qed

lemma sound_audit:
  assumes "untransitioned a" and "sound E s0 K s"
  shows "sound E s0 K (s\<lparr>audit := audit s @ [a]\<rparr>)"
  using assms(2) by (rule sound_frame)
    (use assms in \<open>auto simp: sound_filed lifecycle_at_def fun_eq_iff\<close>)

lemma sound_edit:
  assumes "mild f" and "sound E s0 K s"
  shows "sound E s0 K (s\<lparr>commands := dict_map_at cid f (commands s)\<rparr>)"
proof (rule sound_frame [OF assms(2)])
  show "lifecycle_at (s\<lparr>commands := dict_map_at cid f (commands s)\<rparr>) = lifecycle_at s"
    using assms(1) by (simp add: fun_eq_iff)
  show "filed (s\<lparr>commands := dict_map_at cid f (commands s)\<rparr>)"
    using assms by (auto simp: sound_def intro: filed_edit)
qed simp_all

interpretation inv: supervisor_frame_lock E "sound E s0 K" for E s0 K
  by unfold_locales
    (simp_all add: sound_transition_keeps sound_audit sound_edit sound_other calm_mild)

end
