(* ===== verification/Supervisor_Calls.thy ===== *)
theory Supervisor_Calls
  imports Supervisor_Frame
begin

section \<open>What every call of the supervisor preserves\<close>

text \<open>
  The frame with the three actions it leaves out: a fresh identifier, the storing of a new record
  under it, and the execution of a confirmed command.  A predicate that survives these survives
  every call of the service; \<open>F i\<close> is the predicate while the identifier \<open>i\<close> is drawn but not
  yet used.
\<close>

locale supervisor_calls = supervisor_frame_lock +
  fixes F :: "string \<Rightarrow> supervisor \<Rightarrow> bool"
  assumes fresh_frame: "supervisor_frame_lock E (F i)"
    and fresh_kept: "F i s \<Longrightarrow> P s"
    and draw: "triple P (ask (env_uuid E)) F P"
    and store: "lifecycle_state c = RECEIVED
      \<Longrightarrow> triple (F (command_id c)) (store_command c) (\<lambda>_. P) P"
    and on_mild: "mild f \<Longrightarrow> P s \<Longrightarrow> P (s\<lparr>commands := dict_map_at cid f (commands s)\<rparr>)"
    and confirming: "keeps P (confirm_command_internal E cid l sid oid fp)"
    and on_telemetry: "P s \<Longrightarrow> P (s\<lparr>telemetry_bound := True\<rparr>)"

sublocale supervisor_calls \<subseteq> fresh: supervisor_frame_lock E "F i" for i
  by (rule fresh_frame)

context supervisor_calls
begin

lemma keeps_mild: "(\<And>c. command_id (f c) = command_id c) \<Longrightarrow>
    (\<And>c. lifecycle_state (f c) = lifecycle_state c) \<Longrightarrow> keeps P (update_command cid f)"
  unfolding update_command_def by (intro keeps_modify on_mild mildI)

lemmas known = basic keeps_mild keeps_expire keeps_expire_pending keeps_reject keeps_response keeps_query
  keeps_finish keeps_check_controller keeps_owned keeps_no_active_job keeps_sequence_end keeps_validate
  keeps_validate_sequence keeps_build_validation

lemma keep: "keeps P m \<Longrightarrow> triple P m (\<lambda>_. P) P"
  by (rule triple_keeps)

lemma keep_fresh: "keeps (F i) m \<Longrightarrow> triple (F i) m (\<lambda>_. F i) P"
  by (rule triple_keeps) (auto intro: fresh_kept)

subsection \<open>Confirmation\<close>

lemma keeps_run_steps: "keeps P (run_steps E qid l sid oid is)"
proof (induction "is")
  case Nil
  then show ?case by (simp add: known)
next
  case (Cons i "is")
  have "keeps P (modify (\<lambda>s. s\<lparr>active_command_id := Some i\<rparr>))"
    by (rule keeps_modify) (rule on_active)
  with Cons show ?case
    by (auto intro!: keeps_intros known confirming)
qed

lemma keeps_confirm:
  "keeps P (confirm_command E sid oid tok cid fp)" "keeps P (confirm_sequence E sid oid tok cid fp)"
  unfolding confirm_command_def confirm_sequence_def Let_def
  by (auto intro!: keeps_intros known keeps_confirmable confirming keeps_run_steps)

subsection \<open>Submission\<close>

lemma receive:
  assumes "lifecycle_state c = RECEIVED"
  shows "triple (F (command_id c)) (receive_record E c shown why rs) (\<lambda>_. P) P"
  unfolding receive_record_def
  by (rule triple_block_Cons [OF store [OF assms]], rule keep) (auto intro!: keeps_intros known)

lemma first_receive:
  assumes c: "lifecycle_state c = RECEIVED" "command_id c = cid" and rest: "keeps P (block ms)"
  shows "triple (F cid) (block (receive_record E c shown why rs # ms)) (\<lambda>_. P) P"
  using triple_block_Cons [OF receive [OF c(1)] keep [OF rest]] c(2) by simp

lemma first_store:
  assumes c: "lifecycle_state c = RECEIVED" "command_id c = cid" and rest: "keeps P (block ms)"
  shows "triple (F cid) (block (store_command c # ms)) (\<lambda>_. P) P"
  using triple_block_Cons [OF store [OF c(1)] keep [OF rest]] c(2) by simp

lemma submit_rejected:
  "triple (F cid) (reject_intent_submission E sid oid rt m text intent cid corr why) (\<lambda>_. P) P"
  unfolding reject_intent_submission_def
  by (intro triple_bnd [OF keep_fresh] triple_andthen [OF first_receive] keep)
    (auto intro!: keeps_intros known fresh.basic fresh.keeps_build_validation simp: new_record_def)

lemma keeps_submission:
  "keeps P (validate_parsed E sid oid l rt m cid p)" "keeps P (await_confirmation E sid oid l rt m cid)"
  "keeps P (reject_unparsed E sid oid rt cid why)"
  unfolding validate_parsed_def await_confirmation_def reject_unparsed_def Let_def
  by (auto intro!: keeps_intros known confirming)

lemma submit_single:
  "triple (F cid) (submit_single_command E sid oid l rt m text intent cid corr) (\<lambda>_. P) P"
  unfolding submit_single_command_def Let_def
  by (intro triple_bnd [OF keep_fresh] triple_andthen [OF triple_block_Cons [OF keep_fresh first_receive]]
      keep)
    (auto intro!: keeps_intros known fresh.basic keeps_submission simp: new_record_def)

lemma keeps_add_step: "keeps P (add_step E sid oid rt m text qid corr n i p)"
  unfolding add_step_def
  by (rule keeps_triple, rule triple_bnd [OF draw],
      intro triple_bnd [OF keep_fresh] triple_andthen [OF triple_block_Cons [OF keep_fresh first_store]]
        keep)
    (auto intro!: keeps_intros known fresh.basic fresh.keeps_edit simp: new_record_def plan_of_def)

lemma keeps_add_steps: "keeps P (add_steps E sid oid rt m qid corr n i segments ps)"
  by (induction ps arbitrary: i) (auto intro!: keeps_intros keeps_add_step)

lemma keeps_validate_steps: "keeps P (validate_steps E rt l v is)"
  by (induction "is" arbitrary: v) (auto intro!: keeps_intros known)

lemma keeps_queue: "keeps P (validate_and_queue E sid oid l rt m qid steps diagnostics kids)"
proof -
  have "keeps P (modify (\<lambda>s. s\<lparr>active_command_id := x\<rparr>))" for x
    by (rule keeps_modify) (rule on_active)
  then show ?thesis
    unfolding validate_and_queue_def await_sequence_confirmation_def reject_sequence_def Let_def
    by (auto intro!: keeps_intros known keeps_validate_steps keeps_confirm)
qed

lemma submit_many:
  "triple (F qid) (submit_sequence E sid oid l rt m text intent prepared qid corr) (\<lambda>_. P) P"
  unfolding submit_sequence_def Let_def
  by (intro triple_bnd [OF keep_fresh] triple_andthen [OF first_receive] keep)
    (auto intro!: keeps_intros known fresh.basic keeps_add_steps keeps_queue
      simp: new_record_def reject_sequence_def split: prod.split)

lemma submit_routed:
  "triple (F cid) (route_intent E sid oid l rt m text ir cid corr) (\<lambda>_. P) P"
  unfolding route_intent_def
  by (intro triple_bnd [OF keep_fresh] triple_if submit_many submit_single fresh.keeps_ask)

lemma fresh_resolve: "keeps (F i) (resolve_quick_command_semantic_ir E q)"
  unfolding resolve_quick_command_semantic_ir_def by (auto intro!: keeps_intros fresh.basic)

lemma fresh_review: "keeps (F i) (submit_text_for_gateway_review E text m sid oid cid)"
  unfolding submit_text_for_gateway_review_def
  by (auto intro!: keeps_intros fresh.basic split: json.split)

text \<open>The identifiers of a submission: its command's, which is kept, and its correlation's.\<close>

lemma draw_ids:
  assumes "\<And>i j. triple (F i) (f i j) (\<lambda>_. P) P"
  shows "triple P (bnd (ask (env_uuid E)) (\<lambda>i. bnd (ask (env_uuid E)) (f i))) (\<lambda>_. P) P"
  by (intro triple_bnd [OF draw] triple_bnd [OF keep_fresh [OF fresh.keeps_ask]] assms)

lemma submit_option:
  assumes "triple (F i) m (\<lambda>_. P) P" and "\<And>x. triple (F i) (f x) (\<lambda>_. P) P"
  shows "triple (F i) (case v of None \<Rightarrow> m | Some x \<Rightarrow> f x) (\<lambda>_. P) P"
  using assms by (cases v) simp_all

lemma keeps_submit: "keeps P (submit_intent E sid oid tok raw quick intent mode_text)"
  unfolding submit_intent_def Let_def
  by (rule keeps_triple)
    (intro draw_ids triple_andthen [OF keep] triple_bnd [OF keep] triple_andthen [OF keep_fresh]
      triple_bnd [OF keep_fresh] submit_option triple_if submit_rejected submit_routed
      fresh_resolve fresh_review fresh.basic keeps_guard known)

subsection \<open>Every call\<close>

lemma keeps_bind: "keeps P bind_telemetry_service"
  unfolding bind_telemetry_service_def by (rule keeps_modify) (rule on_telemetry)

lemma step_kept:
  assumes "P s"
  shows "P (hmi_step E e s)"
proof (cases e)
  case StartServo
  then show ?thesis using keepsD [OF keeps_servo assms] by (simp add: start_servo_def)
next
  case HoldServo
  then show ?thesis using keepsD [OF keeps_servo assms] by (simp add: hold_servo_def)
next
  case ListCommands
  then show ?thesis using keepsD [OF keeps_expire_pending assms] by (simp add: list_commands_def)
qed (simp_all add: keepsD [OF keeps_leases(1) assms] keepsD [OF keeps_leases(2) assms]
    keepsD [OF keeps_leases(3) assms] keepsD [OF keeps_submit assms] keepsD [OF keeps_confirm(1) assms]
    keepsD [OF keeps_confirm(2) assms] keepsD [OF keeps_cancel(1) assms] keepsD [OF keeps_cancel(2) assms]
    keepsD [OF keeps_queries(1) assms] keepsD [OF keeps_queries(2) assms] keepsD [OF keeps_snapshot assms]
    keepsD [OF keeps_bind assms] keepsD [OF keeps_debug assms])

end

end
