(* ===== verification/Supervisor_Runs.thy ===== *)
theory Supervisor_Runs
  imports Supervisor_Invariant Supervisor_Calls
begin

section \<open>The invariant over every call\<close>

text \<open>
  The two operations the frame leaves out, and with them every call of the service: the storing
  of a new record, whose identifier must be fresh, and the hand-off to ROS, which needs a record
  that has just been confirmed.
\<close>

subsection \<open>Fresh identifiers\<close>

lemma sound_fewer: "sound E s0 K s \<Longrightarrow> J \<subseteq> K \<Longrightarrow> sound E s0 J s"
  unfolding sound_def known_ids_def by blast

lemma sound_draw:
  assumes inj: "inj (env_uuid E)"
  shows "triple (sound E s0 K) (ask (env_uuid E)) (\<lambda>i. sound E s0 (insert i K)) (sound E s0 K)"
proof (rule tripleI)
  fix s i t
  assume s: "sound E s0 K s" and run: "ask (env_uuid E) s = (Inr i, t)"
  then have i: "i = env_uuid E (tick s)" and t: "t = s\<lparr>tick := Suc (tick s)\<rparr>"
    by (simp_all add: ask_def)
  have old: "sound E s0 K t" unfolding t using s by (rule sound_other) simp_all
  have "lifecycle_at t i = None"
  proof (rule ccontr)
    assume "lifecycle_at t i \<noteq> None"
    then have "lifecycle_at s i \<noteq> None" by (simp add: t)
    with s obtain n where "n < tick s" "i = env_uuid E n" unfolding sound_def known_ids_def by blast
    with inj i show False by (auto dest: injD)
  qed
  moreover have "\<exists>n < tick t. i = env_uuid E n" by (intro exI [of _ "tick s"]) (simp add: i t)
  ultimately have "known_ids E (insert i K) t" using old unfolding sound_def known_ids_def by blast
  with old show "sound E s0 (insert i K) t" by (simp add: sound_def)
qed (simp add: ask_def)

lemma sound_store:
  assumes s: "sound E s0 K s" and new: "command_id c \<in> K" and st: "lifecycle_state c = RECEIVED"
  shows "sound E s0 (K - {command_id c}) (s\<lparr>commands := dict_set (command_id c) c (commands s)\<rparr>)"
    (is "sound E s0 ?J ?t")
proof -
  have at: "lifecycle_at ?t j = (if j = command_id c then Some RECEIVED else lifecycle_at s j)" for j
    by (simp add: lifecycle_at_def st)
  have none: "lifecycle_at s (command_id c) = None"
    using s new unfolding sound_def known_ids_def by blast
  have "filed ?t" using s by (auto simp: sound_def filed_def)
  moreover have "trail ?t"
    using s by (auto simp: sound_def trail_def at past_confirmation_def)
  moreover have "sent_once ?t"
  proof -
    have "d_command_id d \<noteq> command_id c" if "d \<in> set (dispatched s)" for d
      using s that none by (auto simp: sound_def sent_once_def)
    with s show ?thesis by (auto simp: sound_def sent_once_def at)
  qed
  moreover have "evolves s0 ?t"
    unfolding evolves_def at
  proof (intro allI impI)
    fix j a
    assume "lifecycle_at s0 j = Some a"
    with s obtain p b where "lifecycle_at s j = Some b" "lifecycle_path a p b"
      unfolding sound_def evolves_def by blast
    with none show "\<exists>p b. (if j = command_id c then Some RECEIVED else lifecycle_at s j) = Some b
        \<and> lifecycle_path a p b"
      by auto
  qed
  moreover have "known_ids E ?J ?t"
    unfolding known_ids_def
  proof (intro conjI allI ballI impI)
    fix j
    assume "j \<in> ?J \<or> lifecycle_at ?t j \<noteq> None"
    with new have "j \<in> K \<or> lifecycle_at s j \<noteq> None" by (auto simp: at split: if_splits)
    with s obtain n where "n < tick s" "j = env_uuid E n" unfolding sound_def known_ids_def by blast
    then show "\<exists>n < tick ?t. j = env_uuid E n" by (intro exI [of _ n]) simp
  next
    fix j
    assume "j \<in> ?J"
    with s show "lifecycle_at ?t j = None" unfolding sound_def known_ids_def at by auto
  qed
  ultimately show ?thesis using s by (simp add: sound_def)
qed

lemma sound_store_triple:
  assumes "lifecycle_state c = RECEIVED"
  shows "triple (sound E s0 {command_id c}) (store_command c) (\<lambda>_. sound E s0 {}) (sound E s0 {})"
proof (rule tripleI)
  fix s x t
  assume s: "sound E s0 {command_id c} s" and run: "store_command c s = (Inr x, t)"
  from run have "t = s\<lparr>commands := dict_set (command_id c) c (commands s)\<rparr>"
    by (simp add: store_command_def py_simps)
  with sound_store [OF s _ assms] show "sound E s0 {} t" by simp
qed (simp add: store_command_def py_simps)

subsection \<open>The hand-off\<close>

text \<open>A record in the state \<open>st\<close> that has not been handed over.\<close>

definition held :: "hmi_env \<Rightarrow> supervisor \<Rightarrow> string set \<Rightarrow> string \<Rightarrow> lifecycle \<Rightarrow> supervisor \<Rightarrow> bool" where
  "held E s0 K cid st s \<longleftrightarrow> sound E s0 K s \<and> lifecycle_at s cid = Some st \<and>
     cid \<notin> d_command_id ` set (dispatched s)"

lemma held_sound: "held E s0 K cid st s \<Longrightarrow> sound E s0 K s"
  by (simp add: held_def)

interpretation held: supervisor_quiet E "held E s0 K cid st" for E s0 K cid st
  by unfold_locales
    (auto simp: held_def fun_eq_iff dest: calm_mild intro: inv.on_tick inv.on_console inv.on_messages inv.on_broadcasts
      inv.on_active inv.on_active_sequence inv.on_aborted inv.on_servo inv.on_audit inv.on_edit calm_mild)

lemma transition_held:
  assumes sound: "\<And>s. P s \<Longrightarrow> sound E s0 K s"
    and new: "\<And>s x. P s \<Longrightarrow> lifecycle_at s cid = Some x \<Longrightarrow> allowed x st
      \<Longrightarrow> cid \<notin> d_command_id ` set (dispatched s)"
  shows "triple P (transition_command E cid st why rs msg) (\<lambda>_. held E s0 K cid st) (sound E s0 K)"
  unfolding transition_command_def
proof (rule triple_andthen)
  show "triple P (transition_record E cid st why rs msg) (\<lambda>_. held E s0 K cid st) (sound E s0 K)"
  proof (rule tripleI)
    fix s x t
    assume s: "P s" and run: "transition_record E cid st why rs msg s = (Inr x, t)"
    from transition_record_run [OF run] obtain c a ms k where c: "map_of (commands s) cid = Some c"
      and ok: "allowed (lifecycle_state c) st" and k: "tick s \<le> k"
      and t: "t = s\<lparr>commands := dict_map_at cid (\<lambda>c. c\<lparr>lifecycle_state := st\<rparr>) (commands s),
             audit := audit s @ [Upsert a, Transition cid (Some (lifecycle_state c)) st rs why],
             messages := ms, tick := k\<rparr>" by auto
    have "sound E s0 K t" unfolding t by (rule sound_transition [OF sound [OF s] c ok k])
    moreover have "lifecycle_at t cid = Some st" by (simp add: t transition_lifecycle [OF c])
    moreover have "cid \<notin> d_command_id ` set (dispatched t)"
      using new [OF s _ ok] c by (simp add: t lifecycle_at_def)
    ultimately show "held E s0 K cid st t" by (simp add: held_def)
  next
    fix s e t
    assume s: "P s" and "transition_record E cid st why rs msg s = (Inl e, t)"
    then have "t = s" using transition_record_run by fastforce
    then show "sound E s0 K t" using sound [OF s] by simp
  qed
  show "triple (held E s0 K cid st) (emit_command_event cid) (\<lambda>_. held E s0 K cid st) (sound E s0 K)"
    by (rule triple_keeps) (auto intro: held.keeps_emits held_sound)
qed

lemma confirm_held:
  "triple (sound E s0 K) (transition_command E cid CONFIRMED why rs msg)
     (\<lambda>_. held E s0 K cid CONFIRMED) (sound E s0 K)"
proof (rule transition_held)
  fix s x
  assume s: "sound E s0 K s" and x: "lifecycle_at s cid = Some x" "allowed x CONFIRMED"
  show "cid \<notin> d_command_id ` set (dispatched s)"
  proof
    assume "cid \<in> d_command_id ` set (dispatched s)"
    with s obtain y where "lifecycle_at s cid = Some y" "stage y \<le> 2"
      unfolding sound_def sent_once_def by blast
    with x show False by (auto dest: to_confirmed)
  qed
qed

lemma request_held:
  "triple (held E s0 K cid CONFIRMED) (transition_command E cid EXECUTION_REQUESTED why rs msg)
     (\<lambda>_. held E s0 K cid EXECUTION_REQUESTED) (sound E s0 K)"
  by (rule transition_held) (simp_all add: held_def)

lemma send_sound:
  "triple (held E s0 K (d_command_id d) EXECUTION_REQUESTED) (send_to_ros E d)
     (\<lambda>_. sound E s0 K) (sound E s0 K)"
proof -
  have "sound E s0 K (s\<lparr>dispatched := dispatched s @ [d], tick := Suc (tick s)\<rparr>)"
    (is "sound E s0 K ?t") if h: "held E s0 K (d_command_id d) EXECUTION_REQUESTED s" for s
  proof -
    have conf: "confirmed_in (audit s) (d_command_id d)"
      using h unfolding held_def sound_def trail_def by (auto simp: past_confirmation_def)
    with h have "sent_once ?t" by (auto simp: held_def sound_def sent_once_def)
    moreover have "known_ids E K ?t"
      using inv.on_tick [OF held_sound [OF h]] by (simp add: sound_def known_ids_def)
    ultimately show ?thesis
      using h by (simp add: held_def sound_def filed_def trail_def evolves_def)
  qed
  then show ?thesis
    unfolding send_to_ros_def ask_try_def by (intro tripleI) (auto simp: py_simps)
qed

lemmas keeps_sound = inv.basic inv.keeps_response inv.keeps_query inv.keeps_finish inv.keeps_validate

lemma hand_off_sound:
  "triple (held E s0 K cid EXECUTION_REQUESTED) (hand_off E cid l sid oid fp rs)
     (\<lambda>_. sound E s0 K) (sound E s0 K)"
  unfolding hand_off_def
proof (rule triple_bnd, rule triple_keeps [OF held.keeps_find held_sound], assumption)
  fix c
  show "triple (held E s0 K cid EXECUTION_REQUESTED)
     (bnd (if correlation_id c = [] then ask (env_uuid E) else ret (correlation_id c)) (\<lambda>corr.
     bnd (send_to_ros E
        \<lparr>d_command_id = cid, d_plan_fingerprint = fp, d_operator_id = oid, d_session_id = sid,
         d_lease_id = lease_id l, d_correlation_id = corr, d_parsed_intent = parsed_intent c,
         d_requested_mode = mode_value (cmd_mode c)\<rparr>) (\<lambda>result.
     andthen (block
       [update_command cid (\<lambda>c. c\<lparr>execution_result := Some result\<rparr>),
        record_runtime_event rs sid oid (Some cid) ''execution boundary response recorded'',
        trace_command ''execution.response'' cid,
        finish_execution E cid rs result,
        upsert_command cid, broadcast_replay_update])
     (bnd (find_command cid) (\<lambda>c.
        let ok = (final_state c = Some SUCCEEDED) in
        command_response E cid ok (if ok then None else summary_of result))))))
     (\<lambda>_. sound E s0 K) (sound E s0 K)" (is "triple ?H (bnd ?corr (\<lambda>corr. bnd (?send corr) ?rest)) _ _")
  proof (rule triple_bnd)
    show "triple ?H ?corr (\<lambda>_. ?H) (sound E s0 K)"
      by (rule triple_keeps) (auto intro!: keeps_intros held.keeps_ask dest: held_sound)
    fix corr
    show "triple ?H (bnd (?send corr) ?rest) (\<lambda>_. sound E s0 K) (sound E s0 K)"
    proof (rule triple_bnd)
      show "triple ?H (?send corr) (\<lambda>_. sound E s0 K) (sound E s0 K)"
        using send_sound [of E s0 K "\<lparr>d_command_id = cid, d_plan_fingerprint = fp,
          d_operator_id = oid, d_session_id = sid, d_lease_id = lease_id l, d_correlation_id = corr,
          d_parsed_intent = parsed_intent c, d_requested_mode = mode_value (cmd_mode c)\<rparr>"] by simp
      fix result
      show "triple (sound E s0 K) (?rest result) (\<lambda>_. sound E s0 K) (sound E s0 K)"
        unfolding Let_def
        by (rule triple_keeps) (auto intro!: keeps_intros keeps_sound inv.keeps_edit simp: plan_of_def)
    qed
  qed
qed

lemma request_execution_held:
  "triple (sound E s0 K) (block
     [transition_command E cid CONFIRMED why1 rs msg1,
      trace_command stg cid,
      bnd (utcnow E) (\<lambda>t. update_command cid (\<lambda>c. c\<lparr>confirm_at := Some t\<rparr>)),
      upsert_command cid,
      transition_command E cid EXECUTION_REQUESTED why2 rs msg2,
      trace stg2 (Some cid) None (Some oid),
      bnd (utcnow E) (\<lambda>t. update_command cid (\<lambda>c. c\<lparr>execute_at := Some t\<rparr>))])
     (\<lambda>_. held E s0 K cid EXECUTION_REQUESTED) (sound E s0 K)"
proof -
  let ?C = "held E s0 K cid CONFIRMED" and ?X = "held E s0 K cid EXECUTION_REQUESTED"
  have X: "triple ?X (block [trace stg2 (Some cid) None (Some oid),
      bnd (utcnow E) (\<lambda>t. update_command cid (\<lambda>c. c\<lparr>execute_at := Some t\<rparr>))])
     (\<lambda>_. ?X) (sound E s0 K)"
    by (rule triple_keeps) (auto intro!: keeps_intros held.quiet held.keeps_edit simp: plan_of_def dest: held_sound)
  have C: "keeps ?C (trace_command stg cid)" "keeps ?C (upsert_command cid)"
    "keeps ?C (bnd (utcnow E) (\<lambda>t. update_command cid (\<lambda>c. c\<lparr>confirm_at := Some t\<rparr>)))"
    by (auto intro!: keeps_intros held.quiet held.keeps_edit simp: plan_of_def)
  show ?thesis
    by (rule triple_block_Cons [OF confirm_held],
        intro triple_block_keep C triple_block_Cons [OF request_held X]) (auto dest: held_sound)
qed

lemma execute_confirmed_sound: "keeps (sound E s0 K) (execute_confirmed_command E cid l sid oid fp rt)"
  unfolding execute_confirmed_command_def Let_def
proof (rule keeps_triple, rule triple_andthen [OF request_execution_held])
  let ?X = "held E s0 K cid EXECUTION_REQUESTED"
  have query: "triple ?X (execute_get_pose_query E cid sid oid rt) (\<lambda>_. sound E s0 K) (sound E s0 K)"
    by (rule triple_weaken [OF triple_keeps [OF inv.keeps_query]]) (auto dest: held_sound)
  show "triple ?X (bnd (find_command cid) (\<lambda>c. bnd (lift (is_get_pose_command c)) (\<lambda>query.
       if query then execute_get_pose_query E cid sid oid rt
       else hand_off E cid l sid oid fp (rt_system_state rt))))
     (\<lambda>_. sound E s0 K) (sound E s0 K)"
    by (intro triple_bnd [OF triple_keeps] triple_if query hand_off_sound held.keeps_find keeps_lift)
      (auto dest: held_sound)
qed

lemma confirm_internal_sound: "keeps (sound E s0 K) (confirm_command_internal E cid l sid oid fp)"
  unfolding confirm_command_internal_def Let_def
  by (auto intro!: keeps_intros keeps_sound inv.keeps_edit execute_confirmed_sound simp: plan_of_def)

subsection \<open>Every call\<close>

lemma keeps_imp: "keeps P m \<Longrightarrow> keeps (\<lambda>s. A \<longrightarrow> P s) m"
  by (auto simp: keeps_def)

definition fresh_sound :: "hmi_env \<Rightarrow> supervisor \<Rightarrow> string set \<Rightarrow> supervisor \<Rightarrow> bool" where
  "fresh_sound E s0 K s \<longleftrightarrow> inj (env_uuid E) \<longrightarrow> sound E s0 K s"

interpretation fresh_sound: supervisor_frame_lock E "fresh_sound E s0 K" for E s0 K
  unfolding fresh_sound_def
  by unfold_locales
    (auto intro: keeps_imp inv.on_tick inv.on_console inv.on_messages inv.on_broadcasts inv.on_active
      inv.on_active_sequence inv.on_aborted inv.on_servo inv.on_audit inv.on_edit inv.on_transition
      inv.on_lock)

interpretation calls: supervisor_calls E "fresh_sound E s0 {}" "\<lambda>i. fresh_sound E s0 {i}" for E s0
proof unfold_locales
  fix i s
  assume "fresh_sound E s0 {i} s"
  then show "fresh_sound E s0 {} s" by (auto simp: fresh_sound_def intro: sound_fewer)
next
  show "triple (fresh_sound E s0 {}) (ask (env_uuid E)) (\<lambda>i. fresh_sound E s0 {i}) (fresh_sound E s0 {})"
    unfolding fresh_sound_def by (rule triple_imp) (rule sound_draw)
next
  fix c :: command_record
  assume "lifecycle_state c = RECEIVED"
  then show "triple (fresh_sound E s0 {command_id c}) (store_command c) (\<lambda>_. fresh_sound E s0 {})
      (fresh_sound E s0 {})"
    unfolding fresh_sound_def by (intro triple_imp sound_store_triple)
next
  show "keeps (fresh_sound E s0 {}) (confirm_command_internal E cid l sid oid fp)" for cid l sid oid fp
    unfolding fresh_sound_def by (rule keeps_imp) (rule confirm_internal_sound)
qed (auto simp: fresh_sound_def intro: sound_edit sound_other)

interpretation hmi: machine "hmi_step E" "fresh_sound E s0 {}" for E s0
  by unfold_locales (rule calls.step_kept)

end
