(* ===== verification/Supervisor_Gate.thy ===== *)
theory Supervisor_Gate
  imports Supervisor_Runs
begin

section \<open>What every hand-off to ROS has passed\<close>

text \<open>
  Two predicates of the frame, and what they give for the path from the confirmation gate to the
  adapter: the plan a record keeps, and a condition on the hand-offs made since a given state.
\<close>

lemmas frame_defs = supervisor_frame_lock_def supervisor_frame_lock_axioms_def supervisor_frame_def
  supervisor_frame_axioms_def supervisor_quiet_def supervisor_quiet_axioms_def supervisor_logs_def

lemma frame_conj:
  assumes "supervisor_frame_lock E P" and "supervisor_frame_lock E Q"
  shows "supervisor_frame_lock E (\<lambda>s. P s \<and> Q s)"
  using assms unfolding frame_defs keeps_def by simp

subsection \<open>The plan of a record\<close>

definition plan_at :: "string \<Rightarrow> (command_record \<Rightarrow> bool) \<Rightarrow> supervisor \<Rightarrow> bool" where
  "plan_at cid Q s \<longleftrightarrow> (\<exists>c c'. map_of (commands s) cid = Some c \<and> plan_of c' = plan_of c \<and> Q c')"

lemma plan_at_edit:
  assumes f: "\<And>c. plan_of (f c) = plan_of c" and s: "plan_at cid Q s"
  shows "plan_at cid Q (s\<lparr>commands := dict_map_at k f (commands s)\<rparr>)"
proof -
  from s obtain c c' where c: "map_of (commands s) cid = Some c" "plan_of c' = plan_of c" "Q c'"
    unfolding plan_at_def by blast
  then have "map_of (dict_map_at k f (commands s)) cid = Some (if cid = k then f c else c)"
    by (cases "cid = k") simp_all
  moreover have "plan_of c' = plan_of (if cid = k then f c else c)" using c(2) f by simp
  ultimately show ?thesis using c(3) unfolding plan_at_def by auto
qed

lemma plan_at_transition: "keeps (plan_at cid Q) (transition_record E k nxt why rs msg)"
proof (rule keepsI)
  fix s
  assume s: "plan_at cid Q s"
  obtain r t where run: "transition_record E k nxt why rs msg s = (r, t)"
    by (cases "transition_record E k nxt why rs msg s")
  have moved: "plan_at cid Q (s\<lparr>commands := dict_map_at k (\<lambda>c. c\<lparr>lifecycle_state := nxt\<rparr>) (commands s)\<rparr>)"
    by (rule plan_at_edit [OF _ s]) (simp add: plan_of_def)
  from transition_record_run [OF run] have "plan_at cid Q t"
    using s moved by (auto simp: plan_at_def)
  then show "plan_at cid Q (snd (transition_record E k nxt why rs msg s))" by (simp add: run)
qed

interpretation plan_at: supervisor_frame_lock E "plan_at cid Q" for E cid Q
proof unfold_locales
  fix f s k
  assume "calm f" and "plan_at cid Q s"
  then show "plan_at cid Q (s\<lparr>commands := dict_map_at k f (commands s)\<rparr>)"
    by (intro plan_at_edit) (simp_all add: calm_def)
qed (simp_all add: plan_at_def [of _ _ "_ :: supervisor"] plan_at_transition)

subsection \<open>The hand-offs since a state\<close>

text \<open>While the readings made are at most \<open>N\<close>: with \<open>N\<close> the reading a call ends at, all of them.\<close>

definition sends :: "nat \<Rightarrow> supervisor \<Rightarrow> (dispatch \<Rightarrow> bool) \<Rightarrow> supervisor \<Rightarrow> bool" where
  "sends N s0 A s \<longleftrightarrow> tick s0 \<le> tick s \<and>
     (tick s \<le> N \<longrightarrow> (\<exists>ds. dispatched s = dispatched s0 @ ds \<and> (\<forall>d \<in> set ds. A d)))"

lemma sends_refl: "sends N s A s"
  by (simp add: sends_def)

lemma sends_transition: "keeps (sends N s0 A) (transition_record E k nxt why rs msg)"
proof (rule keepsI)
  fix s
  assume s: "sends N s0 A s"
  obtain r t where run: "transition_record E k nxt why rs msg s = (r, t)"
    by (cases "transition_record E k nxt why rs msg s")
  from transition_record_run [OF run] have "sends N s0 A t"
    using s by (auto simp: sends_def)
  then show "sends N s0 A (snd (transition_record E k nxt why rs msg s))" by (simp add: run)
qed

interpretation sends: supervisor_frame_lock E "sends N s0 A" for E N s0 A
  by unfold_locales (simp_all add: sends_transition, simp_all add: sends_def)

text \<open>Both together, the state of the path from the gate to the adapter.\<close>

definition armed :: "nat \<Rightarrow> supervisor \<Rightarrow> (dispatch \<Rightarrow> bool) \<Rightarrow> string \<Rightarrow> (command_record \<Rightarrow> bool) \<Rightarrow> supervisor \<Rightarrow> bool"
where
  "armed N s0 A cid Q s \<longleftrightarrow> sends N s0 A s \<and> plan_at cid Q s"

lemma armed_sends: "armed N s0 A cid Q s \<Longrightarrow> sends N s0 A s"
  by (simp add: armed_def)

interpretation armed: supervisor_frame_lock E "armed N s0 A cid Q" for E N s0 A cid Q
proof -
  have "armed N s0 A cid Q = (\<lambda>s. sends N s0 A s \<and> plan_at cid Q s)" by (simp add: armed_def fun_eq_iff)
  moreover have "supervisor_frame_lock E (\<lambda>s. sends N s0 A s \<and> plan_at cid Q s)"
    by (intro frame_conj sends.supervisor_frame_lock_axioms plan_at.supervisor_frame_lock_axioms)
  ultimately show "supervisor_frame_lock E (armed N s0 A cid Q)" by simp
qed

subsection \<open>From the gate to the adapter\<close>

text \<open>What the adapter is handed for a record with the plan of \<open>c\<close>.\<close>

definition handed :: "string \<Rightarrow> lease_record \<Rightarrow> string \<Rightarrow> string \<Rightarrow> string \<Rightarrow> command_record \<Rightarrow> dispatch \<Rightarrow> bool"
where
  "handed cid l sid oid fp c d \<longleftrightarrow> d_command_id d = cid \<and> d_lease_id d = lease_id l \<and>
     d_session_id d = sid \<and> d_operator_id d = oid \<and> d_plan_fingerprint d = fp \<and>
     d_parsed_intent d = parsed_intent c \<and> d_requested_mode d = mode_value (cmd_mode c)"

lemma find_armed:
  "triple (armed N s0 A cid Q) (find_command cid)
     (\<lambda>c. armed N s0 A cid (\<lambda>c'. Q c' \<and> plan_of c' = plan_of c)) (sends N s0 A)"
proof (rule tripleI)
  fix s c t
  assume s: "armed N s0 A cid Q s" and run: "find_command cid s = (Inr c, t)"
  then have t: "t = s" and c: "map_of (commands s) cid = Some c"
    by (simp_all add: find_command_def split: option.splits)
  from s have "plan_at cid Q s" by (simp add: armed_def)
  then obtain c1 c' where c1: "map_of (commands s) cid = Some c1" and c': "plan_of c' = plan_of c1" "Q c'"
    unfolding plan_at_def by blast
  from c c1 have "c1 = c" by simp
  then have "plan_of c' = plan_of c" using c'(1) by simp
  with c c'(2) have "plan_at cid (\<lambda>c'. Q c' \<and> plan_of c' = plan_of c) s"
    unfolding plan_at_def by (intro exI conjI)
  with s show "armed N s0 A cid (\<lambda>c'. Q c' \<and> plan_of c' = plan_of c) t"
    unfolding t armed_def by (intro conjI) simp_all
next
  fix s e t
  assume "armed N s0 A cid Q s" and "find_command cid s = (Inl e, t)"
  then show "sends N s0 A t" by (simp add: find_command_def armed_def split: option.splits)
qed

lemma send_sends: "A d \<Longrightarrow> triple (sends N s0 A) (send_to_ros E d) (\<lambda>_. sends N s0 A) (sends N s0 A)"
  by (rule tripleI) (auto simp: sends_def send_to_ros_def ask_try_def py_simps)

lemmas keeps_sends = sends.basic sends.keeps_response sends.keeps_query sends.keeps_finish
  sends.keeps_validate

lemma hand_off_sends:
  assumes A: "\<And>c d. Q c \<Longrightarrow> handed cid l sid oid fp c d \<Longrightarrow> A d"
  shows "triple (armed N s0 A cid Q) (hand_off E cid l sid oid fp rs) (\<lambda>_. sends N s0 A) (sends N s0 A)"
  unfolding hand_off_def
proof (rule triple_bnd [OF find_armed])
  fix c
  let ?Q = "\<lambda>c'. Q c' \<and> plan_of c' = plan_of c"
  let ?d = "\<lambda>corr. \<lparr>d_command_id = cid, d_plan_fingerprint = fp, d_operator_id = oid,
    d_session_id = sid, d_lease_id = lease_id l, d_correlation_id = corr,
    d_parsed_intent = parsed_intent c, d_requested_mode = mode_value (cmd_mode c)\<rparr>"
  have send: "triple (armed N s0 A cid ?Q) (send_to_ros E (?d corr)) (\<lambda>_. sends N s0 A) (sends N s0 A)" for corr
  proof (rule tripleI)
    fix s r t
    assume s: "armed N s0 A cid ?Q s"
    then obtain c' where "Q c'" "plan_of c' = plan_of c" unfolding armed_def plan_at_def by blast
    then have "A (?d corr)" by (intro A [of c']) (simp_all add: handed_def plan_of_def)
    then have send: "triple (sends N s0 A) (send_to_ros E (?d corr)) (\<lambda>_. sends N s0 A) (sends N s0 A)"
      by (rule send_sends)
    show "send_to_ros E (?d corr) s = (Inr r, t) \<Longrightarrow> sends N s0 A t"
      using triple_Inr [OF send armed_sends [OF s]] .
    show "send_to_ros E (?d corr) s = (Inl e, t) \<Longrightarrow> sends N s0 A t" for e
      using triple_Inl [OF send armed_sends [OF s]] .
  qed
  show "triple (armed N s0 A cid ?Q)
     (bnd (if correlation_id c = [] then ask (env_uuid E) else ret (correlation_id c)) (\<lambda>corr.
     bnd (send_to_ros E (?d corr)) (\<lambda>result.
     andthen (block
       [update_command cid (\<lambda>c. c\<lparr>execution_result := Some result\<rparr>),
        record_runtime_event rs sid oid (Some cid) ''execution boundary response recorded'',
        trace_command ''execution.response'' cid,
        finish_execution E cid rs result,
        upsert_command cid, broadcast_replay_update])
     (bnd (find_command cid) (\<lambda>c.
        let ok = (final_state c = Some SUCCEEDED) in
        command_response E cid ok (if ok then None else summary_of result))))))
     (\<lambda>_. sends N s0 A) (sends N s0 A)"
    (is "triple ?A (bnd ?corr (\<lambda>corr. bnd (?send corr) ?rest)) _ _")
  proof (rule triple_bnd)
    show "triple ?A ?corr (\<lambda>_. ?A) (sends N s0 A)"
      by (rule triple_keeps) (auto intro!: keeps_intros armed.keeps_ask dest: armed_sends)
    have rest: "keeps (sends N s0 A) (?rest result)" for result
      unfolding Let_def
      by (auto intro!: keeps_intros keeps_sends sends.keeps_edit simp: plan_of_def)
    show "triple ?A (bnd (?send corr) ?rest) (\<lambda>_. sends N s0 A) (sends N s0 A)" for corr
      by (rule triple_bnd [OF send triple_keeps [OF rest]])
  qed
qed

lemma execute_sends:
  assumes A: "\<And>c d. Q c \<Longrightarrow> handed cid l sid oid fp c d \<Longrightarrow> A d"
  shows "triple (armed N s0 A cid Q) (execute_confirmed_command E cid l sid oid fp rt)
    (\<lambda>_. sends N s0 A) (sends N s0 A)"
  unfolding execute_confirmed_command_def Let_def
proof (intro triple_andthen [OF triple_keeps] triple_bnd [OF triple_keeps] triple_if
    hand_off_sends [OF A])
  show "triple (armed N s0 A cid Q) (execute_get_pose_query E cid sid oid rt) (\<lambda>_. sends N s0 A) (sends N s0 A)"
    by (rule triple_weaken [OF triple_keeps [OF sends.keeps_query]]) (auto dest: armed_sends)
qed (auto intro!: keeps_intros armed.basic armed.keeps_edit simp: plan_of_def dest: armed_sends)

subsection \<open>The gate\<close>

text \<open>The readings of a confirmation that lets a command of mode \<open>m\<close> pass, each made by the call:
  the runtime, the telemetry sources (those of the execution boundary included) and the
  preflight, which may refuse only without a reason.\<close>

definition runtime_ok :: "runtime_snapshot \<Rightarrow> runtime_mode \<Rightarrow> bool" where
  "runtime_ok rt m \<longleftrightarrow> m \<in> {SIM, HARDWARE} \<and> rt_mode rt = m \<and> rt_system_state rt \<notin> {FAULT, ESTOP, LOST_CONN, SAFETY_BLOCKED}"

definition sources_ok :: "source_status list \<Rightarrow> bool" where
  "sources_ok sources \<longleftrightarrow> (\<forall>x \<in> set sources. src_active x
     \<longrightarrow> src_name x \<in> set (event_driven_source_names @ post_parse_info_only_source_names)
       \<or> src_freshness x = FRESH)"

definition clear_readings :: "hmi_env \<Rightarrow> nat \<Rightarrow> nat \<Rightarrow> runtime_mode \<Rightarrow> bool" where
  "clear_readings E n N m \<longleftrightarrow>
     (\<exists>k \<in> {n ..< N}. runtime_ok (env_runtime E k) m) \<and> (\<exists>k \<in> {n ..< N}. sources_ok (env_sources E k))
     \<and> (\<exists>k \<in> {n ..< N}. case env_preflight E k m of
          JObj d \<Rightarrow> truthy (get_or d ''accepted'' (JBool False)) \<or> \<not> truthy (get_or d ''reasons'' JNull)
        | _ \<Rightarrow> True)"

lemma mode_reasons_clear: "mode_reasons rt m = [] \<Longrightarrow> runtime_ok rt m"
  by (auto simp: mode_reasons_def runtime_ok_def is_blocking_runtime_state_def blocking_runtime_states_def
      split: if_splits)

lemma stale_clear: "stale_sources sources (nonblocking_source_names True) = [] \<Longrightarrow> sources_ok sources"
  by (auto simp: stale_sources_def nonblocking_source_names_def sources_ok_def filter_empty_conv)

lemma validate_tick: "validate_command E rt l p m enforce s = (Inr v, t) \<Longrightarrow> tick t = Suc (Suc (tick s))"
  by (auto simp: validate_command_def execution_preflight_def py_simps ask_def Let_def
      split: prod.splits sum.splits)

lemma validate_accepted:
  assumes run: "validate_command E rt l p m True s = (Inr v, t)" and ok: "v_accepted v"
    and rt: "rt = env_runtime E k" "n \<le> k" "k < tick s" and later: "n \<le> tick s" "Suc (Suc (tick s)) \<le> N"
  shows "clear_readings E n N m"
proof -
  define pf where "pf = fst (execution_preflight E m (s\<lparr>tick := Suc (tick s)\<rparr>))"
  from run ok obtain f where pf: "pf = Inr f"
    and none: "blocking_reasons p rt m
       (stale_sources (env_sources E (tick s)) (nonblocking_source_names True)) f True = []"
    by (auto simp: validate_command_def py_simps ask_def pf_def Let_def split: prod.splits sum.splits)
  have mode: "mode_reasons rt m = []" and stale: "stale_reason
      (stale_sources (env_sources E (tick s)) (nonblocking_source_names True)) = []"
    and pre: "pf_accepted f \<or> pf_reasons f = []"
    using none by (auto simp: blocking_reasons_def filtered_preflight_reasons_def split: if_splits)
  have "sources_ok (env_sources E (tick s))"
    using stale by (intro stale_clear) (simp add: stale_reason_def split: if_splits)
  moreover have "case env_preflight E (Suc (tick s)) m of
          JObj d \<Rightarrow> truthy (get_or d ''accepted'' (JBool False)) \<or> \<not> truthy (get_or d ''reasons'' JNull)
        | _ \<Rightarrow> True"
  proof (cases "env_preflight E (Suc (tick s)) m")
    case (JObj d)
    with pre pf show ?thesis
      by (auto simp: pf_def execution_preflight_def py_simps ask_def Let_def split: if_splits json.splits)
  qed simp_all
  moreover have "runtime_ok (env_runtime E k) m" using rt(1) mode_reasons_clear [OF mode] by simp
  moreover have "k \<in> {n ..< N}" "tick s \<in> {n ..< N}" "Suc (tick s) \<in> {n ..< N}" using rt(2,3) later by simp_all
  ultimately show ?thesis unfolding clear_readings_def by blast
qed

text \<open>What follows the validation, under a condition the verdict gives.\<close>

definition after_gate ::
  "hmi_env \<Rightarrow> string \<Rightarrow> lease_record \<Rightarrow> string \<Rightarrow> string \<Rightarrow> string \<Rightarrow> runtime_snapshot \<Rightarrow> command_record
    \<Rightarrow> validation \<Rightarrow> response sup" where
  "after_gate E cid l sid oid fp rt c v =
     andthen (when_do (cmd_mode c = HARDWARE) (block
       [record_runtime_event (rt_system_state rt) sid oid (Some cid) ''hardware gate evaluation'',
        record_runtime_event (rt_system_state rt) sid oid (Some cid) ''hardware preflight result'']))
     (if \<not> v_accepted v
      then
         andthen (block
           [trace_command ''confirmation.rejected'' cid,
            update_command cid (\<lambda>c. c\<lparr>validation_result := Some v\<rparr>),
            upsert_command cid, emit_command_event cid])
         (command_response E cid False (Some
            (if v_blocking_reasons v = [] then ''confirmation gate rejected command''
                    else join ''; '' (v_blocking_reasons v))))
      else execute_confirmed_command E cid l sid oid fp rt)"

lemma after_gate_sends:
  assumes A: "\<And>c d. v_accepted v \<Longrightarrow> Q c \<Longrightarrow> handed cid l sid oid fp c d \<Longrightarrow> A d"
  shows "triple (armed N s0 A cid Q) (after_gate E cid l sid oid fp rt c v) (\<lambda>_. sends N s0 A) (sends N s0 A)"
  unfolding after_gate_def
proof (intro triple_andthen [OF triple_keeps] triple_if)
  show "triple (armed N s0 A cid Q) (command_response E cid False why) (\<lambda>_. sends N s0 A) (sends N s0 A)" for why
    by (rule triple_weaken [OF triple_keeps [OF sends.keeps_response(1)]]) (auto dest: armed_sends)
  assume "\<not> \<not> v_accepted v"
  then show "triple (armed N s0 A cid Q) (execute_confirmed_command E cid l sid oid fp rt)
      (\<lambda>_. sends N s0 A) (sends N s0 A)"
    by (intro execute_sends) (simp add: A)
qed (auto intro!: keeps_intros armed.basic armed.keeps_edit simp: plan_of_def dest: armed_sends)

lemma after_gate_run:
  assumes s: "armed N s0 A cid Q s" and run: "after_gate E cid l sid oid fp rt c v s = (r, t)"
    and A: "\<And>c d. v_accepted v \<Longrightarrow> Q c \<Longrightarrow> handed cid l sid oid fp c d \<Longrightarrow> A d"
  shows "sends N s0 A t"
proof -
  have t: "triple (armed N s0 A cid Q) (after_gate E cid l sid oid fp rt c v) (\<lambda>_. sends N s0 A) (sends N s0 A)"
    by (rule after_gate_sends [OF A])
  show ?thesis using triple_Inr [OF t s] triple_Inl [OF t s] run by (cases r) blast+
qed

lemma confirm_internal_after_gate:
  "confirm_command_internal E cid l sid oid fp =
     bnd (current_runtime E) (\<lambda>rt. bnd (find_command cid) (\<lambda>c.
     bnd (validate_command E rt l (parsed_intent c) (cmd_mode c) True) (after_gate E cid l sid oid fp rt c)))"
  unfolding confirm_command_internal_def after_gate_def [abs_def] Let_def by (rule refl)

lemma confirm_internal_run:
  assumes A: "\<And>c d. Q c \<Longrightarrow> clear_readings E (tick s0) N (cmd_mode c) \<Longrightarrow> handed cid l sid oid fp c d \<Longrightarrow> A d"
    and s: "armed N s0 A cid Q s" and run: "confirm_command_internal E cid l sid oid fp s = (r, t)"
  shows "sends N s0 A t"
proof -
  define rt where "rt = env_runtime E (tick s)"
  define s1 where "s1 = s\<lparr>tick := Suc (tick s)\<rparr>"
  have rt: "current_runtime E s = (Inr rt, s1)" by (simp add: current_runtime_def ask_def rt_def s1_def)
  have s1: "armed N s0 A cid Q s1" using keepsD_eq [OF armed.keeps_readings(2) s rt] .
  have from_s: "tick s0 \<le> tick s" using s by (simp add: armed_def sends_def)
  from s1 obtain c where c: "map_of (commands s1) cid = Some c" unfolding armed_def plan_at_def by blast
  then have find: "find_command cid s1 = (Inr c, s1)" by (simp add: find_command_def)
  let ?Q = "\<lambda>c'. Q c' \<and> plan_of c' = plan_of c"
  have s1': "armed N s0 A cid ?Q s1" using triple_Inr [OF find_armed s1 find] .
  obtain rv s2 where v: "validate_command E rt l (parsed_intent c) (cmd_mode c) True s1 = (rv, s2)" by fastforce
  have s2: "armed N s0 A cid ?Q s2" using keepsD_eq [OF armed.keeps_validate s1' v] .
  show ?thesis
  proof (cases rv)
    case (Inl e)
    with run rt find v have "t = s2" by (simp add: confirm_internal_after_gate bnd_run)
    with s2 show ?thesis by (simp add: armed_sends)
  next
    case (Inr v')
    with run rt find v have rest: "after_gate E cid l sid oid fp rt c v' s2 = (r, t)"
      by (simp add: confirm_internal_after_gate bnd_run)
    show ?thesis
    proof (cases "tick s2 \<le> N")
      case True
      have ticks: "tick s2 = Suc (Suc (tick s1))" using validate_tick v Inr by blast
      show ?thesis
      proof (rule after_gate_run [OF s2 rest])
        fix c' d
        assume ok: "v_accepted v'" and q: "?Q c'" and d: "handed cid l sid oid fp c' d"
        have "clear_readings E (tick s0) N (cmd_mode c)"
          by (rule validate_accepted [OF v [unfolded Inr] ok rt_def from_s])
            (use True ticks from_s in \<open>simp_all add: s1_def\<close>)
        with q d show "A d" by (intro A) (auto simp: plan_of_def)
      qed
    next
      case False
      have "sends N s2 (\<lambda>_. True) t"
        by (rule after_gate_run [where Q = ?Q, OF _ rest]) (use s2 in \<open>simp_all add: armed_def sends_refl\<close>)
      moreover have "tick s0 \<le> tick s2" using s2 by (simp add: armed_def sends_def)
      ultimately show ?thesis using False by (simp add: sends_def)
    qed
  qed
qed

lemma confirm_internal_sends:
  assumes A: "\<And>c d. Q c \<Longrightarrow> clear_readings E (tick s0) N (cmd_mode c) \<Longrightarrow> handed cid l sid oid fp c d \<Longrightarrow> A d"
  shows "triple (armed N s0 A cid Q) (confirm_command_internal E cid l sid oid fp)
    (\<lambda>_. sends N s0 A) (sends N s0 A)"
  by (rule tripleI) (auto intro: confirm_internal_run [OF A])

subsection \<open>Every call\<close>

definition gated :: "hmi_env \<Rightarrow> nat \<Rightarrow> nat \<Rightarrow> dispatch \<Rightarrow> bool" where
  "gated E n N d \<longleftrightarrow> (\<exists>m. d_requested_mode d = mode_value m \<and> clear_readings E n N m)"

lemma confirm_internal_keeps:
  assumes A: "\<And>c d. clear_readings E (tick s0) N (cmd_mode c) \<Longrightarrow> handed cid l sid oid fp c d \<Longrightarrow> A d"
  shows "keeps (sends N s0 A) (confirm_command_internal E cid l sid oid fp)"
proof (rule keepsI)
  fix s
  assume s: "sends N s0 A s"
  obtain r u where run: "confirm_command_internal E cid l sid oid fp s = (r, u)" by fastforce
  show "sends N s0 A (snd (confirm_command_internal E cid l sid oid fp s))"
  proof (cases "map_of (commands s) cid")
    case None
    with s show ?thesis
      by (simp add: confirm_command_internal_def py_simps current_runtime_def ask_def find_command_def
          sends_def)
  next
    case (Some c)
    with s have "armed N s0 A cid (\<lambda>_. True) s" by (auto simp: armed_def plan_at_def)
    from confirm_internal_run [OF A this run] show ?thesis by (simp add: run)
  qed
qed

lemma confirm_internal_gated:
  "keeps (sends N s0 (gated E (tick s0) N)) (confirm_command_internal E cid l sid oid fp)"
  by (rule confirm_internal_keeps) (auto simp: gated_def handed_def)

interpretation gate: supervisor_calls E "sends N s0 (gated E (tick s0) N)" "\<lambda>_. sends N s0 (gated E (tick s0) N)"
  for E N s0
proof unfold_locales
  show "triple (sends N s0 (gated E (tick s0) N)) (ask (env_uuid E)) (\<lambda>_. sends N s0 (gated E (tick s0) N))
      (sends N s0 (gated E (tick s0) N))"
    by (rule triple_keeps [OF sends.keeps_ask])
next
  fix c
  show "triple (sends N s0 (gated E (tick s0) N)) (store_command c) (\<lambda>_. sends N s0 (gated E (tick s0) N))
      (sends N s0 (gated E (tick s0) N))"
    unfolding store_command_def by (rule triple_keeps [OF keeps_modify]) (simp_all add: sends_def)
qed (simp_all add: confirm_internal_gated, simp_all add: sends_def)

lemma step_gated:
  "\<exists>ds. dispatched (hmi_step E call s) = dispatched s @ ds \<and>
    (\<forall>d \<in> set ds. gated E (tick s) (tick (hmi_step E call s)) d)"
  using gate.step_kept [of "tick (hmi_step E call s)" s E s call] sends_refl by (simp add: sends_def)

end
