(* ===== verification/Supervisor_Authority.thy ===== *)
theory Supervisor_Authority
  imports Supervisor_Gate
begin

section \<open>Who may confirm\<close>

text \<open>
  The checks of \<open>confirm_command\<close> before the gate: the lease, the owner, the state of the record
  and its fingerprint.  They speak of the state the call found, although it first expires what has
  timed out; the two predicates below carry that state across.
\<close>

definition lease_state :: "session_lock \<Rightarrow> supervisor \<Rightarrow> bool" where
  "lease_state L s \<longleftrightarrow> session_lock_state s = L"

lemma lease_state_transition: "keeps (lease_state L) (transition_record E k nxt why rs msg)"
proof (rule keepsI)
  fix s
  assume s: "lease_state L s"
  obtain r t where run: "transition_record E k nxt why rs msg s = (r, t)"
    by (cases "transition_record E k nxt why rs msg s")
  from transition_record_run [OF run] s
  show "lease_state L (snd (transition_record E k nxt why rs msg s))"
    by (auto simp: lease_state_def run)
qed

interpretation lease_state: supervisor_frame E "lease_state L" for E L
  by unfold_locales (simp_all add: lease_state_transition, simp_all add: lease_state_def)

text \<open>A record that waits for its confirmation waited already in \<open>s0\<close>, with the same plan.\<close>

definition waiting :: "supervisor \<Rightarrow> string \<Rightarrow> supervisor \<Rightarrow> bool" where
  "waiting s0 cid s \<longleftrightarrow> (\<forall>c. map_of (commands s) cid = Some c \<longrightarrow> lifecycle_state c = NEEDS_CONFIRMATION \<longrightarrow>
     (\<exists>c0. map_of (commands s0) cid = Some c0 \<and> lifecycle_state c0 = NEEDS_CONFIRMATION \<and>
        plan_of c0 = plan_of c))"

lemma waiting_refl: "waiting s cid s"
  unfolding waiting_def by blast

lemma waiting_edit:
  assumes f: "\<And>c. lifecycle_state (f c) = NEEDS_CONFIRMATION
      \<Longrightarrow> lifecycle_state c = NEEDS_CONFIRMATION \<and> plan_of c = plan_of (f c)"
    and s: "waiting s0 cid s"
  shows "waiting s0 cid (s\<lparr>commands := dict_map_at k f (commands s)\<rparr>)"
  unfolding waiting_def
proof (intro allI impI)
  fix c
  assume c: "map_of (commands (s\<lparr>commands := dict_map_at k f (commands s)\<rparr>)) cid = Some c"
    and st: "lifecycle_state c = NEEDS_CONFIRMATION"
  obtain b where b: "map_of (commands s) cid = Some b" "c = (if cid = k then f b else b)"
    using c by (cases "cid = k") auto
  have "lifecycle_state b = NEEDS_CONFIRMATION" "plan_of b = plan_of c"
    using f [of b] b(2) st by (auto split: if_splits)
  with s b(1) obtain c0 where "map_of (commands s0) cid = Some c0"
      "lifecycle_state c0 = NEEDS_CONFIRMATION" "plan_of c0 = plan_of b"
    unfolding waiting_def by blast
  with \<open>plan_of b = plan_of c\<close> show "\<exists>c0. map_of (commands s0) cid = Some c0
      \<and> lifecycle_state c0 = NEEDS_CONFIRMATION \<and> plan_of c0 = plan_of c" by (intro exI [of _ c0]) simp
qed

lemma waiting_expired: "keeps (waiting s0 cid) (transition_record E k EXPIRED why rs msg)"
proof (rule keepsI)
  fix s
  assume s: "waiting s0 cid s"
  obtain r t where run: "transition_record E k EXPIRED why rs msg s = (r, t)"
    by (cases "transition_record E k EXPIRED why rs msg s")
  have moved: "waiting s0 cid (s\<lparr>commands := dict_map_at k (\<lambda>c. c\<lparr>lifecycle_state := EXPIRED\<rparr>) (commands s)\<rparr>)"
    by (rule waiting_edit [OF _ s]) simp
  from transition_record_run [OF run] have "waiting s0 cid t"
    using s moved by (auto simp: waiting_def)
  then show "waiting s0 cid (snd (transition_record E k EXPIRED why rs msg s))" by (simp add: run)
qed

interpretation waiting: supervisor_expiring E "waiting s0 cid" for E s0 cid
proof unfold_locales
  fix f s k
  assume "calm f" and "waiting s0 cid s"
  then show "waiting s0 cid (s\<lparr>commands := dict_map_at k f (commands s)\<rparr>)"
    by (intro waiting_edit) (simp_all add: calm_def)
qed (simp_all add: waiting_expired, simp_all add: waiting_def)

subsection \<open>The checks of a confirmation\<close>

definition lease_ok :: "hmi_env \<Rightarrow> supervisor \<Rightarrow> nat \<Rightarrow> string \<Rightarrow> string \<Rightarrow> string option \<Rightarrow> lease_record \<Rightarrow> bool" where
  "lease_ok E s0 N sid oid tok l \<longleftrightarrow>
     (\<exists>k \<in> {tick s0 ..< N}. holder (session_lock_state s0) (env_now E k) = Some l) \<and>
     (\<exists>tk. tok = Some tk \<and> tk \<noteq> [] \<and> owns l sid oid tk)"

definition open_call :: "nat \<Rightarrow> supervisor \<Rightarrow> (dispatch \<Rightarrow> bool) \<Rightarrow> string \<Rightarrow> supervisor \<Rightarrow> bool" where
  "open_call N s0 A cid s \<longleftrightarrow> waiting s0 cid s \<and> sends N s0 A s"

lemma open_call_keeps: "keeps (waiting s0 cid) m \<Longrightarrow> keeps (sends N s0 A) m \<Longrightarrow> keeps (open_call N s0 A cid) m"
  unfolding open_call_def by (rule keeps_conj)

lemma expire_open:
  "triple (\<lambda>s. s = s0) (expire_pending_confirmations E)
     (\<lambda>_ s. open_call N s0 A cid s \<and> session_lock_state s = session_lock_state s0) (sends N s0 A)"
proof -
  have k: "keeps (\<lambda>s. open_call N s0 A cid s \<and> lease_state (session_lock_state s0) s)
      (expire_pending_confirmations E)"
    by (intro keeps_conj open_call_keeps waiting.keeps_expire_pending sends.keeps_expire_pending
        lease_state.keeps_expire_pending)
  show ?thesis
    by (rule triple_weaken [OF triple_keeps [OF k]])
      (auto simp: open_call_def lease_state_def waiting_refl sends_refl)
qed

lemma check_open:
  "triple (\<lambda>s. open_call N s0 A cid s \<and> session_lock_state s = session_lock_state s0)
     (check_controller E sid oid tok)
     (\<lambda>l s. open_call N s0 A cid s \<and> lease_ok E s0 (tick s) sid oid tok l) (sends N s0 A)"
proof (rule tripleI)
  fix s l t
  assume s: "open_call N s0 A cid s \<and> session_lock_state s = session_lock_state s0"
    and run: "check_controller E sid oid tok s = (Inr l, t)"
  from run obtain lk where check: "assert_controller (env_now E (tick s)) sid oid tok (session_lock_state s)
        = (Inr l, lk)" and t: "t = s\<lparr>tick := Suc (tick s), session_lock_state := lk\<rparr>"
    by (auto simp: check_controller_def py_simps utcnow_def ask_def run_lock_def
        split: prod.splits sum.splits)
  from lease.check_sound [OF check] s have "lease_ok E s0 (Suc (tick s)) sid oid tok l"
    by (auto simp: lease_ok_def open_call_def sends_def intro!: bexI [of _ "tick s"])
  with s show "open_call N s0 A cid t \<and> lease_ok E s0 (tick t) sid oid tok l"
    by (simp add: t open_call_def waiting_def sends_def)
next
  fix s e t
  assume "open_call N s0 A cid s \<and> session_lock_state s = session_lock_state s0"
    and "check_controller E sid oid tok s = (Inl e, t)"
  then show "sends N s0 A t" using keepsD_eq [OF sends.keeps_check_controller] open_call_def by blast
qed

text \<open>The owner's record, and its plan from here on.\<close>

lemma owned_open:
  "triple (open_call N s0 A cid) (require_owned_command cid sid oid)
     (\<lambda>c s. (waiting s0 cid s \<and> armed N s0 A cid (\<lambda>c'. plan_of c' = plan_of c) s)
        \<and> (session_id c = sid \<and> operator_id c = oid)) (sends N s0 A)"
proof (rule tripleI)
  fix s c t
  assume s: "open_call N s0 A cid s" and run: "require_owned_command cid sid oid s = (Inr c, t)"
  from run have t: "t = s" and c: "map_of (commands s) cid = Some c"
    and own: "session_id c = sid \<and> operator_id c = oid"
    by (auto simp: require_owned_command_def py_simps split: option.splits if_splits)
  from c have "plan_at cid (\<lambda>c'. plan_of c' = plan_of c) s" unfolding plan_at_def by blast
  with s own show "(waiting s0 cid t \<and> armed N s0 A cid (\<lambda>c'. plan_of c' = plan_of c) t)
      \<and> (session_id c = sid \<and> operator_id c = oid)"
    by (simp add: t open_call_def armed_def)
next
  fix s e t
  assume s: "open_call N s0 A cid s" and "require_owned_command cid sid oid s = (Inl e, t)"
  then have "t = s" by (auto simp: require_owned_command_def py_simps split: option.splits if_splits)
  with s show "sends N s0 A t" by (simp add: open_call_def)
qed

definition was_waiting :: "supervisor \<Rightarrow> string \<Rightarrow> string \<Rightarrow> command_record \<Rightarrow> bool" where
  "was_waiting s0 cid fp c \<longleftrightarrow> plan_fingerprint c = Some fp \<and>
     (\<exists>c0. map_of (commands s0) cid = Some c0 \<and> lifecycle_state c0 = NEEDS_CONFIRMATION \<and>
        plan_of c0 = plan_of c)"

lemma confirmable_run:
  assumes "check_confirmable E expire what cid fp s = (Inr x, t)"
  shows "\<exists>c. map_of (commands s) cid = Some c \<and> lifecycle_state c = NEEDS_CONFIRMATION \<and>
    plan_fingerprint c = Some fp \<and> t = s\<lparr>tick := Suc (tick s)\<rparr>"
  using assms
  by (auto simp: check_confirmable_def py_simps utcnow_def ask_def find_command_def
      split: option.splits if_splits prod.splits sum.splits)

lemma confirmable_open:
  "triple (\<lambda>s. waiting s0 cid s \<and> armed N s0 A cid Q s) (check_confirmable E expire_command what cid fp)
     (\<lambda>_. armed N s0 A cid (\<lambda>c. Q c \<and> was_waiting s0 cid fp c)) (sends N s0 A)"
proof (rule tripleI)
  fix s x t
  assume s: "waiting s0 cid s \<and> armed N s0 A cid Q s"
    and run: "check_confirmable E expire_command what cid fp s = (Inr x, t)"
  from confirmable_run [OF run] obtain c where c: "map_of (commands s) cid = Some c"
    and st: "lifecycle_state c = NEEDS_CONFIRMATION" and fp: "plan_fingerprint c = Some fp"
    and t: "t = s\<lparr>tick := Suc (tick s)\<rparr>" by blast
  from s c st obtain c0 where c0: "map_of (commands s0) cid = Some c0"
      "lifecycle_state c0 = NEEDS_CONFIRMATION" "plan_of c0 = plan_of c"
    unfolding waiting_def by blast
  from s c obtain c' where c': "plan_of c' = plan_of c" "Q c'"
    unfolding armed_def plan_at_def by auto
  have "plan_fingerprint c' = Some fp" using c'(1) fp by (simp add: plan_of_def)
  moreover have "plan_of c0 = plan_of c'" using c'(1) c0(3) by simp
  ultimately have "was_waiting s0 cid fp c'" unfolding was_waiting_def using c0(1,2) by blast
  with c' c have "plan_at cid (\<lambda>c. Q c \<and> was_waiting s0 cid fp c) s" unfolding plan_at_def by blast
  with s show "armed N s0 A cid (\<lambda>c. Q c \<and> was_waiting s0 cid fp c) t"
    by (simp add: t armed_def sends_def plan_at_def)
next
  fix s e t
  assume s: "waiting s0 cid s \<and> armed N s0 A cid Q s"
    and run: "check_confirmable E expire_command what cid fp s = (Inl e, t)"
  have "keeps (sends N s0 A) (check_confirmable E expire_command what cid fp)"
    by (rule sends.keeps_confirmable) (rule sends.keeps_expire)
  from keepsD_eq [OF this _ run] s show "sends N s0 A t" by (simp add: armed_def)
qed

subsection \<open>A confirmation\<close>

definition authorised ::
  "hmi_env \<Rightarrow> supervisor \<Rightarrow> nat \<Rightarrow> string \<Rightarrow> string \<Rightarrow> string option \<Rightarrow> string \<Rightarrow> string \<Rightarrow> dispatch \<Rightarrow> bool" where
  "authorised E s N sid oid tok cid fp d \<longleftrightarrow> (\<exists>l c. lease_ok E s N sid oid tok l \<and>
     map_of (commands s) cid = Some c \<and> lifecycle_state c = NEEDS_CONFIRMATION \<and>
     session_id c = sid \<and> operator_id c = oid \<and> kind c = COMMAND \<and> parent_sequence_id c = None \<and>
     plan_fingerprint c = Some fp \<and> handed cid l sid oid fp c d \<and> clear_readings E (tick s) N (cmd_mode c))"

text \<open>What follows the check of the lease.\<close>

definition confirm_owned ::
  "hmi_env \<Rightarrow> string \<Rightarrow> string \<Rightarrow> string \<Rightarrow> string \<Rightarrow> lease_record \<Rightarrow> response sup" where
  "confirm_owned E sid oid cid fp l =
     bnd (require_owned_command cid sid oid) (\<lambda>c.
      andthen (guard (kind c = COMMAND \<and> parent_sequence_id c = None)
        (ConflictError ''sequence steps are controlled by the parent sequence''))
      (andthen (trace ''confirmation.requested'' (Some cid) None (Some oid))
      (andthen (check_confirmable E expire_command ''command'' cid fp)
        (confirm_command_internal E cid l sid oid fp))))"

lemma confirm_command_owned:
  "confirm_command E sid oid tok cid fp =
     andthen (expire_pending_confirmations E) (bnd (check_controller E sid oid tok) (confirm_owned E sid oid cid fp))"
  unfolding confirm_command_def confirm_owned_def [abs_def] by (rule refl)

lemma lease_ok_mono: "lease_ok E s0 n sid oid tok l \<Longrightarrow> n \<le> N \<Longrightarrow> lease_ok E s0 N sid oid tok l"
  unfolding lease_ok_def by force

text \<open>A bound on the readings so far is one on those of the whole call, or the call has gone beyond
  \<open>N\<close>, where \<open>sends\<close> claims nothing.\<close>

lemma triple_late:
  assumes ok: "\<And>n. n \<le> N \<Longrightarrow> X n \<Longrightarrow> triple P m (\<lambda>_. sends N s0 A) (sends N s0 A)"
    and on: "\<And>s. keeps (sends N s (\<lambda>_. True)) m" and P: "\<And>s. P s \<Longrightarrow> tick s0 \<le> tick s"
  shows "triple (\<lambda>s. P s \<and> X (tick s)) m (\<lambda>_. sends N s0 A) (sends N s0 A)"
proof -
  have "sends N s0 A t" if s: "P s \<and> X (tick s)" and run: "m s = (r, t)" for s r t
  proof (cases "tick s \<le> N")
    case True
    have "triple P m (\<lambda>_. sends N s0 A) (sends N s0 A)" by (rule ok [OF True conjunct2 [OF s]])
    with s run show ?thesis by (cases r) (blast dest: triple_Inr triple_Inl)+
  next
    case False
    have "tick s \<le> tick t" using keepsD_eq [OF on sends_refl run] by (simp add: sends_def)
    with False s P show ?thesis by (fastforce simp: sends_def)
  qed
  then show ?thesis by (intro tripleI) blast+
qed

lemma confirm_authorised:
  "triple (\<lambda>s. s = s0) (confirm_command E sid oid tok cid fp)
     (\<lambda>_. sends N s0 (authorised E s0 N sid oid tok cid fp)) (sends N s0 (authorised E s0 N sid oid tok cid fp))"
  (is "triple _ _ (\<lambda>_. sends N s0 ?A) _")
proof -
  have go: "triple (armed N s0 ?A cid (\<lambda>c'. plan_of c' = plan_of c \<and> was_waiting s0 cid fp c'))
      (confirm_command_internal E cid l sid oid fp) (\<lambda>_. sends N s0 ?A) (sends N s0 ?A)"
    if "lease_ok E s0 N sid oid tok l" "session_id c = sid \<and> operator_id c = oid"
      "kind c = COMMAND \<and> parent_sequence_id c = None" for l c
  proof (rule confirm_internal_sends)
    fix c' d
    assume q: "plan_of c' = plan_of c \<and> was_waiting s0 cid fp c'"
      and clear: "clear_readings E (tick s0) N (cmd_mode c')" and d: "handed cid l sid oid fp c' d"
    from q obtain c0 where c0: "map_of (commands s0) cid = Some c0"
        "lifecycle_state c0 = NEEDS_CONFIRMATION" "plan_of c0 = plan_of c'" "plan_fingerprint c' = Some fp"
      unfolding was_waiting_def by blast
    have "plan_of c0 = plan_of c" using q c0(3) by simp
    with that(2,3) have "session_id c0 = sid" "operator_id c0 = oid" "kind c0 = COMMAND"
        "parent_sequence_id c0 = None" by (simp_all add: plan_of_def)
    moreover have "plan_fingerprint c0 = Some fp" "handed cid l sid oid fp c0 d"
        "clear_readings E (tick s0) N (cmd_mode c0)"
      using c0(3,4) clear d by (simp_all add: plan_of_def handed_def)
    ultimately show "?A d" unfolding authorised_def using that(1) c0(1,2) by blast
  qed
  have traced: "triple (\<lambda>s. waiting s0 cid s \<and> armed N s0 ?A cid Q s) (trace stg x y z)
      (\<lambda>_ s. waiting s0 cid s \<and> armed N s0 ?A cid Q s) (sends N s0 ?A)" for stg x y z Q
    by (rule triple_keeps) (auto intro!: keeps_conj waiting.keeps_trace armed.keeps_trace dest: armed_sends)
  have tail: "triple (\<lambda>s. open_call N s0 ?A cid s \<and> lease_ok E s0 (tick s) sid oid tok l)
      (confirm_owned E sid oid cid fp l) (\<lambda>_. sends N s0 ?A) (sends N s0 ?A)" for l
  proof (rule triple_late [where X = "\<lambda>n. lease_ok E s0 n sid oid tok l"])
    fix n
    assume "n \<le> N" and "lease_ok E s0 n sid oid tok l"
    then have l: "lease_ok E s0 N sid oid tok l" by (rule lease_ok_mono [rotated])
    show "triple (open_call N s0 ?A cid) (confirm_owned E sid oid cid fp l) (\<lambda>_. sends N s0 ?A) (sends N s0 ?A)"
      unfolding confirm_owned_def
      by (rule triple_bnd [OF owned_open], rule triple_pure, rule triple_andthen [OF triple_guard],
          simp add: armed_def, rule triple_pure, rule triple_andthen [OF traced],
          rule triple_andthen [OF confirmable_open], rule go [OF l])
  next
    show "keeps (sends N s (\<lambda>_. True)) (confirm_owned E sid oid cid fp l)" for s
      unfolding confirm_owned_def
      by (intro keeps_intros sends.keeps_owned sends.keeps_trace sends.keeps_confirmable sends.keeps_expire
          confirm_internal_keeps) simp
  qed (simp add: open_call_def sends_def)
  show ?thesis
    unfolding confirm_command_owned
    by (rule triple_andthen [OF expire_open], rule triple_bnd [OF check_open], rule tail)
qed

end
