(* ===== verification/Supervisor_Properties.thy ===== *)
theory Supervisor_Properties
  imports Supervisor_Authority
begin

section \<open>Properties of the supervisor\<close>

text \<open>
  A small environment for the witnesses: a simulated robot that is fresh and ready, an adapter
  that reports success, and a parser that makes a \<open>HOME\<close> command of every text; and a state with
  one command that waits for its confirmation.
\<close>

definition demo_runtime :: runtime_snapshot where
  "demo_runtime = \<lparr>rt_system_state = NORMAL, rt_mode = SIM, rt_robot_status =
     \<lparr>servo_state = ''ON'', e_stop = ''CLEAR'', alarm_state = ''NONE'', motion_mode = Some ''AUTO''\<rparr>\<rparr>"

definition demo_env :: hmi_env where
  "demo_env = \<lparr>env_now = (\<lambda>n. int n), env_uuid = (\<lambda>n. replicate n CHR ''i''),
     env_runtime = (\<lambda>_. demo_runtime),
     env_sources = (\<lambda>_. [\<lparr>src_name = ''robot_status'', src_active = True, src_freshness = FRESH\<rparr>]),
     env_preflight = (\<lambda>_ _. JObj [(''accepted'', JBool True)]),
     env_confirm = (\<lambda>_ _. Inr [(''status'', JStr ''succeeded''), (''dispatchedToRos'', JBool True)]),
     env_abort = (\<lambda>_ _. (True, [])), env_pose = (\<lambda>_ _. JNull),
     env_servo = (\<lambda>_ _. JObj [(''accepted'', JBool True)]), env_joints = (\<lambda>_. Inr []), env_review = None,
     env_fingerprint = (\<lambda>_ _ _. ''fp''),
     env_parse_intent = (\<lambda>_ _ _ _. Inr [(''targetSummary'', JStr ''home''),
        (''normalizedText'', JStr ''home''), (''action'', JStr ''HOME'')]),
     env_prepare_sequence = (\<lambda>_ _ _ _. None),
     env_parse_steps = (\<lambda>_ _ _ _. \<lparr>ps_steps = None, ps_diagnostics = [], ps_error = None,
        ps_macro = JNull, ps_shape_type = JNull, ps_text = JNull, ps_intent = None\<rparr>),
     env_json_loads = (\<lambda>_. None), confirmation_window = 60, sim_auto_confirm = False\<rparr>"

lemma demo_simps [simp]:
  "env_now demo_env n = int n" "env_uuid demo_env n = replicate n CHR ''i''"
  "env_runtime demo_env n = demo_runtime"
  "env_sources demo_env n = [\<lparr>src_name = ''robot_status'', src_active = True, src_freshness = FRESH\<rparr>]"
  "env_preflight demo_env n m = JObj [(''accepted'', JBool True)]"
  "env_confirm demo_env n d = Inr [(''status'', JStr ''succeeded''), (''dispatchedToRos'', JBool True)]"
  "env_abort demo_env n c = (True, [])" "env_prepare_sequence demo_env n x w z = None"
  "env_parse_intent demo_env n x y z = Inr [(''targetSummary'', JStr ''home''),
     (''normalizedText'', JStr ''home''), (''action'', JStr ''HOME'')]"
  "confirmation_window demo_env = 60" "sim_auto_confirm demo_env = False"
  "env_fingerprint demo_env ps l md = ''fp''"
  by (simp_all add: demo_env_def)

lemma demo_inj: "inj (env_uuid demo_env)"
  by (rule injI) simp

definition demo_record :: command_record where
  "demo_record = (new_record ''c'' ''s'' ''o'' ''home'' ''home'' SIM 0 COMMAND ''k'' None)
     \<lparr>lifecycle_state := NEEDS_CONFIRMATION, plan_fingerprint := Some ''fp'',
      parsed_intent := Some [(''action'', JStr ''HOME'')], confirmation_expires_at := Some 60\<rparr>"

definition demo_lease :: lease_record where
  "demo_lease = \<lparr>lease_id = ''l'', lease_token = ''t'', lease_session = ''s'', lease_operator = ''o'',
     acquired_at = 0, expires_at = 600, force_takeover = False, takeover_reason = None\<rparr>"

definition demo_state :: supervisor where
  "demo_state = (supervisor_init 600)\<lparr>commands := [(''c'', demo_record)],
     session_lock_state := \<lparr>ttl = 600, active_controller = Some demo_lease\<rparr>\<rparr>"

definition demo_calls :: "hmi_call list" where
  "demo_calls = [AcquireLease ''s'' ''o'' False None,
     SubmitIntent ''s'' ''o'' (Some ''iii'') None (Some ''home'') ''sim'',
     ConfirmCommand ''s'' ''o'' (Some ''iii'') ''iiiiiiiiii'' ''fp'']"

lemmas demo_defs = demo_runtime_def demo_record_def demo_lease_def demo_state_def

lemmas hmi_defs =
  terminal_command_states_def blocking_runtime_states_def allowed_def
  is_terminal_command_state_def is_blocking_runtime_state_def session_lock_init_def is_expired_def
  purge_if_expired_def store_lease_def current_controller_def no_reason_def acquire_controller_def
  check_owner_def renew_def release_def assert_controller_def holder_def owns_def
  supervisor_init_def get_or_def str_of_def raise_py_def ask_def ask_try_def find_command_def
  update_command_def store_command_def set_active_def log_audit_def upsert_command_def
  record_transition_def record_runtime_event_def broadcast_event_def broadcast_replay_update_def
  broadcast_lease_state_def emit_command_event_def emit_sequence_event_def append_message_def
  trace_def trace_command_def ensure_command_transition_def transition_record_def
  transition_command_def transition_top_level_record_def event_driven_source_names_def
  post_parse_info_only_source_names_def execution_boundary_source_names_def
  nonblocking_source_names_def filtered_preflight_reasons_def execution_preflight_def
  radians_5_def radians_20_def fabs_def float_param_def sqrt_le_def action_of_def params_of_def
  low_risk_actions_def risk_of_action_def assess_risk_def mode_reasons_def stale_sources_def
  stale_reason_def blocking_reasons_def motion_actions_def confirmation_reasons_of_def
  validate_command_def build_validation_result_def validate_sequence_def utcnow_def
  current_runtime_def run_lock_def result_text_def expire_record_def expire_command_def
  expire_top_level_record_def expired_at_def expire_pending_confirmations_def snapshot_overlay_def
  get_snapshot_def command_response_def sequence_response_def reject_record_def reject_command_def
  reject_top_level_record_def normalized_command_def is_get_pose_command_def query_result_def
  float_key_def pose_result_def finish_query_def execute_get_pose_query_def send_to_ros_def
  summary_of_def summary_or_def finish_as_def finish_execution_def hand_off_def
  execute_confirmed_command_def confirm_command_internal_def check_controller_def
  require_owned_command_def require_owned_sequence_def active_record_def assert_no_active_job_def
  check_confirmable_def confirm_command_def is_io_step_def sequence_step_failed_def
  sequence_succeeded_def confirm_sequence_def abort_at_ros_def given_or_def cancel_command_def
  cancel_step_def cancel_sequence_def new_record_def

lemmas text_defs = upper_def lower_def strip_def is_space_def dget_def str_nat_def is_str_def
  upper_char_def lower_char_def dict_map_at_def deque_append_def

lemma demo_confirmed:
  "dispatched (snd (confirm_command demo_env ''s'' ''o'' (Some ''t'') ''c'' ''fp'' demo_state)) =
     [\<lparr>d_command_id = ''c'', d_plan_fingerprint = ''fp'', d_operator_id = ''o'', d_session_id = ''s'',
       d_lease_id = ''l'', d_correlation_id = ''k'', d_parsed_intent = Some [(''action'', JStr ''HOME'')],
       d_requested_mode = ''sim''\<rparr>]"
  by (simp add: eff_eval hmi_defs text_defs demo_defs supervisor_init_def cong: lazily)

text \<open>The run of \<open>demo_calls\<close>: the lease is acquired, the submitted command waits.\<close>

definition demo_acquired :: supervisor where
  "demo_acquired = (supervisor_init 600)\<lparr>
     session_lock_state := \<lparr>ttl = 600, active_controller = Some
        \<lparr>lease_id = ''ii'', lease_token = ''iii'', lease_session = ''s'', lease_operator = ''o'',
         acquired_at = 1, expires_at = 601, force_takeover = False, takeover_reason = None\<rparr>\<rparr>,
     audit := [RuntimeEvent NORMAL ''s'' ''o'' None ''controller lease acquired''], tick := 7\<rparr>"

lemmas service_defs = acquire_lease_def can_acquire_lease_def answer_lease_def serialize_lease_view_def
  submit_intent_def parse_mode_def route_intent_def is_sequence_request_def submit_single_command_def
  validate_parsed_def await_confirmation_def receive_record_def resolve_quick_command_semantic_ir_def
  quick_command_static_map_def intent_dict_def planner_for_intent_def frame_for_intent_def dict_index_def
  validating_text_def text_or_def base_link_def up_down_def

lemma demo_acquire: "hmi_step demo_env (AcquireLease ''s'' ''o'' False None) (supervisor_init 600) = demo_acquired"
  by (simp add: eff_eval hmi_defs text_defs demo_defs supervisor_init_def service_defs demo_acquired_def
      numeral_2_eq_2 numeral_3_eq_3 cong: lazily)

lemma demo_submit:
  "map_option lifecycle_state (map_of (commands (snd (submit_intent demo_env ''s'' ''o'' (Some ''iii'') None
     (Some ''home'') None ''sim'' demo_acquired))) ''iiiiiiiiii'') = Some NEEDS_CONFIRMATION"
  by (simp add: eff_eval hmi_defs text_defs demo_defs supervisor_init_def service_defs demo_acquired_def
      cong: lazily) (simp add: numeral_eq_Suc)

subsection \<open>Runs\<close>

abbreviation hmi_run :: "hmi_env \<Rightarrow> int \<Rightarrow> hmi_call list \<Rightarrow> supervisor" where
  "hmi_run E ttl_seconds calls \<equiv> fold (hmi_step E) calls (supervisor_init ttl_seconds)"

lemma init_sound: "sound E (supervisor_init n) {} (supervisor_init n)"
  by (simp add: sound_def supervisor_init_def filed_def trail_def lawful_log_def sent_once_def
      evolves_def known_ids_def lifecycle_at_def)

lemma run_sound: "inj (env_uuid E) \<Longrightarrow> sound E (supervisor_init n) {} (hmi_run E n calls)"
  using hmi.run_inv [of E "supervisor_init n" "supervisor_init n" calls] init_sound [of E n]
  by (simp add: fresh_sound_def)

lemma sound_restart: "sound E s0 {} s \<Longrightarrow> sound E s {} s"
  by (auto simp: sound_def evolves_def intro: lifecycle_path.stay)

text \<open>C4: Whatever calls the HMI receives, in any order and whatever the robot, the parser and the
  clock answer, no command is handed to ROS twice, and every command that was handed over has an
  audit entry of its transition from \<open>NEEDS_CONFIRMATION\<close> to \<open>CONFIRMED\<close>; only that \<open>uuid4\<close> does not
  repeat is assumed.\<close>

theorem commands_sent_once:
  assumes "inj (env_uuid E)"
  shows "distinct (map d_command_id (dispatched (hmi_run E ttl_seconds calls))) \<and>
    (\<forall>d \<in> set (dispatched (hmi_run E ttl_seconds calls)).
       confirmed_in (audit (hmi_run E ttl_seconds calls)) (d_command_id d))"
  using run_sound [OF assms, of ttl_seconds calls] by (simp add: sound_def sent_once_def)

theorem commands_sent_once_witness:
  "distinct (map d_command_id (dispatched (hmi_run demo_env 600 demo_calls)))"
  using commands_sent_once [OF demo_inj, where ttl_seconds = 600 and calls = demo_calls] by simp

text \<open>A record never disappears and moves only along the transition table: between any two
  moments of a run its states form a path of allowed transitions, which is no longer than the
  distance its stages leave, so no record is transitioned more than seven times.\<close>

theorem records_move_along_table:
  assumes inj: "inj (env_uuid E)"
  shows "\<forall>cid a. lifecycle_at (hmi_run E ttl_seconds calls) cid = Some a \<longrightarrow>
    (\<exists>p b. lifecycle_at (hmi_run E ttl_seconds (calls @ later)) cid = Some b \<and> lifecycle_path a p b \<and>
       length p + stage b \<le> stage a)"
proof (intro allI impI)
  fix cid a
  assume a: "lifecycle_at (hmi_run E ttl_seconds calls) cid = Some a"
  let ?s = "hmi_run E ttl_seconds calls"
  have "sound E ?s {} ?s" by (rule sound_restart [OF run_sound [OF inj]])
  with hmi.run_inv [of E ?s ?s later] inj
  have "sound E ?s {} (hmi_run E ttl_seconds (calls @ later))" by (simp add: fresh_sound_def)
  with a obtain p b where "lifecycle_at (hmi_run E ttl_seconds (calls @ later)) cid = Some b"
      "lifecycle_path a p b" unfolding sound_def evolves_def by blast
  with lifecycle_path_stage
  show "\<exists>p b. lifecycle_at (hmi_run E ttl_seconds (calls @ later)) cid = Some b \<and> lifecycle_path a p b \<and>
       length p + stage b \<le> stage a" by blast
qed


theorem records_move_along_table_witness:
  "\<exists>p b. lifecycle_at (hmi_run demo_env 600 (take 2 demo_calls @ drop 2 demo_calls)) ''iiiiiiiiii'' = Some b \<and>
     lifecycle_path NEEDS_CONFIRMATION p b \<and> length p + stage b \<le> 4"
proof -
  have "lifecycle_at (hmi_run demo_env 600 (take 2 demo_calls)) ''iiiiiiiiii'' = Some NEEDS_CONFIRMATION"
    using demo_submit demo_acquire by (simp add: lifecycle_at_def demo_calls_def)
  with records_move_along_table [OF demo_inj, where ttl_seconds = 600 and calls = "take 2 demo_calls"
      and later = "drop 2 demo_calls"]
  show ?thesis by fastforce
qed

text \<open>The audit log of every run holds only transitions of the table, and a record that stands in
  \<open>CONFIRMED\<close>, \<open>EXECUTION_REQUESTED\<close> or \<open>EXECUTING\<close> has its confirmation in it.\<close>

theorem audit_log_is_lawful:
  assumes "inj (env_uuid E)"
  shows "lawful_log (audit (hmi_run E ttl_seconds calls)) \<and>
    (\<forall>cid st. lifecycle_at (hmi_run E ttl_seconds calls) cid = Some st
       \<longrightarrow> st \<in> {CONFIRMED, EXECUTION_REQUESTED, EXECUTING}
       \<longrightarrow> confirmed_in (audit (hmi_run E ttl_seconds calls)) cid)"
  using run_sound [OF assms, of ttl_seconds calls]
  by (auto simp: sound_def trail_def past_confirmation_def)

theorem audit_log_is_lawful_witness:
  "lawful_log (audit (hmi_run demo_env 600 demo_calls))"
  using audit_log_is_lawful [OF demo_inj, where ttl_seconds = 600 and calls = demo_calls] by simp

subsection \<open>The gate and the operator\<close>

text \<open>C5: A call of any kind, a confirmation, a whole sequence or an automatic confirmation at submission,
  hands a command to ROS only after readings made by the same call: the runtime is in the
  requested mode, which is sim or hardware, and not in a blocking state; every active source
  that can block, those of the execution boundary included, is fresh; and the preflight is
  accepted, or refused without any reason.\<close>

theorem dispatch_gated:
  "\<exists>ds. dispatched (hmi_step E call s) = dispatched s @ ds \<and>
    (\<forall>d \<in> set ds. \<exists>m. d_requested_mode d = mode_value m
       \<and> clear_readings E (tick s) (tick (hmi_step E call s)) m)"
  using step_gated [of E call s] by (simp add: gated_def)

theorem dispatch_gated_witness:
  "\<exists>d. dispatched (hmi_step demo_env (ConfirmCommand ''s'' ''o'' (Some ''t'') ''c'' ''fp'') demo_state) = [d] \<and>
    (\<exists>N m. d_requested_mode d = mode_value m \<and> clear_readings demo_env 0 N m)"
proof -
  have "dispatched demo_state = []" "tick demo_state = 0"
    by (simp_all add: demo_state_def supervisor_init_def)
  with dispatch_gated [of demo_env "ConfirmCommand ''s'' ''o'' (Some ''t'') ''c'' ''fp''" demo_state]
  show ?thesis using demo_confirmed by auto
qed

text \<open>C6: What \<open>confirm_command\<close> hands to ROS, it hands over for the holder of the controller lease: the
  caller presented the token of a lease in force at the call's own clock reading, is its session
  and operator, and owns the record, which waited for confirmation with the fingerprint the caller
  confirmed; the adapter gets that record's parsed intent, mode and fingerprint.\<close>

theorem confirm_dispatch_authorised:
  "\<exists>ds. dispatched (snd (confirm_command E sid oid tok cid fp s)) = dispatched s @ ds \<and>
    (\<forall>d \<in> set ds. authorised E s (tick (snd (confirm_command E sid oid tok cid fp s))) sid oid tok cid fp d)"
proof (cases "confirm_command E sid oid tok cid fp s")
  case (Pair r t)
  with triple_Inr [OF confirm_authorised refl] triple_Inl [OF confirm_authorised refl]
  have "sends (tick t) s (authorised E s (tick t) sid oid tok cid fp) t" by (cases r) fastforce+
  then show ?thesis by (simp add: Pair sends_def)
qed

theorem confirm_dispatch_authorised_witness:
  "\<exists>d. dispatched (snd (confirm_command demo_env ''s'' ''o'' (Some ''t'') ''c'' ''fp'' demo_state)) = [d] \<and>
    (\<exists>N. authorised demo_env demo_state N ''s'' ''o'' (Some ''t'') ''c'' ''fp'' d)"
proof -
  have "dispatched demo_state = []" by (simp add: demo_state_def supervisor_init_def)
  with confirm_dispatch_authorised [of demo_env "''s''" "''o''" "Some ''t''" "''c''" "''fp''" demo_state]
  show ?thesis using demo_confirmed by auto
qed

subsection \<open>Servo control\<close>

text \<open>C8: A servo start or hold reaches the adapter only for the holder of the controller lease, in hardware
  mode, outside the states \<open>ESTOP\<close>, \<open>FAULT\<close>, \<open>LOST_CONN\<close> and \<open>TIMEOUT\<close>, with the e-stop clear and no
  alarm, and a start only with the robot in \<open>AUTO\<close>, all read by the same call; at most one call is
  made.\<close>

theorem servo_call_guarded:
  assumes run: "run_servo_control E sid oid tok label adapter s = (r, t)"
    and called: "servo_calls t \<noteq> servo_calls s"
  shows "servo_calls t = servo_calls s @ [adapter] \<and> (\<exists>l. lease_ok E s (tick t) sid oid tok l) \<and>
    (\<exists>k \<in> {tick s ..< tick t}. rt_mode (env_runtime E k) = HARDWARE \<and>
       rt_system_state (env_runtime E k) \<notin> {ESTOP, FAULT, LOST_CONN, TIMEOUT} \<and>
       e_stop (rt_robot_status (env_runtime E k)) = ''CLEAR'' \<and>
       alarm_state (rt_robot_status (env_runtime E k)) = ''NONE'' \<and>
       (label = ''Servo START'' \<longrightarrow> motion_mode (rt_robot_status (env_runtime E k)) = Some ''AUTO''))"
proof -
  obtain c u where chk: "check_controller E sid oid tok s = (c, u)"
    by (cases "check_controller E sid oid tok s")
  then have u: "servo_calls u = servo_calls s" "tick u = Suc (tick s)"
    by (auto simp: check_controller_def py_simps utcnow_def ask_def run_lock_def
        split: prod.splits sum.splits)
  obtain l where l: "c = Inr l"
    using run called chk u by (cases c) (auto simp: run_servo_control_def py_simps)
  have open_s: "open_call 0 s (\<lambda>_. True) [] s \<and> session_lock_state s = session_lock_state s"
    by (simp add: open_call_def waiting_refl sends_refl)
  from triple_Inr [OF check_open open_s chk [unfolded l]] have lease: "lease_ok E s (tick u) sid oid tok l" by simp
  have clear: "servo_control_preflight (env_runtime E (tick u)) label (label = ''Servo START'') = []"
    using run called chk u by (auto simp: l run_servo_control_def py_simps current_runtime_def ask_def
        Let_def split: if_splits)
  have one: "servo_calls t = servo_calls s @ [adapter]"
    using run called chk u clear by (auto simp: l run_servo_control_def py_simps current_runtime_def
        ask_def record_runtime_event_def log_audit_def Let_def split: json.splits)
  have later: "tick t = Suc (Suc (tick u))"
    using run called chk u clear by (auto simp: l run_servo_control_def py_simps current_runtime_def
        ask_def record_runtime_event_def log_audit_def Let_def split: json.splits)
  then have "lease_ok E s (tick t) sid oid tok l" by (intro lease_ok_mono [OF lease]) simp
  moreover have "tick u \<in> {tick s ..< tick t}" using u later by simp
  ultimately show ?thesis
    using one clear by (auto simp: servo_control_preflight_def Let_def split: if_splits)
qed

theorem servo_call_guarded_witness:
  "\<exists>k. rt_mode (env_runtime (demo_env\<lparr>env_runtime := \<lambda>_. demo_runtime\<lparr>rt_mode := HARDWARE\<rparr>\<rparr>) k)
     = HARDWARE"
proof -
  let ?E = "demo_env\<lparr>env_runtime := \<lambda>_. demo_runtime\<lparr>rt_mode := HARDWARE\<rparr>\<rparr>"
  let ?m = "run_servo_control ?E ''s'' ''o'' (Some ''t'') ''Servo START'' ''start_traj_mode''"
  have "servo_calls (snd (?m demo_state)) \<noteq> servo_calls demo_state"
    by (simp add: run_servo_control_def servo_control_preflight_def demo_env_def eff_eval hmi_defs text_defs
        demo_defs supervisor_init_def cong: lazily)
  with servo_call_guarded [of ?E "''s''" "''o''" "Some ''t''" "''Servo START''" "''start_traj_mode''"
      demo_state "fst (?m demo_state)" "snd (?m demo_state)"]
  show ?thesis by auto
qed

subsection \<open>Cancelling\<close>

definition ended :: "string \<Rightarrow> supervisor \<Rightarrow> bool" where
  "ended cid s \<longleftrightarrow> (\<exists>st. lifecycle_at s cid = Some st \<and> is_terminal_command_state st)"

lemma ended_transition: "keeps (ended cid) (transition_record E k nxt why rs msg)"
proof (rule keepsI)
  fix s
  assume s: "ended cid s"
  obtain r t where run: "transition_record E k nxt why rs msg s = (r, t)"
    by (cases "transition_record E k nxt why rs msg s")
  from transition_record_run [OF run] have "ended cid t"
  proof (elim disjE conjE exE)
    fix c a ms n
    assume c: "map_of (commands s) k = Some c" and ok: "allowed (lifecycle_state c) nxt"
      and t: "t = s\<lparr>commands := dict_map_at k (\<lambda>c. c\<lparr>lifecycle_state := nxt\<rparr>) (commands s),
             audit := audit s @ [Upsert a, Transition k (Some (lifecycle_state c)) nxt rs why],
             messages := ms, tick := n\<rparr>"
    have "k \<noteq> cid" using s c ok by (auto simp: ended_def terminal_iff_final lifecycle_at_def)
    with s show ?thesis by (auto simp: ended_def t transition_lifecycle [OF c])
  qed (use s in simp)
  then show "ended cid (snd (transition_record E k nxt why rs msg s))" by (simp add: run)
qed

interpretation ended: supervisor_frame_lock E "ended cid" for E cid
  by unfold_locales (auto simp: ended_transition ended_def dest: calm_mild)







end
