(* ===== verification/Telemetry.thy ===== *)
theory Telemetry
  imports Supervisor_State "HOL-Library.Word"
begin

section \<open>The telemetry of the ROS adapter\<close>

text \<open>
  \<open>hmi/backend/ros/telemetry_snapshot.py\<close> and the callbacks and the readiness poll of
  \<open>hmi/backend/ros/adapter.py\<close>: what the last messages said and when they came, and the runtime
  state, mode and source statuses derived from them.  Every callback and every derivation is one
  step; the clock readings inside a derivation are taken as one instant \<open>now\<close>, in microseconds.
  A state text is derived where the code compares it; the texts shown with a state are left out.
\<close>

subsection \<open>State\<close>

type_synonym time = int

definition seconds :: "int \<Rightarrow> time" where
  "seconds n = n * 1000000"

record robot_status_state =
  rs_at :: "time option"
  rs_mode :: "int option"
  rs_e_stopped :: "bool option"
  rs_drives_powered :: "bool option"
  rs_motion_possible :: "bool option"
  rs_in_motion :: "bool option"
  rs_in_error :: "bool option"
  rs_error_codes :: "int list"

record readiness_state =
  rd_at :: "time option"
  rd_ready :: "bool option"
  rd_message :: string

record alert_state =
  al_at :: "time option"
  al_level :: "int option"
  al_message :: string
  al_values :: "(string \<times> string) list"

record llm_state =
  gateway_status_at :: "time option"
  debug_at :: "time option"
  command_at :: "time option"

record telemetry =
  ros_started_at :: "time option"
  start_error :: "string option"
  tl_robot :: robot_status_state
  tl_readiness :: readiness_state
  tl_alert :: alert_state
  tl_llm :: llm_state
  joint_positions :: "(string \<times> pyfloat) list"
  joint_received_at :: "time option"
  joint_source_topic :: "string option"
  joint_topic_received_at :: "(string \<times> time) list"
  validate_ready_at :: "time option"
  execute_ready_at :: "time option"
  review_ready_at :: "time option"
  validate_ready :: bool
  execute_ready :: bool
  review_ready :: bool
  interface_checked_at :: "time option"

definition telemetry_init :: "string option \<Rightarrow> telemetry" where
  "telemetry_init err = \<lparr>ros_started_at = None, start_error = err,
     tl_robot = \<lparr>rs_at = None, rs_mode = None, rs_e_stopped = None, rs_drives_powered = None,
        rs_motion_possible = None, rs_in_motion = None, rs_in_error = None, rs_error_codes = []\<rparr>,
     tl_readiness = \<lparr>rd_at = None, rd_ready = None, rd_message = ''No readiness signal received.''\<rparr>,
     tl_alert = \<lparr>al_at = None, al_level = None, al_message = [], al_values = []\<rparr>,
     tl_llm = \<lparr>gateway_status_at = None, debug_at = None, command_at = None\<rparr>,
     joint_positions = [], joint_received_at = None, joint_source_topic = None,
     joint_topic_received_at = [], validate_ready_at = None, execute_ready_at = None,
     review_ready_at = None, validate_ready = False, execute_ready = False, review_ready = False,
     interface_checked_at = None\<rparr>"

subsection \<open>Freshness\<close>

definition is_fresh :: "time \<Rightarrow> time option \<Rightarrow> int \<Rightarrow> bool" where
  "is_fresh now t max_age = (case t of None \<Rightarrow> False | Some x \<Rightarrow> now - x \<le> seconds max_age)"

definition fresh_ros :: int where "fresh_ros = 3"
definition fresh_robot_status :: int where "fresh_robot_status = 3"
definition fresh_readiness :: int where "fresh_readiness = 3"
definition fresh_joint_states :: int where "fresh_joint_states = 3"
definition fresh_command_interface :: int where "fresh_command_interface = 3"
definition fresh_llm :: int where "fresh_llm = 30"
definition fresh_alerts :: int where "fresh_alerts = 5"

subsection \<open>Callbacks\<close>

text \<open>An integer field of a message: an integer, or the bytes of a signed little-endian one.\<close>

datatype ros_int = RosInt int | RosBytes "8 word list"

fun little_endian :: "8 word list \<Rightarrow> int" where
  "little_endian [] = 0"
| "little_endian (b # bs) = uint b + 256 * little_endian bs"

fun coerce_int :: "ros_int \<Rightarrow> int" where
  "coerce_int (RosInt i) = i"
| "coerce_int (RosBytes bs) =
     (let v = little_endian bs; n = 256 ^ length bs in if n \<le> 2 * v then v - n else v)"

definition tri_state_to_bool :: "ros_int \<Rightarrow> bool option" where
  "tri_state_to_bool v = (let i = coerce_int v in if i < 0 then None else Some (0 < i))"

record robot_status_msg =
  m_mode :: ros_int
  m_e_stopped :: ros_int
  m_drives_powered :: ros_int
  m_motion_possible :: ros_int
  m_in_motion :: ros_int
  m_in_error :: ros_int
  m_error_codes :: "int list"

definition on_robot_status :: "time \<Rightarrow> robot_status_msg \<Rightarrow> telemetry \<Rightarrow> telemetry" where
  "on_robot_status now m s = s\<lparr>tl_robot :=
     \<lparr>rs_at = Some now, rs_mode = Some (coerce_int (m_mode m)),
      rs_e_stopped = tri_state_to_bool (m_e_stopped m),
      rs_drives_powered = tri_state_to_bool (m_drives_powered m),
      rs_motion_possible = tri_state_to_bool (m_motion_possible m),
      rs_in_motion = tri_state_to_bool (m_in_motion m),
      rs_in_error = tri_state_to_bool (m_in_error m), rs_error_codes = m_error_codes m\<rparr>\<rparr>"

definition on_readiness :: "time \<Rightarrow> bool \<Rightarrow> string \<Rightarrow> telemetry \<Rightarrow> telemetry" where
  "on_readiness now ready message s =
     s\<lparr>tl_readiness := \<lparr>rd_at = Some now, rd_ready = Some ready, rd_message = message\<rparr>\<rparr>"

definition dict_of :: "('k \<times> 'v) list \<Rightarrow> ('k \<times> 'v) list" where
  "dict_of kvs = fold (\<lambda>(k, v). dict_set k v) kvs []"

definition on_supervisor_alert ::
  "time \<Rightarrow> ros_int \<Rightarrow> string \<Rightarrow> (string \<times> string) list \<Rightarrow> telemetry \<Rightarrow> telemetry" where
  "on_supervisor_alert now level message values s = s\<lparr>tl_alert :=
     \<lparr>al_at = Some now, al_level = Some (coerce_int level), al_message = message,
      al_values = dict_of values\<rparr>\<rparr>"

definition on_gateway_status :: "time \<Rightarrow> telemetry \<Rightarrow> telemetry" where
  "on_gateway_status now s = s\<lparr>tl_llm := (tl_llm s)\<lparr>gateway_status_at := Some now\<rparr>\<rparr>"

definition on_llm_debug :: "time \<Rightarrow> telemetry \<Rightarrow> telemetry" where
  "on_llm_debug now s = s\<lparr>tl_llm := (tl_llm s)\<lparr>debug_at := Some now\<rparr>\<rparr>"

definition on_llm_command :: "time \<Rightarrow> telemetry \<Rightarrow> telemetry" where
  "on_llm_command now s = s\<lparr>tl_llm := (tl_llm s)\<lparr>command_at := Some now\<rparr>\<rparr>"

text \<open>The joint topics: the preferred one and the last one configured, the fallback.\<close>

record joint_topics =
  preferred_topic :: string
  fallback_topic :: string

definition shipped_topics :: joint_topics where
  "shipped_topics = \<lparr>preferred_topic = ''/yaskawa/joint_states'', fallback_topic = ''/joint_states''\<rparr>"

definition should_accept_joint_update :: "joint_topics \<Rightarrow> time \<Rightarrow> string \<Rightarrow> telemetry \<Rightarrow> bool" where
  "should_accept_joint_update jt now topic s =
     (if topic = preferred_topic jt then True
      else case joint_source_topic s of
        None \<Rightarrow> True
      | Some c \<Rightarrow> if c \<noteq> preferred_topic jt then True
                  else \<not> is_fresh now (joint_received_at s) fresh_joint_states)"

definition on_joint_state ::
  "joint_topics \<Rightarrow> time \<Rightarrow> string \<Rightarrow> string list \<Rightarrow> pyfloat list \<Rightarrow> telemetry \<Rightarrow> telemetry" where
  "on_joint_state jt now topic names positions s =
     (if \<not> should_accept_joint_update jt now topic s then s
      else s\<lparr>joint_received_at := Some now, joint_source_topic := Some topic,
        joint_topic_received_at := dict_set topic now (joint_topic_received_at s),
        joint_positions := fold (\<lambda>(k, v). dict_set k v) (dict_of (zip names positions))
          (joint_positions s)\<rparr>)"

text \<open>\<open>_refresh_command_interface_state\<close>: with the clients there and at most once per period, each endpoint that is ready gets
  the poll's time.  The flags of the endpoints nothing is derived from are left out.\<close>

definition refresh_command_interface_state ::
  "bool \<Rightarrow> time \<Rightarrow> bool \<Rightarrow> bool \<Rightarrow> bool \<Rightarrow> telemetry \<Rightarrow> telemetry" where
  "refresh_command_interface_state clients now validate execute review s =
     (if \<not> clients then s
      else if (case interface_checked_at s of None \<Rightarrow> False | Some t \<Rightarrow> now - t < 500000) then s
      else s\<lparr>interface_checked_at := Some now, validate_ready := validate, execute_ready := execute,
        review_ready := review,
        validate_ready_at := (if validate then Some now else validate_ready_at s),
        execute_ready_at := (if execute then Some now else execute_ready_at s),
        review_ready_at := (if review then Some now else review_ready_at s)\<rparr>)"

subsection \<open>Derivations\<close>

datatype health = HEALTHY | DEGRADED | DOWN

definition derive_mode :: "telemetry \<Rightarrow> runtime_mode" where
  "derive_mode s =
     (if is_infix ''sim'' (lower (rd_message (tl_readiness s))) then SIM
      else if rs_at (tl_robot s) \<noteq> None \<or> rd_at (tl_readiness s) \<noteq> None then HARDWARE
      else UNKNOWN_MODE)"

text \<open>\<open>if snapshot.start_error\<close>: no error and the empty text.\<close>

definition failed_start :: "telemetry \<Rightarrow> bool" where
  "failed_start s \<longleftrightarrow> (case start_error s of Some (c # cs) \<Rightarrow> True | _ \<Rightarrow> False)"

definition derive_ros_health :: "time \<Rightarrow> telemetry \<Rightarrow> health" where
  "derive_ros_health now s =
     (if failed_start s then DOWN
      else if \<exists>t \<in> set [rs_at (tl_robot s), rd_at (tl_readiness s), joint_received_at s, al_at (tl_alert s),
                     gateway_status_at (tl_llm s)]. is_fresh now t fresh_ros then HEALTHY
      else if ros_started_at s \<noteq> None \<and> is_fresh now (ros_started_at s) fresh_ros then DEGRADED
      else DOWN)"

definition derive_llm_health :: "time \<Rightarrow> telemetry \<Rightarrow> health" where
  "derive_llm_health now s =
     (if failed_start s then DOWN
      else if \<exists>t \<in> set [gateway_status_at (tl_llm s), debug_at (tl_llm s), command_at (tl_llm s)].
                is_fresh now t fresh_llm then HEALTHY
      else if derive_ros_health now s \<noteq> DOWN then DEGRADED else DOWN)"

definition derive_moveit_health :: "time \<Rightarrow> telemetry \<Rightarrow> health" where
  "derive_moveit_health now s =
     (if failed_start s then DOWN
      else if is_fresh now (rd_at (tl_readiness s)) fresh_readiness
      then (if rd_ready (tl_readiness s) = Some True then HEALTHY else DEGRADED)
      else if is_fresh now (al_at (tl_alert s)) fresh_alerts then DEGRADED
      else if derive_ros_health now s \<noteq> DOWN then DEGRADED else DOWN)"

definition derive_motoros2_health :: "time \<Rightarrow> telemetry \<Rightarrow> health" where
  "derive_motoros2_health now s =
     (if failed_start s then DOWN
      else if is_fresh now (rs_at (tl_robot s)) fresh_robot_status then HEALTHY
      else if derive_ros_health now s \<noteq> DOWN \<and> derive_mode s = SIM then DOWN
      else if derive_ros_health now s \<noteq> DOWN then DEGRADED else DOWN)"

definition read_connections :: "time \<Rightarrow> telemetry \<Rightarrow> (string \<times> health) list" where
  "read_connections now s =
     [(''ros2'', derive_ros_health now s), (''moveit2'', derive_moveit_health now s),
      (''llm'', derive_llm_health now s), (''motoros2'', derive_motoros2_health now s)]"

definition alert_text :: "telemetry \<Rightarrow> string" where
  "alert_text s =
     (let v = (\<lambda>k. case map_of (al_values (tl_alert s)) k of None \<Rightarrow> [] | Some x \<Rightarrow> x) in
      lower (join '' '' (filter (\<lambda>x. x \<noteq> []) [al_message (tl_alert s), v ''reason'', v ''message''])))"

definition derive_runtime_state :: "time \<Rightarrow> telemetry \<Rightarrow> system_state" where
  "derive_runtime_state now s =
     (if failed_start s \<or> derive_ros_health now s = DOWN then LOST_CONN
      else if rs_e_stopped (tl_robot s) = Some True then ESTOP
      else if is_infix ''timeout'' (alert_text s) then TIMEOUT
      else if rs_in_error (tl_robot s) = Some True \<or> rs_error_codes (tl_robot s) \<noteq> [] then FAULT
      else if is_fresh now (al_at (tl_alert s)) fresh_alerts
              \<and> (case al_level (tl_alert s) of None \<Rightarrow> False | Some l \<Rightarrow> 2 \<le> l) then FAULT
      else if is_fresh now (al_at (tl_alert s)) fresh_alerts \<and> is_infix ''hold'' (alert_text s) then HOLD
      else if is_fresh now (al_at (tl_alert s)) fresh_alerts \<and> is_infix ''blocked'' (alert_text s)
      then SAFETY_BLOCKED
      else if is_fresh now (rd_at (tl_readiness s)) fresh_readiness
              \<and> rd_ready (tl_readiness s) = Some False then SAFETY_BLOCKED
      else NORMAL)"

definition robot_mode_to_string :: "int \<Rightarrow> int \<Rightarrow> int option \<Rightarrow> string option" where
  "robot_mode_to_string auto manual m = (case m of
     None \<Rightarrow> None
   | Some i \<Rightarrow> Some (if i = auto then ''AUTO'' else if i = manual then ''MANUAL'' else ''UNKNOWN''))"

text \<open>A stale status gives the defaults of \<open>RobotStatusSnapshot\<close>, all unknown.\<close>

definition derive_robot_status :: "int \<Rightarrow> int \<Rightarrow> time \<Rightarrow> telemetry \<Rightarrow> robot_status" where
  "derive_robot_status auto manual now s =
     (if \<not> is_fresh now (rs_at (tl_robot s)) fresh_robot_status
      then \<lparr>servo_state = ''UNKNOWN'', e_stop = ''UNKNOWN'', alarm_state = ''UNKNOWN'', motion_mode = None\<rparr>
      else
        let r = tl_robot s; codes = rs_error_codes r \<noteq> [];
            on = (\<lambda>v yes no. case v of Some True \<Rightarrow> yes | Some False \<Rightarrow> no | None \<Rightarrow> ''UNKNOWN'') in
        \<lparr>servo_state = on (rs_drives_powered r) ''ON'' ''OFF'',
         e_stop = on (rs_e_stopped r) ''ACTIVE'' ''CLEAR'',
         alarm_state = (if rs_in_error r = Some True \<or> codes then ''ACTIVE'' else ''NONE''),
         motion_mode = robot_mode_to_string auto manual (rs_mode r)\<rparr>)"

definition read_runtime_snapshot :: "int \<Rightarrow> int \<Rightarrow> time \<Rightarrow> telemetry \<Rightarrow> runtime_snapshot" where
  "read_runtime_snapshot auto manual now s =
     \<lparr>rt_system_state = derive_runtime_state now s, rt_mode = derive_mode s,
      rt_robot_status = derive_robot_status auto manual now s\<rparr>"

subsection \<open>Sources\<close>

record telemetry_source = source_status +
  src_preferred :: bool

definition source_freshness_state :: "time \<Rightarrow> telemetry \<Rightarrow> time option \<Rightarrow> int \<Rightarrow> freshness" where
  "source_freshness_state now s seen max_age =
     (if failed_start s then UNAVAILABLE
      else case seen of
        None \<Rightarrow> if ros_started_at s = None then UNAVAILABLE else STALE
      | Some _ \<Rightarrow> if is_fresh now seen max_age then FRESH else STALE)"

definition build_source_status ::
  "time \<Rightarrow> telemetry \<Rightarrow> string \<Rightarrow> time option \<Rightarrow> int \<Rightarrow> bool \<Rightarrow> bool \<Rightarrow> telemetry_source" where
  "build_source_status now s name seen max_age preferred active =
     \<lparr>src_name = name, src_active = active, src_freshness = source_freshness_state now s seen max_age,
      src_preferred = preferred\<rparr>"

definition command_interface_source_statuses :: "time \<Rightarrow> telemetry \<Rightarrow> telemetry_source list" where
  "command_interface_source_statuses now s =
     (let active = derive_mode s \<in> {SIM, HARDWARE};
          src = (\<lambda>n t r. build_source_status now s n t fresh_command_interface False (active \<and> r)) in
      [src ''validate_command_service'' (validate_ready_at s) (validate_ready s),
       src ''execute_motion_action'' (execute_ready_at s) (execute_ready s),
       src ''review_intent_service'' (review_ready_at s) (review_ready s)])"

definition read_source_statuses :: "joint_topics \<Rightarrow> time \<Rightarrow> telemetry \<Rightarrow> telemetry_source list" where
  "read_source_statuses jt now s =
     (let m = derive_mode s; llm = tl_llm s;
          best = (if m = SIM then fallback_topic jt else preferred_topic jt);
          src = build_source_status now s;
          joints = (\<lambda>n t. src n (map_of (joint_topic_received_at s) t) fresh_joint_states (t = best)
                      (joint_source_topic s = Some t)) in
      [src ''gateway_status'' (gateway_status_at llm) fresh_llm False True,
       src ''llm_debug'' (debug_at llm) fresh_llm False (is_fresh now (debug_at llm) fresh_llm),
       src ''llm_command'' (command_at llm) fresh_llm False (is_fresh now (command_at llm) fresh_llm),
       src ''readiness'' (rd_at (tl_readiness s)) fresh_readiness False True,
       src ''supervisor_alerts'' (al_at (tl_alert s)) fresh_alerts False True,
       src ''robot_status'' (rs_at (tl_robot s)) fresh_robot_status False (m \<noteq> SIM),
       joints ''joint_states_primary'' (preferred_topic jt),
       joints ''joint_states_fallback'' (fallback_topic jt)]
      @ command_interface_source_statuses now s)"

end
