(* ===== verification/Command_Payload.thy ===== *)
theory Command_Payload
  imports Telemetry
begin

section \<open>Payloads and messages of the execution boundary\<close>

text \<open>
  What the ROS adapter makes of a parsed intent: \<open>_build_command_payload\<close> with the joint helpers
  of \<open>jog_dispatch.py\<close> and \<open>domain/joint_utils.py\<close>, and the messages built from a payload
  (\<open>_dict_to_pose\<close>, \<open>_cartesian_path_target_pose\<close>, \<open>_dict_to_sequence_step\<close>,
  \<open>_build_execute_motion_goal\<close> of \<open>command_dispatch.py\<close>).  A message is a record of the fields the
  code can set; a field left alone has the default of its type.
\<close>

subsection \<open>Joints\<close>

definition gp4_joint_names :: "string list" where
  "gp4_joint_names =
     [''joint_1_s'', ''joint_2_l'', ''joint_3_u'', ''joint_4_r'', ''joint_5_b'', ''joint_6_t'']"

text \<open>\<open>try: int(v) except (TypeError, ValueError): None\<close>; an infinite float still raises.\<close>

definition int_or_none :: "json \<Rightarrow> py_exn + int option" where
  "int_or_none v = try_value [TypeError, ValueError] (to_int v) (Inr None) (\<lambda>i. Inr (Some i))"

fun index_of :: "'a \<Rightarrow> 'a list \<Rightarrow> nat option" where
  "index_of x [] = None"
| "index_of x (y # ys) = (if x = y then Some 0 else map_option Suc (index_of x ys))"

text \<open>The pattern \<open>joint[_\s-]*([1-6])(?:[_\s-].+)?\<close>, matched against the whole name.\<close>

definition joint_separator :: "char \<Rightarrow> bool" where
  "joint_separator c \<longleftrightarrow> c = CHR ''_'' \<or> c = CHR ''-'' \<or> is_space c"

definition match_joint_name :: "string \<Rightarrow> nat option" where
  "match_joint_name s =
     (if take 5 s \<noteq> ''joint'' then None
      else case dropWhile joint_separator (drop 5 s) of
        [] \<Rightarrow> None
      | d # rest \<Rightarrow>
          if is_digit d \<and> 1 \<le> digit_val d \<and> digit_val d \<le> 6
             \<and> (case rest of [] \<Rightarrow> True
                 | c # tail \<Rightarrow> joint_separator c \<and> tail \<noteq> [] \<and> CHR 0x0A \<notin> set tail)
          then Some (digit_val d - 1) else None)"

definition resolve_joint_target :: "dict \<Rightarrow> string list \<Rightarrow> py_exn + (nat \<times> string) option" where
  "resolve_joint_target p names =
     (let count = int (length names);
          joint = (\<lambda>i. Some (nat i, names ! nat i));
          or_else = (\<lambda>a b. if truthy a then a else b);
          name = lower (strip (str_of (or_else (get_or p ''jointNameResolved'' JNull)
             (or_else (get_or p ''joint'' JNull) (get_or p ''jointName'' JNull)))));
          by_index =
            (let v = get_or p ''jointIndex'' JNull in
             if v = JNull then Inr None
             else ebind (int_or_none v) (\<lambda>c. Inr (case c of
               None \<Rightarrow> None
             | Some i \<Rightarrow> if 0 \<le> i \<and> i < count then joint i
                         else if 1 \<le> i \<and> i \<le> count then joint (i - 1) else None)));
          by_name =
            (if name = [] then by_index
             else case index_of name names of
               Some i \<Rightarrow> Inr (joint (int i))
             | None \<Rightarrow> (case match_joint_name name of
                 Some i \<Rightarrow> Inr (joint (int i)) | None \<Rightarrow> by_index));
          z = get_or p ''jointIndexZeroBased'' JNull in
      if z = JNull then by_name
      else ebind (int_or_none z) (\<lambda>c. case c of
        Some i \<Rightarrow> if 0 \<le> i \<and> i < count then Inr (joint i) else by_name
      | None \<Rightarrow> by_name))"

definition pi_literal :: rat where
  "pi_literal = 3141592653589793 / 10 ^ 15"

text \<open>\<open>read_joint_positions\<close> of \<open>telemetry_snapshot.py\<close> and the reading of one joint: degrees of
  the last position while the joint states are fresh.\<close>

definition read_joint_positions :: "time \<Rightarrow> telemetry \<Rightarrow> (string \<times> pyfloat option) list" where
  "read_joint_positions now s = map (\<lambda>n. (n,
     (if is_fresh now (joint_received_at s) fresh_joint_states
      then map_option (\<lambda>x. fmul x (Fin (180 / pi_literal))) (map_of (joint_positions s) n)
      else None))) gp4_joint_names"

fun read_joint_position_deg :: "string \<Rightarrow> (string \<times> pyfloat option) list \<Rightarrow> pyfloat option" where
  "read_joint_position_deg n [] = None"
| "read_joint_position_deg n ((m, v) # js) = (if m = n then v else read_joint_position_deg n js)"

subsection \<open>The payload of an intent\<close>

text \<open>The exceptions of the adapter: a \<open>ValueError\<close> with a text of the program, or one of
  Python's own, whose text a marker stands for.\<close>

datatype adapter_exn = Refused string | Raised py_exn

definition raised :: "py_exn + 'a \<Rightarrow> adapter_exn + 'a" where
  "raised r = (case r of Inl e \<Rightarrow> Inl (Raised e) | Inr x \<Rightarrow> Inr x)"

fun is_value_error :: "adapter_exn \<Rightarrow> string option" where
  "is_value_error (Refused t) = Some t"
| "is_value_error (Raised ValueError) = Some ''<ValueError>''"
| "is_value_error (Raised _) = None"

definition quoted :: "string \<Rightarrow> string" where
  "quoted t = CHR 0x27 # t @ [CHR 0x27]"

definition build_move_cartesian_delta_payload :: "dict \<Rightarrow> adapter_exn + dict" where
  "build_move_cartesian_delta_payload p =
     (let fr = get_or p ''frame'' JNull; frame = (if truthy fr then to_str fr else ''base_link'');
          metres = (\<lambda>k. ebind (to_float (get_or p k (JFloat (Fin 0)))) (\<lambda>x.
             Inr (JFloat (fmul x (Fin (1 / 1000)))))) in
      if frame \<notin> {[], ''base_link''}
      then Inl (Refused (''Unsupported MOVE_REL reference frame '' @ quoted frame @ '' for supervisor execution.''))
      else raised (ebind (metres ''xMm'') (\<lambda>x. ebind (metres ''yMm'') (\<lambda>y. ebind (metres ''zMm'') (\<lambda>z.
        Inr [(''primitive_type'', JStr ''MOVE_REL''), (''delta_x'', x), (''delta_y'', y), (''delta_z'', z),
          (''reference_frame'', JStr ''base_link''), (''velocity_scale'', JFloat (Fin (6 / 100))),
          (''acceleration_scale'', JFloat (Fin (6 / 100))), (''planner_id'', JStr ''PILZ_LIN'')])))))"

definition resolve_joint_target_deg ::
  "(string \<times> pyfloat option) list \<Rightarrow> nat \<Rightarrow> dict \<Rightarrow> adapter_exn + pyfloat" where
  "resolve_joint_target_deg joints i p =
     (let given = get_or p ''currentPositionDeg'' JNull;
          read = read_joint_position_deg (gp4_joint_names ! i) joints;
          delta = to_float (get_or p ''deltaDeg'' (JFloat (Fin 0))) in
      if given = JNull
      then (case read of
          None \<Rightarrow> Inl (Refused (''Fresh joint position for '' @ gp4_joint_names ! i @ '' is unavailable.''))
        | Some x \<Rightarrow> raised (ebind delta (\<lambda>d. Inr (fadd x d))))
      else raised (ebind delta (\<lambda>d. ebind (to_float given) (\<lambda>x. Inr (fadd x d)))))"

definition build_move_joint_delta_payload ::
  "(string \<times> pyfloat option) list \<Rightarrow> dict \<Rightarrow> adapter_exn + dict" where
  "build_move_joint_delta_payload joints p =
     ebind (raised (resolve_joint_target p gp4_joint_names)) (\<lambda>target. case target of
       None \<Rightarrow> Inl (Refused ''Joint delta command did not resolve to a valid GP4 joint.'')
     | Some (i, _) \<Rightarrow>
         ebind (let t = get_or p ''resolvedTargetDeg'' JNull in
                if t = JNull then resolve_joint_target_deg joints i p else raised (to_float t)) (\<lambda>deg.
         Inr [(''primitive_type'', JStr ''MOVE_JOINT''), (''joint_index'', JInt (int i)),
           (''joint_angle'', JFloat (fmul deg (Fin (pi_literal / 180)))),
           (''velocity_scale'', JFloat (Fin (6 / 100))), (''acceleration_scale'', JFloat (Fin (6 / 100))),
           (''planner_id'', JStr ''PILZ_PTP'')]))"

definition boundary_primitives :: "string list" where
  "boundary_primitives =
     [''HOME'', ''PTP'', ''LIN'', ''CIRC'', ''CARTESIAN_PATH'', ''MOVE_REL'', ''MOVE_JOINT'', ''MOVE_JOINTS'',
      ''WAIT'', ''STOP'', ''SET_SPEED'', ''IO_SET'', ''ALARM_RESET'', ''GET_POSE'', ''BLENDED_SEQUENCE'']"

text \<open>\<open>dict(parsed_intent.get("parameters") or {})\<close>: a dict is copied, other values raise.  (A list of
  pairs, which \<open>dict\<close> would take, is not a value any producer of intents writes.)\<close>

definition parameters_of :: "dict \<Rightarrow> py_exn + dict" where
  "parameters_of p = (let v = get_or p ''parameters'' JNull in
     if \<not> truthy v then Inr []
     else case v of JObj d \<Rightarrow> Inr d | JStr _ \<Rightarrow> Inl ValueError | _ \<Rightarrow> Inl TypeError)"

definition dict_update :: "dict \<Rightarrow> dict \<Rightarrow> dict" where
  "dict_update d e = fold (\<lambda>(k, v). dict_set k v) e d"

definition payload_of_action ::
  "(string \<times> pyfloat option) list \<Rightarrow> dict \<Rightarrow> adapter_exn + dict" where
  "payload_of_action joints p =
     (let action = strip (str_of (get_or p ''action'' JNull)) in
      ebind (raised (parameters_of p)) (\<lambda>params.
      if truthy (get_or p ''primitive_type'' JNull) then Inr p
      else if upper action \<in> set boundary_primitives
      then Inr (dict_update [(''primitive_type'', JStr (upper action))] params)
      else if action = ''move_home''
      then Inr [(''primitive_type'', JStr ''HOME''), (''velocity_scale'', JFloat (Fin (6 / 100))),
        (''acceleration_scale'', JFloat (Fin (6 / 100))), (''planner_id'', JStr ''PILZ_PTP''),
        (''reference_frame'', JStr ''base_link'')]
      else if action = ''stop''
      then Inr [(''primitive_type'', JStr ''STOP''), (''reference_frame'', JStr ''base_link'')]
      else if action = ''move_cartesian_delta'' then build_move_cartesian_delta_payload params
      else if action = ''move_joint_delta'' then build_move_joint_delta_payload joints params
      else Inl (Refused (''Unsupported supervisor action '' @ quoted action @ ''.''))))"

definition build_command_payload ::
  "(string \<times> pyfloat option) list \<Rightarrow> dict \<Rightarrow> adapter_exn + dict" where
  "build_command_payload joints p =
     (case get_or p ''normalizedCommand'' JNull of
        JObj n \<Rightarrow> if truthy (get_or n ''primitive_type'' JNull) then Inr n else payload_of_action joints p
      | _ \<Rightarrow> payload_of_action joints p)"

subsection \<open>Messages\<close>

record pose_msg =
  px :: pyfloat
  py :: pyfloat
  pz :: pyfloat
  ox :: pyfloat
  oy :: pyfloat
  oz :: pyfloat
  ow :: pyfloat

definition default_pose :: pose_msg where
  "default_pose = \<lparr>px = Fin 0, py = Fin 0, pz = Fin 0, ox = Fin 0, oy = Fin 0, oz = Fin 0, ow = Fin 1\<rparr>"

definition dict_to_pose :: "json \<Rightarrow> py_exn + pose_msg" where
  "dict_to_pose v =
     ebind (jget v ''position'' (JObj [])) (\<lambda>p.
     ebind (jget v ''orientation'' (JObj [])) (\<lambda>q.
     let f = (\<lambda>d k x. ebind (jget d k (JFloat x)) to_float) in
     ebind (f p ''x'' (Fin 0)) (\<lambda>x. ebind (f p ''y'' (Fin 0)) (\<lambda>y. ebind (f p ''z'' (Fin 0)) (\<lambda>z.
     ebind (f q ''x'' (Fin 0)) (\<lambda>a. ebind (f q ''y'' (Fin 0)) (\<lambda>b. ebind (f q ''z'' (Fin 0)) (\<lambda>c.
     ebind (f q ''w'' (Fin 1)) (\<lambda>w.
     Inr \<lparr>px = x, py = y, pz = z, ox = a, oy = b, oz = c, ow = w\<rparr>)))))))))"

definition cartesian_path_target_pose :: "dict \<Rightarrow> dict option" where
  "cartesian_path_target_pose p = (case get_or p ''target_pose'' JNull of
     JObj d \<Rightarrow> Some d
   | _ \<Rightarrow>
     if upper (str_of (get_or p ''primitive_type'' JNull)) \<noteq> ''CARTESIAN_PATH'' then None
     else case get_or p ''waypoints'' JNull of
       JList ws \<Rightarrow> if ws = [] then None else (case last ws of JObj d \<Rightarrow> Some d | _ \<Rightarrow> None)
     | _ \<Rightarrow> None)"

fun map_each :: "('a \<Rightarrow> 'e + 'b) \<Rightarrow> 'a list \<Rightarrow> 'e + 'b list" where
  "map_each f [] = Inr []"
| "map_each f (x # xs) = ebind (f x) (\<lambda>y. ebind (map_each f xs) (\<lambda>ys. Inr (y # ys)))"

definition floats_of :: "json \<Rightarrow> py_exn + pyfloat list" where
  "floats_of v = ebind (jiter v) (map_each to_float)"

text \<open>The goal types of \<open>SequenceStep\<close>: the default of the message is a pose goal.\<close>

definition goal_pose :: int where "goal_pose = 0"
definition goal_joints :: int where "goal_joints = 1"
definition goal_named :: int where "goal_named = 2"

record sequence_step_msg =
  st_goal_type :: int
  st_primitive :: string
  st_target_pose :: pose_msg
  st_joint_target :: "pyfloat list"
  st_named_target :: string
  st_auxiliary_pose :: pose_msg
  st_blend_radius :: pyfloat
  st_velocity :: pyfloat
  st_acceleration :: pyfloat
  st_planner :: string

definition dict_to_sequence_step :: "json \<Rightarrow> py_exn + sequence_step_msg" where
  "dict_to_sequence_step v =
     ebind (jget v ''primitive_type'' (JStr ''LIN'')) (\<lambda>prim.
     ebind (jcontains v ''target_pose'') (\<lambda>has_pose.
     ebind (if has_pose then ebind (jindex v ''target_pose'') dict_to_pose else Inr default_pose) (\<lambda>pose.
     ebind (jcontains v ''joint_target'') (\<lambda>has_joints.
     ebind (if has_joints then ebind (jindex v ''joint_target'') floats_of else Inr []) (\<lambda>joints.
     ebind (ebind (jget v ''blend_radius_m'' (JFloat (Fin 0))) to_float) (\<lambda>radius.
     ebind (jget v ''planner_id'' (JStr ''PILZ_LIN'')) (\<lambda>planner.
     ebind (ebind (jget v ''velocity_scale'' (JFloat (Fin 0))) to_float) (\<lambda>velocity.
     ebind (ebind (jget v ''acceleration_scale'' (JFloat (Fin 0))) to_float) (\<lambda>acceleration.
     Inr \<lparr>st_goal_type = goal_pose, st_primitive = to_str prim, st_target_pose = pose,
       st_joint_target = joints, st_named_target = [], st_auxiliary_pose = default_pose,
       st_blend_radius = radius, st_velocity = velocity, st_acceleration = acceleration,
       st_planner = to_str planner\<rparr>)))))))))"

text \<open>\<open>[f(v) for v in payload.get(k, [])]\<close>.\<close>

definition each_of :: "dict \<Rightarrow> string \<Rightarrow> (json \<Rightarrow> py_exn + 'a) \<Rightarrow> py_exn + 'a list" where
  "each_of p k f = (case dget p k of None \<Rightarrow> Inr [] | Some v \<Rightarrow> ebind (jiter v) (map_each f))"

record motion_goal =
  g_primitive :: string
  g_target_pose :: pose_msg
  g_waypoints :: "pose_msg list"
  g_joint_target :: "pyfloat list"
  g_velocity :: pyfloat
  g_acceleration :: pyfloat
  g_planner :: string
  g_delta :: "pyfloat \<times> pyfloat \<times> pyfloat"
  g_frame :: string
  g_wait_duration :: pyfloat
  g_joint_index :: int
  g_joint_angle :: pyfloat
  g_io_address :: int
  g_io_value :: int
  g_steps :: "sequence_step_msg list"
  g_extended_mode :: bool
  g_mode_tokens :: "string list"
  g_estimated_duration :: pyfloat
  g_command_id :: string
  g_correlation_id :: string

definition build_execute_motion_goal :: "dict \<Rightarrow> py_exn + motion_goal" where
  "build_execute_motion_goal p =
     (let fl = (\<lambda>k. to_float (get_or p k (JFloat (Fin 0)))); it = (\<lambda>k. to_int (get_or p k (JInt 0)));
          text = (\<lambda>k. to_str (get_or p k (JStr []))) in
      ebind (jindex (JObj p) ''primitive_type'') (\<lambda>prim.
      ebind (fl ''velocity_scale'') (\<lambda>vel. ebind (fl ''acceleration_scale'') (\<lambda>acc.
      ebind (fl ''delta_x'') (\<lambda>dx. ebind (fl ''delta_y'') (\<lambda>dy. ebind (fl ''delta_z'') (\<lambda>dz.
      ebind (fl ''wait_duration_sec'') (\<lambda>wt. ebind (it ''joint_index'') (\<lambda>ji. ebind (fl ''joint_angle'') (\<lambda>ja.
      ebind (it ''io_address'') (\<lambda>ioa. ebind (it ''io_value'') (\<lambda>iov.
      ebind (each_of p ''joint_target'' to_float) (\<lambda>joints.
      ebind (case cartesian_path_target_pose p of None \<Rightarrow> Inr default_pose | Some t \<Rightarrow> dict_to_pose (JObj t)) (\<lambda>pose.
      ebind (each_of p ''waypoints'' dict_to_pose) (\<lambda>ways. ebind (each_of p ''sequence_steps'' dict_to_sequence_step) (\<lambda>steps.
      Inr \<lparr>g_primitive = to_str prim, g_target_pose = pose, g_waypoints = ways, g_joint_target = joints,
        g_velocity = vel, g_acceleration = acc, g_planner = text ''planner_id'', g_delta = (dx, dy, dz),
        g_frame = text ''reference_frame'', g_wait_duration = wt, g_joint_index = ji, g_joint_angle = ja,
        g_io_address = ioa, g_io_value = iov, g_steps = steps, g_extended_mode = False, g_mode_tokens = [],
        g_estimated_duration = Fin 0, g_command_id = [], g_correlation_id = []\<rparr>))))))))))))))))"

end
