(* ===== verification/Command_Dispatch.thy ===== *)
theory Command_Dispatch
  imports Command_Payload
begin

section \<open>The execution boundary of the ROS adapter\<close>

text \<open>
  \<open>hmi/backend/ros/command_dispatch.py\<close> and \<open>confirm_execution\<close> of \<open>adapter.py\<close>: the preflight over
  the telemetry, the validation service, the motion goal and its result, and the cancellation of a
  goal.  The adapter keeps the handle of each goal in flight; what it asks of ROS is logged.  The
  telemetry at each reading and the answers of the services are functions of \<open>ros_env\<close>; an answer
  \<open>Inl\<close> is the text of the exception of the call, a timeout included.  A goal waits for its result
  between \<open>confirm_start\<close> and \<open>await_result\<close>, and other calls may come in between.  \<open>_trace\<close> only
  logs and is left out.
\<close>

record validate_request =
  rq_command :: dict
  rq_primitive :: string
  rq_velocity :: pyfloat
  rq_target_pose :: pose_msg

record validate_response =
  vr_valid :: bool
  vr_reason :: string
  vr_sanitized_json :: string

record motion_result =
  mr_success :: bool
  mr_message :: string

record confirm_response =
  cf_accepted :: bool
  cf_reason :: string
  cf_execution_summary :: string

record ros_env =
  mode_auto :: int
  mode_manual :: int
  ros_reading :: "nat \<Rightarrow> time \<times> telemetry"
  ros_node :: bool
  validate_client :: bool
  execute_client :: bool
  confirm_client :: bool
  validate_available :: bool
  execute_available :: bool
  confirm_available :: bool
  validate_reply :: "validate_request \<Rightarrow> string + validate_response"
  goal_reply :: "motion_goal \<Rightarrow> string + nat option"
  goal_result :: "nat \<Rightarrow> string + motion_result option"
  cancel_reply :: "nat \<Rightarrow> string + bool"
  confirm_reply :: "dispatch \<Rightarrow> string + confirm_response option"
  ros_json_loads :: "string \<Rightarrow> json option"

datatype ros_call =
    ValidateAsked validate_request
  | GoalSent string motion_goal
  | CancelAsked nat
  | ConfirmAsked dispatch

record adapter =
  goal_handles :: "(string \<times> nat) list"
  goal_correlation_ids :: "(string \<times> string) list"
  ros_calls :: "ros_call list"
  readings :: nat

type_synonym 'a boundary = "(adapter_exn, adapter, 'a) eff"

definition adapter_init :: adapter where
  "adapter_init = \<lparr>goal_handles = [], goal_correlation_ids = [], ros_calls = [], readings = 0\<rparr>"

definition reading :: "ros_env \<Rightarrow> (time \<times> telemetry) boundary" where
  "reading R s = (Inr (ros_reading R (readings s)), s\<lparr>readings := Suc (readings s)\<rparr>)"

definition log_call :: "ros_call \<Rightarrow> unit boundary" where
  "log_call c = modify (\<lambda>s. s\<lparr>ros_calls := ros_calls s @ [c]\<rparr>)"

subsection \<open>The preflight\<close>

record boundary_preflight =
  bp_accepted :: bool
  bp_mode :: runtime_mode
  bp_reasons :: "string list"
  bp_required :: "string list"
  bp_state :: system_state

fun freshness_value :: "freshness \<Rightarrow> string" where
  "freshness_value FRESH = ''fresh''"
| "freshness_value STALE = ''stale''"
| "freshness_value UNAVAILABLE = ''unavailable''"

fun required_sources :: "runtime_mode \<Rightarrow> string list" where
  "required_sources SIM =
     [''gateway_status'', ''readiness'', ''supervisor_alerts'', ''joint_states_fallback'',
      ''validate_command_service'', ''execute_motion_action'']"
| "required_sources HARDWARE =
     [''gateway_status'', ''readiness'', ''supervisor_alerts'', ''robot_status'', ''joint_states_primary'',
      ''validate_command_service'', ''execute_motion_action'']"
| "required_sources UNKNOWN_MODE = []"

definition find_source :: "telemetry_source list \<Rightarrow> string \<Rightarrow> telemetry_source option" where
  "find_source srcs n = map_of (map (\<lambda>x. (src_name x, x)) srcs) n"

definition source_reasons :: "telemetry_source list \<Rightarrow> string \<Rightarrow> string list" where
  "source_reasons srcs n = (let text = ''required telemetry source '' @ n in
     case find_source srcs n of
       None \<Rightarrow> [text @ '' is missing.'']
     | Some x \<Rightarrow> (if src_active x then [] else [text @ '' is inactive.''])
         @ (if src_freshness x = FRESH then [] else [text @ '' is '' @ freshness_value (src_freshness x) @ ''.'']))"

definition hardware_reasons :: "telemetry_source list \<Rightarrow> string list" where
  "hardware_reasons srcs =
     (case find_source srcs ''joint_states_primary'' of
        None \<Rightarrow> []
      | Some x \<Rightarrow>
          (if src_preferred x then [] else [''joint_states_primary is not marked preferred in hardware mode.''])
          @ (if src_active x then [] else [''joint_states_primary is not the active joint source in hardware mode.'']))
     @ (case find_source srcs ''robot_status'' of
        None \<Rightarrow> []
      | Some x \<Rightarrow> if src_active x then [] else [''robot_status source must stay active in hardware mode.''])"

definition preflight_reasons :: "runtime_snapshot \<Rightarrow> runtime_mode \<Rightarrow> telemetry_source list \<Rightarrow> string list" where
  "preflight_reasons rt m srcs =
     (if m \<notin> {SIM, HARDWARE} then [''runtime mode '' @ mode_value m @ '' is not command-capable.''] else [])
     @ (if rt_mode rt \<noteq> m
        then [''requested mode '' @ mode_value m @ '' does not match runtime mode '' @ mode_value (rt_mode rt) @ ''.'']
        else [])
     @ (if rt_system_state rt \<noteq> NORMAL
        then [''runtime state '' @ system_state_value (rt_system_state rt) @ '' blocks execution.''] else [])
     @ concat (map (source_reasons srcs) (required_sources m))
     @ (if m = HARDWARE then hardware_reasons srcs else [])"

definition preflight_of :: "runtime_snapshot \<Rightarrow> runtime_mode \<Rightarrow> telemetry_source list \<Rightarrow> boundary_preflight" where
  "preflight_of rt m srcs =
     \<lparr>bp_accepted = (preflight_reasons rt m srcs = []), bp_mode = m, bp_reasons = preflight_reasons rt m srcs,
      bp_required = required_sources m, bp_state = rt_system_state rt\<rparr>"

definition mode_of_text :: "string \<Rightarrow> runtime_mode" where
  "mode_of_text t = (if t = ''sim'' then SIM else if t = ''hardware'' then HARDWARE else UNKNOWN_MODE)"

text \<open>\<open>str(target_mode or mode).strip().lower() or mode\<close>.\<close>

definition requested_mode_of :: "string option \<Rightarrow> runtime_mode \<Rightarrow> runtime_mode" where
  "requested_mode_of target m =
     (let t = (case target of Some (c # cs) \<Rightarrow> c # cs | _ \<Rightarrow> mode_value m); u = lower (strip t) in
      mode_of_text (if u = [] then mode_value m else u))"

definition boundary_runtime :: "ros_env \<Rightarrow> runtime_snapshot boundary" where
  "boundary_runtime R = bnd (reading R) (\<lambda>(now, tl).
     ret (read_runtime_snapshot (mode_auto R) (mode_manual R) now tl))"

definition boundary_sources :: "ros_env \<Rightarrow> telemetry_source list boundary" where
  "boundary_sources R = bnd (reading R) (\<lambda>(now, tl). ret (read_source_statuses shipped_topics now tl))"

definition evaluate_execution_preflight :: "ros_env \<Rightarrow> string option \<Rightarrow> boundary_preflight boundary" where
  "evaluate_execution_preflight R target =
     bnd (boundary_runtime R) (\<lambda>rt. bnd (boundary_sources R) (\<lambda>srcs.
     ret (preflight_of rt (requested_mode_of target (rt_mode rt)) srcs)))"

text \<open>The answer as the supervisor reads it; the list of source statuses is left out.\<close>

definition preflight_json :: "boundary_preflight \<Rightarrow> json" where
  "preflight_json b = JObj
     [(''accepted'', JBool (bp_accepted b)), (''mode'', JStr (mode_value (bp_mode b))),
      (''reasons'', JList (map JStr (bp_reasons b))), (''requiredSources'', JList (map JStr (bp_required b))),
      (''runtimeState'', JStr (system_state_value (bp_state b)))]"

subsection \<open>Answers\<close>

definition execution_response :: "dispatch \<Rightarrow> bool \<Rightarrow> string \<Rightarrow> string \<Rightarrow> bool \<Rightarrow> dict" where
  "execution_response d accepted status summary sent =
     [(''accepted'', JBool accepted), (''adapter'', JStr ''workspace_ros_adapter''), (''status'', JStr status),
      (''summary'', JStr summary), (''commandId'', JStr (d_command_id d)),
      (''planFingerprint'', JStr (d_plan_fingerprint d)), (''operatorId'', JStr (d_operator_id d)),
      (''sessionId'', JStr (d_session_id d)), (''leaseId'', JStr (d_lease_id d)),
      (''correlationId'', JStr (d_correlation_id d)), (''dispatchedToRos'', JBool sent)]"

definition blocked :: "dispatch \<Rightarrow> string \<Rightarrow> dict" where
  "blocked d why = execution_response d False ''blocked'' why False"

definition or_text :: "string \<Rightarrow> string \<Rightarrow> string" where
  "or_text t dflt = (if t = [] then dflt else t)"

subsection \<open>Validation\<close>

definition validate_request_of :: "dict \<Rightarrow> py_exn + validate_request" where
  "validate_request_of p =
     ebind (jindex (JObj p) ''primitive_type'') (\<lambda>prim.
     ebind (to_float (get_or p ''velocity_scale'' (JFloat (Fin 0)))) (\<lambda>vel.
     ebind (case cartesian_path_target_pose p of None \<Rightarrow> Inr default_pose | Some t \<Rightarrow> dict_to_pose (JObj t)) (\<lambda>pose.
     Inr \<lparr>rq_command = p, rq_primitive = to_str prim, rq_velocity = vel, rq_target_pose = pose\<rparr>)))"

text \<open>The accepted payload, replaced by the sanitised one when it decodes to a dict, or the reason.\<close>

definition sanitized :: "ros_env \<Rightarrow> dict \<Rightarrow> string \<Rightarrow> dict" where
  "sanitized R p text =
     (if text = [] then p else case ros_json_loads R text of Some (JObj d) \<Rightarrow> d | _ \<Rightarrow> p)"

definition validate_motion_request :: "ros_env \<Rightarrow> dict \<Rightarrow> (string + dict) boundary" where
  "validate_motion_request R p =
     (if \<not> ros_node R then ret (Inl ''ROS node is unavailable; ValidateCommand cannot be called.'')
      else if \<not> validate_client R then ret (Inl ''ValidateCommand client is not initialized.'')
      else if \<not> validate_available R then ret (Inl ''ValidateCommand service unavailable at /validate_command.'')
      else bnd (lift (raised (validate_request_of p))) (\<lambda>rq.
        andthen (log_call (ValidateAsked rq))
        (ret (case validate_reply R rq of
            Inl e \<Rightarrow> Inl (''ValidateCommand call failed: '' @ e)
          | Inr v \<Rightarrow>
              if \<not> vr_valid v then Inl (or_text (vr_reason v) ''ValidateCommand rejected the request.'')
              else Inr (sanitized R p (vr_sanitized_json v))))))"

subsection \<open>The motion goal\<close>

text \<open>Up to the registration of the accepted goal: an answer, or the handle to wait for.\<close>

definition send_goal :: "ros_env \<Rightarrow> dispatch \<Rightarrow> dict \<Rightarrow> (dict + nat) boundary" where
  "send_goal R d p =
     (if \<not> ros_node R
      then ret (Inl (blocked d ''ROS node is unavailable; ExecuteMotion cannot be called.''))
      else if \<not> execute_client R then ret (Inl (blocked d ''ExecuteMotion client is not initialized.''))
      else if \<not> execute_available R
      then ret (Inl (blocked d ''ExecuteMotion action server unavailable at /execute_motion.''))
      else bnd (lift (raised (build_execute_motion_goal p))) (\<lambda>g.
        andthen (log_call (GoalSent (d_command_id d) g))
        (case goal_reply R g of
           Inl e \<Rightarrow> ret (Inl (execution_response d False ''failed'' (''ExecuteMotion send failed: '' @ e) False))
         | Inr None \<Rightarrow> ret (Inl (blocked d ''ExecuteMotion action server rejected the goal.''))
         | Inr (Some h) \<Rightarrow>
             andthen (modify (\<lambda>s. s\<lparr>goal_handles := dict_set (d_command_id d) h (goal_handles s),
               goal_correlation_ids := dict_set (d_command_id d) (d_correlation_id d) (goal_correlation_ids s)\<rparr>))
             (ret (Inr h)))))"

definition result_response :: "dispatch \<Rightarrow> string + motion_result option \<Rightarrow> dict" where
  "result_response d r = (case r of
     Inl e \<Rightarrow> execution_response d False ''failed'' (''ExecuteMotion result wait failed: '' @ e) True
   | Inr None \<Rightarrow> execution_response d False ''failed'' ''ExecuteMotion returned no result payload.'' True
   | Inr (Some m) \<Rightarrow>
       if mr_success m
       then execution_response d True ''succeeded''
              (or_text (mr_message m) ''ExecuteMotion completed successfully.'') True
       else let summary = or_text (mr_message m) ''ExecuteMotion failed.'' in
            execution_response d False
              (if is_infix ''cancel'' (lower summary) then ''cancelled'' else ''failed'') summary True)"

definition forget_goal :: "string \<Rightarrow> unit boundary" where
  "forget_goal cid = modify (\<lambda>s. s\<lparr>goal_handles := AList.delete cid (goal_handles s),
     goal_correlation_ids := AList.delete cid (goal_correlation_ids s)\<rparr>)"

text \<open>The wait for the result: whatever it ends with, the handle is dropped (\<open>finally\<close>).\<close>

definition await_result :: "ros_env \<Rightarrow> dispatch \<Rightarrow> nat \<Rightarrow> dict boundary" where
  "await_result R d h = andthen (forget_goal (d_command_id d)) (ret (result_response d (goal_result R h)))"

subsection \<open>The task runtime\<close>

text \<open>\<open>confirm_execution\<close>: accepted, the reason and the execution summary.\<close>

definition confirm_execution :: "ros_env \<Rightarrow> dispatch \<Rightarrow> (bool \<times> string \<times> string) boundary" where
  "confirm_execution R d =
     (if \<not> ros_node R \<or> \<not> confirm_client R then ret (False, ''confirm_execution service unavailable'', [])
      else if \<not> confirm_available R then ret (False, ''confirm_execution service not ready'', [])
      else andthen (log_call (ConfirmAsked d))
        (ret (case confirm_reply R d of
            Inl e \<Rightarrow> (False, e, [])
          | Inr None \<Rightarrow> (False, ''no response'', [])
          | Inr (Some c) \<Rightarrow> (cf_accepted c, cf_reason c, cf_execution_summary c))))"

definition confirm_task_runtime :: "ros_env \<Rightarrow> dispatch \<Rightarrow> dict boundary" where
  "confirm_task_runtime R d =
     bnd (confirm_execution R
        (if d_requested_mode d = [] then d\<lparr>d_requested_mode := ''sim''\<rparr> else d)) (\<lambda>(ok, reason, summary).
     ret (execution_response d ok (if ok then ''succeeded'' else ''failed'')
       (or_text reason (or_text summary ''FactoryTask runtime completed.'')) True))"

subsection \<open>Confirmation\<close>

text \<open>\<open>confirm_command\<close> up to the wait for the result.\<close>

definition confirm_start :: "ros_env \<Rightarrow> dispatch \<Rightarrow> (dict + nat) boundary" where
  "confirm_start R d =
     (let block = (\<lambda>why. ret (Inl (blocked d why))) in
      bnd (boundary_runtime R) (\<lambda>rt.
      if d_requested_mode d \<noteq> mode_value (rt_mode rt)
      then block (''requested mode '' @ d_requested_mode d @ '' does not match runtime mode ''
             @ mode_value (rt_mode rt) @ ''.'')
      else bnd (evaluate_execution_preflight R (Some (mode_value (rt_mode rt)))) (\<lambda>pf.
      if \<not> bp_accepted pf then block (or_text (join ''; '' (bp_reasons pf)) ''execution preflight failed'')
      else case d_parsed_intent d of
        None \<Rightarrow> block ''Parsed intent is unavailable at the execution boundary.''
      | Some p \<Rightarrow>
          bnd (reading R) (\<lambda>(now, tl).
          case build_command_payload (read_joint_positions now tl) p of
            Inl e \<Rightarrow> (case is_value_error e of Some text \<Rightarrow> block text | None \<Rightarrow> throw e)
          | Inr payload \<Rightarrow>
              bnd (validate_motion_request R payload) (\<lambda>v. case v of
                Inl why \<Rightarrow> block why
              | Inr clean \<Rightarrow>
                  if is_str (get_or clean ''primitive_type'' JNull) ''FACTORY_TASK_RUNTIME''
                  then bnd (confirm_task_runtime R d) (\<lambda>a. ret (Inl a))
                  else send_goal R d clean)))))"

definition adapter_confirm_command :: "ros_env \<Rightarrow> dispatch \<Rightarrow> dict boundary" where
  "adapter_confirm_command R d =
     bnd (confirm_start R d) (\<lambda>r. case r of Inl a \<Rightarrow> ret a | Inr h \<Rightarrow> await_result R d h)"

subsection \<open>Cancellation\<close>

definition adapter_abort_command :: "ros_env \<Rightarrow> string \<Rightarrow> (bool \<times> string) boundary" where
  "adapter_abort_command R cid =
     bnd (gets (\<lambda>s. map_of (goal_handles s) cid)) (\<lambda>h. case h of
       None \<Rightarrow> ret (True, ''Command '' @ cid @ '' cancelled before any ROS execution request.'')
     | Some h \<Rightarrow> andthen (log_call (CancelAsked h)) (ret (case cancel_reply R h of
           Inl e \<Rightarrow> (False, ''Failed to cancel ExecuteMotion goal for '' @ cid @ '': '' @ e)
         | Inr True \<Rightarrow> (True, ''Cancellation requested for ExecuteMotion goal '' @ cid @ ''.'')
         | Inr False \<Rightarrow> (False, ''ExecuteMotion goal '' @ cid @ '' did not accept cancellation.''))))"

definition stop_adapter :: "adapter \<Rightarrow> adapter" where
  "stop_adapter s = s\<lparr>goal_handles := [], goal_correlation_ids := []\<rparr>"

end
