(* ===== verification/Telemetry_Properties.thy ===== *)
theory Telemetry_Properties
  imports Command_Payload
begin

section \<open>What the telemetry promises\<close>

text \<open>
  The integers of the messages keep their signed value; the preferred joint source is not
  overwritten while it is fresh; the runtime state is normal exactly when nothing speaks against
  it; and two behaviours a reader would not expect: a joint message without a joint makes the old
  position of that joint fresh again, and an alert about a timeout never ages.
\<close>

subsection \<open>Integers of messages\<close>

lemma little_endian_bounds: "0 \<le> little_endian bs \<and> little_endian bs < 256 ^ length bs"
proof (induction bs)
  case Nil
  then show ?case by simp
next
  case (Cons b bs)
  have "0 \<le> uint b" "uint b < 256" using uint_bounded [of b] by simp_all
  with Cons show ?case by simp
qed

text \<open>The signed little-endian reading of the bytes of a message field is the number in the range
  of that many bytes that agrees with the unsigned reading modulo the range.\<close>

theorem coerce_int_signed:
  "- (256 ^ length bs) \<le> 2 * coerce_int (RosBytes bs)
    \<and> 2 * coerce_int (RosBytes bs) < 256 ^ length bs
    \<and> coerce_int (RosBytes bs) mod 256 ^ length bs = little_endian bs"
proof -
  define n where "n = (256 :: int) ^ length bs"
  define v where "v = little_endian bs"
  have v: "0 \<le> v" "v < n" using little_endian_bounds [of bs] by (simp_all add: v_def n_def)
  have "(v - n) mod n = v" using v by (simp add: mod_pos_pos_trivial)
  with v show ?thesis by (simp add: Let_def flip: v_def n_def)
qed

subsection \<open>Joint states\<close>

type_synonym joint_message = "time \<times> string \<times> string list \<times> pyfloat list"

definition receive_joints :: "joint_topics \<Rightarrow> joint_message list \<Rightarrow> telemetry \<Rightarrow> telemetry" where
  "receive_joints jt = fold (\<lambda>(now, topic, names, positions). on_joint_state jt now topic names positions)"

lemma fallback_refused:
  assumes "joint_source_topic s = Some (preferred_topic jt)" "joint_received_at s = Some t"
    and "topic \<noteq> preferred_topic jt" "now \<le> t + seconds fresh_joint_states"
  shows "on_joint_state jt now topic names positions s = s"
  using assms by (simp add: on_joint_state_def should_accept_joint_update_def is_fresh_def)

lemma fallback_accepted:
  assumes "joint_source_topic s = Some (preferred_topic jt)" "joint_received_at s = Some t"
    and "t + seconds fresh_joint_states < now"
  shows "should_accept_joint_update jt now topic s"
  using assms by (simp add: should_accept_joint_update_def is_fresh_def)

text \<open>Once the preferred joint topic has been received, the messages of other topics change
  nothing for three seconds, however many come, and the first one after that takes over.\<close>

theorem preferred_joints_kept:
  assumes "joint_source_topic s = Some (preferred_topic jt)" "joint_received_at s = Some t"
    and "\<forall>(now, topic, names, positions) \<in> set ms.
           topic \<noteq> preferred_topic jt \<and> now \<le> t + seconds fresh_joint_states"
    and "t + seconds fresh_joint_states < now"
  shows "receive_joints jt ms s = s
    \<and> joint_source_topic (receive_joints jt (ms @ [(now, topic, names, positions)]) s) = Some topic"
proof -
  have same: "receive_joints jt ms s = s"
    using assms(3)
  proof (induction ms)
    case Nil
    then show ?case by (simp add: receive_joints_def)
  next
    case (Cons m ms)
    then show ?case
      using fallback_refused [OF assms(1,2)] by (auto simp: receive_joints_def)
  qed
  moreover have "joint_source_topic (on_joint_state jt now topic names positions s) = Some topic"
    using fallback_accepted [OF assms(1,2,4)] by (simp add: on_joint_state_def)
  ultimately show ?thesis by (simp add: receive_joints_def)
qed

definition demo_telemetry :: telemetry where
  "demo_telemetry = on_joint_state shipped_topics 0 ''/yaskawa/joint_states'' [''joint_1_s''] [Fin 1]
     (telemetry_init None)"

lemma demo_telemetry_joints:
  "joint_source_topic demo_telemetry = Some ''/yaskawa/joint_states''"
  "joint_received_at demo_telemetry = Some 0"
  by (simp_all add: demo_telemetry_def on_joint_state_def should_accept_joint_update_def
      shipped_topics_def telemetry_init_def)

theorem preferred_joints_kept_witness:
  "receive_joints shipped_topics
     [(1000000, ''/joint_states'', [''joint_1_s''], [Fin 2]), (3000000, ''/joint_states'', [], [])]
     demo_telemetry = demo_telemetry
   \<and> joint_source_topic (receive_joints shipped_topics
     ([(1000000, ''/joint_states'', [''joint_1_s''], [Fin 2]), (3000000, ''/joint_states'', [], [])]
      @ [(3000001, ''/joint_states'', [''joint_1_s''], [Fin 2])]) demo_telemetry) = Some ''/joint_states''"
  by (rule preferred_joints_kept [where t = 0])
    (simp_all add: demo_telemetry_joints shipped_topics_def seconds_def fresh_joint_states_def)

lemma map_of_merge:
  "x \<notin> fst ` set kvs \<Longrightarrow> map_of (fold (\<lambda>(k, v). dict_set k v) kvs d) x = map_of d x"
  by (induction kvs arbitrary: d) (auto split: prod.splits)

lemma keys_merge: "fst ` set (fold (\<lambda>(k, v). dict_set k v) kvs d) = fst ` set d \<union> fst ` set kvs"
proof (induction kvs arbitrary: d)
  case Nil
  then show ?case by simp
next
  case (Cons p kvs)
  then show ?case by (simp add: split_beta keys_dict_set insert_commute)
qed

lemma map_of_graph: "x \<in> set ns \<Longrightarrow> map_of (map (\<lambda>n. (n, f n)) ns) x = Some (f x)"
  by (induction ns) auto

text \<open>An accepted joint message that does not name a joint still renews the age of its last
  position: however old that position is, it is read as fresh.\<close>

theorem partial_joint_message_refreshes:
  assumes "should_accept_joint_update jt now topic s" "x \<in> set gp4_joint_names" "x \<notin> set names"
  shows "map_of (read_joint_positions now (on_joint_state jt now topic names positions s)) x
    = Some (map_option (\<lambda>v. fmul v (Fin (180 / pi_literal))) (map_of (joint_positions s) x))"
proof -
  have "x \<notin> fst ` set (dict_of (zip names positions))"
    using assms(3) by (auto simp: dict_of_def keys_merge dest: set_zip_leftD)
  then have same: "map_of (joint_positions (on_joint_state jt now topic names positions s)) x
      = map_of (joint_positions s) x"
    using assms(1) by (simp add: on_joint_state_def map_of_merge)
  have fresh: "is_fresh now (joint_received_at (on_joint_state jt now topic names positions s))
      fresh_joint_states"
    using assms(1) by (simp add: on_joint_state_def is_fresh_def seconds_def fresh_joint_states_def)
  show ?thesis
    unfolding read_joint_positions_def by (subst map_of_graph [OF assms(2)]) (simp add: fresh same)
qed

theorem partial_joint_message_refreshes_witness:
  "map_of (read_joint_positions 60000000
     (on_joint_state shipped_topics 60000000 ''/yaskawa/joint_states'' [] [] demo_telemetry)) ''joint_1_s''
   = Some (Some (Fin (180 / pi_literal)))"
proof -
  have "map_of (joint_positions demo_telemetry) ''joint_1_s'' = Some (Fin 1)"
    by (simp add: demo_telemetry_def on_joint_state_def should_accept_joint_update_def dict_of_def
        shipped_topics_def telemetry_init_def)
  then show ?thesis
    using partial_joint_message_refreshes [where jt = shipped_topics and now = 60000000 and s = demo_telemetry
      and topic = "''/yaskawa/joint_states''" and x = "''joint_1_s''" and names = "[]" and positions = "[]"]
    by (simp add: should_accept_joint_update_def shipped_topics_def gp4_joint_names_def)
qed

subsection \<open>The runtime state\<close>

definition recent_alert :: "time \<Rightarrow> telemetry \<Rightarrow> bool" where
  "recent_alert now s = is_fresh now (al_at (tl_alert s)) fresh_alerts"

definition calm_telemetry :: "time \<Rightarrow> telemetry \<Rightarrow> bool" where
  "calm_telemetry now s \<longleftrightarrow>
     derive_ros_health now s \<noteq> DOWN
     \<and> rs_e_stopped (tl_robot s) \<noteq> Some True \<and> rs_in_error (tl_robot s) \<noteq> Some True
     \<and> rs_error_codes (tl_robot s) = []
     \<and> \<not> is_infix ''timeout'' (alert_text s)
     \<and> (recent_alert now s \<longrightarrow> (\<forall>l. al_level (tl_alert s) = Some l \<longrightarrow> l < 2)
          \<and> \<not> is_infix ''hold'' (alert_text s) \<and> \<not> is_infix ''blocked'' (alert_text s))
     \<and> (is_fresh now (rd_at (tl_readiness s)) fresh_readiness \<longrightarrow> rd_ready (tl_readiness s) \<noteq> Some False)"

lemma failed_start_down: "failed_start s \<Longrightarrow> derive_ros_health now s = DOWN"
  by (simp add: derive_ros_health_def)

lemma normal_iff_calm: "derive_runtime_state now s = NORMAL \<longleftrightarrow> calm_telemetry now s"
  using failed_start_down [of s now]
  by (auto simp: derive_runtime_state_def calm_telemetry_def recent_alert_def not_le split: option.splits if_splits)

lemma timeout_never_ages:
  assumes "is_infix ''timeout'' (alert_text s)" "rs_e_stopped (tl_robot s) \<noteq> Some True"
    and "derive_ros_health now s \<noteq> DOWN"
  shows "derive_runtime_state now s = TIMEOUT"
  using assms failed_start_down [of s now] by (auto simp: derive_runtime_state_def)

end
