(* ===== verification/Preflight_Properties.thy ===== *)
theory Preflight_Properties
  imports Command_Dispatch Telemetry_Properties
begin

section \<open>The preflight of the execution boundary\<close>

text \<open>
  The preflight is a list of reasons over the derived source statuses; here it is shown to accept
  exactly when a condition on the raw telemetry holds.
\<close>

text \<open>What the preflight for a mode requires of the two readings it makes.\<close>

definition boundary_clear :: "runtime_mode \<Rightarrow> time \<times> telemetry \<Rightarrow> time \<times> telemetry \<Rightarrow> bool" where
  "boundary_clear m a b = (case (a, b) of ((now, s), (now', s')) \<Rightarrow>
     m \<noteq> UNKNOWN_MODE \<and> derive_mode s = m \<and> calm_telemetry now s
     \<and> \<not> failed_start s'
     \<and> is_fresh now' (gateway_status_at (tl_llm s')) 30
     \<and> is_fresh now' (rd_at (tl_readiness s')) 3
     \<and> is_fresh now' (al_at (tl_alert s')) 5
     \<and> validate_ready s' \<and> is_fresh now' (validate_ready_at s') 3
     \<and> execute_ready s' \<and> is_fresh now' (execute_ready_at s') 3
     \<and> (m = SIM \<longrightarrow> joint_source_topic s' = Some ''/joint_states''
          \<and> is_fresh now' (map_of (joint_topic_received_at s') ''/joint_states'') 3)
     \<and> (m = HARDWARE \<longrightarrow> derive_mode s' = HARDWARE \<and> is_fresh now' (rs_at (tl_robot s')) 3
          \<and> joint_source_topic s' = Some ''/yaskawa/joint_states''
          \<and> is_fresh now' (map_of (joint_topic_received_at s') ''/yaskawa/joint_states'') 3))"

lemma fresh_state: "source_freshness_state now s seen age = FRESH \<longleftrightarrow> \<not> failed_start s \<and> is_fresh now seen age"
  by (auto simp: source_freshness_state_def is_fresh_def split: option.splits)

lemma readiness_mode: "is_fresh now (rd_at (tl_readiness s)) n \<Longrightarrow> derive_mode s = SIM \<or> derive_mode s = HARDWARE"
  by (auto simp: derive_mode_def is_fresh_def)

lemma find_source_status:
  fixes jt now s
  defines "srcs \<equiv> read_source_statuses jt now s" and "b \<equiv> build_source_status now s"
  shows
    "find_source srcs ''gateway_status'' = Some (b ''gateway_status'' (gateway_status_at (tl_llm s)) fresh_llm False True)"
    "find_source srcs ''readiness'' = Some (b ''readiness'' (rd_at (tl_readiness s)) fresh_readiness False True)"
    "find_source srcs ''supervisor_alerts'' = Some (b ''supervisor_alerts'' (al_at (tl_alert s)) fresh_alerts False True)"
    "find_source srcs ''robot_status'' =
       Some (b ''robot_status'' (rs_at (tl_robot s)) fresh_robot_status False (derive_mode s \<noteq> SIM))"
    "find_source srcs ''joint_states_primary'' =
       Some (b ''joint_states_primary'' (map_of (joint_topic_received_at s) (preferred_topic jt)) fresh_joint_states
         (preferred_topic jt = (if derive_mode s = SIM then fallback_topic jt else preferred_topic jt))
         (joint_source_topic s = Some (preferred_topic jt)))"
    "find_source srcs ''joint_states_fallback'' =
       Some (b ''joint_states_fallback'' (map_of (joint_topic_received_at s) (fallback_topic jt)) fresh_joint_states
         (fallback_topic jt = (if derive_mode s = SIM then fallback_topic jt else preferred_topic jt))
         (joint_source_topic s = Some (fallback_topic jt)))"
    "find_source srcs ''validate_command_service'' =
       Some (b ''validate_command_service'' (validate_ready_at s) fresh_command_interface False
         (derive_mode s \<in> {SIM, HARDWARE} \<and> validate_ready s))"
    "find_source srcs ''execute_motion_action'' =
       Some (b ''execute_motion_action'' (execute_ready_at s) fresh_command_interface False
         (derive_mode s \<in> {SIM, HARDWARE} \<and> execute_ready s))"
  by (simp_all add: srcs_def b_def find_source_def read_source_statuses_def command_interface_source_statuses_def
      build_source_status_def Let_def)

lemma source_reasons_none:
  "find_source srcs n = Some x \<Longrightarrow> source_reasons srcs n = [] \<longleftrightarrow> src_active x \<and> src_freshness x = FRESH"
  by (simp add: source_reasons_def Let_def)

lemmas shipped_limits = fresh_llm_def fresh_readiness_def fresh_alerts_def fresh_robot_status_def
  fresh_joint_states_def fresh_command_interface_def shipped_topics_def

lemma preflight_reasons_none:
  "preflight_reasons (read_runtime_snapshot auto man now s) m (read_source_statuses shipped_topics now' s') = []
    \<longleftrightarrow> boundary_clear m (now, s) (now', s')"
proof (cases m)
  case UNKNOWN_MODE
  then show ?thesis by (simp add: preflight_reasons_def boundary_clear_def)
next
  case SIM
  then show ?thesis
    using readiness_mode [of now' s' 3]
    by (auto simp: preflight_reasons_def boundary_clear_def read_runtime_snapshot_def
        normal_iff_calm source_reasons_none find_source_status build_source_status_def fresh_state shipped_limits)
next
  case HARDWARE
  then show ?thesis
    using readiness_mode [of now' s' 3]
    by (auto simp: preflight_reasons_def boundary_clear_def read_runtime_snapshot_def hardware_reasons_def
        normal_iff_calm source_reasons_none find_source_status build_source_status_def fresh_state shipped_limits)
qed

lemma evaluate_run:
  "evaluate_execution_preflight R target s =
    (let (now, a) = ros_reading R (readings s); (now', b) = ros_reading R (Suc (readings s));
         rt = read_runtime_snapshot (mode_auto R) (mode_manual R) now a in
     (Inr (preflight_of rt (requested_mode_of target (rt_mode rt)) (read_source_statuses shipped_topics now' b)),
      s\<lparr>readings := Suc (Suc (readings s))\<rparr>))"
  by (simp add: evaluate_execution_preflight_def boundary_runtime_def boundary_sources_def reading_def py_simps
      Let_def split: prod.split)

lemma evaluate_accepts:
  "\<exists>pf. evaluate_execution_preflight R (Some (mode_value m)) s = (Inr pf, s\<lparr>readings := readings s + 2\<rparr>)
    \<and> bp_accepted pf = (boundary_clear m (ros_reading R (readings s)) (ros_reading R (readings s + 1)))"
proof -
  have "requested_mode_of (Some (mode_value m)) k = m" for k
    by (cases m) (simp_all add: requested_mode_of_def mode_of_text_def lower_def lower_char_def strip_def
        is_space_def Let_def)
  then show ?thesis
    by (simp add: evaluate_run preflight_of_def preflight_reasons_none Let_def split: prod.split)
qed

text \<open>C19: The preflight accepts exactly when the two readings of the telemetry it makes are clear: the
  state is normal, every source of the boundary has spoken within its age limit, the two
  command interfaces are up, and on hardware the robot status and the robot's own joint topic
  are live.\<close>

theorem preflight_accepts_iff:
  "\<exists>pf. evaluate_execution_preflight R (Some (mode_value m)) s = (Inr pf, s\<lparr>readings := readings s + 2\<rparr>)
    \<and> bp_accepted pf = (boundary_clear m (ros_reading R (readings s)) (ros_reading R (readings s + 1)))"
  by (rule evaluate_accepts)

end
