(* ===== verification/Dispatch_Properties.thy ===== *)
theory Dispatch_Properties
  imports Preflight_Properties
begin

section \<open>What the execution boundary promises\<close>

text \<open>
  A goal is sent only after every check of the boundary, the answers keep the contract the
  supervisor relies on, a goal in flight can be cancelled and one that is not cannot.
\<close>

subsection \<open>Goals\<close>

definition preflight_clear :: "ros_env \<Rightarrow> dispatch \<Rightarrow> adapter \<Rightarrow> bool" where
  "preflight_clear R d s \<longleftrightarrow>
     (let m = derive_mode (snd (ros_reading R (readings s))) in
      d_requested_mode d = mode_value m
      \<and> boundary_clear m (ros_reading R (readings s + 1)) (ros_reading R (readings s + 2)))"

text \<open>The goal is made of the payload the validation service accepted.\<close>

definition validated_goal :: "ros_env \<Rightarrow> dispatch \<Rightarrow> adapter \<Rightarrow> motion_goal \<Rightarrow> bool" where
  "validated_goal R d s g \<longleftrightarrow>
     (\<exists>p payload rq v. d_parsed_intent d = Some p
       \<and> build_command_payload (case ros_reading R (readings s + 3) of (now, tele) \<Rightarrow> read_joint_positions now tele) p
           = Inr payload
       \<and> validate_request_of payload = Inr rq \<and> validate_reply R rq = Inr v \<and> vr_valid v
       \<and> build_execute_motion_goal (sanitized R payload (vr_sanitized_json v)) = Inr g)"

definition proper_call :: "ros_env \<Rightarrow> dispatch \<Rightarrow> adapter \<Rightarrow> ros_call \<Rightarrow> bool" where
  "proper_call R d s c = (case c of
     ValidateAsked rq \<Rightarrow> preflight_clear R d s
   | GoalSent cid g \<Rightarrow> cid = d_command_id d \<and> preflight_clear R d s \<and> validated_goal R d s g
   | ConfirmAsked e \<Rightarrow> d_command_id e = d_command_id d \<and> preflight_clear R d s
   | CancelAsked h \<Rightarrow> False)"

text \<open>An action that only adds calls with a property to the log.\<close>

definition logs :: "(ros_call \<Rightarrow> bool) \<Rightarrow> 'a boundary \<Rightarrow> bool" where
  "logs P m \<longleftrightarrow> (\<forall>s. \<exists>cs. ros_calls (snd (m s)) = ros_calls s @ cs \<and> (\<forall>c \<in> set cs. P c))"

lemma logs_ret: "logs P (ret x)" and logs_throw: "logs P (throw e)" and logs_lift: "logs P (lift r)"
  and logs_gets: "logs P (gets f)" and logs_reading: "logs P (reading R)"
  by (auto simp: logs_def py_simps reading_def)

lemma logs_log: "P c \<Longrightarrow> logs P (log_call c)"
  by (auto simp: logs_def log_call_def py_simps)

lemma logs_modify: "(\<And>s. ros_calls (f s) = ros_calls s) \<Longrightarrow> logs P (modify f)"
  by (auto simp: logs_def py_simps)

lemma logs_bnd:
  assumes m: "logs P m" and f: "\<And>x s t. m s = (Inr x, t) \<Longrightarrow> logs P (f x)"
  shows "logs P (bnd m f)"
  unfolding logs_def
proof (rule allI)
  fix s
  obtain cs where cs: "ros_calls (snd (m s)) = ros_calls s @ cs" "\<forall>c \<in> set cs. P c"
    using m unfolding logs_def by blast
  show "\<exists>cs. ros_calls (snd (bnd m f s)) = ros_calls s @ cs \<and> (\<forall>c \<in> set cs. P c)"
  proof (cases "m s")
    case (Pair r t)
    show ?thesis
    proof (cases r)
      case (Inl e)
      with cs Pair show ?thesis by (auto simp: bnd_run)
    next
      case (Inr x)
      then obtain ds where "ros_calls (snd (f x t)) = ros_calls t @ ds" "\<forall>c \<in> set ds. P c"
        using f Pair unfolding logs_def by blast
      with cs Pair Inr show ?thesis by (intro exI [of _ "cs @ ds"]) (auto simp: bnd_run)
    qed
  qed
qed

lemma logs_andthen: "logs P m \<Longrightarrow> logs P n \<Longrightarrow> logs P (andthen m n)"
  unfolding andthen_def by (rule logs_bnd)

lemmas logs_basic = logs_ret logs_throw logs_lift logs_gets logs_reading logs_log logs_andthen

lemma logs_confirm_task_runtime:
  assumes "\<And>e. d_command_id e = d_command_id d \<Longrightarrow> P (ConfirmAsked e)"
  shows "logs P (confirm_task_runtime R d)"
  unfolding confirm_task_runtime_def confirm_execution_def
  by (rule logs_bnd) (auto intro!: logs_basic assms split: prod.split)

lemma logs_send_goal:
  assumes "\<And>g. build_execute_motion_goal p = Inr g \<Longrightarrow> P (GoalSent (d_command_id d) g)"
  shows "logs P (send_goal R d p)"
  unfolding send_goal_def
  by (auto intro!: logs_basic logs_bnd logs_modify assms
      simp: lift_def raised_def split: sum.splits option.splits)

lemma logs_validate:
  assumes "\<And>rq. P (ValidateAsked rq)"
  shows "logs P (validate_motion_request R p)"
  unfolding validate_motion_request_def
  by (auto intro!: logs_basic logs_bnd assms)

lemma validate_motion_accepts:
  "validate_motion_request R p s = (Inr (Inr clean), t) \<Longrightarrow>
    \<exists>rq v. validate_request_of p = Inr rq \<and> validate_reply R rq = Inr v \<and> vr_valid v
      \<and> clean = sanitized R p (vr_sanitized_json v)"
  by (auto simp: validate_motion_request_def py_simps log_call_def raised_def split: if_splits sum.splits)


definition at_reading :: "nat \<Rightarrow> adapter \<Rightarrow> adapter" where
  "at_reading n s = s\<lparr>readings := readings s + n\<rparr>"

definition after_validation :: "ros_env \<Rightarrow> dispatch \<Rightarrow> string + dict \<Rightarrow> (dict + nat) boundary" where
  "after_validation R d v = (case v of
     Inl why \<Rightarrow> ret (Inl (blocked d why))
   | Inr clean \<Rightarrow>
       if is_str (get_or clean ''primitive_type'' JNull) ''FACTORY_TASK_RUNTIME''
       then bnd (confirm_task_runtime R d) (\<lambda>a. ret (Inl a))
       else send_goal R d clean)"

definition intent_joints :: "ros_env \<Rightarrow> adapter \<Rightarrow> (string \<times> pyfloat option) list" where
  "intent_joints R s = (case ros_reading R (readings s + 3) of (now, tele) \<Rightarrow> read_joint_positions now tele)"

text \<open>How far \<open>confirm_start\<close> comes: refused without a word to ROS, or on to the validation.\<close>

lemma confirm_start_cases:
  obtains (refused) why n where "confirm_start R d s = (Inr (Inl (blocked d why)), at_reading n s)"
  | (raised) e where "confirm_start R d s = (Inl e, at_reading 4 s)"
  | (validating) p payload where "preflight_clear R d s" "d_parsed_intent d = Some p"
      "build_command_payload (intent_joints R s) p = Inr payload"
      "confirm_start R d s = bnd (validate_motion_request R payload) (after_validation R d) (at_reading 4 s)"
proof -
  obtain now a where a: "ros_reading R (readings s) = (now, a)" by fastforce
  define m where "m = derive_mode a"
  obtain now3 b where b: "ros_reading R (readings s + 3) = (now3, b)" by fastforce
  obtain pf where pf: "evaluate_execution_preflight R (Some (mode_value m)) (at_reading (Suc 0) s) = (Inr pf, at_reading 3 s)"
    and ok: "bp_accepted pf = boundary_clear m (ros_reading R (readings s + 1)) (ros_reading R (readings s + 2))"
    using evaluate_accepts [of R m "at_reading (Suc 0) s"] by (auto simp: at_reading_def)
  have rt: "boundary_runtime R s = (Inr (read_runtime_snapshot (mode_auto R) (mode_manual R) now a), at_reading (Suc 0) s)"
    by (simp add: boundary_runtime_def reading_def py_simps a at_reading_def)
  have rd: "reading R (at_reading 3 s) = (Inr (now3, b), at_reading 4 s)"
    using b by (simp add: reading_def at_reading_def)
  have mode: "rt_mode (read_runtime_snapshot (mode_auto R) (mode_manual R) now a) = m"
    by (simp add: read_runtime_snapshot_def m_def)
  note run = confirm_start_def Let_def bnd_run rt pf rd mode eff_run
  show ?thesis
  proof (cases "d_requested_mode d = mode_value m \<and> bp_accepted pf")
    case False
    then have "\<exists>why n. confirm_start R d s = (Inr (Inl (blocked d why)), at_reading n s)"
      by (cases "d_requested_mode d = mode_value m") (auto simp: run)
    then show ?thesis using refused by blast
  next
    case True
    then have clear: "preflight_clear R d s" by (simp add: preflight_clear_def a m_def ok)
    show ?thesis
    proof (cases "d_parsed_intent d")
      case None
      with True have "\<exists>why n. confirm_start R d s = (Inr (Inl (blocked d why)), at_reading n s)"
        by (auto simp: run)
      then show ?thesis using refused by blast
    next
      case (Some p)
      show ?thesis
      proof (cases "build_command_payload (intent_joints R s) p")
        case (Inl e)
        with True Some b have "confirm_start R d s = (case is_value_error e of
            Some text \<Rightarrow> (Inr (Inl (blocked d text)), at_reading 4 s) | None \<Rightarrow> (Inl e, at_reading 4 s))"
          by (cases "is_value_error e") (simp_all add: run intent_joints_def)
        then show ?thesis using refused raised by (cases "is_value_error e") auto
      next
        case (Inr payload)
        have "confirm_start R d s = bnd (validate_motion_request R payload) (after_validation R d) (at_reading 4 s)"
          using True Some Inr b by (simp add: run intent_joints_def after_validation_def [abs_def] cong: sum.case_cong)
        with clear Some Inr show ?thesis by (rule validating)
      qed
    qed
  qed
qed

lemma ros_calls_at [simp]: "ros_calls (at_reading n s) = ros_calls s"
  "goal_handles (at_reading n s) = goal_handles s"
  by (simp_all add: at_reading_def)

lemma confirm_start_calls:
  "\<exists>cs. ros_calls (snd (confirm_start R d s)) = ros_calls s @ cs \<and> (\<forall>c \<in> set cs. proper_call R d s c)"
proof (cases rule: confirm_start_cases [of R d s])
  case (validating p payload)
  have "logs (proper_call R d s) (bnd (validate_motion_request R payload) (after_validation R d))"
  proof (rule logs_bnd)
    show "logs (proper_call R d s) (validate_motion_request R payload)"
      by (rule logs_validate) (simp add: proper_call_def validating)
  next
    fix v u t
    assume run: "validate_motion_request R payload u = (Inr v, t)"
    show "logs (proper_call R d s) (after_validation R d v)"
    proof (cases v)
      case (Inl why)
      then show ?thesis by (simp add: after_validation_def logs_ret)
    next
      case (Inr clean)
      have "validated_goal R d s g" if "build_execute_motion_goal clean = Inr g" for g
        using validate_motion_accepts [OF run [unfolded Inr]] validating(2,3) that
        unfolding validated_goal_def intent_joints_def by blast
      then show ?thesis
        unfolding after_validation_def Inr
        by (auto simp: proper_call_def validating(1)
            intro!: logs_bnd logs_ret logs_confirm_task_runtime logs_send_goal)
    qed
  qed
  then show ?thesis unfolding logs_def validating(4) by (metis ros_calls_at(1))
qed auto

text \<open>C20: The boundary asks ROS for a motion only after the requested mode is the runtime's, the
  preflight is clear and an intent is there, and only for the goal that is made of the payload the
  validation service accepted; it asks for nothing else than validations, that goal and the task
  runtime's confirmation, under the command's id.\<close>

theorem goal_sent_when_cleared:
  assumes "adapter_confirm_command R d s = (r, t)"
  shows "\<exists>cs. ros_calls t = ros_calls s @ cs \<and> (\<forall>c \<in> set cs. proper_call R d s c)"
proof -
  obtain v u where start: "confirm_start R d s = (v, u)" by fastforce
  obtain cs where cs: "ros_calls u = ros_calls s @ cs" "\<forall>c \<in> set cs. proper_call R d s c"
    using confirm_start_calls [of R d s] by (auto simp: start)
  have "ros_calls t = ros_calls u"
    using assms by (auto simp: adapter_confirm_command_def await_result_def forget_goal_def bnd_run andthen_run
        start eff_run split: sum.splits)
  with cs show ?thesis by auto
qed

end
