(* ===== verification/Boundary_Contract.thy ===== *)
theory Boundary_Contract
  imports Dispatch_Properties Supervisor_Properties
begin

section \<open>The contract between the supervisor and the execution boundary\<close>

text \<open>
  The supervisor turns the adapter's answer into the final state of a command by guarded
  transitions, so a wrong answer would raise in the middle of it.  The contract is a locale over
  the answer; the supervisor's part is proved once inside it, and the model of the adapter
  interprets it.
\<close>

subsection \<open>Methods that move a command and return\<close>

definition reaches :: "string \<Rightarrow> lifecycle \<Rightarrow> unit sup \<Rightarrow> lifecycle \<Rightarrow> bool" where
  "reaches cid a m b \<longleftrightarrow>
     (\<forall>s. lifecycle_at s cid = Some a \<longrightarrow> (\<exists>t. m s = (Inr (), t) \<and> lifecycle_at t cid = Some b))"

lemma reaches_andthen: "reaches cid a m b \<Longrightarrow> reaches cid b n c \<Longrightarrow> reaches cid a (andthen m n) c"
  by (fastforce simp: reaches_def andthen_run)

lemma reaches_ret: "reaches cid a (ret ()) a"
  by (simp add: reaches_def eff_run)

lemma reaches_block_Nil: "reaches cid a (block []) a"
  by (simp add: reaches_ret)

lemma reaches_block: "reaches cid a m b \<Longrightarrow> reaches cid b (block ms) c \<Longrightarrow> reaches cid a (block (m # ms)) c"
  by (simp add: reaches_andthen)

lemma reaches_trace: "reaches cid a (trace_command stg cid) a"
  by (simp add: reaches_def trace_command_def trace_def py_simps lifecycle_at_def Let_def)

lemma reaches_update: "(\<And>c. lifecycle_state (f c) = lifecycle_state c) \<Longrightarrow> reaches cid a (update_command cid f) a"
  by (auto simp: reaches_def update_command_def py_simps lifecycle_at_def)

lemma reaches_event: "reaches cid a (emit_command_event k) a"
  by (auto simp: reaches_def emit_command_event_def broadcast_replay_update_def broadcast_event_def py_simps
      lifecycle_at_def)

lemma reaches_transition:
  assumes "allowed a b"
  shows "reaches cid a (transition_command E cid b why rs msg) b"
  unfolding transition_command_def
proof (rule reaches_andthen [OF _ reaches_event])
  show "reaches cid a (transition_record E cid b why rs msg) b"
    unfolding reaches_def
  proof (intro allI impI)
    fix s
    assume s: "lifecycle_at s cid = Some a"
    then obtain c where c: "map_of (commands s) cid = Some c" "lifecycle_state c = a"
      by (auto simp: lifecycle_at_def)
    obtain r t where run: "transition_record E cid b why rs msg s = (r, t)" by fastforce
    moreover have "is_ok r"
      using run c assms by (auto simp: transition_record_def py_simps find_command_def ensure_command_transition_def
          update_command_def upsert_command_def log_audit_def record_transition_def append_message_def ask_def
          split: option.splits)
    ultimately show "\<exists>t. transition_record E cid b why rs msg s = (Inr (), t) \<and> lifecycle_at t cid = Some b"
      using transition_record_run [OF run] c by (auto simp: lifecycle_at_def)
  qed
qed

lemmas reaches_steps = reaches_block reaches_block_Nil reaches_trace reaches_update reaches_transition

lemma reaches_finish_as:
  "allowed a final \<Longrightarrow> reaches cid a (finish_as E cid rs result final rejected dflt shown stg) final"
  unfolding finish_as_def by (assumption | rule reaches_steps | simp)+

subsection \<open>The contract\<close>

definition answer_status :: "dict \<Rightarrow> string" where
  "answer_status a = lower (str_of (get_or a ''status'' JNull))"

definition answer_sent :: "dict \<Rightarrow> bool" where
  "answer_sent a = truthy (get_or a ''dispatchedToRos'' JNull)"

definition answer_accepted :: "dict \<Rightarrow> bool" where
  "answer_accepted a = truthy (get_or a ''accepted'' JNull)"

fun final_of_status :: "string \<Rightarrow> lifecycle" where
  "final_of_status st = (if st = ''succeeded'' then SUCCEEDED else if st = ''cancelled'' then CANCELLED else FAILED)"

locale execution_adapter =
  fixes answer :: "dispatch \<Rightarrow> adapter_exn + dict"
  assumes known: "answer d = Inr a \<Longrightarrow> answer_status a \<in> {''blocked'', ''failed'', ''succeeded'', ''cancelled''}"
    and succeeded_sent: "answer d = Inr a \<Longrightarrow> answer_status a = ''succeeded'' \<Longrightarrow> answer_sent a"
    and succeeded_accepted: "answer d = Inr a \<Longrightarrow> answer_accepted a \<longleftrightarrow> answer_status a = ''succeeded''"
    and blocked_unsent: "answer d = Inr a \<Longrightarrow> answer_status a = ''blocked'' \<Longrightarrow> \<not> answer_sent a"
begin

lemma finishes:
  assumes "answer d = Inr a"
  shows "reaches cid EXECUTION_REQUESTED (finish_execution E cid rs a) (final_of_status (answer_status a))"
proof -
  define sent where "sent = answer_sent a"
  define mid where "mid = (if sent then EXECUTING else EXECUTION_REQUESTED)"
  have start: "reaches cid EXECUTION_REQUESTED (when_do sent (block
       [trace_command ''execution.dispatched'' cid, transition_command E cid EXECUTING w rs msg,
        update_command cid (\<lambda>c. c\<lparr>final_state := None\<rparr>)])) mid" for w msg
    unfolding mid_def when_do_def
    by (cases sent; simp only: if_True if_False) (rule reaches_steps reaches_ret | simp add: allowed_def)+
  have cancel: "reaches cid mid (when_do (\<not> sent) (transition_command E cid EXECUTING w rs msg)) EXECUTING" for w msg
    unfolding mid_def when_do_def
    by (cases sent; simp only: if_True if_False not_True_eq_False not_False_eq_True)
      (rule reaches_steps reaches_ret | simp add: allowed_def)+
  have last: "allowed mid FAILED" "answer_status a = ''succeeded'' \<Longrightarrow> allowed mid SUCCEEDED"
    "allowed EXECUTING CANCELLED"
    using succeeded_sent [OF assms] by (auto simp: mid_def sent_def allowed_def)
  show ?thesis
    unfolding finish_execution_def Let_def
    apply (fold answer_status_def answer_sent_def, fold sent_def)
    apply (rule reaches_andthen [OF start])
    using last by (auto intro!: reaches_finish_as reaches_andthen [OF cancel])
qed

end

subsection \<open>The adapter keeps it\<close>

lemma response_fields:
  "answer_accepted (execution_response d ok st summary sent) = ok"
  "answer_sent (execution_response d ok st summary sent) = sent"
  "answer_status (execution_response d ok st summary sent) = lower st"
  by (simp_all add: answer_accepted_def answer_sent_def answer_status_def execution_response_def get_or_def
      dget_def str_of_def lower_def)

definition contract :: "dict \<Rightarrow> bool" where
  "contract a \<longleftrightarrow> answer_status a \<in> {''blocked'', ''failed'', ''succeeded'', ''cancelled''}
     \<and> (answer_accepted a \<longleftrightarrow> answer_status a = ''succeeded'')
     \<and> (answer_status a \<in> {''succeeded'', ''cancelled''} \<longrightarrow> answer_sent a)
     \<and> (answer_status a = ''blocked'' \<longrightarrow> \<not> answer_sent a)"

lemma lower_statuses [simp]:
  "lower ''blocked'' = ''blocked''" "lower ''failed'' = ''failed''" "lower ''succeeded'' = ''succeeded''"
  "lower ''cancelled'' = ''cancelled''"
  by (simp_all add: lower_def lower_char_def)

lemma contract_blocked: "contract (blocked d why)"
  and contract_failed: "contract (execution_response d False ''failed'' why sent)"
  by (simp_all add: contract_def blocked_def response_fields)

lemma contract_task: "contract (execution_response d ok (if ok then ''succeeded'' else ''failed'') why True)"
  by (cases ok) (simp_all add: contract_def response_fields)

lemma contract_result: "contract (result_response d r)"
  by (auto simp: contract_def result_response_def response_fields Let_def split: sum.split option.split)

definition start_contract :: "(dict + nat) boundary \<Rightarrow> bool" where
  "start_contract m \<longleftrightarrow> (\<forall>s a t. m s = (Inr (Inl a), t) \<longrightarrow> contract a)"

lemma contract_send_goal: "start_contract (send_goal R d p)"
  by (auto simp: start_contract_def send_goal_def py_simps raised_def log_call_def contract_blocked
      contract_failed split: if_splits sum.splits option.splits)

lemma contract_task_runtime: "confirm_task_runtime R d s = (Inr a, t) \<Longrightarrow> contract a"
  by (auto simp: confirm_task_runtime_def py_simps contract_task split: prod.splits sum.splits)

lemma contract_after_validation: "start_contract (after_validation R d v)"
  using contract_send_goal [of R d]
  by (auto simp: start_contract_def after_validation_def py_simps contract_blocked
      dest: contract_task_runtime split: sum.splits if_splits prod.splits)

lemma confirm_contract:
  assumes "adapter_confirm_command R d s = (Inr a, t)"
  shows "contract a"
proof -
  consider u where "confirm_start R d s = (Inr (Inl a), u)"
    | h u where "confirm_start R d s = (Inr (Inr h), u)" "a = result_response d (goal_result R h)"
    using assms by (auto simp: adapter_confirm_command_def await_result_def forget_goal_def py_simps
        split: prod.splits sum.splits)
  then show ?thesis
  proof cases
    case 1
    then show ?thesis
      using contract_after_validation [of R d]
      by (cases rule: confirm_start_cases [of R d s])
        (auto simp: contract_blocked start_contract_def bnd_run split: prod.splits sum.splits)
  qed (simp add: contract_result)
qed

interpretation boundary: execution_adapter "\<lambda>d. fst (adapter_confirm_command R d s)" for R s
proof
  fix d a
  assume "fst (adapter_confirm_command R d s) = Inr a"
  then have ok: "contract a" by (metis confirm_contract prod.collapse)
  then show "answer_status a \<in> {''blocked'', ''failed'', ''succeeded'', ''cancelled''}"
    "answer_status a = ''succeeded'' \<Longrightarrow> answer_sent a"
    "answer_accepted a \<longleftrightarrow> answer_status a = ''succeeded''"
    "answer_status a = ''blocked'' \<Longrightarrow> \<not> answer_sent a"
    by (auto simp: contract_def)
qed

text \<open>C22: Whatever the boundary answers to a command it was handed, the supervisor carries that
  command from \<open>EXECUTION_REQUESTED\<close> to the matching final state without an exception: an accepted
  answer to \<open>SUCCEEDED\<close>, a cancelled one to \<open>CANCELLED\<close>, every other to \<open>FAILED\<close>.\<close>

theorem boundary_answer_completes:
  assumes "adapter_confirm_command R d s = (Inr a, s')"
    and "map_of (commands u) cid = Some c" "lifecycle_state c = EXECUTION_REQUESTED"
  shows "\<exists>v. finish_execution E cid rs a u = (Inr (), v)
    \<and> map_option lifecycle_state (map_of (commands v) cid) =
        Some (if answer_accepted a then SUCCEEDED else if answer_status a = ''cancelled'' then CANCELLED else FAILED)"
proof -
  have a: "fst (adapter_confirm_command R d s) = Inr a" using assms(1) by simp
  have "lifecycle_at u cid = Some EXECUTION_REQUESTED" using assms(2,3) by (simp add: lifecycle_at_def)
  then show ?thesis
    using boundary.finishes [OF a, of cid E rs] boundary.succeeded_accepted [OF a]
    by (auto simp: reaches_def lifecycle_at_def)
qed

subsection \<open>Goals in flight\<close>

text \<open>
  The threads that wait for a result, with the handle each waits for.  The supervisor hands a
  command over once, so a command that is waited for is not confirmed again.
\<close>

record boundary_run =
  br_adapter :: adapter
  br_waiting :: "(string \<times> nat) list"

datatype boundary_event = Confirm dispatch | ResultOf dispatch | AbortAsked string

definition boundary_step :: "ros_env \<Rightarrow> boundary_event \<Rightarrow> boundary_run \<Rightarrow> boundary_run" where
  "boundary_step R e r = (case e of
     Confirm d \<Rightarrow>
       if map_of (br_waiting r) (d_command_id d) \<noteq> None then r
       else (case confirm_start R d (br_adapter r) of
           (Inr (Inr h), s) \<Rightarrow> \<lparr>br_adapter = s, br_waiting = dict_set (d_command_id d) h (br_waiting r)\<rparr>
         | (_, s) \<Rightarrow> r\<lparr>br_adapter := s\<rparr>)
   | ResultOf d \<Rightarrow>
       (case map_of (br_waiting r) (d_command_id d) of
          None \<Rightarrow> r
        | Some h \<Rightarrow> \<lparr>br_adapter = snd (await_result R d h (br_adapter r)),
                    br_waiting = AList.delete (d_command_id d) (br_waiting r)\<rparr>)
   | AbortAsked cid \<Rightarrow> r\<lparr>br_adapter := snd (adapter_abort_command R cid (br_adapter r))\<rparr>)"

definition boundary_init :: boundary_run where
  "boundary_init = \<lparr>br_adapter = adapter_init, br_waiting = []\<rparr>"

definition tracked :: "boundary_run \<Rightarrow> bool" where
  "tracked r \<longleftrightarrow> map_of (goal_handles (br_adapter r)) = map_of (br_waiting r)"

text \<open>\<open>confirm_start\<close> registers the handle it returns, and nothing else.\<close>

definition handles_after :: "dispatch \<Rightarrow> adapter \<Rightarrow> adapter_exn + dict + nat \<Rightarrow> string \<rightharpoonup> nat" where
  "handles_after d s r = (case r of
     Inr (Inr h) \<Rightarrow> (map_of (goal_handles s))(d_command_id d \<mapsto> h) | _ \<Rightarrow> map_of (goal_handles s))"

lemma handles_validate: "validate_motion_request R p s = (v, t) \<Longrightarrow> goal_handles t = goal_handles s"
  by (auto simp: validate_motion_request_def py_simps raised_def log_call_def split: if_splits sum.splits)

lemma handles_task_runtime: "confirm_task_runtime R d s = (v, t) \<Longrightarrow> goal_handles t = goal_handles s"
  by (auto simp: confirm_task_runtime_def confirm_execution_def py_simps log_call_def
      split: if_splits prod.splits)

lemma handles_send_goal: "send_goal R d p s = (r, t) \<Longrightarrow> map_of (goal_handles t) = handles_after d s r"
  by (auto simp: handles_after_def send_goal_def py_simps raised_def log_call_def
      split: if_splits sum.splits option.splits)

lemma handles_after_validation:
  "after_validation R d v s = (r, t) \<Longrightarrow> map_of (goal_handles t) = handles_after d s r"
  using handles_send_goal [of R d]
  by (auto simp: after_validation_def py_simps handles_after_def
      dest: handles_task_runtime split: sum.splits if_splits prod.splits)

lemma handles_confirm_start:
  assumes "confirm_start R d s = (r, t)"
  shows "map_of (goal_handles t) = handles_after d s r"
proof (cases rule: confirm_start_cases [of R d s])
  case (validating p payload)
  obtain v u where v: "validate_motion_request R payload (at_reading 4 s) = (v, u)" by fastforce
  from handles_validate [OF v] have u: "goal_handles u = goal_handles s" by simp
  show ?thesis
  proof (cases v)
    case (Inl e)
    with assms validating(4) v u show ?thesis by (auto simp: bnd_run handles_after_def)
  next
    case (Inr x)
    with assms validating(4) v have "after_validation R d x u = (r, t)" by (simp add: bnd_run)
    from handles_after_validation [OF this] u show ?thesis
      by (simp add: handles_after_def cong: sum.case_cong)
  qed
qed (use assms in \<open>auto simp: handles_after_def\<close>)

lemma boundary_step_tracked:
  assumes "tracked r"
  shows "tracked (boundary_step R e r)"
proof (cases e)
  case (Confirm d)
  obtain v s where start: "confirm_start R d (br_adapter r) = (v, s)" by fastforce
  from handles_confirm_start [OF this] assms show ?thesis
    by (auto simp: boundary_step_def Confirm start tracked_def handles_after_def split: sum.splits)
next
  case (ResultOf d)
  with assms show ?thesis
    by (auto simp: boundary_step_def tracked_def await_result_def forget_goal_def py_simps delete_conv
        split: option.split)
next
  case (AbortAsked cid)
  with assms show ?thesis
    by (auto simp: boundary_step_def tracked_def adapter_abort_command_def log_call_def py_simps
        split: option.splits)
qed

interpretation boundary_machine: machine "boundary_step R" tracked for R
  by unfold_locales (rule boundary_step_tracked)

text \<open>C23: In every order of confirmations, results and cancellations, an abort asks the action server to
  cancel exactly the goal its command waits for, and asks nothing when it waits for none.\<close>

theorem abort_reaches_goal_in_flight:
  "let r = fold (boundary_step R) es boundary_init in
    ros_calls (snd (adapter_abort_command R cid (br_adapter r))) = ros_calls (br_adapter r)
      @ (case map_of (br_waiting r) cid of None \<Rightarrow> [] | Some h \<Rightarrow> [CancelAsked h])"
proof -
  have "tracked (fold (boundary_step R) es boundary_init)"
    by (rule boundary_machine.run_inv) (simp add: tracked_def boundary_init_def adapter_init_def)
  then have "map_of (goal_handles (br_adapter (fold (boundary_step R) es boundary_init))) cid
      = map_of (br_waiting (fold (boundary_step R) es boundary_init)) cid"
    by (simp add: tracked_def)
  then show ?thesis
    by (simp add: Let_def adapter_abort_command_def log_call_def py_simps split: option.split)
qed

text \<open>When the wait for a result times out, the goal is not cancelled and its handle is dropped: the
  answer is a failure of a dispatched command, and an abort that follows reports that nothing was
  ever requested, without asking the action server.\<close>

theorem timed_out_goal_cannot_be_cancelled:
  assumes "goal_result R h = Inl why" and "await_result R d h s = (Inr a, t)"
  shows "answer_status a = ''failed'' \<and> answer_sent a \<and> ros_calls t = ros_calls s
    \<and> adapter_abort_command R (d_command_id d) t =
        (Inr (True, ''Command '' @ d_command_id d @ '' cancelled before any ROS execution request.''), t)"
  using assms
  by (auto simp: await_result_def forget_goal_def py_simps result_response_def response_fields
      adapter_abort_command_def delete_conv)

subsection \<open>Blended steps\<close>

lemma blended_target_pose:
  assumes "step_blends p = Inr True" and "dict_or_nothing (get_or p ''normalizedCommand'' JNull) = Inr n"
    and "blended_target p n (get_or n ''primitive_type'' (JStr (stripped_action p))) = Inr target"
  shows "\<exists>rest. target = (''goal_type'', JInt 0) # rest"
proof -
  from assms(1,2) obtain q where facts: "\<not> is_str (get_or n ''primitive_type'' (JStr (stripped_action p))) ''HOME''"
    "\<not> truthy (get_or n ''joint_target'' JNull)"
    "dict_or_nothing (get_or p ''parameters'' JNull) = Inr q" "\<not> truthy (get_or q ''joint_target'' JNull)"
    by (auto simp: step_blends_def ebind_eq_Inr split: if_splits)
  with assms(3) show ?thesis
    by (auto simp: blended_target_def Let_def ebind_eq_Inr split: if_splits)
qed

lemma all_blend_member: "all_blend ps = Inr True \<Longrightarrow> p \<in> set ps \<Longrightarrow> step_blends p = Inr True"
  by (induction ps) (auto simp: ebind_eq_Inr split: if_splits)

lemma blended_steps_member:
  "blended_steps ps = Inr xs \<Longrightarrow> x \<in> set xs \<Longrightarrow> \<exists>p \<in> set ps. \<exists>b. blended_step b p = Inr x"
  by (induction ps arbitrary: xs) (auto simp: ebind_eq_Inr)

lemma blended_step_goal:
  assumes "step_blends p = Inr True" "blended_step b p = Inr x"
  shows "jget x ''goal_type'' JNull = Inr (JInt 0)"
proof -
  from assms(2) obtain n target where n: "dict_or_nothing (get_or p ''normalizedCommand'' JNull) = Inr n"
    and t: "blended_target p n (get_or n ''primitive_type'' (JStr (stripped_action p))) = Inr target"
    and x: "\<exists>rest. x = JObj ((''primitive_type'', get_or n ''primitive_type'' (JStr (stripped_action p))) # target @ rest)"
    by (auto simp: blended_step_def ebind_eq_Inr Let_def)
  from blended_target_pose [OF assms(1) n t] x show ?thesis by (auto simp: dget_def)
qed

text \<open>A merged sequence is dispatched with the goal type the supervisor gave each of its steps: it
  merges pose goals only, the one type the boundary sends.\<close>

theorem blended_goal_types_kept:
  assumes "should_emit_blended_sequence ps macro = Inr True" and "blended_steps ps = Inr xs"
    and "x \<in> set xs" and "dict_to_sequence_step x = Inr m"
  shows "jget x ''goal_type'' JNull = Inr (JInt (st_goal_type m))"
proof -
  have "all_blend ps = Inr True"
    using assms(1) by (auto simp: should_emit_blended_sequence_def split: if_splits)
  moreover obtain p b where "p \<in> set ps" "blended_step b p = Inr x"
    using blended_steps_member [OF assms(2,3)] by blast
  ultimately have "jget x ''goal_type'' JNull = Inr (JInt 0)"
    by (metis all_blend_member blended_step_goal)
  moreover have "st_goal_type m = 0"
    using assms(4) by (auto simp: dict_to_sequence_step_def ebind_eq_Inr goal_pose_def)
  ultimately show ?thesis by simp
qed

subsection \<open>From the operator to the telemetry\<close>

text \<open>The answer of the adapter's preflight, as the supervisor gets it, in a state of the adapter.\<close>

definition preflight_answer :: "ros_env \<Rightarrow> adapter \<Rightarrow> runtime_mode \<Rightarrow> json" where
  "preflight_answer R a m = (case fst (evaluate_execution_preflight R (Some (mode_value m)) a) of
     Inl e \<Rightarrow> JNull | Inr pf \<Rightarrow> preflight_json pf)"

lemma preflight_answer_clear:
  assumes "case preflight_answer R a m of
      JObj d \<Rightarrow> truthy (get_or d ''accepted'' (JBool False)) \<or> \<not> truthy (get_or d ''reasons'' JNull) | _ \<Rightarrow> True"
  shows "boundary_clear m (ros_reading R (readings a)) (ros_reading R (readings a + 1))"
proof -
  obtain pf where run: "evaluate_execution_preflight R (Some (mode_value m)) a = (Inr pf, a\<lparr>readings := readings a + 2\<rparr>)"
    and ok: "bp_accepted pf = boundary_clear m (ros_reading R (readings a)) (ros_reading R (readings a + 1))"
    using evaluate_accepts [of R m a] by auto
  have "bp_accepted pf \<longleftrightarrow> bp_reasons pf = []"
    using run by (auto simp: evaluate_run preflight_of_def Let_def split: prod.splits)
  with assms ok show ?thesis
    by (simp add: preflight_answer_def run preflight_json_def get_or_def dget_def)
qed

text \<open>C21: With the adapter behind the supervisor: every call that hands a command to ROS has, in the same
  call, found the telemetry clear for the command's mode, as the two readings of the adapter's
  preflight show it.\<close>

theorem dispatch_needs_clear_telemetry:
  assumes "\<forall>k m. env_preflight E k m = preflight_answer R (adapter_at k) m"
  shows "\<exists>ds. dispatched (hmi_step E call s) = dispatched s @ ds \<and>
    (\<forall>d \<in> set ds. \<exists>m k. d_requested_mode d = mode_value m \<and> tick s \<le> k \<and> k < tick (hmi_step E call s)
       \<and> boundary_clear m (ros_reading R (readings (adapter_at k))) (ros_reading R (readings (adapter_at k) + 1)))"
proof -
  obtain ds where ds: "dispatched (hmi_step E call s) = dispatched s @ ds"
    "\<forall>d \<in> set ds. gated E (tick s) (tick (hmi_step E call s)) d"
    using step_gated [of E call s] by blast
  have "\<exists>m k. d_requested_mode d = mode_value m \<and> tick s \<le> k \<and> k < tick (hmi_step E call s)
       \<and> boundary_clear m (ros_reading R (readings (adapter_at k))) (ros_reading R (readings (adapter_at k) + 1))"
    if "gated E (tick s) (tick (hmi_step E call s)) d" for d
  proof -
    from that obtain m k where k: "d_requested_mode d = mode_value m" "tick s \<le> k" "k < tick (hmi_step E call s)"
      and clear: "case preflight_answer R (adapter_at k) m of
        JObj d \<Rightarrow> truthy (get_or d ''accepted'' (JBool False)) \<or> \<not> truthy (get_or d ''reasons'' JNull) | _ \<Rightarrow> True"
      unfolding gated_def clear_readings_def using assms by auto
    show ?thesis
      by (intro exI [of _ m] exI [of _ k] conjI k preflight_answer_clear [OF clear])
  qed
  with ds show ?thesis by blast
qed

end
