(* ===== verification/Boundary_Witnesses.thy ===== *)
theory Boundary_Witnesses
  imports Boundary_Contract
begin

section \<open>Concrete runs of the execution boundary\<close>

text \<open>
  A live telemetry in simulation, services that accept, and a goal that succeeds; the properties of
  the boundary are applied to the \<open>HOME\<close> command of the supervisor's demonstration.
\<close>

definition live_telemetry :: telemetry where
  "live_telemetry = (telemetry_init None)
     \<lparr>tl_readiness := \<lparr>rd_at = Some 0, rd_ready = Some True, rd_message = ''sim ready''\<rparr>,
      tl_alert := \<lparr>al_at = Some 0, al_level = Some 0, al_message = ''ok'', al_values = []\<rparr>,
      tl_llm := \<lparr>gateway_status_at = Some 0, debug_at = None, command_at = None\<rparr>,
      joint_received_at := Some 0, joint_source_topic := Some ''/joint_states'',
      joint_topic_received_at := [(''/joint_states'', 0)],
      validate_ready_at := Some 0, execute_ready_at := Some 0, validate_ready := True, execute_ready := True\<rparr>"

definition demo_ros :: "(string + motion_result option) \<Rightarrow> ros_env" where
  "demo_ros result = \<lparr>mode_auto = 2, mode_manual = 1, ros_reading = (\<lambda>_. (1000000, live_telemetry)),
     ros_node = True, validate_client = True, execute_client = True, confirm_client = True,
     validate_available = True, execute_available = True, confirm_available = True,
     validate_reply = (\<lambda>_. Inr \<lparr>vr_valid = True, vr_reason = [], vr_sanitized_json = []\<rparr>),
     goal_reply = (\<lambda>_. Inr (Some 7)), goal_result = (\<lambda>_. result), cancel_reply = (\<lambda>_. Inr True),
     confirm_reply = (\<lambda>_. Inr None), ros_json_loads = (\<lambda>_. None)\<rparr>"

definition demo_dispatch :: dispatch where
  "demo_dispatch = \<lparr>d_command_id = ''c'', d_plan_fingerprint = ''fp'', d_operator_id = ''o'', d_session_id = ''s'',
     d_lease_id = ''l'', d_correlation_id = ''k'', d_parsed_intent = Some [(''action'', JStr ''HOME'')],
     d_requested_mode = ''sim''\<rparr>"

definition demo_payload :: dict where
  "demo_payload = [(''primitive_type'', JStr ''HOME'')]"

definition home_goal :: motion_goal where
  "home_goal = \<lparr>g_primitive = ''HOME'', g_target_pose = default_pose, g_waypoints = [], g_joint_target = [],
     g_velocity = Fin 0, g_acceleration = Fin 0, g_planner = [], g_delta = (Fin 0, Fin 0, Fin 0), g_frame = [],
     g_wait_duration = Fin 0, g_joint_index = 0, g_joint_angle = Fin 0, g_io_address = 0, g_io_value = 0,
     g_steps = [], g_extended_mode = False, g_mode_tokens = [], g_estimated_duration = Fin 0,
     g_command_id = [], g_correlation_id = []\<rparr>"

lemmas dict_defs = get_or_def dget_def str_of_def upper_def upper_char_def lower_def lower_char_def strip_def
  is_space_def

lemma demo_payload: "build_command_payload joints [(''action'', JStr ''HOME'')] = Inr demo_payload"
  by (simp add: build_command_payload_def payload_of_action_def parameters_of_def raised_def dict_update_def
      boundary_primitives_def demo_payload_def dict_defs Let_def)

lemma demo_goal: "build_execute_motion_goal demo_payload = Inr home_goal"
  by (simp add: build_execute_motion_goal_def each_of_def cartesian_path_target_pose_def demo_payload_def
      home_goal_def dict_defs Let_def)

lemma demo_request: "validate_request_of demo_payload = Inr \<lparr>rq_command = demo_payload, rq_primitive = ''HOME'',
    rq_velocity = Fin 0, rq_target_pose = default_pose\<rparr>"
  by (simp add: validate_request_of_def cartesian_path_target_pose_def demo_payload_def dict_defs)

lemma live_mode: "derive_mode live_telemetry = SIM"
  by (simp add: derive_mode_def live_telemetry_def telemetry_init_def lower_def lower_char_def)

lemma demo_preflight:
  "evaluate_execution_preflight (demo_ros result) (Some ''sim'') s =
    (Inr \<lparr>bp_accepted = True, bp_mode = SIM, bp_reasons = [], bp_required = required_sources SIM, bp_state = NORMAL\<rparr>,
     s\<lparr>readings := Suc (Suc (readings s))\<rparr>)"
proof -
  have mode: "requested_mode_of (Some ''sim'') m = SIM" for m
    by (simp add: requested_mode_of_def mode_of_text_def lower_def lower_char_def strip_def is_space_def Let_def)
  have calm: "calm_telemetry 1000000 live_telemetry"
    by (simp add: calm_telemetry_def recent_alert_def derive_ros_health_def failed_start_def live_telemetry_def
        telemetry_init_def is_fresh_def seconds_def alert_text_def fresh_ros_def fresh_alerts_def
        fresh_readiness_def lower_def lower_char_def Let_def)
  have clear: "boundary_clear SIM (1000000, live_telemetry) (1000000, live_telemetry)"
    using calm by (simp add: boundary_clear_def live_mode)
      (simp add: live_telemetry_def telemetry_init_def is_fresh_def seconds_def failed_start_def)
  have "derive_runtime_state 1000000 live_telemetry = NORMAL" using calm by (simp add: normal_iff_calm)
  with clear show ?thesis
    by (simp add: evaluate_run demo_ros_def mode preflight_of_def preflight_reasons_none Let_def)
      (simp add: read_runtime_snapshot_def)
qed

definition demo_sent :: adapter where
  "demo_sent = \<lparr>goal_handles = [(''c'', 7)], goal_correlation_ids = [(''c'', ''k'')],
     ros_calls = [ValidateAsked \<lparr>rq_command = demo_payload, rq_primitive = ''HOME'', rq_velocity = Fin 0,
        rq_target_pose = default_pose\<rparr>, GoalSent ''c'' home_goal], readings = 4\<rparr>"

lemma demo_started: "confirm_start (demo_ros result) demo_dispatch adapter_init = (Inr (Inr 7), demo_sent)"
proof -
  have mode: "boundary_runtime (demo_ros result) s = (Inr (read_runtime_snapshot 2 1 1000000 live_telemetry),
      s\<lparr>readings := Suc (readings s)\<rparr>)" for s
    by (simp add: boundary_runtime_def reading_def py_simps demo_ros_def)
  have sim: "rt_mode (read_runtime_snapshot 2 1 1000000 live_telemetry) = SIM"
    by (simp add: read_runtime_snapshot_def live_mode)
  have not_task: "\<not> is_str (get_or demo_payload ''primitive_type'' JNull) ''FACTORY_TASK_RUNTIME''"
    by (simp add: demo_payload_def dict_defs is_str_def)
  show ?thesis
    by (simp add: confirm_start_def Let_def bnd_run eff_run mode sim demo_preflight demo_dispatch_def demo_payload
        reading_def validate_motion_request_def send_goal_def raised_def demo_request demo_goal not_task
        log_call_def andthen_run sanitized_def demo_sent_def adapter_init_def)
      (simp add: demo_ros_def demo_request demo_goal not_task eff_run andthen_run bnd_run raised_def
        sanitized_def send_goal_def log_call_def numeral_eq_Suc)
qed

definition ok_result :: "string + motion_result option" where
  "ok_result = Inr (Some \<lparr>mr_success = True, mr_message = ''done''\<rparr>)"

definition demo_done :: adapter where
  "demo_done = demo_sent\<lparr>goal_handles := [], goal_correlation_ids := []\<rparr>"

lemma demo_awaited:
  "await_result (demo_ros result) demo_dispatch 7 demo_sent = (Inr (result_response demo_dispatch result), demo_done)"
  by (simp add: await_result_def forget_goal_def py_simps demo_ros_def demo_sent_def demo_done_def demo_dispatch_def)

lemma demo_confirmed_at_ros:
  "adapter_confirm_command (demo_ros result) demo_dispatch adapter_init =
    (Inr (result_response demo_dispatch result), demo_done)"
  by (simp add: adapter_confirm_command_def bnd_run demo_started demo_awaited)

theorem goal_sent_when_cleared_witness:
  "preflight_clear (demo_ros ok_result) demo_dispatch adapter_init
    \<and> validated_goal (demo_ros ok_result) demo_dispatch adapter_init home_goal"
  using goal_sent_when_cleared [OF demo_confirmed_at_ros [of ok_result]]
  by (simp add: demo_done_def demo_sent_def adapter_init_def proper_call_def)

definition requested_record :: command_record where
  "requested_record = demo_record\<lparr>lifecycle_state := EXECUTION_REQUESTED\<rparr>"

definition requested_state :: supervisor where
  "requested_state = demo_state\<lparr>commands := [(''c'', requested_record)]\<rparr>"

theorem boundary_answer_completes_witness:
  "\<exists>v. finish_execution demo_env ''c'' NORMAL (result_response demo_dispatch ok_result) requested_state = (Inr (), v)
    \<and> map_option lifecycle_state (map_of (commands v) ''c'') = Some SUCCEEDED"
  using boundary_answer_completes [OF demo_confirmed_at_ros [of ok_result], of requested_state "''c''"
      requested_record demo_env NORMAL]
  by (simp add: requested_state_def requested_record_def result_response_def ok_result_def response_fields)

theorem timed_out_goal_cannot_be_cancelled_witness:
  "answer_sent (result_response demo_dispatch (Inl ''timed out''))
    \<and> adapter_abort_command (demo_ros (Inl ''timed out'')) ''c'' demo_done =
        (Inr (True, ''Command c cancelled before any ROS execution request.''), demo_done)"
proof -
  have "goal_result (demo_ros (Inl ''timed out'')) 7 = Inl ''timed out''" by (simp add: demo_ros_def)
  from timed_out_goal_cannot_be_cancelled [OF this demo_awaited] show ?thesis by (simp add: demo_dispatch_def)
qed

subsection \<open>A merged sequence\<close>

definition demo_lin :: dict where
  "demo_lin = [(''action'', JStr ''LIN''), (''normalizedCommand'', JObj [(''primitive_type'', JStr ''LIN''),
     (''target_pose'', JObj [(''position'', JObj [(''x'', JFloat (Fin (3 / 10)))])])])]"

definition demo_step :: json where
  "demo_step = JObj [(''primitive_type'', JStr ''LIN''), (''goal_type'', JInt 0),
     (''target_pose'', JObj [(''position'', JObj [(''x'', JFloat (Fin (3 / 10)))])]),
     (''blend_radius_m'', JFloat (Fin 0)), (''planner_id'', JStr [])]"

definition demo_step_msg :: sequence_step_msg where
  "demo_step_msg = \<lparr>st_goal_type = 0, st_primitive = ''LIN'', st_target_pose = default_pose\<lparr>px := Fin (3 / 10)\<rparr>,
     st_joint_target = [], st_named_target = [], st_auxiliary_pose = default_pose, st_blend_radius = Fin 0,
     st_velocity = Fin 0, st_acceleration = Fin 0, st_planner = []\<rparr>"

lemma demo_blend: "step_blends demo_lin = Inr True" "\<exists>y. blended_steps [demo_lin, demo_lin] = Inr [y, demo_step]"
  by (simp_all add: step_blends_def stripped_action_def demo_lin_def blended_sequence_eligible_def
      dict_or_nothing_def blended_step_def blended_target_def scale_field_def demo_step_def dict_defs is_str_def Let_def)

theorem blended_goal_types_kept_witness:
  "jget demo_step ''goal_type'' JNull = Inr (JInt (st_goal_type demo_step_msg))"
proof -
  obtain y where y: "blended_steps [demo_lin, demo_lin] = Inr [y, demo_step]" using demo_blend by blast
  have "should_emit_blended_sequence [demo_lin, demo_lin] JNull = Inr True"
    using demo_blend(1) by (simp add: should_emit_blended_sequence_def dict_defs)
  moreover have "dict_to_sequence_step demo_step = Inr demo_step_msg"
    by (simp add: dict_to_sequence_step_def demo_step_def demo_step_msg_def dict_to_pose_def default_pose_def
        goal_pose_def dget_def Let_def)
  ultimately show ?thesis
    by (intro blended_goal_types_kept [OF _ y]) simp_all
qed

text \<open>A named step, which the gate accepts, is sent as a pose goal at the origin of the base.\<close>

lemma named_step_sent_as_pose:
  "dict_to_sequence_step (JObj [(''primitive_type'', JStr ''PTP''), (''goal_type'', JInt goal_named),
     (''named_target'', JStr ''home'')]) =
    Inr \<lparr>st_goal_type = goal_pose, st_primitive = ''PTP'', st_target_pose = default_pose, st_joint_target = [],
      st_named_target = [], st_auxiliary_pose = default_pose, st_blend_radius = Fin 0, st_velocity = Fin 0,
      st_acceleration = Fin 0, st_planner = ''PILZ_LIN''\<rparr>"
  by (simp add: dict_to_sequence_step_def dget_def)

subsection \<open>A confirmation over the live telemetry\<close>

definition live_env :: hmi_env where
  "live_env = demo_env\<lparr>env_preflight := \<lambda>_ m. preflight_answer (demo_ros ok_result) adapter_init m\<rparr>"

lemma live_answer: "\<exists>d. preflight_answer (demo_ros ok_result) adapter_init SIM = JObj ((''accepted'', JBool True) # d)
    \<and> get_or ((''accepted'', JBool True) # d) ''reasons'' JNull = JList []"
  by (simp add: preflight_answer_def demo_preflight preflight_json_def get_or_def dget_def)

lemma live_confirmed:
  "dispatched (snd (confirm_command live_env ''s'' ''o'' (Some ''t'') ''c'' ''fp'' demo_state)) = [demo_dispatch]"
proof -
  obtain d where d: "preflight_answer (demo_ros ok_result) adapter_init SIM = JObj ((''accepted'', JBool True) # d)"
    and none: "get_or ((''accepted'', JBool True) # d) ''reasons'' JNull = JList []" using live_answer by blast
  have pf: "env_preflight live_env k SIM = JObj ((''accepted'', JBool True) # d)" for k
    by (simp add: live_env_def d)
  have "execution_preflight live_env SIM s = (Inr \<lparr>pf_accepted = True, pf_reasons = []\<rparr>, s\<lparr>tick := Suc (tick s)\<rparr>)" for s
    by (simp add: execution_preflight_def ask_def py_simps pf none) (simp add: get_or_def dget_def)
  moreover have "env_now live_env = env_now demo_env" "env_uuid live_env = env_uuid demo_env"
    "env_runtime live_env = env_runtime demo_env" "env_sources live_env = env_sources demo_env"
    "env_confirm live_env = env_confirm demo_env"
    by (simp_all add: live_env_def)
  ultimately show ?thesis
    by (simp add: eff_eval hmi_defs text_defs demo_defs supervisor_init_def demo_dispatch_def
        del: execution_preflight_def cong: lazily)
qed

theorem dispatch_needs_clear_telemetry_witness:
  "dispatched (hmi_step live_env (ConfirmCommand ''s'' ''o'' (Some ''t'') ''c'' ''fp'') demo_state) = [demo_dispatch]
    \<and> boundary_clear SIM (1000000, live_telemetry) (1000000, live_telemetry)"
proof -
  have served: "\<forall>k m. env_preflight live_env k m = preflight_answer (demo_ros ok_result) adapter_init m"
    by (simp add: live_env_def)
  have "dispatched demo_state = []" by (simp add: demo_state_def supervisor_init_def)
  with dispatch_needs_clear_telemetry [OF served, of "ConfirmCommand ''s'' ''o'' (Some ''t'') ''c'' ''fp''" demo_state]
  obtain m where m: "d_requested_mode demo_dispatch = mode_value m"
    and clear: "boundary_clear m (ros_reading (demo_ros ok_result) (readings adapter_init))
      (ros_reading (demo_ros ok_result) (readings adapter_init + 1))"
    by (auto simp: live_confirmed)
  have "m = SIM" using m by (cases m) (simp_all add: demo_dispatch_def)
  with clear show ?thesis using live_confirmed by (simp add: demo_ros_def)
qed

end
