(* ===== verification/Jog.thy ===== *)
theory Jog
  imports Py_Values
begin

section \<open>Jogging\<close>

text \<open>
  The jog pendant, from the HTTP request to the velocity command: the contract of the request
  (\<open>hmi/backend/api/contracts.py\<close>), the service that forwards it (\<open>services/jog_service.py\<close>) and the
  node that translates it for MoveIt Servo (\<open>src/jog_pendant/scripts/jog_input_node.py\<close>).  The clock is
  in nanoseconds.  Log lines, subscribers and threads are left out; what is published is a list.
\<close>

subsection \<open>The service\<close>

datatype jog_bridge_state =
    BRIDGE_IDLE | STARTING | READY | ACTIVE | HALTING | HALTED | BRIDGE_ERROR | REJECTED_NOT_READY
  | REJECTED_FJT_ACTIVE | BRIDGE_TIMEOUT | BUSY_RETRY

fun bridge_state_value :: "jog_bridge_state \<Rightarrow> string" where
  "bridge_state_value BRIDGE_IDLE = ''IDLE''"
| "bridge_state_value STARTING = ''STARTING''"
| "bridge_state_value READY = ''READY''"
| "bridge_state_value ACTIVE = ''ACTIVE''"
| "bridge_state_value HALTING = ''HALTING''"
| "bridge_state_value HALTED = ''HALTED''"
| "bridge_state_value BRIDGE_ERROR = ''ERROR''"
| "bridge_state_value REJECTED_NOT_READY = ''REJECTED_NOT_READY''"
| "bridge_state_value REJECTED_FJT_ACTIVE = ''REJECTED_FJT_ACTIVE''"
| "bridge_state_value BRIDGE_TIMEOUT = ''TIMEOUT''"
| "bridge_state_value BUSY_RETRY = ''BUSY_RETRY''"

definition bridge_states :: "jog_bridge_state list" where
  "bridge_states = [BRIDGE_IDLE, STARTING, READY, ACTIVE, HALTING, HALTED, BRIDGE_ERROR, REJECTED_NOT_READY,
     REJECTED_FJT_ACTIVE, BRIDGE_TIMEOUT, BUSY_RETRY]"

text \<open>\<open>JogBridgeState(text)\<close>; an unknown text is \<open>IDLE\<close>.\<close>

definition bridge_state_of :: "string \<Rightarrow> jog_bridge_state" where
  "bridge_state_of t = (case List.find (\<lambda>s. bridge_state_value s = t) bridge_states of
     Some s \<Rightarrow> s | None \<Rightarrow> BRIDGE_IDLE)"

record jog_bridge_status =
  bridge_state :: jog_bridge_state
  robot_ready :: bool
  servo_active :: bool
  bridge_active :: bool

definition default_jog_status :: jog_bridge_status where
  "default_jog_status = \<lparr>bridge_state = BRIDGE_IDLE, robot_ready = False, servo_active = False,
     bridge_active = False\<rparr>"

record bridge_status_msg =
  bs_state :: string
  bs_robot_ready :: bool
  bs_servo_active :: bool
  bs_bridge_active :: bool

definition on_servo_bridge_status :: "bridge_status_msg \<Rightarrow> jog_bridge_status" where
  "on_servo_bridge_status m = \<lparr>bridge_state = bridge_state_of (bs_state m), robot_ready = bs_robot_ready m,
     servo_active = bs_servo_active m, bridge_active = bs_bridge_active m\<rparr>"

record jog_msg =
  jm_joint_index :: int
  jm_direction :: int
  jm_step_degrees :: pyfloat
  jm_velocity_scale :: pyfloat
  jm_mode :: string

text \<open>\<open>send_jog_command\<close>: refused with a reason, or the message published.  \<open>node\<close>: the ROS node, the
  publisher and the message type are there; \<open>sent\<close>: publishing does not raise.\<close>

definition send_jog_command ::
  "bool \<Rightarrow> bool \<Rightarrow> jog_bridge_status \<Rightarrow> int \<Rightarrow> int \<Rightarrow> string \<Rightarrow> pyfloat \<Rightarrow> pyfloat \<Rightarrow> string + jog_msg" where
  "send_jog_command node sent st joint direction mode scale step =
     (if \<not> node then Inl ''ROS node or publisher unavailable''
      else if \<not> bridge_active st then Inl ''bridge not active''
      else if \<not> robot_ready st \<or> \<not> servo_active st then Inl ''robot not ready or servo inactive''
      else if bridge_state st \<notin> {READY, ACTIVE}
      then Inl (''bridge state '' @ bridge_state_value (bridge_state st) @ '' not READY/ACTIVE'')
      else if \<not> sent then Inl ''publish exception''
      else Inr \<lparr>jm_joint_index = joint, jm_direction = direction, jm_step_degrees = step,
        jm_velocity_scale = scale, jm_mode = mode\<rparr>)"

text \<open>The contract of the HTTP request, which bounds its fields.\<close>

definition jog_request_ok :: "int \<Rightarrow> int \<Rightarrow> string \<Rightarrow> pyfloat \<Rightarrow> pyfloat \<Rightarrow> bool" where
  "jog_request_ok joint direction mode scale step \<longleftrightarrow>
     0 \<le> joint \<and> joint \<le> 5 \<and> direction \<in> {-1, 1} \<and> mode \<in> {''continuous'', ''discrete''}
     \<and> fle (Fin 0) scale \<and> fle scale (Fin (3 / 10)) \<and> fle (Fin 0) step \<and> fle step (Fin 10)"

subsection \<open>The node: parameters and state\<close>

record jog_params =
  joint_names :: "string list"
  max_velocity_scale :: pyfloat
  min_velocity_scale :: pyfloat
  max_step_degrees :: pyfloat
  min_step_degrees :: pyfloat
  watchdog_timeout_ms :: int
  default_velocity_scale :: pyfloat
  joint_max_velocity :: "pyfloat list"

definition gp4_joint_max_velocity :: "(string \<times> pyfloat) list" where
  "gp4_joint_max_velocity =
     [(''joint_1_s'', Fin (8116 / 1000)), (''joint_2_l'', Fin (8116 / 1000)), (''joint_3_u'', Fin (9163 / 1000)),
      (''joint_4_r'', Fin (9861 / 1000)), (''joint_5_b'', Fin (9861 / 1000)), (''joint_6_t'', Fin (17453 / 1000))]"

text \<open>The parameters after \<open>__init__\<close>: limits that do not match the joints are replaced.\<close>

definition jog_init_params :: "jog_params \<Rightarrow> jog_params" where
  "jog_init_params p =
     (if length (joint_max_velocity p) \<noteq> length (joint_names p)
      then p\<lparr>joint_max_velocity := map (\<lambda>n. case map_of gp4_joint_max_velocity n of
               None \<Rightarrow> Fin 1 | Some v \<Rightarrow> v) (joint_names p)\<rparr>
      else p)"

definition default_jog_params :: jog_params where
  "default_jog_params = \<lparr>joint_names = map fst gp4_joint_max_velocity,
     max_velocity_scale = Fin (3 / 10), min_velocity_scale = Fin (1 / 100), max_step_degrees = Fin 10,
     min_step_degrees = Fin (1 / 100), watchdog_timeout_ms = 200, default_velocity_scale = Fin (5 / 100),
     joint_max_velocity = map snd gp4_joint_max_velocity\<rparr>"

datatype jog_node_state = JOG_IDLE | JOG_ACTIVE

record joint_jog =
  jj_joint :: string
  jj_displacements :: "pyfloat list"
  jj_velocities :: "pyfloat list"
  jj_duration :: pyfloat

record jog_node =
  jog_state :: jog_node_state
  active_joint_index :: "nat option"
  active_direction :: int
  active_velocity_scale :: pyfloat
  last_heartbeat :: int
  jog_published :: "joint_jog list"

definition jog_node_init :: "jog_params \<Rightarrow> int \<Rightarrow> jog_node" where
  "jog_node_init p now = \<lparr>jog_state = JOG_IDLE, active_joint_index = None, active_direction = 0,
     active_velocity_scale = default_velocity_scale p, last_heartbeat = now, jog_published = []\<rparr>"

subsection \<open>Degrees and radians\<close>

definition pi_value :: rat where
  "pi_value = 3141592653589793 / 10 ^ 15"

definition radians :: "pyfloat \<Rightarrow> pyfloat" where
  "radians x = fmul x (Fin (pi_value / 180))"

subsection \<open>The node: commands and watchdog\<close>

definition publish_jog :: "joint_jog \<Rightarrow> jog_node \<Rightarrow> jog_node" where
  "publish_jog c s = s\<lparr>jog_published := jog_published s @ [c]\<rparr>"

definition publish_continuous :: "jog_params \<Rightarrow> nat \<Rightarrow> int \<Rightarrow> pyfloat \<Rightarrow> jog_node \<Rightarrow> jog_node" where
  "publish_continuous p i d scale s =
     (publish_jog \<lparr>jj_joint = joint_names p ! i, jj_displacements = [],
        jj_velocities = [fmul (fmul (Fin (of_int d)) (joint_max_velocity p ! i)) scale], jj_duration = Fin 0\<rparr> s)
     \<lparr>jog_state := JOG_ACTIVE, active_joint_index := Some i, active_direction := d,
      active_velocity_scale := scale\<rparr>"

definition publish_discrete ::
  "jog_params \<Rightarrow> nat \<Rightarrow> int \<Rightarrow> pyfloat \<Rightarrow> pyfloat \<Rightarrow> jog_node \<Rightarrow> (py_exn + unit) \<times> jog_node" where
  "publish_discrete p i d step scale s =
     (let rad = radians step; vmax = joint_max_velocity p ! i in
      case fdiv rad (fmul vmax scale) of
        None \<Rightarrow> (Inl ZeroDivisionError, s)
      | Some t \<Rightarrow>
          (Inr (), (publish_jog \<lparr>jj_joint = joint_names p ! i, jj_displacements = [fmul (Fin (of_int d)) rad],
             jj_velocities = [fmul (fmul (Fin (of_int d)) vmax) scale],
             jj_duration = py_max (Fin (5 / 100)) (py_min (Fin 5) t)\<rparr> s)
           \<lparr>jog_state := JOG_IDLE, active_joint_index := None, active_direction := 0\<rparr>))"

definition clamped_scale :: "jog_params \<Rightarrow> pyfloat \<Rightarrow> pyfloat" where
  "clamped_scale p raw = py_max (min_velocity_scale p) (py_min (max_velocity_scale p)
     (if fle raw (Fin 0) then default_velocity_scale p else raw))"

definition clamped_step :: "jog_params \<Rightarrow> pyfloat \<Rightarrow> pyfloat" where
  "clamped_step p step = py_max (min_step_degrees p) (py_min (max_step_degrees p) (py_max (Fin 0) step))"

text \<open>An empty mode and an unknown one are continuous.\<close>

definition is_discrete :: "jog_msg \<Rightarrow> bool" where
  "is_discrete m \<longleftrightarrow> lower (strip (jm_mode m)) = ''discrete''"

definition well_addressed :: "jog_params \<Rightarrow> jog_msg \<Rightarrow> bool" where
  "well_addressed p m \<longleftrightarrow> 0 \<le> jm_joint_index m \<and> jm_joint_index m < int (length (joint_names p))
     \<and> jm_direction m \<in> {-1, 1}"

definition on_jog_command :: "jog_params \<Rightarrow> int \<Rightarrow> jog_msg \<Rightarrow> jog_node \<Rightarrow> (py_exn + unit) \<times> jog_node" where
  "on_jog_command p now m s0 =
     (let s = s0\<lparr>last_heartbeat := now\<rparr>; i = nat (jm_joint_index m);
          scale = clamped_scale p (jm_velocity_scale m); step = clamped_step p (jm_step_degrees m) in
      if \<not> well_addressed p m then (Inr (), s)
      else if is_discrete m then publish_discrete p i (jm_direction m) step scale s
      else (Inr (), publish_continuous p i (jm_direction m) scale s))"

definition halt_locked :: "jog_params \<Rightarrow> jog_node \<Rightarrow> jog_node" where
  "halt_locked p s = (case active_joint_index s of
     None \<Rightarrow> s
   | Some i \<Rightarrow> publish_jog \<lparr>jj_joint = joint_names p ! i, jj_displacements = [], jj_velocities = [Fin 0],
       jj_duration = Fin 0\<rparr> s)"

definition on_watchdog :: "jog_params \<Rightarrow> int \<Rightarrow> jog_node \<Rightarrow> jog_node" where
  "on_watchdog p now s =
     (if watchdog_timeout_ms p * 1000000 < now - last_heartbeat s \<and> jog_state s \<noteq> JOG_IDLE
      then (halt_locked p s)\<lparr>jog_state := JOG_IDLE, active_joint_index := None, active_direction := 0\<rparr>
      else s)"

datatype jog_event = Command int jog_msg | Watchdog int

definition jog_step :: "jog_params \<Rightarrow> jog_event \<Rightarrow> jog_node \<Rightarrow> jog_node" where
  "jog_step p e s = (case e of
     Command now m \<Rightarrow> snd (on_jog_command p now m s) | Watchdog now \<Rightarrow> on_watchdog p now s)"

end
