(* ===== verification/Jog_Properties.thy ===== *)
theory Jog_Properties
  imports Jog
begin

section \<open>What jogging promises\<close>

text \<open>
  Every command the node publishes is bounded, whatever the messages hold; silence stops a motion;
  and a request of the HMI moves the joint it names.  Two behaviours a reader would not expect:
  a rejected message keeps a motion alive, and a single step during a motion leaves it to Servo to
  stop that motion.
\<close>

subsection \<open>Clamping\<close>

fun positive :: "pyfloat \<Rightarrow> bool" where
  "positive (Fin r) = (0 < r)"
| "positive _ = False"

definition sane_params :: "jog_params \<Rightarrow> rat \<Rightarrow> rat \<Rightarrow> bool" where
  "sane_params p hi shi \<longleftrightarrow>
     (\<exists>lo slo dflt. min_velocity_scale p = Fin lo \<and> max_velocity_scale p = Fin hi \<and> 0 < lo \<and> lo \<le> hi
        \<and> min_step_degrees p = Fin slo \<and> max_step_degrees p = Fin shi \<and> 0 < slo \<and> slo \<le> shi
        \<and> default_velocity_scale p = Fin dflt)
     \<and> length (joint_max_velocity p) = length (joint_names p)
     \<and> list_all positive (joint_max_velocity p)"

lemma clamp_range:
  assumes "lo \<le> hi" "x \<noteq> MInf"
  shows "\<exists>r. py_max (Fin lo) (py_min (Fin hi) x) = Fin r \<and> lo \<le> r \<and> r \<le> hi"
  using assms by (cases x) (auto simp: py_max_def py_min_def)

lemma clamped_scale_range:
  assumes "sane_params p hi shi"
  shows "\<exists>r. clamped_scale p raw = Fin r \<and> 0 < r \<and> r \<le> hi"
proof -
  from assms obtain lo dflt where p: "min_velocity_scale p = Fin lo" "max_velocity_scale p = Fin hi" "0 < lo" "lo \<le> hi"
    "default_velocity_scale p = Fin dflt" by (auto simp: sane_params_def)
  have "(if fle raw (Fin 0) then default_velocity_scale p else raw) \<noteq> MInf" using p by (cases raw) auto
  from clamp_range [OF p(4) this] p show ?thesis by (auto simp: clamped_scale_def)
qed

lemma clamped_step_range:
  assumes "sane_params p hi shi"
  shows "\<exists>r. clamped_step p raw = Fin r \<and> 0 < r \<and> r \<le> shi"
proof -
  from assms obtain slo where p: "min_step_degrees p = Fin slo" "max_step_degrees p = Fin shi" "0 < slo" "slo \<le> shi"
    by (auto simp: sane_params_def)
  have "py_max (Fin 0) raw \<noteq> MInf" by (cases raw) (auto simp: py_max_def)
  from clamp_range [OF p(4) this] p show ?thesis by (auto simp: clamped_step_def)
qed

subsection \<open>Bounded commands\<close>

definition bounded_jog :: "jog_params \<Rightarrow> rat \<Rightarrow> rat \<Rightarrow> joint_jog \<Rightarrow> bool" where
  "bounded_jog p hi shi c \<longleftrightarrow>
     (\<exists>i vmax v t. i < length (joint_names p) \<and> jj_joint c = joint_names p ! i
        \<and> joint_max_velocity p ! i = Fin vmax \<and> jj_velocities c = [Fin v] \<and> \<bar>v\<bar> \<le> vmax * hi
        \<and> (\<forall>d \<in> set (jj_displacements c). \<exists>r. d = Fin r \<and> \<bar>r\<bar> \<le> shi * pi_value / 180)
        \<and> jj_duration c = Fin t \<and> 0 \<le> t \<and> t \<le> 5)"

definition node_ok :: "jog_params \<Rightarrow> rat \<Rightarrow> rat \<Rightarrow> jog_node \<Rightarrow> bool" where
  "node_ok p hi shi s \<longleftrightarrow> (\<forall>c \<in> set (jog_published s). bounded_jog p hi shi c)
     \<and> (jog_state s = JOG_ACTIVE \<longleftrightarrow> active_joint_index s \<noteq> None)
     \<and> (\<forall>i. active_joint_index s = Some i \<longrightarrow> i < length (joint_names p))"

lemma joint_limit:
  assumes "sane_params p hi shi" "i < length (joint_names p)"
  obtains v where "joint_max_velocity p ! i = Fin v" "0 < v"
proof -
  from assms have "positive (joint_max_velocity p ! i)" by (simp add: sane_params_def list_all_length)
  then show ?thesis using that by (cases "joint_max_velocity p ! i") simp_all
qed

lemma signed_bound:
  fixes v r hi :: rat
  assumes "d \<in> {-1, 1 :: int}" "0 < v" "0 < r" "r \<le> hi"
  shows "\<bar>of_int d * v * r\<bar> \<le> v * hi"
  using assms mult_left_mono [of r hi v] by (auto simp: abs_mult)

lemma pi_pos: "0 < pi_value"
  by (simp add: pi_value_def)

lemma radians_range: "0 < x \<Longrightarrow> x \<le> shi \<Longrightarrow> \<exists>r. radians (Fin x) = Fin r \<and> 0 < r \<and> r \<le> shi * pi_value / 180"
  using pi_pos mult_right_mono [of x shi "pi_value / 180"]
  by (intro exI [of _ "x * (pi_value / 180)"]) (simp add: radians_def)

lemma duration_range:
  "\<exists>t. py_max (Fin (1 / 20)) (py_min (Fin 5) (Fin x)) = Fin t \<and> 0 \<le> t \<and> t \<le> 5"
  using clamp_range [of "1 / 20" 5 "Fin x"] by auto

lemma sign_abs: "d \<in> {-1, 1 :: int} \<Longrightarrow> \<bar>of_int d * (x :: rat)\<bar> = \<bar>x\<bar>"
  by auto

lemma command_ok:
  assumes p: "sane_params p hi shi" and s: "node_ok p hi shi s"
  shows "fst (on_jog_command p now m s) = Inr () \<and> node_ok p hi shi (snd (on_jog_command p now m s))"
proof (cases "well_addressed p m")
  case False
  with s show ?thesis by (simp add: on_jog_command_def Let_def node_ok_def)
next
  case True
  define i where "i = nat (jm_joint_index m)"
  define d where "d = jm_direction m"
  have i: "i < length (joint_names p)" and d: "d \<in> {-1, 1}" using True by (auto simp: well_addressed_def i_def d_def)
  obtain v where v: "joint_max_velocity p ! i = Fin v" "0 < v" using joint_limit [OF p i] .
  obtain r where r: "clamped_scale p (jm_velocity_scale m) = Fin r" "0 < r" "r \<le> hi"
    using clamped_scale_range [OF p] by blast
  obtain x where x: "clamped_step p (jm_step_degrees m) = Fin x" "0 < x" "x \<le> shi"
    using clamped_step_range [OF p] by blast
  obtain a where a: "radians (Fin x) = Fin a" "0 < a" "a \<le> shi * pi_value / 180"
    using radians_range [OF x(2,3)] by blast
  obtain t where t: "py_max (Fin (1 / 20)) (py_min (Fin 5) (Fin (a / (v * r)))) = Fin t" "0 \<le> t" "t \<le> 5"
    using duration_range by blast
  have bound: "\<bar>of_int d * v * r\<bar> \<le> v * hi" using signed_bound [OF d v(2) r(2,3)] .
  have "bounded_jog p hi shi \<lparr>jj_joint = joint_names p ! i, jj_displacements = [],
      jj_velocities = [Fin (of_int d * v * r)], jj_duration = Fin 0\<rparr>"
    unfolding bounded_jog_def using i v bound by auto
  moreover have "bounded_jog p hi shi \<lparr>jj_joint = joint_names p ! i, jj_displacements = [Fin (of_int d * a)],
      jj_velocities = [Fin (of_int d * v * r)], jj_duration = Fin t\<rparr>"
    unfolding bounded_jog_def using i v bound a t sign_abs [OF d, of a] by auto
  moreover have "fdiv (Fin a) (Fin (v * r)) = Some (Fin (a / (v * r)))" using v r by simp
  ultimately show ?thesis
    using s i True
    by (auto simp: on_jog_command_def Let_def publish_continuous_def publish_discrete_def publish_jog_def node_ok_def
        v r x a t simp flip: i_def d_def)
qed

lemma watchdog_ok:
  assumes p: "sane_params p hi shi" and s: "node_ok p hi shi s"
  shows "node_ok p hi shi (on_watchdog p now s)"
proof (cases "active_joint_index s")
  case None
  with s show ?thesis by (auto simp: on_watchdog_def halt_locked_def node_ok_def)
next
  case (Some i)
  with s have i: "i < length (joint_names p)" by (simp add: node_ok_def)
  obtain v where v: "joint_max_velocity p ! i = Fin v" "0 < v" using joint_limit [OF p i] .
  have "0 \<le> hi" using p by (auto simp: sane_params_def)
  with i v have "bounded_jog p hi shi \<lparr>jj_joint = joint_names p ! i, jj_displacements = [], jj_velocities = [Fin 0],
      jj_duration = Fin 0\<rparr>"
    unfolding bounded_jog_def by auto
  with s Some show ?thesis
    by (auto simp: on_watchdog_def halt_locked_def node_ok_def publish_jog_def)
qed

lemma node_ok_step: "sane_params p hi shi \<Longrightarrow> node_ok p hi shi s \<Longrightarrow> node_ok p hi shi (jog_step p e s)"
  using command_ok watchdog_ok by (auto simp: jog_step_def split: jog_event.split)

locale jog_machine =
  fixes p :: jog_params and hi shi :: rat
  assumes sane: "sane_params p hi shi"
begin

end

sublocale jog_machine \<subseteq> machine "jog_step p" "node_ok p hi shi"
  by unfold_locales (rule node_ok_step [OF sane])

lemma default_params_sane: "sane_params default_jog_params (3 / 10) 10"
proof -
  have "\<exists>lo slo dflt. min_velocity_scale default_jog_params = Fin lo \<and> max_velocity_scale default_jog_params = Fin (3 / 10)
      \<and> 0 < lo \<and> lo \<le> 3 / 10 \<and> min_step_degrees default_jog_params = Fin slo
      \<and> max_step_degrees default_jog_params = Fin 10 \<and> 0 < slo \<and> slo \<le> 10
      \<and> default_velocity_scale default_jog_params = Fin dflt"
    by (intro exI [of _ "1 / 100"] exI [of _ "5 / 100"]) (simp add: default_jog_params_def)
  then show ?thesis by (simp add: sane_params_def) (simp add: default_jog_params_def gp4_joint_max_velocity_def)
qed

interpretation gp4_jog: jog_machine default_jog_params "3 / 10" 10
  by unfold_locales (rule default_params_sane)

text \<open>C24: In every run of the node on its default parameters, whatever the messages hold (NaN and the
  infinities included), each published command names a joint, and is bounded: at most three tenths of
  the joint's velocity limit, a step of at most ten degrees, a duration of at most five seconds.\<close>

theorem jog_commands_bounded:
  "list_all (bounded_jog default_jog_params (3 / 10) 10)
     (jog_published (fold (jog_step default_jog_params) es (jog_node_init default_jog_params now)))"
proof -
  have "node_ok default_jog_params (3 / 10) 10 (jog_node_init default_jog_params now)"
    by (simp add: node_ok_def jog_node_init_def)
  from gp4_jog.run_inv [OF this, of es] show ?thesis by (simp add: node_ok_def list_all_iff)
qed

subsection \<open>The watchdog\<close>

definition stop_command :: "jog_params \<Rightarrow> nat \<Rightarrow> joint_jog" where
  "stop_command p i = \<lparr>jj_joint = joint_names p ! i, jj_displacements = [], jj_velocities = [Fin 0],
     jj_duration = Fin 0\<rparr>"

lemma continuous_run:
  assumes "well_addressed p m" "\<not> is_discrete m"
  shows "on_jog_command p t m s = (Inr (), publish_continuous p (nat (jm_joint_index m)) (jm_direction m)
    (clamped_scale p (jm_velocity_scale m)) (s\<lparr>last_heartbeat := t\<rparr>))"
  using assms by (simp add: on_jog_command_def Let_def)

lemma continuous_fields:
  "jog_state (publish_continuous p i d scale s) = JOG_ACTIVE"
  "active_joint_index (publish_continuous p i d scale s) = Some i"
  "last_heartbeat (publish_continuous p i d scale s) = last_heartbeat s"
  by (simp_all add: publish_continuous_def publish_jog_def)

lemma watchdog_early: "now - last_heartbeat s \<le> watchdog_timeout_ms p * 1000000 \<Longrightarrow> on_watchdog p now s = s"
  by (simp add: on_watchdog_def)

lemma watchdog_idle: "jog_state s = JOG_IDLE \<Longrightarrow> on_watchdog p now s = s"
  by (simp add: on_watchdog_def)

text \<open>C25: A continuous motion ends with silence: the watchdog leaves it alone while its command is at
  most the timeout old; the first later tick publishes a zero velocity for its joint, and the ticks
  after that publish nothing.\<close>

theorem silence_stops_motion:
  assumes "well_addressed p m" "\<not> is_discrete m" and "soon \<le> t + watchdog_timeout_ms p * 1000000"
    and "t + watchdog_timeout_ms p * 1000000 < late"
  shows "let s1 = snd (on_jog_command p t m s); s2 = on_watchdog p late (on_watchdog p soon s1) in
    jog_published s2 = jog_published s1 @ [stop_command p (nat (jm_joint_index m))]
    \<and> jog_state s2 = JOG_IDLE \<and> on_watchdog p later s2 = s2"
proof -
  define s1 where "s1 = snd (on_jog_command p t m s)"
  have s1: "jog_state s1 = JOG_ACTIVE" "active_joint_index s1 = Some (nat (jm_joint_index m))" "last_heartbeat s1 = t"
    by (simp_all add: s1_def continuous_run [OF assms(1,2)] continuous_fields)
  have "on_watchdog p soon s1 = s1" using assms(3) s1 by (intro watchdog_early) simp
  moreover have late: "watchdog_timeout_ms p * 1000000 < late - last_heartbeat s1" using assms(4) s1 by simp
  ultimately show ?thesis
    using s1 unfolding s1_def [symmetric]
    by (simp add: Let_def on_watchdog_def halt_locked_def stop_command_def publish_jog_def)
qed

definition hold_joint_2 :: jog_msg where
  "hold_joint_2 = \<lparr>jm_joint_index = 1, jm_direction = -1, jm_step_degrees = Fin 0, jm_velocity_scale = Fin (1 / 10),
     jm_mode = ''continuous''\<rparr>"

lemma hold_joint_2: "well_addressed default_jog_params hold_joint_2" "\<not> is_discrete hold_joint_2"
  by (simp_all add: well_addressed_def hold_joint_2_def default_jog_params_def gp4_joint_max_velocity_def
      is_discrete_def lower_def lower_char_def strip_def is_space_def)

theorem silence_stops_motion_witness:
  "jog_state (on_watchdog default_jog_params 200000001 (on_watchdog default_jog_params 200000000
     (snd (on_jog_command default_jog_params 0 hold_joint_2 (jog_node_init default_jog_params 0))))) = JOG_IDLE
   \<and> last (jog_published (on_watchdog default_jog_params 200000001 (on_watchdog default_jog_params 200000000
     (snd (on_jog_command default_jog_params 0 hold_joint_2 (jog_node_init default_jog_params 0))))))
     = stop_command default_jog_params 1"
  using silence_stops_motion [OF hold_joint_2, of 200000000 0 200000001 "jog_node_init default_jog_params 0"]
  by (simp add: Let_def default_jog_params_def hold_joint_2_def)

text \<open>A round of a rejected message and a tick of the watchdog.\<close>

definition rejected_round :: "jog_params \<Rightarrow> int \<times> jog_msg \<times> int \<Rightarrow> jog_node \<Rightarrow> jog_node" where
  "rejected_round p r s = (case r of (t, m, tick) \<Rightarrow> jog_step p (Watchdog tick) (jog_step p (Command t m) s))"

text \<open>Messages the node rejects, for their joint or their direction, still count as heartbeats: while
  they keep coming, the watchdog does not stop the motion a held button started, and nothing is
  published.\<close>

theorem rejected_messages_keep_motion:
  assumes "\<forall>(t, m, tick) \<in> set rs. \<not> well_addressed p m \<and> tick - t \<le> watchdog_timeout_ms p * 1000000"
  shows "jog_state (fold (rejected_round p) rs s) = jog_state s
    \<and> active_joint_index (fold (rejected_round p) rs s) = active_joint_index s
    \<and> jog_published (fold (rejected_round p) rs s) = jog_published s"
  using assms
proof (induction rs arbitrary: s)
  case Nil
  then show ?case by simp
next
  case (Cons r rs)
  obtain t m tick where r: "r = (t, m, tick)" by (cases r) auto
  with Cons.prems have "rejected_round p r s = s\<lparr>last_heartbeat := t\<rparr>"
    by (simp add: rejected_round_def jog_step_def on_jog_command_def Let_def watchdog_early)
  with Cons show ?case by simp
qed

theorem rejected_messages_keep_motion_witness:
  "jog_state (fold (rejected_round default_jog_params)
     [(100000000, hold_joint_2\<lparr>jm_direction := 0\<rparr>, 300000000), (290000000, hold_joint_2\<lparr>jm_joint_index := 6\<rparr>, 490000000)]
     (snd (on_jog_command default_jog_params 0 hold_joint_2 (jog_node_init default_jog_params 0)))) = JOG_ACTIVE"
proof -
  have "jog_state (snd (on_jog_command default_jog_params 0 hold_joint_2 (jog_node_init default_jog_params 0))) = JOG_ACTIVE"
    by (simp add: continuous_run [OF hold_joint_2] continuous_fields)
  moreover have "watchdog_timeout_ms default_jog_params = 200" "length (joint_names default_jog_params) = 6"
    by (simp_all add: default_jog_params_def gp4_joint_max_velocity_def)
  ultimately show ?thesis
    by (subst rejected_messages_keep_motion [THEN conjunct1]) (simp_all add: well_addressed_def hold_joint_2_def)
qed

text \<open>A single step during a held motion forgets the motion: no tick of the watchdog stops it.\<close>

lemma step_forgets_motion:
  assumes p: "sane_params p hi shi" and m: "well_addressed p m" "is_discrete m" and s: "node_ok p hi shi s"
  shows "on_watchdog p late (snd (on_jog_command p t m s)) = snd (on_jog_command p t m s)"
proof -
  have "fst (on_jog_command p t m s) = Inr ()" using command_ok [OF p s] by simp
  with m have "jog_state (snd (on_jog_command p t m s)) = JOG_IDLE"
    by (auto simp: on_jog_command_def Let_def publish_discrete_def split: option.splits)
  then show ?thesis by (rule watchdog_idle)
qed

subsection \<open>From the request to the joint\<close>

text \<open>A request within the HTTP contract that the service publishes moves the joint it names, in the
  direction it asks for: the bridge was active and ready, and the node publishes one command for that
  joint, a step exactly when a step was asked for.\<close>

theorem jog_request_moves_named_joint:
  assumes "jog_request_ok joint direction mode scale step"
    and "send_jog_command node sent st joint direction mode scale step = Inr m"
  shows "bridge_active st \<and> robot_ready st \<and> servo_active st \<and> bridge_state st \<in> {READY, ACTIVE}
    \<and> (\<exists>c v. jog_published (snd (on_jog_command default_jog_params now m s)) = jog_published s @ [c]
        \<and> jj_joint c = joint_names default_jog_params ! nat joint
        \<and> jj_velocities c = [Fin (of_int direction * v)] \<and> 0 < v
        \<and> (jj_displacements c = []) = (mode = ''continuous''))"
proof -
  have m: "m = \<lparr>jm_joint_index = joint, jm_direction = direction, jm_step_degrees = step, jm_velocity_scale = scale,
      jm_mode = mode\<rparr>" and gate: "bridge_active st" "robot_ready st" "servo_active st" "bridge_state st \<in> {READY, ACTIVE}"
    using assms(2) by (auto simp: send_jog_command_def split: if_splits)
  have addressed: "well_addressed default_jog_params m"
    using assms(1) by (auto simp: m jog_request_ok_def well_addressed_def default_jog_params_def gp4_joint_max_velocity_def)
  have discrete: "is_discrete m \<longleftrightarrow> mode \<noteq> ''continuous''"
    using assms(1) by (auto simp: m jog_request_ok_def is_discrete_def lower_def lower_char_def strip_def is_space_def)
  have i: "nat joint < length (joint_names default_jog_params)" using addressed by (auto simp: m well_addressed_def)
  obtain vmax where v: "joint_max_velocity default_jog_params ! nat joint = Fin vmax" "0 < vmax"
    using joint_limit [OF default_params_sane i] .
  obtain r where r: "clamped_scale default_jog_params scale = Fin r" "0 < r"
    using clamped_scale_range [OF default_params_sane] by blast
  obtain x where x: "clamped_step default_jog_params step = Fin x" using clamped_step_range [OF default_params_sane] by blast
  have "0 < vmax * r" using v r by simp
  then show ?thesis
    using gate addressed discrete v r
    by (auto simp: on_jog_command_def Let_def publish_continuous_def publish_discrete_def publish_jog_def m x
        radians_def mult.assoc intro!: exI [of _ "vmax * r"])
qed

theorem jog_request_moves_named_joint_witness:
  "\<exists>c v. jog_published (snd (on_jog_command default_jog_params 0 hold_joint_2 (jog_node_init default_jog_params 0))) = [c]
    \<and> jj_joint c = ''joint_2_l'' \<and> jj_velocities c = [Fin (- v)] \<and> 0 < v \<and> jj_displacements c = []"
proof -
  have "jog_request_ok 1 (-1) ''continuous'' (Fin (1 / 10)) (Fin 0)" by (simp add: jog_request_ok_def)
  moreover have "send_jog_command True True \<lparr>bridge_state = READY, robot_ready = True, servo_active = True,
      bridge_active = True\<rparr> 1 (-1) ''continuous'' (Fin (1 / 10)) (Fin 0) = Inr hold_joint_2"
    by (simp add: send_jog_command_def hold_joint_2_def)
  ultimately show ?thesis
    using jog_request_moves_named_joint [of 1 "-1" "''continuous''" "Fin (1 / 10)" "Fin 0" True True _ hold_joint_2 0
        "jog_node_init default_jog_params 0"]
    by (simp add: jog_node_init_def) (simp add: default_jog_params_def gp4_joint_max_velocity_def)
qed

end
