(* ===== verification/Semantic_Contract.thy ===== *)
theory Semantic_Contract
  imports Py_Values
begin

section \<open>The contract of the semantic IR\<close>

text \<open>
  \<open>llm_gateway/semantic_ir_contract.py\<close>, \<open>validate_draw_params\<close> of \<open>validation.py\<close>, and the static
  methods of \<open>LLMGatewayNode\<close> that walk a semantic IR: the canonical names of intents, the search for
  an intent, the joints a \<open>return_to_start\<close> goes back to.  A refusal is its reason; the hint that goes
  with it is not modelled.
\<close>

type_synonym obj = "(string \<times> json) list"

text \<open>A value found in a dict or a list is smaller than it.\<close>

lemma size_dget: "dget d k = Some v \<Longrightarrow> size v < size (JObj d)"
proof -
  assume "dget d k = Some v"
  then have "(k, v) \<in> set d" by (simp add: dget_def map_of_SomeD)
  then have "size_prod (\<lambda>_. 0) size (k, v) \<le> size_list (size_prod (\<lambda>_. 0) size) d"
    by (rule size_list_estimation') simp
  then show ?thesis by simp
qed

lemma size_value: "(k, v) \<in> set d \<Longrightarrow> size v < size (JObj d)"
proof -
  assume "(k, v) \<in> set d"
  then have "size_prod (\<lambda>_. 0) size (k, v) \<le> size_list (size_prod (\<lambda>_. 0) size) d"
    by (rule size_list_estimation') simp
  then show ?thesis by simp
qed

lemma size_item: "v \<in> set xs \<Longrightarrow> size v < size (JList xs)"
  using size_list_estimation' [of v xs "size v" size] by simp

text \<open>\<open>str(payload.get("intent") or "").strip()\<close>, and without \<open>strip\<close> the text an intent has.\<close>

definition or_empty :: "json \<Rightarrow> json" where
  "or_empty v = (if truthy v then v else JStr [])"

definition value_at :: "obj \<Rightarrow> string \<Rightarrow> json" where
  "value_at d k = (case dget d k of None \<Rightarrow> JNull | Some v \<Rightarrow> v)"

definition intent_of :: "obj \<Rightarrow> string" where
  "intent_of d = strip (to_str (or_empty (value_at d ''intent'')))"

subsection \<open>Forbidden fields\<close>

text \<open>The first forbidden key on a walk of the payload, with the path to it.\<close>

fun find_forbidden :: "json \<Rightarrow> string \<Rightarrow> (string \<times> string) option"
  and find_in_fields :: "obj \<Rightarrow> string \<Rightarrow> (string \<times> string) option"
  and find_in_items :: "json list \<Rightarrow> nat \<Rightarrow> string \<Rightarrow> (string \<times> string) option" where
  "find_forbidden (JObj d) path = find_in_fields d path"
| "find_forbidden (JList xs) path = find_in_items xs 0 path"
| "find_forbidden _ path = None"
| "find_in_fields [] path = None"
| "find_in_fields ((k, v) # d) path =
     (if k \<in> {''primitive_type'', ''raw_text''} then Some (path @ ''.'' @ k, k)
      else case find_forbidden v (path @ ''.'' @ k) of Some f \<Rightarrow> Some f | None \<Rightarrow> find_in_fields d path)"
| "find_in_items [] i path = None"
| "find_in_items (v # vs) i path =
     (case find_forbidden v (path @ ''['' @ str_nat i @ '']'') of
        Some f \<Rightarrow> Some f | None \<Rightarrow> find_in_items vs (Suc i) path)"

subsection \<open>The contract\<close>

definition frozen_semantic_intents :: "string list" where
  "frozen_semantic_intents =
     [''go_home'', ''stop'', ''alarm_reset'', ''get_pose'', ''set_speed'', ''wait'', ''move_relative'',
      ''absolute_move_ptp'', ''move_named_pose'', ''absolute_move_lin'', ''circular_move'', ''move_joint'',
      ''move_joint_delta'', ''move_joints'', ''io_set'', ''draw_shape'', ''draw_text'', ''sequence'',
      ''return_to_start'']"

fun is_factory_task_runtime_sentinel :: "json \<Rightarrow> bool" where
  "is_factory_task_runtime_sentinel (JObj d) \<longleftrightarrow>
     value_at d ''intent'' = JStr ''factory_task_runtime'' \<and> value_at d ''_factory_task_runtime'' = JBool True
     \<and> (case value_at d ''metadata'' of
          JObj m \<Rightarrow> is_dict (value_at m ''runtime_plan'') \<and> is_dict (value_at m ''factory_task'')
        | _ \<Rightarrow> False)"
| "is_factory_task_runtime_sentinel _ \<longleftrightarrow> False"

definition is_error_payload :: "obj \<Rightarrow> bool" where
  "is_error_payload d = (case value_at d ''error'' of JStr e \<Rightarrow> e \<noteq> [] | _ \<Rightarrow> False)"

text \<open>The checks on one object before the steps of a sequence: refused with a reason, valid, or the steps
  are still to be checked.\<close>

datatype head_verdict = Refuse string | ValidIR | CheckSteps "json list"

definition contract_head :: "bool \<Rightarrow> obj \<Rightarrow> head_verdict" where
  "contract_head in_step d = (case find_forbidden (JObj d) ''$'' of
     Some (path, key) \<Rightarrow> Refuse (''Semantic IR must not contain '' @ key @ '' at '' @ path)
   | None \<Rightarrow>
     if is_error_payload d then ValidIR
     else case value_at d ''intent'' of
       JStr intent \<Rightarrow>
         if strip intent = [] then Refuse ''Semantic IR must contain a non-empty intent field.''
         else if intent = ''factory_task_runtime'' \<and> in_step
         then Refuse ''factory_task_runtime is only valid as a top-level review sentinel.''
         else if intent = ''factory_task_runtime'' \<and> is_factory_task_runtime_sentinel (JObj d) then ValidIR
         else if intent \<notin> set frozen_semantic_intents
         then Refuse (''Unsupported semantic intent: '' @ intent)
         else if intent = ''return_to_start'' \<and> \<not> in_step
         then Refuse ''return_to_start is only valid inside a sequence.''
         else if intent = ''sequence''
         then (case value_at d ''steps'' of
             JList ss \<Rightarrow> if ss = [] then Refuse ''sequence intent requires a non-empty steps list.'' else CheckSteps ss
           | _ \<Rightarrow> Refuse ''sequence intent requires a non-empty steps list.'')
         else ValidIR
     | _ \<Rightarrow> Refuse ''Semantic IR must contain a non-empty intent field.'')"

lemma contract_steps_smaller: "contract_head s d = CheckSteps ss \<Longrightarrow> size_list size ss < size (JObj d)"
proof -
  assume "contract_head s d = CheckSteps ss"
  then have "dget d ''steps'' = Some (JList ss)"
    by (auto simp: contract_head_def value_at_def split: option.splits if_splits json.splits)
  from size_dget [OF this] show ?thesis by simp
qed

function validate_contract :: "bool \<Rightarrow> json \<Rightarrow> string option"
  and contract_steps :: "nat \<Rightarrow> json list \<Rightarrow> string option" where
  "validate_contract in_step (JObj d) = (case contract_head in_step d of
     Refuse r \<Rightarrow> Some r
   | ValidIR \<Rightarrow> None
   | CheckSteps ss \<Rightarrow> contract_steps 0 ss)"
| "validate_contract in_step JNull = Some ''Semantic IR must be a JSON object.''"
| "validate_contract in_step (JBool b) = Some ''Semantic IR must be a JSON object.''"
| "validate_contract in_step (JInt i) = Some ''Semantic IR must be a JSON object.''"
| "validate_contract in_step (JFloat x) = Some ''Semantic IR must be a JSON object.''"
| "validate_contract in_step (JStr s) = Some ''Semantic IR must be a JSON object.''"
| "validate_contract in_step (JList xs) = Some ''Semantic IR must be a JSON object.''"
| "contract_steps i [] = None"
| "contract_steps i (s # ss) = (case validate_contract True s of
     Some r \<Rightarrow> Some (''sequence step '' @ str_nat i @ '' failed Semantic IR contract: '' @ r)
   | None \<Rightarrow> contract_steps (Suc i) ss)"
  by pat_completeness auto
termination
  by (relation "measure (\<lambda>x. case x of Inl (_, v) \<Rightarrow> size v | Inr (_, vs) \<Rightarrow> size_list size vs)")
    (auto dest: contract_steps_smaller)

definition validate_semantic_ir_contract :: "json \<Rightarrow> string option" where
  "validate_semantic_ir_contract = validate_contract False"

subsection \<open>Drawing parameters\<close>

definition has_any :: "obj \<Rightarrow> string list \<Rightarrow> bool" where
  "has_any d ks = list_ex (\<lambda>k. dget d k \<noteq> None) ks"

definition shape_params_error :: "string \<Rightarrow> obj \<Rightarrow> string option" where
  "shape_params_error shape p =
     (let points = has_any p [''points'', ''vertices'']; radius = has_any p [''radius'', ''radius_m''];
          sides = has_any p [''n_sides'', ''sides''] in
      if shape = ''circle'' \<and> \<not> radius \<and> \<not> has_any p [''diameter'', ''diameter_m'', ''size'', ''size_m'']
      then Some ''draw_shape circle requires params.radius or params.diameter''
      else if shape \<in> {''polygon'', ''polyline''} \<and> \<not> points
        \<and> \<not> has_any p [''n_sides'', ''sides'', ''radius'', ''radius_m'', ''side'', ''side_m'']
      then Some (''draw_shape '' @ shape @ '' requires params with size or points'')
      else if shape = ''polygon'' \<and> \<not> points \<and> \<not> sides then Some ''draw_shape polygon requires params.n_sides''
      else if shape = ''arc'' \<and> \<not> radius then Some ''draw_shape arc requires params.radius''
      else if shape \<in> {''square'', ''rectangle'', ''triangle''} \<and> \<not> points then
        (if shape = ''rectangle'' then
           (if \<not> has_any p [''width_m'', ''width''] then Some ''draw_shape rectangle requires params.width''
            else if \<not> has_any p [''height_m'', ''height''] then Some ''draw_shape rectangle requires params.height''
            else None)
         else if \<not> has_any p [''side_m'', ''side'', ''size_m'', ''size'']
         then Some (''draw_shape '' @ shape @ '' requires params.side or explicit points'') else None)
      else None)"

definition text_of :: "obj \<Rightarrow> string \<Rightarrow> string" where
  "text_of d k = strip (to_str (case dget d k of None \<Rightarrow> JStr [] | Some v \<Rightarrow> v))"

definition validate_draw_params :: "obj \<Rightarrow> string option" where
  "validate_draw_params d =
     (let intent = text_of d ''intent''; heights = [''height_m'', ''height'', ''char_height_m''];
          object_at = (\<lambda>k. let v = value_at d k in if truthy v then v else JObj []) in
      if intent = ''draw_shape'' then
        (case object_at ''params'' of
           JObj p \<Rightarrow> shape_params_error (lower (text_of d ''shape_type'')) p
         | _ \<Rightarrow> Some ''draw_shape params must be an object.'')
      else if intent = ''draw_text'' then
        (if text_of d ''text'' = [] then Some ''draw_text requires a non-empty text string.''
         else case object_at ''font'' of
           JObj f \<Rightarrow> if has_any d heights \<or> has_any f heights then None else Some ''draw_text requires font.height.''
         | _ \<Rightarrow> Some ''draw_text font must be an object.'')
      else None)"

subsection \<open>Walks over a semantic IR\<close>

text \<open>\<open>canonical.pop(old)\<close> stored under a new key.\<close>

definition rename_key :: "string \<Rightarrow> string \<Rightarrow> obj \<Rightarrow> obj" where
  "rename_key old new d = (case dget d old of
     None \<Rightarrow> d | Some v \<Rightarrow> dict_set new v (filter (\<lambda>(k, _). k \<noteq> old) d))"

definition rename_missing :: "string \<Rightarrow> string \<Rightarrow> obj \<Rightarrow> obj" where
  "rename_missing old new d = (if dget d new = None then rename_key old new d else d)"

definition canonical_names :: "obj \<Rightarrow> obj" where
  "canonical_names d =
     (let intent = intent_of d;
          d = (if intent = ''move_to_named_pose'' then dict_set ''intent'' (JStr ''move_named_pose'') d else d);
          intent = (if intent = ''move_to_named_pose'' then ''move_named_pose'' else intent) in
      if intent = ''move_named_pose'' then
        (if dget d ''pose_name'' \<noteq> None then d
         else if dget d ''pose'' \<noteq> None then rename_key ''pose'' ''pose_name'' d
         else rename_key ''region'' ''pose_name'' d)
      else if intent = ''get_current_pose'' then dict_set ''intent'' (JStr ''get_pose'') d
      else if intent = ''move_linear'' then dict_set ''intent'' (JStr ''absolute_move_lin'') d
      else if intent \<in> {''move_joint'', ''move_joint_delta''} then
        rename_missing ''delta'' ''delta_angle'' (rename_missing ''angle'' ''joint_angle''
          (rename_missing ''joint'' ''joint_index'' d))
      else d)"

fun canonicalize :: "json \<Rightarrow> json"
  and canonicalize_fields :: "obj \<Rightarrow> obj"
  and canonicalize_items :: "json list \<Rightarrow> json list" where
  "canonicalize (JObj d) = JObj (canonical_names (canonicalize_fields d))"
| "canonicalize (JList xs) = JList (canonicalize_items xs)"
| "canonicalize v = v"
| "canonicalize_fields [] = []"
| "canonicalize_fields ((k, v) # d) = (k, canonicalize v) # canonicalize_fields d"
| "canonicalize_items [] = []"
| "canonicalize_items (v # vs) = canonicalize v # canonicalize_items vs"

text \<open>\<open>_semantic_ir_contains_any_intent\<close>; the search for one intent is the search for a set of one.\<close>

fun contains_any_intent :: "json \<Rightarrow> string list \<Rightarrow> bool"
  and contains_in_fields :: "obj \<Rightarrow> string list \<Rightarrow> bool"
  and contains_in_items :: "json list \<Rightarrow> string list \<Rightarrow> bool" where
  "contains_any_intent (JObj d) ts \<longleftrightarrow> intent_of d \<in> set ts \<or> contains_in_fields d ts"
| "contains_any_intent (JList xs) ts \<longleftrightarrow> contains_in_items xs ts"
| "contains_any_intent _ ts \<longleftrightarrow> False"
| "contains_in_fields [] ts \<longleftrightarrow> False"
| "contains_in_fields ((k, v) # d) ts \<longleftrightarrow> contains_any_intent v ts \<or> contains_in_fields d ts"
| "contains_in_items [] ts \<longleftrightarrow> False"
| "contains_in_items (v # vs) ts \<longleftrightarrow> contains_any_intent v ts \<or> contains_in_items vs ts"

definition contains_intent :: "json \<Rightarrow> string \<Rightarrow> bool" where
  "contains_intent v t = contains_any_intent v [t]"

end
