(* ===== verification/Station_Graph.thy ===== *)
theory Station_Graph
  imports Semantic_Contract "HOL-Library.List_Lexorder" "HOL-Library.Char_ord"
begin

section \<open>The station scene graph\<close>

text \<open>
  \<open>llm_gateway/factory_task.py\<close>: \<open>StationSceneGraph\<close>, the static map of regions and objects of the
  station with their aliases, the placeholder \<open>VERIFY_CONFIG\<close> that marks unmeasured geometry, and
  \<open>compile_goal\<close>, which turns a pick-and-place goal into a list of skill calls.
\<close>

subsection \<open>Names\<close>

text \<open>\<open>" ".join(s.split())\<close>.\<close>

fun words_from :: "string \<Rightarrow> string \<Rightarrow> string list" where
  "words_from w [] = (if w = [] then [] else [w])"
| "words_from w (c # cs) =
     (if is_space c then (if w = [] then words_from [] cs else w # words_from [] cs)
      else words_from (w @ [c]) cs)"

definition normalize_scene_name :: "string \<Rightarrow> string" where
  "normalize_scene_name s =
     join '' '' (words_from [] (map (\<lambda>c. if c = CHR ''_'' then CHR '' '' else c) (lower (strip s))))"

subsection \<open>Resolution\<close>

record resolve_result =
  rs_ok :: bool
  rs_name :: string
  rs_payload :: json
  rs_error :: string
  rs_candidates :: "string list"

definition unresolved :: "string \<Rightarrow> string list \<Rightarrow> resolve_result" where
  "unresolved e cs = \<lparr>rs_ok = False, rs_name = [], rs_payload = JNull, rs_error = e, rs_candidates = cs\<rparr>"

definition resolved :: "string \<Rightarrow> json \<Rightarrow> resolve_result" where
  "resolved n p = \<lparr>rs_ok = True, rs_name = n, rs_payload = p, rs_error = [], rs_candidates = []\<rparr>"

record scene_graph =
  sg_data :: obj
  sg_regions :: obj
  sg_objects :: obj

definition dict_at :: "obj \<Rightarrow> string \<Rightarrow> obj" where
  "dict_at d k = (case value_at d k of JObj e \<Rightarrow> e | _ \<Rightarrow> [])"

definition scene_graph_init :: "obj \<Rightarrow> scene_graph" where
  "scene_graph_init d = \<lparr>sg_data = d, sg_regions = dict_at d ''regions'', sg_objects = dict_at d ''objects''\<rparr>"

definition names_of :: "string \<times> json \<Rightarrow> py_exn + string list" where
  "names_of e = (case e of (name, payload) \<Rightarrow>
     ebind (case payload of JObj d \<Rightarrow> jiter (case dget d ''aliases'' of None \<Rightarrow> JList [] | Some v \<Rightarrow> v) | _ \<Rightarrow> Inr [])
       (\<lambda>as. Inr (name # map to_str as)))"

fun matches_of :: "string \<Rightarrow> obj \<Rightarrow> py_exn + string list" where
  "matches_of q [] = Inr []"
| "matches_of q ((name, payload) # d) =
     ebind (names_of (name, payload)) (\<lambda>ns.
     ebind (matches_of q d) (\<lambda>ms.
     Inr (if q \<in> set (map normalize_scene_name ns) then name # ms else ms)))"

definition resolve_named :: "string \<Rightarrow> obj \<Rightarrow> py_exn + resolve_result" where
  "resolve_named query coll =
     ebind (matches_of (normalize_scene_name query) coll) (\<lambda>ms. Inr (case ms of
       [] \<Rightarrow> unresolved ''needs_clarification'' []
     | [name] \<Rightarrow> resolved name (value_at coll name)
     | _ \<Rightarrow> unresolved ''needs_clarification'' (sort ms)))"

definition resolve_region :: "scene_graph \<Rightarrow> string \<Rightarrow> py_exn + resolve_result" where
  "resolve_region G q = resolve_named q (sg_regions G)"

definition resolve_zone :: "scene_graph \<Rightarrow> string \<Rightarrow> string \<Rightarrow> py_exn + resolve_result" where
  "resolve_zone G region q = (case value_at (sg_regions G) region of
     JObj r \<Rightarrow> (case value_at r ''zones'' of
        JObj z \<Rightarrow> resolve_named q z | _ \<Rightarrow> Inr (unresolved ''needs_clarification'' []))
   | _ \<Rightarrow> Inr (unresolved ''needs_clarification'' []))"

text \<open>The first detection of the live scene whose class has the name.\<close>

definition text_or_empty :: "obj \<Rightarrow> string \<Rightarrow> string" where
  "text_or_empty d k = to_str (case dget d k of None \<Rightarrow> JStr [] | Some v \<Rightarrow> v)"

fun find_detection :: "string \<Rightarrow> json list \<Rightarrow> resolve_result option" where
  "find_detection q [] = None"
| "find_detection q (v # vs) = (case v of
     JObj d \<Rightarrow>
       (let class_id = text_or_empty d ''class_id'' in
        if class_id \<noteq> [] \<and> normalize_scene_name class_id = q
        then Some (resolved class_id
          (JObj [(''dynamic'', JBool True), (''class_id'', JStr class_id), (''detection'', JObj d)]))
        else find_detection q vs)
   | _ \<Rightarrow> find_detection q vs)"

definition resolve_object :: "scene_graph \<Rightarrow> string \<Rightarrow> json \<Rightarrow> py_exn + resolve_result" where
  "resolve_object G q live =
     ebind (resolve_named q (sg_objects G)) (\<lambda>static.
     Inr (if rs_ok static then static
          else case live of
            JObj l \<Rightarrow> (case dget l ''detections'' of
                Some (JList ds) \<Rightarrow> (case find_detection (normalize_scene_name q) ds of Some r \<Rightarrow> r | None \<Rightarrow> static)
              | _ \<Rightarrow> static)
          | _ \<Rightarrow> static))"

subsection \<open>Unmeasured geometry\<close>

fun contains_verify_config :: "json \<Rightarrow> bool"
  and fields_verify_config :: "obj \<Rightarrow> bool"
  and items_verify_config :: "json list \<Rightarrow> bool" where
  "contains_verify_config (JStr s) \<longleftrightarrow> s = ''VERIFY_CONFIG''"
| "contains_verify_config (JObj d) \<longleftrightarrow> fields_verify_config d"
| "contains_verify_config (JList xs) \<longleftrightarrow> items_verify_config xs"
| "contains_verify_config _ \<longleftrightarrow> False"
| "fields_verify_config [] \<longleftrightarrow> False"
| "fields_verify_config ((k, v) # d) \<longleftrightarrow> contains_verify_config v \<or> fields_verify_config d"
| "items_verify_config [] \<longleftrightarrow> False"
| "items_verify_config (v # vs) \<longleftrightarrow> contains_verify_config v \<or> items_verify_config vs"

definition runtime_geometry_ready :: "scene_graph \<Rightarrow> string \<Rightarrow> bool" where
  "runtime_geometry_ready G region = (case value_at (sg_regions G) region of
     JObj r \<Rightarrow> \<not> contains_verify_config (value_at r ''geometry'') | _ \<Rightarrow> False)"

definition runtime_block_reason :: "scene_graph \<Rightarrow> string \<Rightarrow> string" where
  "runtime_block_reason G region = (if runtime_geometry_ready G region then [] else ''verify_config_required'')"

definition nearest_free_cell :: "scene_graph \<Rightarrow> string \<Rightarrow> resolve_result" where
  "nearest_free_cell G region =
     (if \<not> is_dict (value_at (sg_regions G) region) then unresolved ''needs_clarification'' []
      else (unresolved (if runtime_geometry_ready G region then ''capability_unavailable'' else ''verify_config_required'') [])
        \<lparr>rs_name := region\<rparr>)"

subsection \<open>Goals\<close>

type_synonym skill_call = "string \<times> (string \<times> string) list"

definition clarify :: "string \<Rightarrow> string \<Rightarrow> skill_call" where
  "clarify which query = (''needs_clarification'', [(''field'', which), (''query'', query)])"

definition stripped_or_empty :: "obj \<Rightarrow> string \<Rightarrow> string" where
  "stripped_or_empty d k = strip (to_str (or_empty (value_at d k)))"

definition pick_and_place_calls :: "string \<Rightarrow> string \<Rightarrow> skill_call list" where
  "pick_and_place_calls object_id dest =
     [(''refresh_scene'', []), (''approach_object'', [(''object_id'', object_id)]),
      (''pick_object'', [(''object_id'', object_id)]),
      (''place_object'', [(''object_id'', object_id), (''destination'', dest)]),
      (''verify_postcondition'', [(''object_id'', object_id), (''destination'', dest)])]"

definition compile_goal :: "scene_graph \<Rightarrow> json \<Rightarrow> json \<Rightarrow> py_exn + skill_call list" where
  "compile_goal G goal live = (case goal of
     JObj d \<Rightarrow>
       (let action = stripped_or_empty d ''action''; obj_query = stripped_or_empty d ''object'';
            dest_query = stripped_or_empty d ''destination'' in
        if action \<noteq> ''pick_and_place'' then Inr [(''capability_unavailable'', [(''action'', action)])]
        else ebind (resolve_object G obj_query live) (\<lambda>ob.
        if \<not> rs_ok ob then Inr [clarify ''object'' obj_query]
        else ebind (resolve_region G dest_query) (\<lambda>dest.
        if \<not> rs_ok dest then Inr [clarify ''destination'' dest_query]
        else Inr (pick_and_place_calls (rs_name ob) (rs_name dest)))))
   | _ \<Rightarrow> Inr [clarify ''goal'' ''non_object''])"

end
