(* ===== verification/Normalization.thy ===== *)
theory Normalization
  imports Command_Payload
begin

section \<open>Normalisation of commands\<close>

text \<open>
  \<open>llm_gateway/normalization.py\<close>: the unit conversions, \<open>_wrap_to_pi\<close>, \<open>normalize_pose\<close>,
  \<open>normalize_joints\<close>, \<open>rotate_tool_delta_to_base\<close> and \<open>Normalizer.normalize\<close>.  A normalised
  command is a dict whose values are decoded values or the pose objects the normaliser adds.
  The legacy unit heuristic is switched off by a module constant and has no branch here.
  Sines, cosines and roots come from the C library and are rounded by it: they are arguments.
\<close>

record float_lib =
  lib_sqrt :: "rat \<Rightarrow> rat"
  lib_sin :: "rat \<Rightarrow> rat"
  lib_cos :: "rat \<Rightarrow> rat"

text \<open>The functions of \<open>math\<close> raise on an infinity; \<open>math.sqrt\<close> only on the negative one.\<close>

fun math_trig :: "(rat \<Rightarrow> rat) \<Rightarrow> pyfloat \<Rightarrow> adapter_exn + pyfloat" where
  "math_trig f (Fin a) = Inr (Fin (f a))"
| "math_trig f NaN = Inr NaN"
| "math_trig f _ = Inl (Raised ValueError)"

fun root_of :: "float_lib \<Rightarrow> pyfloat \<Rightarrow> pyfloat" where
  "root_of F (Fin a) = Fin (lib_sqrt F a)"
| "root_of F x = x"

subsection \<open>Numbers and units\<close>

definition numeric :: "json \<Rightarrow> string \<Rightarrow> adapter_exn + pyfloat" where
  "numeric v field = (case to_float v of
     Inr x \<Rightarrow> Inr x
   | Inl e \<Rightarrow> if e \<in> {TypeError, ValueError} then Inl (Refused (field @ '' must be numeric.''))
             else Inl (Raised e))"

definition convert_linear :: "pyfloat \<Rightarrow> json \<Rightarrow> string \<Rightarrow> adapter_exn + pyfloat" where
  "convert_linear x unit field =
     (if unit = JNull then Inr x
      else if is_str unit ''m'' then Inr x
      else if is_str unit ''cm'' then Inr (fmul x (Fin (1 / 100)))
      else if is_str unit ''mm'' then Inr (fmul x (Fin (1 / 1000)))
      else Inl (Refused (field @ '': unsupported linear_unit'')))"

definition radians :: "pyfloat \<Rightarrow> pyfloat" where
  "radians x = fmul x (Fin (pi_literal / 180))"

definition convert_angular :: "pyfloat \<Rightarrow> json \<Rightarrow> string \<Rightarrow> adapter_exn + pyfloat" where
  "convert_angular x unit field =
     (if unit = JNull then Inr x
      else if is_str unit ''rad'' then Inr x
      else if is_str unit ''deg'' then Inr (radians x)
      else Inl (Refused (field @ '': unsupported angular_unit'')))"

text \<open>\<open>math.fmod\<close> of finite numbers: the remainder has the sign of the dividend.\<close>

definition fmod_rat :: "rat \<Rightarrow> rat \<Rightarrow> rat" where
  "fmod_rat a b = a - of_int (trunc_rat (a / b)) * b"

definition wrap_rat :: "rat \<Rightarrow> rat" where
  "wrap_rat a =
     (let w = fmod_rat (a + pi_literal) (2 * pi_literal);
          w = (if w < 0 then w + 2 * pi_literal else w);
          w = w - pi_literal in
      if w \<le> - pi_literal then w + 2 * pi_literal else w)"

fun wrap_to_pi :: "pyfloat \<Rightarrow> adapter_exn + pyfloat" where
  "wrap_to_pi (Fin a) = Inr (Fin (wrap_rat a))"
| "wrap_to_pi NaN = Inr NaN"
| "wrap_to_pi _ = Inl (Raised ValueError)"

definition normalize_single_joint_angle :: "json \<Rightarrow> string \<Rightarrow> json \<Rightarrow> adapter_exn + pyfloat" where
  "normalize_single_joint_angle v field unit =
     ebind (numeric v field) (\<lambda>x. ebind (convert_angular x unit field) wrap_to_pi)"

subsection \<open>Poses and joints\<close>

type_synonym quaternion = "pyfloat \<times> pyfloat \<times> pyfloat \<times> pyfloat"

definition rpy_to_quaternion ::
  "float_lib \<Rightarrow> pyfloat \<Rightarrow> pyfloat \<Rightarrow> pyfloat \<Rightarrow> adapter_exn + quaternion" where
  "rpy_to_quaternion F roll pitch yaw =
     (let c = (\<lambda>x. math_trig (lib_cos F) (fmul x (Fin (1 / 2))));
          s = (\<lambda>x. math_trig (lib_sin F) (fmul x (Fin (1 / 2)))) in
      ebind (c yaw) (\<lambda>cy. ebind (s yaw) (\<lambda>sy. ebind (c pitch) (\<lambda>cp. ebind (s pitch) (\<lambda>sp.
      ebind (c roll) (\<lambda>cr. ebind (s roll) (\<lambda>sr.
      Inr (fsub (fmul (fmul sr cp) cy) (fmul (fmul cr sp) sy),
           fadd (fmul (fmul cr sp) cy) (fmul (fmul sr cp) sy),
           fsub (fmul (fmul cr cp) sy) (fmul (fmul sr sp) cy),
           fadd (fmul (fmul cr cp) cy) (fmul (fmul sr sp) sy)))))))))"

definition normalize_orientation :: "float_lib \<Rightarrow> dict \<Rightarrow> json \<Rightarrow> adapter_exn + quaternion" where
  "normalize_orientation F d unit =
     (let has = list_all (\<lambda>k. dget d k \<noteq> None);
          f = (\<lambda>k. numeric (get_or d k JNull) (''target_pose.orientation.'' @ k));
          angle = (\<lambda>k x. convert_angular x unit (''orientation.'' @ k)) in
      if has [''x'', ''y'', ''z'', ''w'']
      then ebind (f ''x'') (\<lambda>x. ebind (f ''y'') (\<lambda>y. ebind (f ''z'') (\<lambda>z. ebind (f ''w'') (\<lambda>w.
        Inr (x, y, z, w)))))
      else if has [''roll'', ''pitch'', ''yaw'']
      then ebind (f ''roll'') (\<lambda>r. ebind (f ''pitch'') (\<lambda>p. ebind (f ''yaw'') (\<lambda>y.
        ebind (angle ''roll'' r) (\<lambda>r. ebind (angle ''pitch'' p) (\<lambda>p. ebind (angle ''yaw'' y) (\<lambda>y.
        rpy_to_quaternion F r p y))))))
      else Inl (Refused ''target_pose.orientation must provide x/y/z/w or roll/pitch/yaw.''))"

text \<open>A missing orientation, and a null one, become the zero quaternion: the sentinel that keeps the
  current orientation of the tool.\<close>

definition zero_orientation :: dict where
  "zero_orientation = map (\<lambda>k. (k, JFloat (Fin 0))) [''x'', ''y'', ''z'', ''w'']"

definition normalize_pose :: "float_lib \<Rightarrow> json \<Rightarrow> json \<Rightarrow> json \<Rightarrow> adapter_exn + pose_msg" where
  "normalize_pose F v lin ang =
     (case v of JObj d \<Rightarrow>
       (case get_or d ''position'' JNull of JObj p \<Rightarrow>
         (let orientation = get_or d ''orientation'' JNull;
              coord = (\<lambda>k. numeric (get_or p k JNull) (''target_pose.position.'' @ k));
              metres = (\<lambda>k x. convert_linear x lin (''target_pose.position.'' @ k)) in
          case (if orientation = JNull then JObj zero_orientation else orientation) of JObj q \<Rightarrow>
            ebind (coord ''x'') (\<lambda>x. ebind (coord ''y'') (\<lambda>y. ebind (coord ''z'') (\<lambda>z.
            ebind (metres ''x'' x) (\<lambda>x. ebind (metres ''y'' y) (\<lambda>y. ebind (metres ''z'' z) (\<lambda>z.
            ebind (normalize_orientation F q ang) (\<lambda>(a, b, c, w).
            Inr \<lparr>px = x, py = y, pz = z, ox = a, oy = b, oz = c, ow = w\<rparr>)))))))
          | _ \<Rightarrow> Inl (Refused ''target_pose.orientation must be an object.''))
       | _ \<Rightarrow> Inl (Refused ''target_pose.position must be an object.''))
     | _ \<Rightarrow> Inl (Refused ''target_pose must be an object.''))"

definition normalize_joints :: "json \<Rightarrow> json \<Rightarrow> adapter_exn + pyfloat list" where
  "normalize_joints v unit = (case v of
     JList js \<Rightarrow>
       ebind (map_each (\<lambda>j. numeric j ''joint_target'') js) (\<lambda>xs.
       ebind (map_each (\<lambda>x. convert_angular x unit ''joint_target'') xs) (map_each wrap_to_pi))
   | _ \<Rightarrow> Inl (Refused ''joint_target must be a list.''))"

text \<open>The cross product, and the rotation of a tool-relative delta by the orientation of the current
  pose.\<close>

type_synonym vec3 = "pyfloat \<times> pyfloat \<times> pyfloat"

fun cross3 :: "vec3 \<Rightarrow> vec3 \<Rightarrow> vec3" where
  "cross3 (a, b, c) (x, y, z) =
     (fsub (fmul b z) (fmul c y), fsub (fmul c x) (fmul a z), fsub (fmul a y) (fmul b x))"

text \<open>Division by a finite positive number, the only one the callers divide by.\<close>

fun fdiv_pos :: "pyfloat \<Rightarrow> pyfloat \<Rightarrow> pyfloat" where
  "fdiv_pos x (Fin n) = fmul x (Fin (1 / n))"
| "fdiv_pos x _ = NaN"

definition rotate_by :: "quaternion \<Rightarrow> vec3 \<Rightarrow> vec3" where
  "rotate_by q v = (case (q, v) of ((qx, qy, qz, qw), (vx, vy, vz)) \<Rightarrow>
     (case cross3 (qx, qy, qz) (vx, vy, vz) of (cx, cy, cz) \<Rightarrow>
     (case cross3 (qx, qy, qz) (fadd cx (fmul qw vx), fadd cy (fmul qw vy), fadd cz (fmul qw vz)) of
        (ax, ay, az) \<Rightarrow>
          (fadd vx (fmul (Fin 2) ax), fadd vy (fmul (Fin 2) ay), fadd vz (fmul (Fin 2) az)))))"

definition rotate_tool_delta_to_base :: "float_lib \<Rightarrow> json \<Rightarrow> dict \<Rightarrow> adapter_exn + vec3" where
  "rotate_tool_delta_to_base F delta current = (case delta of
     JObj d \<Rightarrow> (case get_or current ''orientation'' JNull of JObj q \<Rightarrow>
       (let f = (\<lambda>d k x. raised (to_float (get_or d k (JFloat (Fin x))))) in
        ebind (f d ''x'' 0) (\<lambda>vx. ebind (f d ''y'' 0) (\<lambda>vy. ebind (f d ''z'' 0) (\<lambda>vz.
        ebind (f q ''x'' 0) (\<lambda>qx. ebind (f q ''y'' 0) (\<lambda>qy. ebind (f q ''z'' 0) (\<lambda>qz. ebind (f q ''w'' 1) (\<lambda>qw.
        let norm = root_of F (fadd (fadd (fadd (fmul qx qx) (fmul qy qy)) (fmul qz qz)) (fmul qw qw)) in
        if \<not> isfinite norm \<or> fle norm (Fin (1 / 10 ^ 9))
        then Inl (Refused ''current pose orientation quaternion is invalid'')
        else Inr (rotate_by (fdiv_pos qx norm, fdiv_pos qy norm, fdiv_pos qz norm, fdiv_pos qw norm)
          (vx, vy, vz))))))))))
     | _ \<Rightarrow> Inl (Refused ''current pose is missing orientation''))
   | _ \<Rightarrow> Inl (Refused ''tool-relative move requires a delta object''))"

subsection \<open>A normalised command\<close>

text \<open>A value of a normalised command: a decoded value, a pose, a list of poses or the normalised
  steps of a sequence.\<close>

datatype nval =
    Plain json
  | PoseV pose_msg
  | PosesV "pose_msg list"
  | StepsV "(string \<times> nval) list list"

type_synonym ndict = "(string \<times> nval) list"

definition nget :: "ndict \<Rightarrow> string \<Rightarrow> nval" where
  "nget d k = (case map_of d k of None \<Rightarrow> Plain JNull | Some v \<Rightarrow> v)"

definition has_key :: "ndict \<Rightarrow> string \<Rightarrow> bool" where
  "has_key d k \<longleftrightarrow> map_of d k \<noteq> None"

text \<open>\<open>d.setdefault(k, v)\<close>, \<open>d.pop(k, None)\<close>.\<close>

definition setdefault :: "string \<Rightarrow> nval \<Rightarrow> ndict \<Rightarrow> ndict" where
  "setdefault k v d = (if has_key d k then d else d @ [(k, v)])"

definition pop_key :: "string \<Rightarrow> ndict \<Rightarrow> ndict" where
  "pop_key k d = filter (\<lambda>(a, _). a \<noteq> k) d"

text \<open>\<open>if k in d: d[k] = f(d[k])\<close> for a value that was in the command as received.\<close>

definition update_at :: "string \<Rightarrow> (json \<Rightarrow> adapter_exn + nval) \<Rightarrow> ndict \<Rightarrow> adapter_exn + ndict" where
  "update_at k f d = (case map_of d k of
     Some (Plain v) \<Rightarrow> ebind (f v) (\<lambda>w. Inr (dict_set k w d))
   | _ \<Rightarrow> Inr d)"

record normalizer =
  n_velocity_scale :: pyfloat
  n_acceleration_scale :: pyfloat

definition planner_defaults :: "(string \<times> string) list" where
  "planner_defaults =
     [(''LIN'', ''PILZ_LIN''), (''PTP'', ''PILZ_PTP''), (''CIRC'', ''PILZ_CIRC''),
      (''CARTESIAN_PATH'', ''PILZ_LIN''), (''BLENDED_SEQUENCE'', ''PILZ_LIN''), (''HOME'', ''PILZ_PTP''),
      (''MOVE_REL'', ''PILZ_LIN''), (''MOVE_JOINT'', ''PILZ_PTP''), (''MOVE_JOINTS'', ''PILZ_PTP'')]"

text \<open>\<open>_PLANNER_DEFAULTS.get(p, default)\<close>: a list or a dict cannot be hashed.\<close>

fun planner_for :: "json \<Rightarrow> string \<Rightarrow> adapter_exn + string" where
  "planner_for (JStr p) dflt = Inr (case map_of planner_defaults p of None \<Rightarrow> dflt | Some x \<Rightarrow> x)"
| "planner_for (JList _) dflt = Inl (Raised TypeError)"
| "planner_for (JObj _) dflt = Inl (Raised TypeError)"
| "planner_for _ dflt = Inr dflt"

definition non_motion_primitives :: "string list" where
  "non_motion_primitives = [''ALARM_RESET'', ''STOP'', ''WAIT'', ''IO_SET'', ''GET_POSE'', ''MACRO'']"

definition linear_units :: "string list" where "linear_units = [''m'', ''cm'', ''mm'']"
definition angular_units :: "string list" where "angular_units = [''rad'', ''deg'']"

definition check_unit :: "json \<Rightarrow> string list \<Rightarrow> string \<Rightarrow> adapter_exn + unit" where
  "check_unit v units what =
     (if v = JNull then Inr ()
      else ebind (raised (in_names v units)) (\<lambda>ok.
        if ok then Inr () else Inl (Refused (''Unsupported '' @ what))))"

text \<open>\<open>dict(step)\<close> of a step: an object is copied, an empty list or text gives an empty dict, anything else
  raises.  (A list of pairs, which \<open>dict\<close> would take, does not pass the schema and is not modelled.)\<close>

fun step_dict :: "json \<Rightarrow> adapter_exn + dict" where
  "step_dict (JObj d) = Inr d"
| "step_dict (JList []) = Inr []"
| "step_dict (JStr []) = Inr []"
| "step_dict (JStr _) = Inl (Raised ValueError)"
| "step_dict _ = Inl (Raised TypeError)"

definition plain_dict :: "dict \<Rightarrow> ndict" where
  "plain_dict d = map (\<lambda>(k, v). (k, Plain v)) d"

definition motion_defaults :: "normalizer \<Rightarrow> json \<Rightarrow> string \<Rightarrow> ndict \<Rightarrow> adapter_exn + ndict" where
  "motion_defaults N prim dflt d =
     (let d = setdefault ''velocity_scale'' (Plain (JFloat (n_velocity_scale N))) d;
          d = setdefault ''acceleration_scale'' (Plain (JFloat (n_acceleration_scale N))) d in
      ebind (planner_for prim dflt) (\<lambda>p. Inr (setdefault ''planner_id'' (Plain (JStr p)) d)))"

definition set_pose :: "float_lib \<Rightarrow> json \<Rightarrow> json \<Rightarrow> ndict \<Rightarrow> adapter_exn + ndict" where
  "set_pose F lin ang d = (case map_of d ''target_pose'' of
     Some (Plain v) \<Rightarrow> ebind (normalize_pose F v lin ang) (\<lambda>p.
       Inr (dict_set ''target_pose_msg'' (PoseV p) d))
   | _ \<Rightarrow> Inr d)"

definition normalize_step ::
  "float_lib \<Rightarrow> normalizer \<Rightarrow> json \<Rightarrow> json \<Rightarrow> json \<Rightarrow> adapter_exn + ndict" where
  "normalize_step F N lin ang step =
     ebind (step_dict step) (\<lambda>d.
     ebind (set_pose F lin ang (plain_dict d)) (\<lambda>ns.
     motion_defaults N (get_or d ''primitive_type'' (JStr ''LIN'')) ''PILZ_LIN'' ns))"

definition set_waypoints :: "float_lib \<Rightarrow> json \<Rightarrow> json \<Rightarrow> ndict \<Rightarrow> adapter_exn + ndict" where
  "set_waypoints F lin ang d = (case map_of d ''waypoints'' of
     Some (Plain v) \<Rightarrow> ebind (raised (jiter v)) (\<lambda>ws.
       ebind (map_each (\<lambda>w. normalize_pose F w lin ang) ws) (\<lambda>ps.
       Inr (dict_set ''waypoints_msg'' (PosesV ps) d)))
   | _ \<Rightarrow> Inr d)"

definition set_steps :: "float_lib \<Rightarrow> normalizer \<Rightarrow> json \<Rightarrow> json \<Rightarrow> ndict \<Rightarrow> adapter_exn + ndict" where
  "set_steps F N lin ang = update_at ''sequence_steps'' (\<lambda>v.
     ebind (raised (jiter v)) (\<lambda>ss.
     ebind (map_each (normalize_step F N lin ang) ss) (\<lambda>ns. Inr (StepsV ns))))"

text \<open>\<open>CIRC\<close> has exactly one auxiliary waypoint.\<close>

fun one_waypoint :: "nval option \<Rightarrow> adapter_exn + unit" where
  "one_waypoint None = Inl (Refused ''CIRC requires waypoints.'')"
| "one_waypoint (Some (Plain (JList ws))) =
     (if length ws = 1 then Inr () else Inl (Refused ''CIRC requires exactly 1 auxiliary waypoint.''))"
| "one_waypoint _ = Inl (Refused ''CIRC waypoints must be a list.'')"

definition circ_fields :: "float_lib \<Rightarrow> json \<Rightarrow> json \<Rightarrow> ndict \<Rightarrow> adapter_exn + ndict" where
  "circ_fields F lin ang d =
     (if \<not> has_key d ''target_pose'' then Inl (Refused ''CIRC requires target_pose.'')
      else ebind (set_pose F lin ang d) (\<lambda>d.
        ebind (one_waypoint (map_of d ''waypoints'')) (\<lambda>_. set_waypoints F lin ang d)))"

definition relative_fields :: "json \<Rightarrow> ndict \<Rightarrow> adapter_exn + ndict" where
  "relative_fields lin d =
     (let metres = (\<lambda>k. update_at k (\<lambda>v. ebind (numeric v k) (\<lambda>x.
            ebind (convert_linear x lin k) (\<lambda>y. Inr (Plain (JFloat y)))))) in
      ebind (metres ''delta_x'' d) (\<lambda>d. ebind (metres ''delta_y'' d) (\<lambda>d. ebind (metres ''delta_z'' d) (\<lambda>d.
      Inr (setdefault ''reference_frame'' (Plain (JStr ''base_link'')) d)))))"

text \<open>The fields of the primitives that bypass the planner, and the two of \<open>MOVE_JOINT\<close>.\<close>

definition scalar_fields :: "json \<Rightarrow> json \<Rightarrow> ndict \<Rightarrow> adapter_exn + ndict" where
  "scalar_fields prim ang d =
     (let flt_at = (\<lambda>k. update_at k (\<lambda>v. ebind (raised (to_float v)) (\<lambda>x. Inr (Plain (JFloat x)))));
          int_at = (\<lambda>k. update_at k (\<lambda>v. ebind (raised (to_int v)) (\<lambda>i. Inr (Plain (JInt i))))) in
      ebind (if is_str prim ''WAIT'' then flt_at ''wait_duration_sec'' d else Inr d) (\<lambda>d.
      ebind (if is_str prim ''IO_SET'' then ebind (int_at ''io_address'' d) (int_at ''io_value'') else Inr d) (\<lambda>d.
      if is_str prim ''MOVE_JOINT''
      then ebind (int_at ''joint_index'' d) (update_at ''joint_angle'' (\<lambda>v.
        ebind (normalize_single_joint_angle v ''joint_angle'' ang) (\<lambda>x. Inr (Plain (JFloat x)))))
      else Inr d)))"

definition motion_fields ::
  "float_lib \<Rightarrow> normalizer \<Rightarrow> json \<Rightarrow> json \<Rightarrow> json \<Rightarrow> ndict \<Rightarrow> adapter_exn + ndict" where
  "motion_fields F N prim lin ang d =
     ebind (set_pose F lin ang d) (\<lambda>d.
     ebind (update_at ''joint_target'' (\<lambda>v. ebind (normalize_joints v ang) (\<lambda>xs.
              Inr (Plain (JList (map JFloat xs))))) d) (\<lambda>d.
     ebind (if is_str prim ''CARTESIAN_PATH'' then set_waypoints F lin ang d else Inr d) (\<lambda>d.
     ebind (if is_str prim ''BLENDED_SEQUENCE'' then set_steps F N lin ang d else Inr d) (\<lambda>d.
     ebind (if is_str prim ''CIRC'' then circ_fields F lin ang d else Inr d) (\<lambda>d.
     ebind (if is_str prim ''MOVE_REL'' then relative_fields lin d else Inr d)
       (motion_defaults N prim ''OMPL_RRTConnect''))))))"

definition normalize_cmd :: "float_lib \<Rightarrow> normalizer \<Rightarrow> json \<Rightarrow> adapter_exn + ndict" where
  "normalize_cmd F N command = (case command of
     JObj c \<Rightarrow> (case dget c ''primitive_type'' of
       None \<Rightarrow> Inl (Refused ''Missing required field: primitive_type.'')
     | Some prim \<Rightarrow>
        (let lin = get_or c ''linear_unit'' JNull; ang = get_or c ''angular_unit'' JNull in
         ebind (update_at ''plan_only'' (\<lambda>v. Inr (Plain (JBool (truthy v)))) (plain_dict c)) (\<lambda>d.
         let d = pop_key ''angular_unit'' (pop_key ''linear_unit'' d) in
         ebind (check_unit lin linear_units ''linear_unit'') (\<lambda>_.
         ebind (check_unit ang angular_units ''angular_unit'') (\<lambda>_.
         ebind (scalar_fields prim ang d) (\<lambda>d.
         ebind (raised (in_names prim non_motion_primitives)) (\<lambda>bypass.
         if bypass then Inr (setdefault ''reference_frame'' (Plain (JStr ''base_link'')) d)
         else motion_fields F N prim lin ang d)))))))
   | _ \<Rightarrow> Inl (Refused ''command must be an object.''))"

end
