(* ===== verification/Intent_Router.thy ===== *)
theory Intent_Router
  imports Station_Graph Normalization
begin

section \<open>The intent router\<close>

text \<open>
  \<open>llm_gateway/intent_router.py\<close>: joint aliases, \<open>prepare_semantic_ir_for_routing\<close>, the canonical names
  of poses, and \<open>IntentRouter\<close>, which turns a semantic IR into primitive commands.  The joint targets of
  the named poses are read from the SRDF and are a field of the router, as is the router of drawings,
  \<open>DrawRouterMixin\<close>, which \<open>Drawing_Router\<close> models.  \<open>return_to_start\<close> gets its joints from
  \<open>_inject_return_to_start_joints\<close> of \<open>llm_gateway_node.py\<close>, which is here too.  Text is ASCII: the
  aliases with Vietnamese diacritics are left out of the table.
\<close>

subsection \<open>Joints\<close>

definition joint_aliases :: "(string \<times> nat) list" where
  "joint_aliases =
     [(''1'', 0), (''s'', 0), (''joint1'', 0), (''joint1s'', 0), (''joint_1_s'', 0),
      (''2'', 1), (''l'', 1), (''joint2'', 1), (''joint2l'', 1), (''joint_2_l'', 1),
      (''3'', 2), (''u'', 2), (''joint3'', 2), (''joint3u'', 2), (''joint_3_u'', 2),
      (''4'', 3), (''r'', 3), (''joint4'', 3), (''joint4r'', 3), (''joint_4_r'', 3),
      (''5'', 4), (''b'', 4), (''joint5'', 4), (''joint5b'', 4), (''joint_5_b'', 4),
      (''6'', 5), (''t'', 5), (''joint6'', 5), (''joint6t'', 5), (''joint_6_t'', 5)]"

definition is_alnum :: "char \<Rightarrow> bool" where
  "is_alnum c \<longleftrightarrow> is_digit c \<or> (let n = of_char c :: nat in 97 \<le> n \<and> n \<le> 122 \<or> 65 \<le> n \<and> n \<le> 90)"

definition joint_alias_key :: "string \<Rightarrow> string" where
  "joint_alias_key s = filter is_alnum (lower (strip s))"

definition joint_by_number :: "int \<Rightarrow> adapter_exn + nat" where
  "joint_by_number i =
     (if 0 \<le> i \<and> i < 6 then Inr (nat i)
      else if 1 \<le> i \<and> i \<le> 6 then Inr (nat (i - 1))
      else Inl (Refused ''joint_index out of range [0, 5]''))"

definition joint_by_alias :: "json \<Rightarrow> adapter_exn + nat" where
  "joint_by_alias v =
     (let text = lower (strip (to_str (or_empty v))) in
      case map_of joint_aliases text of Some i \<Rightarrow> Inr i
      | None \<Rightarrow> (case map_of joint_aliases (joint_alias_key text) of Some i \<Rightarrow> Inr i
      | None \<Rightarrow> Inl (Refused ''unknown GP4 joint alias'')))"

text \<open>A boolean is an integer; a float with an integral value is read as one.\<close>

fun resolve_joint_index :: "json \<Rightarrow> adapter_exn + nat" where
  "resolve_joint_index (JInt i) = joint_by_number i"
| "resolve_joint_index (JBool b) = joint_by_number (if b then 1 else 0)"
| "resolve_joint_index (JFloat (Fin r)) =
     (if of_int \<lfloor>r\<rfloor> = r then joint_by_number \<lfloor>r\<rfloor> else joint_by_alias (JFloat (Fin r)))"
| "resolve_joint_index v = joint_by_alias v"

text \<open>The joint state the gateway has: the positions in order of the last message and by name.\<close>

record joint_state =
  js_positions :: "pyfloat list"
  js_by_name :: "(string \<times> pyfloat) list"

definition joints_for_delta :: "joint_state \<Rightarrow> adapter_exn + pyfloat list" where
  "joints_for_delta J =
     (if list_all (\<lambda>n. map_of (js_by_name J) n \<noteq> None) gp4_joint_names
      then Inr (map (\<lambda>n. the (map_of (js_by_name J) n)) gp4_joint_names)
      else if 6 \<le> length (js_positions J) then Inr (take 6 (js_positions J))
      else Inl (Refused ''current joint positions unavailable for relative joint move''))"

text \<open>\<open>_state_joint_state_callback\<close>: the positions of a message, in the order of the joint names when it
  names all of them.  A name without a position is not in the map; of equal names the last counts.\<close>

definition on_gateway_joint_state :: "string list \<Rightarrow> pyfloat list \<Rightarrow> joint_state" where
  "on_gateway_joint_state names xs =
     (let by_name = fold (\<lambda>(n, x). dict_set n x) (zip names xs) [] in
      \<lparr>js_positions = (if list_all (\<lambda>n. map_of by_name n \<noteq> None) gp4_joint_names
          then map (\<lambda>n. the (map_of by_name n)) gp4_joint_names else xs),
       js_by_name = by_name\<rparr>)"

subsection \<open>Relative joint moves\<close>

definition drop_keys :: "string list \<Rightarrow> obj \<Rightarrow> obj" where
  "drop_keys ks d = filter (\<lambda>(k, _). k \<notin> set ks) d"

definition raw_joint :: "obj \<Rightarrow> json" where
  "raw_joint d =
     (if dget d ''joint_index'' \<noteq> None then value_at d ''joint_index''
      else if dget d ''joint_name'' \<noteq> None then value_at d ''joint_name''
      else if dget d ''joint'' \<noteq> None then value_at d ''joint'' else value_at d ''axis'')"

definition resolve_joint_delta :: "joint_state \<Rightarrow> obj \<Rightarrow> adapter_exn + obj" where
  "resolve_joint_delta J d =
     ebind (joints_for_delta J) (\<lambda>positions.
     ebind (resolve_joint_index (raw_joint d)) (\<lambda>i.
     case dget d ''delta_angle'' of
       None \<Rightarrow> Inl (Refused ''move_joint_delta requires delta_angle'')
     | Some v \<Rightarrow>
         ebind (numeric v ''delta_angle'') (\<lambda>x.
         ebind (convert_angular x (value_at d ''angular_unit'') ''delta_angle'') (\<lambda>delta.
         Inr (drop_keys [''delta_angle'', ''joint'', ''joint_name'', ''axis'']
           (dict_set ''angular_unit'' (JStr ''rad'')
           (dict_set ''joint_angle'' (JFloat (fadd (positions ! i) delta))
           (dict_set ''joint_index'' (JInt (int i))
           (dict_set ''intent'' (JStr ''move_joint'') d)))))))))"

text \<open>\<open>prepare_semantic_ir_for_routing\<close> on the object of an intent; the steps of a sequence in order.\<close>

lemma steps_smaller: "dget d ''steps'' = Some (JList ss) \<Longrightarrow> size_list size ss < size (JObj d)"
  using size_dget [of d "''steps''" "JList ss"] by simp

function prepare_ir :: "joint_state \<Rightarrow> json \<Rightarrow> adapter_exn + json"
  and prepare_steps :: "joint_state \<Rightarrow> json list \<Rightarrow> adapter_exn + json list" where
  "prepare_ir J v = (case v of
     JObj d \<Rightarrow>
       if intent_of d = ''sequence'' then
         (case dget d ''steps'' of
            Some (JList ss) \<Rightarrow> ebind (prepare_steps J ss) (\<lambda>ts. Inr (JObj (dict_set ''steps'' (JList ts) d)))
          | _ \<Rightarrow> Inr v)
       else if intent_of d \<noteq> ''move_joint_delta'' then Inr v
       else ebind (resolve_joint_delta J d) (\<lambda>e. Inr (JObj e))
   | _ \<Rightarrow> Inr v)"
| "prepare_steps J [] = Inr []"
| "prepare_steps J (s # ss) =
     ebind (prepare_ir J s) (\<lambda>t. ebind (prepare_steps J ss) (\<lambda>ts. Inr (t # ts)))"
  by pat_completeness auto
termination
  by (relation "measure (\<lambda>x. case x of Inl (_, v) \<Rightarrow> 2 * size v | Inr (_, vs) \<Rightarrow> 2 * size_list size vs + 1)")
    (auto dest: steps_smaller)

declare prepare_ir.simps [simp del]

text \<open>\<open>_inject_return_to_start_joints\<close>.\<close>

function inject_return_to_start :: "pyfloat list \<Rightarrow> json \<Rightarrow> json"
  and inject_steps :: "pyfloat list \<Rightarrow> json list \<Rightarrow> json list" where
  "inject_return_to_start js v = (case v of
     JObj d \<Rightarrow>
       if intent_of d = ''return_to_start'' \<and> dget d ''joint_target'' = None
       then (if js = [] then v else JObj (dict_set ''joint_target'' (JList (map JFloat js)) d))
       else if intent_of d = ''sequence'' then
         (case dget d ''steps'' of
            Some (JList ss) \<Rightarrow> JObj (dict_set ''steps'' (JList (inject_steps js ss)) d)
          | _ \<Rightarrow> v)
       else v
   | _ \<Rightarrow> v)"
| "inject_steps js [] = []"
| "inject_steps js (s # ss) = inject_return_to_start js s # inject_steps js ss"
  by pat_completeness auto
termination
  by (relation "measure (\<lambda>x. case x of Inl (_, v) \<Rightarrow> 2 * size v | Inr (_, vs) \<Rightarrow> 2 * size_list size vs + 1)")
    (auto dest: steps_smaller)

declare inject_return_to_start.simps [simp del]

subsection \<open>Named poses\<close>

definition named_pose_aliases :: "(string \<times> string) list" where
  "named_pose_aliases =
     [(''home'', ''home''), (''ready'', ''ready''), (''posea'', ''poseA''), (''poseb'', ''poseB''),
      (''pose a'', ''poseA''), (''pose b'', ''poseB''), (''a'', ''poseA''), (''b'', ''poseB''),
      (''first'', ''poseA''), (''first pose'', ''poseA''), (''the first pose'', ''poseA''),
      (''point a'', ''poseA''), (''point b'', ''poseB''), (''diem a'', ''poseA''), (''diem b'', ''poseB''),
      (''ve a'', ''poseA''), (''ve b'', ''poseB''), (''ve home'', ''home''), (''ve ready'', ''ready'')]"

definition canonicalize_named_pose :: "string \<Rightarrow> string list option \<Rightarrow> string option" where
  "canonicalize_named_pose raw available =
     (let stripped = strip raw; normalized = lower stripped;
          known = (\<lambda>n. case available of None \<Rightarrow> False | Some ns \<Rightarrow> n \<in> set ns) in
      if stripped = [] then None
      else if known stripped then Some stripped
      else if known normalized then Some normalized
      else map_of named_pose_aliases normalized)"

subsection \<open>The router\<close>

record route_result =
  rr_type :: string
  rr_commands :: "obj list"
  rr_error :: "obj option"
  rr_source :: string

record intent_router =
  ir_named_poses :: "(string \<times> pyfloat list) list"
  ir_station :: "obj option"
  ir_draw :: "string \<Rightarrow> obj \<Rightarrow> adapter_exn + route_result"

text \<open>\<open>payload.get(k, default)\<close> and the optional fields every motion takes from the payload.\<close>

definition value_or :: "obj \<Rightarrow> string \<Rightarrow> json \<Rightarrow> json" where
  "value_or d k dflt = (case dget d k of None \<Rightarrow> dflt | Some v \<Rightarrow> v)"

definition optional_motion_fields :: "obj \<Rightarrow> obj" where
  "optional_motion_fields d =
     concat (map (\<lambda>k. case dget d k of None \<Rightarrow> [] | Some v \<Rightarrow> [(k, v)])
       [''velocity_scale'', ''acceleration_scale'', ''planner_id'', ''linear_unit'', ''angular_unit''])"

definition base_command :: "string \<Rightarrow> obj \<Rightarrow> obj" where
  "base_command prim d = (''primitive_type'', JStr prim) # optional_motion_fields d"

definition validate_reference_frame :: "json \<Rightarrow> adapter_exn + unit" where
  "validate_reference_frame v =
     (if strip (to_str v) = ''base_link'' then Inr () else Inl (Refused ''unsupported reference_frame''))"

definition orientation_presets :: "(string \<times> json) list" where
  "orientation_presets =
     (let q = (\<lambda>x y z w. JObj [(''x'', JFloat (Fin x)), (''y'', JFloat (Fin y)), (''z'', JFloat (Fin z)),
                              (''w'', JFloat (Fin w))]) in
      [(''tool-down'', q 0 1 0 0), (''tool-forward'', q 0 (707/1000) 0 (707/1000)), (''tool-up'', q 1 0 0 0)])"

definition orientation_from_preset :: "json \<Rightarrow> adapter_exn + json" where
  "orientation_from_preset v =
     (case map_of orientation_presets (map (\<lambda>c. if c = CHR ''_'' then CHR ''-'' else c) (lower (strip (to_str v)))) of
        Some q \<Rightarrow> Inr q | None \<Rightarrow> Inl (Refused ''unsupported orientation_preset''))"

text \<open>\<open>v in (None, True, False)\<close>: the numbers 0 and 1 are equal to the booleans.\<close>

definition none_or_bool :: "json \<Rightarrow> bool" where
  "none_or_bool v \<longleftrightarrow> v = JNull \<or> num v = Inr (Fin 0) \<or> num v = Inr (Fin 1)"

definition resolve_target_pose :: "obj \<Rightarrow> json \<Rightarrow> json \<Rightarrow> adapter_exn + obj" where
  "resolve_target_pose target preset keep =
     (if \<not> is_dict (value_at target ''position'')
      then Inl (Refused ''target_pose.position must be an object.'')
      else if dget target ''orientation'' \<noteq> None \<and> preset \<noteq> JNull
      then Inl (Refused ''Provide either target_pose.orientation or orientation_preset, not both.'')
      else if dget target ''orientation'' \<noteq> None then Inr target
      else if preset \<noteq> JNull
      then ebind (orientation_from_preset preset) (\<lambda>q. Inr (dict_set ''orientation'' q target))
      else if \<not> none_or_bool keep
      then Inl (Refused ''keep_current_orientation must be a boolean when provided.'')
      else if keep = JBool False
      then Inl (Refused ''Explicit orientation is required when keep_current_orientation is false.'')
      else Inr target)"

definition resolve_pose_at :: "obj \<Rightarrow> obj \<Rightarrow> adapter_exn + obj" where
  "resolve_pose_at d target =
     resolve_target_pose target (value_at d ''orientation_preset'') (value_at d ''keep_current_orientation'')"

definition framed :: "obj \<Rightarrow> (json \<Rightarrow> adapter_exn + obj) \<Rightarrow> adapter_exn + obj" where
  "framed d f = (let frame = value_or d ''reference_frame'' (JStr ''base_link'') in
     ebind (validate_reference_frame frame) (\<lambda>_. f frame))"

definition route_absolute_move :: "obj \<Rightarrow> string \<Rightarrow> adapter_exn + obj" where
  "route_absolute_move d prim = (case value_at d ''target_pose'' of
     JObj target \<Rightarrow> framed d (\<lambda>frame. ebind (resolve_pose_at d target) (\<lambda>pose.
       Inr (dict_set ''target_pose'' (JObj pose) (dict_set ''reference_frame'' frame (base_command prim d)))))
   | _ \<Rightarrow> Inl (Refused ''target_pose is required.''))"

definition route_circular_move :: "obj \<Rightarrow> adapter_exn + obj" where
  "route_circular_move d = (case value_at d ''target_pose'' of
     JObj target \<Rightarrow> (case value_at d ''auxiliary_pose'' of
       JObj aux \<Rightarrow> framed d (\<lambda>frame.
         ebind (resolve_pose_at d target) (\<lambda>goal. ebind (resolve_pose_at d aux) (\<lambda>via.
         Inr (base_command ''CIRC'' d @ [(''reference_frame'', frame), (''target_pose'', JObj goal),
           (''waypoints'', JList [JObj via])]))))
     | _ \<Rightarrow> Inl (Refused ''circular_move requires auxiliary_pose (arc via-point).''))
   | _ \<Rightarrow> Inl (Refused ''circular_move requires target_pose.''))"

definition float_of :: "obj \<Rightarrow> string \<Rightarrow> rat \<Rightarrow> adapter_exn + json" where
  "float_of d k dflt = ebind (raised (to_float (value_or d k (JFloat (Fin dflt))))) (\<lambda>x. Inr (JFloat x))"

definition route_move_relative :: "obj \<Rightarrow> adapter_exn + obj" where
  "route_move_relative d = (case value_at d ''delta'' of
     JObj delta \<Rightarrow> framed d (\<lambda>frame.
       ebind (float_of delta ''x'' 0) (\<lambda>x. ebind (float_of delta ''y'' 0) (\<lambda>y. ebind (float_of delta ''z'' 0) (\<lambda>z.
       Inr ([(''primitive_type'', JStr ''MOVE_REL''), (''delta_x'', x), (''delta_y'', y), (''delta_z'', z),
         (''reference_frame'', frame)] @ optional_motion_fields d)))))
   | _ \<Rightarrow> Inl (Refused ''relative move requires direction and distance.''))"

definition required :: "obj \<Rightarrow> string \<Rightarrow> string \<Rightarrow> adapter_exn + json" where
  "required d k what = (case dget d k of None \<Rightarrow> Inl (Refused (what @ '' requires '' @ k @ ''.'')) | Some v \<Rightarrow> Inr v)"

definition route_move_joint :: "obj \<Rightarrow> adapter_exn + obj" where
  "route_move_joint d =
     ebind (required d ''joint_index'' ''move_joint'') (\<lambda>i.
     ebind (required d ''joint_angle'' ''move_joint'') (\<lambda>a.
     ebind (raised (to_int i)) (\<lambda>i. ebind (raised (to_float a)) (\<lambda>a.
     Inr ([(''primitive_type'', JStr ''MOVE_JOINT''), (''joint_index'', JInt i), (''joint_angle'', JFloat a)]
       @ optional_motion_fields d)))))"

definition joints_command :: "json list \<Rightarrow> obj \<Rightarrow> adapter_exn + obj" where
  "joints_command js d =
     ebind (map_each (\<lambda>j. raised (to_float j)) js) (\<lambda>xs.
     Inr ([(''primitive_type'', JStr ''MOVE_JOINTS''), (''joint_target'', JList (map JFloat xs))]
       @ optional_motion_fields d))"

definition route_move_joints :: "obj \<Rightarrow> adapter_exn + obj" where
  "route_move_joints d = (case value_at d ''joint_target'' of
     JList js \<Rightarrow> joints_command js d | _ \<Rightarrow> Inl (Refused ''move_joints requires joint_target.''))"

definition route_return_to_start :: "obj \<Rightarrow> adapter_exn + obj" where
  "route_return_to_start d = (case value_at d ''joint_target'' of
     JList js \<Rightarrow> if length js = 6 then joints_command js d
                else Inl (Refused ''return_to_start requires a captured joint_target.'')
   | _ \<Rightarrow> Inl (Refused ''return_to_start requires a captured joint_target.''))"

text \<open>\<open>str(command.get("planner_id") or "PILZ_PTP")\<close>.\<close>

definition planner_or :: "obj \<Rightarrow> json" where
  "planner_or c = (let v = value_at c ''planner_id'' in JStr (if truthy v then to_str v else ''PILZ_PTP''))"

text \<open>The pose above a region of the station: its centre, half its height and 10 cm.\<close>

definition region_command :: "obj \<Rightarrow> json \<Rightarrow> adapter_exn + obj" where
  "region_command d region =
     (let get = (\<lambda>v k dflt. raised (jget v k dflt)); empty = JObj [];
          coord = (\<lambda>v k. ebind (raised (jget v k (JFloat (Fin 0)))) (\<lambda>w. raised (to_float w))) in
      ebind (get region ''geometry'' empty) (\<lambda>geo. ebind (get geo ''center'' empty) (\<lambda>center.
      ebind (get region ''geometry'' empty) (\<lambda>geo. ebind (get geo ''size'' empty) (\<lambda>size.
      ebind (coord center ''z'') (\<lambda>cz. ebind (coord size ''z'') (\<lambda>sz.
      ebind (get region ''frame_id'' (JStr ''base_link'')) (\<lambda>frame.
      ebind (coord center ''x'') (\<lambda>x. ebind (coord center ''y'') (\<lambda>y.
      ebind (resolve_target_pose [(''position'', JObj [(''x'', JFloat x), (''y'', JFloat y),
          (''z'', JFloat (fadd (fadd cz (fhalf sz)) (Fin (10/100))))])] (JStr ''tool-down'') (JBool False)) (\<lambda>pose.
      let c = dict_set ''target_pose'' (JObj pose) (dict_set ''reference_frame'' (JStr (to_str frame)) (base_command ''PTP'' d)) in
      Inr (dict_set ''planner_id'' (planner_or c) c))))))))))))"

definition pose_query :: "obj \<Rightarrow> string" where
  "pose_query d = strip (to_str (if truthy (value_at d ''pose_name'') then value_at d ''pose_name''
     else or_empty (value_at d ''name'')))"

definition route_named_pose :: "intent_router \<Rightarrow> obj \<Rightarrow> adapter_exn + obj" where
  "route_named_pose R d =
     (let raw = pose_query d; poses = ir_named_poses R; unknown = Inl (Refused ''unknown named pose or region'') in
      if raw = [] then Inl (Refused ''move_named_pose requires pose_name.'')
      else case Option.bind (canonicalize_named_pose raw (Some (map fst poses))) (map_of poses) of
        Some joints \<Rightarrow>
          (let c = dict_set ''joint_target'' (JList (map JFloat joints)) (base_command ''PTP'' d);
               c = dict_set ''planner_id'' (planner_or c) c in
           Inr (dict_set ''reference_frame'' (JStr ''base_link'') c))
      | None \<Rightarrow> (case ir_station R of
            None \<Rightarrow> unknown
          | Some m \<Rightarrow> ebind (raised (resolve_region (scene_graph_init m) raw)) (\<lambda>r.
              if rs_ok r \<and> is_dict (rs_payload r) then region_command d (rs_payload r) else unknown)))"

definition route_single_intent :: "intent_router \<Rightarrow> obj \<Rightarrow> adapter_exn + obj" where
  "route_single_intent R d =
     (let intent = to_str (value_at d ''intent''); prim = (\<lambda>p. (''primitive_type'', JStr p)) in
      if intent = ''go_home'' then Inr (base_command ''HOME'' d)
      else if intent = ''absolute_move_ptp'' then route_absolute_move d ''PTP''
      else if intent = ''move_named_pose'' then route_named_pose R d
      else if intent = ''absolute_move_lin'' then route_absolute_move d ''LIN''
      else if intent = ''move_relative'' then route_move_relative d
      else if intent = ''move_joint'' then route_move_joint d
      else if intent = ''move_joint_delta''
      then Inl (Refused ''move_joint_delta must be resolved to move_joint before routing'')
      else if intent = ''move_joints'' then route_move_joints d
      else if intent = ''set_speed''
      then ebind (required d ''velocity_scale'' ''set_speed'') (\<lambda>v. ebind (raised (to_float v)) (\<lambda>x.
        Inr [prim ''SET_SPEED'', (''velocity_scale'', JFloat x)]))
      else if intent = ''wait''
      then (let v = value_at d ''wait_duration_sec'' in
        ebind (raised (to_float (if v = JNull then JFloat (Fin 2) else v))) (\<lambda>x.
        Inr [prim ''WAIT'', (''wait_duration_sec'', JFloat x)]))
      else if intent = ''stop'' then Inr [prim ''STOP'']
      else if intent = ''io_set''
      then ebind (required d ''io_address'' ''io_set'') (\<lambda>a. ebind (required d ''io_value'' ''io_set'') (\<lambda>v.
        ebind (raised (to_int a)) (\<lambda>a. ebind (raised (to_int v)) (\<lambda>v.
        Inr [prim ''IO_SET'', (''io_address'', JInt a), (''io_value'', JInt v)]))))
      else if intent = ''alarm_reset'' then Inr [prim ''ALARM_RESET'']
      else if intent = ''get_pose''
      then framed d (\<lambda>frame. Inr [prim ''GET_POSE'', (''reference_frame'', frame)])
      else if intent = ''return_to_start'' then route_return_to_start d
      else if intent = ''circular_move'' then route_circular_move d
      else Inl (Refused ''unsupported semantic intent''))"

definition route_error :: "obj \<Rightarrow> route_result" where
  "route_error d = \<lparr>rr_type = ''error'', rr_commands = [], rr_error = Some d, rr_source = ''error_passthrough''\<rparr>"

definition primitive_route :: "string \<Rightarrow> obj \<Rightarrow> route_result" where
  "primitive_route source c =
     \<lparr>rr_type = ''primitive'', rr_commands = [c], rr_error = None, rr_source = source\<rparr>"

text \<open>\<open>route\<close> and \<open>_route_sequence\<close>; the steps may be sequences again.\<close>

function route :: "intent_router \<Rightarrow> json \<Rightarrow> adapter_exn + route_result"
  and route_steps :: "intent_router \<Rightarrow> nat \<Rightarrow> json list \<Rightarrow> adapter_exn + obj list" where
  "route R v = (case v of
     JObj d \<Rightarrow>
       if dget d ''primitive_type'' \<noteq> None then Inr (primitive_route ''primitive_passthrough'' d)
       else if dget d ''error'' \<noteq> None then Inr (route_error d)
       else (case value_at d ''intent'' of
         JStr raw \<Rightarrow>
           if strip raw = [] then Inl (Refused ''Semantic IR requires a non-empty intent field.'')
           else if strip raw = ''sequence'' then
             (case dget d ''steps'' of
                Some (JList ss) \<Rightarrow>
                  if ss = [] then Inl (Refused ''sequence intent requires a non-empty steps list.'')
                  else ebind (route_steps R 0 ss) (\<lambda>cs.
                    Inr \<lparr>rr_type = ''sequence'', rr_commands = cs, rr_error = None, rr_source = ''semantic_ir''\<rparr>)
              | _ \<Rightarrow> Inl (Refused ''sequence intent requires a non-empty steps list.''))
           else if strip raw \<in> {''draw_shape'', ''draw_text''} then ir_draw R (strip raw) d
           else ebind (route_single_intent R d) (\<lambda>c. Inr (primitive_route ''semantic_ir'' c))
       | _ \<Rightarrow> Inl (Refused ''Semantic IR requires a non-empty intent field.''))
   | _ \<Rightarrow> Inl (Refused ''Semantic IR payload must be an object.''))"
| "route_steps R i [] = Inr []"
| "route_steps R i (s # ss) =
     (if \<not> is_dict s then Inl (Refused (''sequence step '' @ str_nat i @ '' must be an object.''))
      else ebind (route R s) (\<lambda>r.
        if rr_type r = ''error'' then Inl (Refused (''sequence step '' @ str_nat i @ '' is an error payload''))
        else ebind (route_steps R (Suc i) ss) (\<lambda>cs. Inr (rr_commands r @ cs))))"
  by pat_completeness auto
termination
  by (relation "measure (\<lambda>x. case x of Inl (_, v) \<Rightarrow> 2 * size v | Inr (_, _, vs) \<Rightarrow> 2 * size_list size vs + 1)")
    (auto dest: steps_smaller)

declare route.simps [simp del]

end
