(* ===== verification/Semantic_Validation.thy ===== *)
theory Semantic_Validation
  imports Normalization Command_Validator
begin

section \<open>Semantic and sequence validation\<close>

text \<open>
  \<open>llm_gateway/validation.py\<close>: \<open>SemanticValidator\<close> with its limits read out of the safety rules,
  and \<open>SequenceValidator\<close> with its frame, STOP and relative-motion policies.  The schema check is
  \<open>jsonschema\<close>, a library, and an argument: the error it reports for a command, if any.
  Messages that print numbers are cut before the number.
\<close>

subsection \<open>The limits\<close>

record semantic_validator =
  sv_circ_tolerance :: pyfloat
  sv_max_velocity :: pyfloat
  sv_max_move_rel :: pyfloat
  sv_x :: "pyfloat \<times> pyfloat"
  sv_y :: "pyfloat \<times> pyfloat"
  sv_z :: "pyfloat \<times> pyfloat"

definition min_velocity_scale :: rat where "min_velocity_scale = 1 / 100"

definition workspace_section :: "dict \<Rightarrow> json" where
  "workspace_section rules = (let ws = get_or rules ''workspace_bounds'' JNull in
     if \<not> is_dict ws \<or> \<not> truthy ws then get_or rules ''workspace'' (JObj []) else ws)"

definition semantic_validator_init :: "dict \<Rightarrow> py_exn + semantic_validator" where
  "semantic_validator_init rules =
     (let circ = get_or rules ''circ'' (JObj []); motion = get_or rules ''motion_limits'' (JObj []);
          legacy = get_or rules ''joint_limits_override'' (JObj []); ws = workspace_section rules;
          at_ws = (\<lambda>k x. ebind (jget ws k (JFloat (Fin x))) to_float) in
      ebind (ebind (jget circ ''degenerate_tolerance'' (JFloat (Fin (1 / 1000)))) to_float) (\<lambda>tol.
      ebind (ebind (limit_of motion legacy ''max_velocity_scale'' failsafe_velocity) to_float) (\<lambda>vel.
      ebind (ebind (jget motion ''max_move_rel_translation'' (JFloat (Fin failsafe_translation))) to_float) (\<lambda>rel.
      ebind (at_ws ''x_min'' (-45/100)) (\<lambda>x0. ebind (at_ws ''x_max'' (45/100)) (\<lambda>x1.
      ebind (at_ws ''y_min'' (-16/100)) (\<lambda>y0. ebind (at_ws ''y_max'' (52/100)) (\<lambda>y1.
      ebind (at_ws ''z_min'' (10/100)) (\<lambda>z0. ebind (at_ws ''z_max'' (65/100)) (\<lambda>z1.
      Inr \<lparr>sv_circ_tolerance = tol, sv_max_velocity = vel, sv_max_move_rel = rel,
        sv_x = (x0, x1), sv_y = (y0, y1), sv_z = (z0, z1)\<rparr>))))))))))"

subsection \<open>Values of a normalised command\<close>

fun ntruthy :: "nval \<Rightarrow> bool" where
  "ntruthy (Plain v) = truthy v"
| "ntruthy (PoseV _) = True"
| "ntruthy (PosesV ps) = (ps \<noteq> [])"
| "ntruthy (StepsV ss) = (ss \<noteq> [])"

text \<open>\<open>float(v)\<close>, \<open>int(v)\<close> and the attributes of a pose object; a decoded value has none of them.\<close>

fun nfloat :: "nval \<Rightarrow> adapter_exn + pyfloat" where
  "nfloat (Plain v) = raised (to_float v)"
| "nfloat _ = Inl (Raised TypeError)"

fun nint :: "nval \<Rightarrow> adapter_exn + int" where
  "nint (Plain v) = raised (to_int v)"
| "nint _ = Inl (Raised TypeError)"

fun as_pose :: "nval \<Rightarrow> adapter_exn + pose_msg" where
  "as_pose (PoseV p) = Inr p"
| "as_pose _ = Inl (Raised AttributeError)"

definition nget_or :: "ndict \<Rightarrow> string \<Rightarrow> json \<Rightarrow> nval" where
  "nget_or d k dflt = (case map_of d k of None \<Rightarrow> Plain dflt | Some v \<Rightarrow> v)"

subsection \<open>The checks\<close>

definition inside :: "pyfloat \<times> pyfloat \<Rightarrow> pyfloat \<Rightarrow> bool" where
  "inside b x \<longleftrightarrow> fle (fst b) x \<and> fle x (snd b)"

definition square_norm :: "pyfloat list \<Rightarrow> pyfloat" where
  "square_norm xs = (case map (\<lambda>x. fmul x x) xs of [] \<Rightarrow> Fin 0 | y # ys \<Rightarrow> foldl fadd y ys)"

text \<open>The root is finite when the sum of squares is; the branch for a short quaternion returns as the
  end of the method does.\<close>

definition validate_pose :: "semantic_validator \<Rightarrow> pose_msg \<Rightarrow> adapter_exn + unit" where
  "validate_pose V p =
     (if \<not> inside (sv_x V) (px p) then Inl (Refused ''target_pose.position.x is outside configured workspace'')
      else if \<not> inside (sv_y V) (py p) then Inl (Refused ''target_pose.position.y is outside configured workspace'')
      else if \<not> inside (sv_z V) (pz p) then Inl (Refused ''target_pose.position.z is outside configured workspace'')
      else if \<not> isfinite (square_norm [ox p, oy p, oz p, ow p])
      then Inl (Refused ''target_pose.orientation must be finite.'')
      else Inr ())"

text \<open>\<open>try: self._validate_pose(p) except ValueError as e: raise ValueError(prefix + e)\<close>.\<close>

definition with_prefix :: "string \<Rightarrow> adapter_exn + 'a \<Rightarrow> adapter_exn + 'a" where
  "with_prefix t r = (case r of
     Inr x \<Rightarrow> Inr x
   | Inl e \<Rightarrow> (case is_value_error e of Some u \<Rightarrow> Inl (Refused (t @ u)) | None \<Rightarrow> Inl e))"

definition indexed :: "string \<Rightarrow> nat \<Rightarrow> string" where
  "indexed t i = t @ ''['' @ str_nat i @ '']''"

fun validate_indexed :: "string \<Rightarrow> ('a \<Rightarrow> adapter_exn + unit) \<Rightarrow> nat \<Rightarrow> 'a list \<Rightarrow> adapter_exn + unit" where
  "validate_indexed t f i [] = Inr ()"
| "validate_indexed t f i (x # xs) =
     ebind (with_prefix (indexed t i @ '': '') (f x)) (\<lambda>_. validate_indexed t f (Suc i) xs)"

definition sub3 :: "vec3 \<Rightarrow> vec3 \<Rightarrow> vec3" where
  "sub3 u v = (case (u, v) of ((a, b, c), (x, y, z)) \<Rightarrow> (fsub a x, fsub b y, fsub c z))"

definition norm3 :: "float_lib \<Rightarrow> vec3 \<Rightarrow> pyfloat" where
  "norm3 F v = (case v of (x, y, z) \<Rightarrow> root_of F (square_norm [x, y, z]))"

text \<open>A quotient of two lengths; infinite over infinite is not a number.\<close>

fun fratio :: "pyfloat \<Rightarrow> pyfloat \<Rightarrow> pyfloat" where
  "fratio (Fin a) (Fin b) = Fin (a / b)"
| "fratio (Fin a) PInf = Fin 0"
| "fratio PInf (Fin b) = PInf"
| "fratio _ _ = NaN"

definition position_of :: "pose_msg \<Rightarrow> vec3" where
  "position_of p = (px p, py p, pz p)"

definition check_circ_degenerate ::
  "float_lib \<Rightarrow> semantic_validator \<Rightarrow> nval \<Rightarrow> pose_msg \<Rightarrow> pose_msg \<Rightarrow> adapter_exn + unit" where
  "check_circ_degenerate F V start aux target =
     (if start = Plain JNull then Inr ()
      else ebind (as_pose start) (\<lambda>s.
      let v1 = sub3 (position_of aux) (position_of s); v2 = sub3 (position_of target) (position_of s);
          cross_norm = norm3 F (cross3 v1 v2); denom = fmul (norm3 F v1) (norm3 F v2) in
      if flt denom (Fin (1 / 10 ^ 9))
      then Inl (Refused ''degenerate CIRC: zero-length segment between start, aux, or goal'')
      else if flt (fratio cross_norm denom) (sv_circ_tolerance V)
      then Inl (Refused ''degenerate CIRC: aux is colinear with start-goal'')
      else Inr ()))"

definition deltas :: "string list" where "deltas = [''delta_x'', ''delta_y'', ''delta_z'']"

fun finite_deltas :: "ndict \<Rightarrow> string list \<Rightarrow> adapter_exn + pyfloat list" where
  "finite_deltas c [] = Inr []"
| "finite_deltas c (k # ks) =
     (case map_of c k of
        None \<Rightarrow> Inl (Refused (''MOVE_REL requires '' @ k @ ''.''))
      | Some v \<Rightarrow> ebind (nfloat v) (\<lambda>x.
          if \<not> isfinite x then Inl (Refused (''MOVE_REL: '' @ k @ '' must be a finite number.''))
          else ebind (finite_deltas c ks) (\<lambda>xs. Inr (x # xs))))"

text \<open>\<open>if ref_frame and ref_frame != "base_link"\<close>.\<close>

definition frame_ok :: "nval \<Rightarrow> bool" where
  "frame_ok v \<longleftrightarrow> \<not> ntruthy v \<or> v = Plain (JStr ''base_link'')"

definition validate_move_rel :: "semantic_validator \<Rightarrow> ndict \<Rightarrow> adapter_exn + unit" where
  "validate_move_rel V c =
     (if ntruthy (nget c ''target_pose_msg'') \<or> ntruthy (nget c ''joint_target'')
      then Inl (Refused ''MOVE_REL must not include target_pose or joint_target.'')
      else ebind (finite_deltas c deltas) (\<lambda>ds.
      if list_all (\<lambda>x. feq x (Fin 0)) ds
      then Inl (Refused ''MOVE_REL: at least one delta component must be non-zero.'')
      else if sqrt_gt (square_norm ds) (sv_max_move_rel V) then Inl (Refused ''MOVE_REL: delta norm exceeds limit'')
      else if \<not> frame_ok (nget_or c ''reference_frame'' (JStr ''base_link''))
      then Inl (Refused ''MOVE_REL: unsupported reference_frame'')
      else Inr ()))"

definition no_targets :: "string \<Rightarrow> ndict \<Rightarrow> adapter_exn + unit" where
  "no_targets prim c =
     (if ntruthy (nget c ''target_pose_msg'') \<or> ntruthy (nget c ''target_pose'') \<or> ntruthy (nget c ''joint_target'')
      then Inl (Refused (prim @ '' must not include target_pose or joint_target.'')) else Inr ())"

text \<open>\<open>lo <= float(command.get("velocity_scale", 0.0)) <= hi\<close>.\<close>

definition velocity_in_range :: "semantic_validator \<Rightarrow> ndict \<Rightarrow> adapter_exn + unit" where
  "velocity_in_range V c =
     ebind (nfloat (nget_or c ''velocity_scale'' (JFloat (Fin 0)))) (\<lambda>v.
     if inside (Fin min_velocity_scale, sv_max_velocity V) v then Inr ()
     else Inl (Refused ''velocity_scale must be within its range''))"

definition validate_wait :: "ndict \<Rightarrow> adapter_exn + unit" where
  "validate_wait c =
     ebind (nfloat (nget_or c ''wait_duration_sec'' (JFloat (Fin (-1))))) (\<lambda>d.
     if flt d (Fin 0) then Inl (Refused ''WAIT: wait_duration_sec must be >= 0.'') else Inr ())"

definition validate_macro :: "ndict \<Rightarrow> adapter_exn + unit" where
  "validate_macro c = (case nget c ''steps'' of
     Plain (JList ss) \<Rightarrow>
       if ss = [] then Inl (Refused ''MACRO requires non-empty steps.'')
       else if 10 < length ss then Inl (Refused ''MACRO supports at most 10 steps.'') else Inr ()
   | _ \<Rightarrow> Inl (Refused ''MACRO requires non-empty steps.''))"

definition validate_io :: "ndict \<Rightarrow> adapter_exn + unit" where
  "validate_io c =
     (if \<not> has_key c ''io_address'' then Inl (Refused ''IO_SET requires io_address.'')
      else if nget c ''io_value'' = Plain JNull then Inl (Refused ''IO_SET requires io_value.'')
      else ebind (nint (nget c ''io_value'')) (\<lambda>v.
        if v \<in> {0, 1} then Inr () else Inl (Refused ''IO_SET: io_value must be 0 or 1'')))"

text \<open>\<open>step.get("blend_radius_m", 0.0) != 0.0\<close>: other values than numbers are different from zero.\<close>

definition zero_radius :: "ndict \<Rightarrow> bool" where
  "zero_radius s = (case nget_or s ''blend_radius_m'' (JFloat (Fin 0)) of
     Plain v \<Rightarrow> (case num v of Inr x \<Rightarrow> feq x (Fin 0) | Inl _ \<Rightarrow> False) | _ \<Rightarrow> False)"

definition validate_blend_step :: "semantic_validator \<Rightarrow> nat \<Rightarrow> ndict \<Rightarrow> adapter_exn + unit" where
  "validate_blend_step V i s =
     (case map_of s ''target_pose_msg'' of
        None \<Rightarrow> Inl (Refused (indexed ''BLENDED_SEQUENCE step'' i @ '' requires target_pose_msg.''))
      | Some v \<Rightarrow> with_prefix (indexed ''BLENDED_SEQUENCE step'' i @ '': '') (ebind (as_pose v) (validate_pose V)))"

fun validate_blend_steps :: "semantic_validator \<Rightarrow> nat \<Rightarrow> ndict list \<Rightarrow> adapter_exn + unit" where
  "validate_blend_steps V i [] = Inr ()"
| "validate_blend_steps V i (s # ss) =
     ebind (validate_blend_step V i s) (\<lambda>_. validate_blend_steps V (Suc i) ss)"

text \<open>The steps of a blended sequence are the normaliser's list; when the command had a value there that
  is no list of steps the code fails on it before any verdict, and so does the model.\<close>

definition validate_blended :: "semantic_validator \<Rightarrow> ndict \<Rightarrow> adapter_exn + unit" where
  "validate_blended V c = (case nget c ''sequence_steps'' of
     StepsV ss \<Rightarrow>
       if length ss < 2 then Inl (Refused ''BLENDED_SEQUENCE requires at least 2 sequence_steps.'')
       else if \<not> zero_radius (hd ss) then Inl (Refused ''BLENDED_SEQUENCE: first step blend_radius_m must be 0.0'')
       else if \<not> zero_radius (last ss) then Inl (Refused ''BLENDED_SEQUENCE: last step blend_radius_m must be 0.0'')
       else validate_blend_steps V 0 ss
   | v \<Rightarrow> if \<not> ntruthy v then Inl (Refused ''BLENDED_SEQUENCE requires at least 2 sequence_steps.'')
         else Inl (Raised AttributeError))"

definition validate_circ :: "float_lib \<Rightarrow> semantic_validator \<Rightarrow> ndict \<Rightarrow> adapter_exn + unit" where
  "validate_circ F V c = (case nget c ''waypoints_msg'' of
     PosesV ps \<Rightarrow>
       if ps = [] then Inl (Refused ''CIRC requires non-empty waypoints (exactly 1 auxiliary pose).'')
       else if length ps \<noteq> 1 then Inl (Refused ''CIRC requires exactly 1 auxiliary waypoint'')
       else (case map_of c ''target_pose_msg'' of
           None \<Rightarrow> Inl (Refused ''CIRC requires target_pose_msg (final pose).'')
         | Some v \<Rightarrow> ebind (as_pose v) (\<lambda>target. ebind (validate_pose V target) (\<lambda>_.
             ebind (with_prefix ''CIRC auxiliary waypoint[0]: '' (validate_pose V (hd ps))) (\<lambda>_.
             check_circ_degenerate F V (nget c ''start_pose_msg'') (hd ps) target))))
   | v \<Rightarrow> if \<not> ntruthy v then Inl (Refused ''CIRC requires non-empty waypoints (exactly 1 auxiliary pose).'')
         else Inl (Raised AttributeError))"

definition validate_move_joint :: "ndict \<Rightarrow> adapter_exn + unit" where
  "validate_move_joint c =
     (case map_of c ''joint_index'' of None \<Rightarrow> Inl (Refused ''MOVE_JOINT requires joint_index.'')
      | Some i \<Rightarrow> (case map_of c ''joint_angle'' of None \<Rightarrow> Inl (Refused ''MOVE_JOINT requires joint_angle.'')
      | Some a \<Rightarrow> ebind (nint i) (\<lambda>i.
          if i < 0 \<or> 6 \<le> i then Inl (Refused ''MOVE_JOINT: joint_index out of range [0, 5].'')
          else ebind (nfloat a) (\<lambda>x.
            if isfinite x then Inr () else Inl (Refused ''MOVE_JOINT: joint_angle must be a finite number.'')))))"

definition validate_move_joints :: "ndict \<Rightarrow> adapter_exn + unit" where
  "validate_move_joints c = (case nget c ''joint_target'' of
     Plain (JList js) \<Rightarrow>
       if js = [] then Inl (Refused ''MOVE_JOINTS requires joint_target as a list.'')
       else if length js \<noteq> 6 then Inl (Refused ''MOVE_JOINTS: joint_target must have exactly 6 elements'')
       else Inr ()
   | _ \<Rightarrow> Inl (Refused ''MOVE_JOINTS requires joint_target as a list.''))"

definition validate_cartesian_path :: "semantic_validator \<Rightarrow> ndict \<Rightarrow> adapter_exn + unit" where
  "validate_cartesian_path V c = (case nget c ''waypoints_msg'' of
     PosesV ps \<Rightarrow>
       if ps = [] then Inl (Refused ''CARTESIAN_PATH requires non-empty waypoints.'')
       else validate_indexed ''CARTESIAN_PATH waypoint'' (validate_pose V) 0 ps
   | v \<Rightarrow> if \<not> ntruthy v then Inl (Refused ''CARTESIAN_PATH requires non-empty waypoints.'')
         else Inl (Raised AttributeError))"

definition validate_target :: "semantic_validator \<Rightarrow> string \<Rightarrow> ndict \<Rightarrow> adapter_exn + unit" where
  "validate_target V prim c =
     (let has_pose = has_key c ''target_pose_msg''; has_joints = ntruthy (nget c ''joint_target'') in
      if prim = ''HOME'' then
        (if has_pose \<or> has_joints then Inl (Refused ''HOME must not include target_pose or joint_target.'')
         else Inr ())
      else if prim = ''CARTESIAN_PATH'' then validate_cartesian_path V c
      else if prim = ''LIN'' \<and> \<not> has_pose then Inl (Refused ''LIN requires target_pose.'')
      else if prim = ''PTP'' \<and> \<not> (has_pose \<or> has_joints)
      then Inl (Refused ''PTP requires target_pose or joint_target.'')
      else (case map_of c ''target_pose_msg'' of
          None \<Rightarrow> Inr () | Some v \<Rightarrow> ebind (as_pose v) (validate_pose V)))"

definition allowed_primitives :: "string list" where
  "allowed_primitives =
     [''HOME'', ''PTP'', ''LIN'', ''CIRC'', ''MOVE_REL'', ''GET_POSE'', ''CARTESIAN_PATH'', ''SET_SPEED'',
      ''WAIT'', ''STOP'', ''MOVE_JOINT'', ''MOVE_JOINTS'', ''IO_SET'', ''ALARM_RESET'', ''BLENDED_SEQUENCE'',
      ''MACRO'']"

definition validate_primitive ::
  "float_lib \<Rightarrow> semantic_validator \<Rightarrow> string \<Rightarrow> ndict \<Rightarrow> adapter_exn + unit" where
  "validate_primitive F V prim c =
     (if prim = ''GET_POSE'' \<or> prim = ''STOP'' then no_targets prim c
      else if prim = ''ALARM_RESET'' then Inr ()
      else if prim = ''SET_SPEED'' then velocity_in_range V c
      else if prim = ''WAIT'' then validate_wait c
      else if prim = ''MACRO'' then validate_macro c
      else if prim = ''IO_SET'' then validate_io c
      else if prim = ''BLENDED_SEQUENCE'' then validate_blended V c
      else if prim = ''CIRC'' then validate_circ F V c
      else if prim = ''MOVE_JOINT'' then validate_move_joint c
      else if prim = ''MOVE_JOINTS'' then validate_move_joints c
      else if prim = ''MOVE_REL'' then validate_move_rel V c
      else ebind (velocity_in_range V c) (\<lambda>_. validate_target V prim c))"

definition semantic_validate ::
  "float_lib \<Rightarrow> semantic_validator \<Rightarrow> ndict \<Rightarrow> adapter_exn + unit" where
  "semantic_validate F V c =
     (case nget c ''primitive_type'' of
        Plain v \<Rightarrow> ebind (raised (in_names v allowed_primitives)) (\<lambda>ok.
          if ok then validate_primitive F V (to_str v) c else Inl (Refused ''primitive_type is not allowed''))
      | _ \<Rightarrow> Inl (Raised TypeError))"

subsection \<open>Sequences\<close>

datatype seq_exn = SequenceValidationError string string "nat option" | Unstructured adapter_exn

record sequence_result =
  sr_commands :: "ndict list"
  sr_frame :: "string option"
  sr_move_rel :: pyfloat
  sr_duration :: pyfloat
  sr_has_io :: bool
  sr_manual_recovery :: bool

record sequence_validator =
  qv_schema :: "json \<Rightarrow> string option"
  qv_lib :: float_lib
  qv_normalizer :: normalizer
  qv_semantic :: semantic_validator
  qv_max_length :: int
  qv_max_move_rel :: pyfloat

text \<open>The accumulators of the loop.\<close>

record sequence_acc =
  qa_frame :: "string option"
  qa_move_rel :: pyfloat
  qa_duration :: pyfloat
  qa_first_io :: "nat option"

fun exn_text :: "adapter_exn \<Rightarrow> string" where
  "exn_text (Refused t) = t"
| "exn_text (Raised e) = ''<exception>''"

definition at_stage :: "string \<Rightarrow> nat \<Rightarrow> adapter_exn + 'a \<Rightarrow> seq_exn + 'a" where
  "at_stage at_name i r = (case r of
     Inr x \<Rightarrow> Inr x | Inl e \<Rightarrow> Inl (SequenceValidationError at_name (exn_text e) (Some i)))"

definition frame_required_primitives :: "string list" where
  "frame_required_primitives = [''PTP'', ''LIN'', ''MOVE_REL'', ''CARTESIAN_PATH'']"

definition ntext :: "nval \<Rightarrow> string" where
  "ntext v = (case v of Plain j \<Rightarrow> to_str j | _ \<Rightarrow> ''<object>'')"

definition resolve_step_frame :: "ndict \<Rightarrow> nat \<Rightarrow> seq_exn + string option" where
  "resolve_step_frame c i =
     (if ntext (nget_or c ''primitive_type'' (JStr [])) \<notin> set frame_required_primitives then Inr None
      else (case map_of c ''reference_frame'' of
          None \<Rightarrow> Inl (SequenceValidationError ''frame_policy'' ''explicit reference_frame required'' (Some i))
        | Some v \<Rightarrow>
            if strip (ntext v) \<noteq> ''base_link''
            then Inl (SequenceValidationError ''frame_policy'' ''unsupported reference_frame'' (Some i))
            else Inr (Some (strip (ntext v)))))"

definition move_rel_distance :: "float_lib \<Rightarrow> ndict \<Rightarrow> adapter_exn + pyfloat" where
  "move_rel_distance F c =
     (let f = (\<lambda>k. nfloat (nget_or c k (JFloat (Fin 0)))) in
      ebind (f ''delta_x'') (\<lambda>x. ebind (f ''delta_y'') (\<lambda>y. ebind (f ''delta_z'') (\<lambda>z.
      Inr (root_of F (square_norm [x, y, z]))))))"

definition check_shape :: "nat \<Rightarrow> nat \<Rightarrow> json \<Rightarrow> seq_exn + string" where
  "check_shape count i command = (case command of
     JObj c \<Rightarrow>
       (let prim = to_str (get_or c ''primitive_type'' (JStr [])) in
        if prim = [] then Inl (SequenceValidationError ''structure'' ''sequence step is missing primitive_type.'' (Some i))
        else if prim = ''GET_POSE''
        then Inl (SequenceValidationError ''unsupported_step'' ''GET_POSE is query-only'' (Some i))
        else if prim = ''STOP'' \<and> count \<noteq> 1
        then Inl (SequenceValidationError ''stop_policy'' ''STOP must be the sole primitive in a sequence.'' (Some i))
        else Inr prim)
   | _ \<Rightarrow> Inl (SequenceValidationError ''structure'' ''each sequence step must be an object.'' (Some i)))"

definition check_command :: "sequence_validator \<Rightarrow> nat \<Rightarrow> json \<Rightarrow> seq_exn + ndict" where
  "check_command Q i command =
     (case qv_schema Q command of
        Some e \<Rightarrow> Inl (SequenceValidationError ''schema'' e (Some i))
      | None \<Rightarrow>
          ebind (at_stage ''normalize'' i (normalize_cmd (qv_lib Q) (qv_normalizer Q) command)) (\<lambda>c.
          ebind (at_stage ''semantic'' i (semantic_validate (qv_lib Q) (qv_semantic Q) c)) (\<lambda>_. Inr c)))"

definition note_frame :: "nat \<Rightarrow> string option \<Rightarrow> sequence_acc \<Rightarrow> seq_exn + sequence_acc" where
  "note_frame i frame a = (case (frame, qa_frame a) of
     (None, _) \<Rightarrow> Inr a
   | (Some f, None) \<Rightarrow> Inr (a\<lparr>qa_frame := Some f\<rparr>)
   | (Some f, Some g) \<Rightarrow>
       if g = f then Inr a
       else Inl (SequenceValidationError ''frame_policy'' ''mixed frames are not supported'' (Some i)))"

text \<open>The float conversions of the accumulators read what the normaliser wrote; should one raise, it is not
  wrapped in the structured error.\<close>

definition unwrapped :: "adapter_exn + 'a \<Rightarrow> seq_exn + 'a" where
  "unwrapped r = (case r of Inr x \<Rightarrow> Inr x | Inl e \<Rightarrow> Inl (Unstructured e))"

definition note_distance ::
  "sequence_validator \<Rightarrow> nat \<Rightarrow> string \<Rightarrow> ndict \<Rightarrow> sequence_acc \<Rightarrow> seq_exn + sequence_acc" where
  "note_distance Q i prim c a =
     (if prim \<noteq> ''MOVE_REL'' then Inr a
      else ebind (unwrapped (move_rel_distance (qv_lib Q) c)) (\<lambda>d.
        let sum = fadd (qa_move_rel a) d in
        if flt (qv_max_move_rel Q) sum
        then Inl (SequenceValidationError ''move_rel_budget'' ''cumulative MOVE_REL distance exceeds sequence limit'' (Some i))
        else Inr (a\<lparr>qa_move_rel := sum\<rparr>)))"

definition note_rest :: "nat \<Rightarrow> string \<Rightarrow> ndict \<Rightarrow> sequence_acc \<Rightarrow> seq_exn + sequence_acc" where
  "note_rest i prim c a =
     ebind (if prim \<noteq> ''WAIT'' then Inr a
            else ebind (unwrapped (nfloat (nget_or c ''wait_duration_sec'' (JFloat (Fin 0))))) (\<lambda>w.
              Inr (a\<lparr>qa_duration := fadd (qa_duration a) w\<rparr>))) (\<lambda>a.
     Inr (if prim = ''IO_SET'' \<and> qa_first_io a = None then a\<lparr>qa_first_io := Some i\<rparr> else a))"

definition check_step ::
  "sequence_validator \<Rightarrow> nat \<Rightarrow> nat \<Rightarrow> json \<Rightarrow> sequence_acc \<Rightarrow> seq_exn + ndict \<times> sequence_acc" where
  "check_step Q count i command a =
     ebind (check_shape count i command) (\<lambda>prim.
     ebind (check_command Q i command) (\<lambda>c.
     ebind (resolve_step_frame c i) (\<lambda>frame.
     ebind (note_frame i frame a) (\<lambda>a.
     ebind (note_distance Q i prim c a) (\<lambda>a.
     ebind (note_rest i prim c a) (\<lambda>a. Inr (c, a)))))))"

fun check_steps ::
  "sequence_validator \<Rightarrow> nat \<Rightarrow> nat \<Rightarrow> json list \<Rightarrow> sequence_acc \<Rightarrow> seq_exn + ndict list \<times> sequence_acc" where
  "check_steps Q count i [] a = Inr ([], a)"
| "check_steps Q count i (x # xs) a =
     ebind (check_step Q count i x a) (\<lambda>(c, a).
     ebind (check_steps Q count (Suc i) xs a) (\<lambda>(cs, a). Inr (c # cs, a)))"

definition acc_init :: sequence_acc where
  "acc_init = \<lparr>qa_frame = None, qa_move_rel = Fin 0, qa_duration = Fin 0, qa_first_io = None\<rparr>"

definition sequence_validate :: "sequence_validator \<Rightarrow> json \<Rightarrow> seq_exn + sequence_result" where
  "sequence_validate Q v = (case v of
     JList cs \<Rightarrow>
       if cs = [] then Inl (SequenceValidationError ''structure'' ''sequence must be a non-empty list of primitive commands.'' None)
       else if qv_max_length Q < int (length cs)
       then Inl (SequenceValidationError ''sequence_length'' ''sequence has too many steps'' None)
       else ebind (check_steps Q (length cs) 0 cs acc_init) (\<lambda>(ns, a).
         Inr \<lparr>sr_commands = ns, sr_frame = qa_frame a, sr_move_rel = qa_move_rel a,
           sr_duration = qa_duration a, sr_has_io = qa_first_io a \<noteq> None,
           sr_manual_recovery = (case qa_first_io a of None \<Rightarrow> False | Some i \<Rightarrow> i < length cs - 1)\<rparr>)
   | _ \<Rightarrow> Inl (SequenceValidationError ''structure'' ''sequence must be a non-empty list of primitive commands.'' None))"

definition shipped_sequence_limits ::
  "(json \<Rightarrow> string option) \<Rightarrow> float_lib \<Rightarrow> semantic_validator \<Rightarrow> sequence_validator" where
  "shipped_sequence_limits schema F V =
     \<lparr>qv_schema = schema, qv_lib = F,
       qv_normalizer = \<lparr>n_velocity_scale = Fin (6/100), n_acceleration_scale = Fin (6/100)\<rparr>,
       qv_semantic = V, qv_max_length = 40, qv_max_move_rel = Fin (40/100)\<rparr>"

end
