(* ===== verification/Goal_Mapper.thy ===== *)
theory Goal_Mapper
  imports Semantic_Validation
begin

section \<open>From a normalised command to a payload and a goal\<close>

text \<open>
  \<open>llm_gateway/goal_mapper.py\<close>: \<open>to_command_payload\<close>, the JSON that the safety gate validates, and
  \<open>to_execute_motion_goal\<close>, the message the motion server executes.  The two are built side by side from
  the same command, so that they agree is a property.  A field of a message refuses a value of another
  type; \<open>TypeError\<close> stands for that refusal.
\<close>

record goal_mapper =
  gm_velocity :: pyfloat
  gm_acceleration :: pyfloat

definition default_mapper :: goal_mapper where
  "default_mapper = \<lparr>gm_velocity = Fin (6/100), gm_acceleration = Fin (6/100)\<rparr>"

subsection \<open>Reading a command\<close>

text \<open>Iterating a value and reading a step; a decoded step must be an object.\<close>

fun step_of :: "json \<Rightarrow> adapter_exn + ndict" where
  "step_of (JObj d) = Inr (plain_dict d)"
| "step_of _ = Inl (Raised AttributeError)"

fun step_list_of :: "nval \<Rightarrow> adapter_exn + ndict list" where
  "step_list_of (StepsV ss) = Inr ss"
| "step_list_of (Plain v) = ebind (raised (jiter v)) (map_each step_of)"
| "step_list_of _ = Inl (Raised AttributeError)"

fun poses_of :: "nval \<Rightarrow> adapter_exn + pose_msg list" where
  "poses_of (PosesV ps) = Inr ps"
| "poses_of _ = Inl (Raised AttributeError)"

fun nfloats :: "nval \<Rightarrow> adapter_exn + pyfloat list" where
  "nfloats (Plain v) = ebind (raised (jiter v)) (map_each (\<lambda>x. raised (to_float x)))"
| "nfloats _ = Inl (Raised TypeError)"

fun float_entry :: "json \<Rightarrow> adapter_exn + pyfloat" where
  "float_entry (JFloat x) = Inr x"
| "float_entry _ = Inl (Raised TypeError)"

fun float_entries :: "nval \<Rightarrow> adapter_exn + pyfloat list" where
  "float_entries (Plain v) = ebind (raised (jiter v)) (map_each float_entry)"
| "float_entries _ = Inl (Raised TypeError)"

definition is_prim :: "ndict \<Rightarrow> string \<Rightarrow> bool" where
  "is_prim c p \<longleftrightarrow> nget c ''primitive_type'' = Plain (JStr p)"

subsection \<open>The payload\<close>

definition vec_payload :: "(string \<times> pyfloat) list \<Rightarrow> json" where
  "vec_payload xs = JObj (map (\<lambda>(k, x). (k, JFloat x)) xs)"

definition pose_to_payload :: "pose_msg \<Rightarrow> json" where
  "pose_to_payload p = JObj
     [(''position'', vec_payload [(''x'', px p), (''y'', py p), (''z'', pz p)]),
      (''orientation'', vec_payload [(''x'', ox p), (''y'', oy p), (''z'', oz p), (''w'', ow p)])]"

text \<open>\<open>if k in command: payload[k] = conv(command[k])\<close>, and the assignments in order.\<close>

definition field :: "ndict \<Rightarrow> string \<Rightarrow> string \<Rightarrow> (nval \<Rightarrow> adapter_exn + json) \<Rightarrow> adapter_exn + dict" where
  "field c k out conv = (case map_of c k of
     None \<Rightarrow> Inr [] | Some v \<Rightarrow> ebind (conv v) (\<lambda>j. Inr [(out, j)]))"

fun all_fields :: "(adapter_exn + dict) list \<Rightarrow> adapter_exn + dict" where
  "all_fields [] = Inr []"
| "all_fields (f # fs) = ebind f (\<lambda>d. ebind (all_fields fs) (\<lambda>e. Inr (d @ e)))"

definition as_float :: "nval \<Rightarrow> adapter_exn + json" where
  "as_float v = ebind (nfloat v) (\<lambda>x. Inr (JFloat x))"

definition as_int :: "nval \<Rightarrow> adapter_exn + json" where
  "as_int v = ebind (nint v) (\<lambda>i. Inr (JInt i))"

definition as_str :: "nval \<Rightarrow> adapter_exn + json" where
  "as_str v = Inr (JStr (ntext v))"

definition as_bool :: "nval \<Rightarrow> adapter_exn + json" where
  "as_bool v = Inr (JBool (ntruthy v))"

definition as_pose_payload :: "nval \<Rightarrow> adapter_exn + json" where
  "as_pose_payload v = ebind (as_pose v) (\<lambda>p. Inr (pose_to_payload p))"

definition truthy_field ::
  "ndict \<Rightarrow> string \<Rightarrow> string \<Rightarrow> (nval \<Rightarrow> adapter_exn + json) \<Rightarrow> adapter_exn + dict" where
  "truthy_field c k out conv = (if ntruthy (nget c k) then field c k out conv else Inr [])"

definition step_payload :: "ndict \<Rightarrow> adapter_exn + json" where
  "step_payload s =
     ebind (as_float (nget_or s ''blend_radius_m'' (JFloat (Fin 0)))) (\<lambda>radius.
     ebind (all_fields [field s ''target_pose_msg'' ''target_pose'' as_pose_payload,
         field s ''planner_id'' ''planner_id'' as_str, field s ''velocity_scale'' ''velocity_scale'' as_float,
         field s ''acceleration_scale'' ''acceleration_scale'' as_float]) (\<lambda>rest.
     Inr (JObj ([(''primitive_type'', JStr (ntext (nget_or s ''primitive_type'' (JStr ''LIN'')))),
       (''blend_radius_m'', radius)] @ rest))))"

definition poses_payload :: "nval \<Rightarrow> adapter_exn + json" where
  "poses_payload v = ebind (poses_of v) (\<lambda>ps. Inr (JList (map pose_to_payload ps)))"

text \<open>The fields every command may have, and those of its primitive.\<close>

definition common_fields :: "ndict \<Rightarrow> (adapter_exn + dict) list" where
  "common_fields c =
     [field c ''velocity_scale'' ''velocity_scale'' as_float,
      field c ''acceleration_scale'' ''acceleration_scale'' as_float, field c ''planner_id'' ''planner_id'' as_str,
      field c ''plan_only'' ''plan_only'' as_bool, field c ''chunk_index'' ''chunk_index'' as_int,
      field c ''stroke_index'' ''stroke_index'' as_int, field c ''reference_frame'' ''reference_frame'' as_str,
      truthy_field c ''joint_target'' ''joint_target'' (\<lambda>v. ebind (nfloats v) (\<lambda>xs. Inr (JList (map JFloat xs)))),
      field c ''target_pose_msg'' ''target_pose'' as_pose_payload]"

definition own_fields :: "ndict \<Rightarrow> (adapter_exn + dict) list" where
  "own_fields c = (let when = (\<lambda>p fs. if is_prim c p then fs else []) in
     when ''MOVE_REL'' (map (\<lambda>k. field c k k as_float) deltas)
     @ when ''WAIT'' [field c ''wait_duration_sec'' ''wait_duration_sec'' as_float]
     @ when ''MOVE_JOINT'' [field c ''joint_index'' ''joint_index'' as_int, field c ''joint_angle'' ''joint_angle'' as_float]
     @ when ''IO_SET'' [field c ''io_address'' ''io_address'' as_int, field c ''io_value'' ''io_value'' as_int]
     @ when ''CIRC'' [truthy_field c ''waypoints_msg'' ''waypoints'' poses_payload]
     @ when ''CARTESIAN_PATH''
         [truthy_field c ''waypoints_msg'' ''waypoints'' poses_payload,
          truthy_field c ''waypoints_msg'' ''waypoints_count''
            (\<lambda>v. ebind (poses_of v) (\<lambda>ps. Inr (JInt (int (length ps)))))]
     @ when ''BLENDED_SEQUENCE''
         [truthy_field c ''sequence_steps'' ''sequence_steps''
            (\<lambda>v. ebind (step_list_of v) (\<lambda>ss. ebind (map_each step_payload ss) (\<lambda>ps. Inr (JList ps))))])"

definition to_command_payload :: "ndict \<Rightarrow> adapter_exn + dict" where
  "to_command_payload c =
     (case map_of c ''primitive_type'' of None \<Rightarrow> Inl (Raised KeyError) | Some prim \<Rightarrow>
        ebind (all_fields (common_fields c @ own_fields c)) (\<lambda>rest.
        Inr ((''primitive_type'', JStr (ntext prim)) # rest)))"

subsection \<open>The goal\<close>

definition step_goal :: "goal_mapper \<Rightarrow> ndict \<Rightarrow> adapter_exn + sequence_step_msg" where
  "step_goal G s =
     (let f = (\<lambda>k x. nfloat (nget_or s k (JFloat x))) in
      ebind (case map_of s ''target_pose_msg'' of None \<Rightarrow> Inr default_pose | Some v \<Rightarrow> as_pose v) (\<lambda>pose.
      ebind (f ''blend_radius_m'' (Fin 0)) (\<lambda>radius.
      ebind (f ''velocity_scale'' (gm_velocity G)) (\<lambda>vel. ebind (f ''acceleration_scale'' (gm_acceleration G)) (\<lambda>acc.
      Inr \<lparr>st_goal_type = goal_pose, st_primitive = ntext (nget_or s ''primitive_type'' (JStr ''LIN'')),
        st_target_pose = pose, st_joint_target = [], st_named_target = [], st_auxiliary_pose = default_pose,
        st_blend_radius = radius, st_velocity = vel, st_acceleration = acc,
        st_planner = ntext (nget_or s ''planner_id'' (JStr ''PILZ_LIN''))\<rparr>)))))"

definition to_execute_motion_goal :: "goal_mapper \<Rightarrow> ndict \<Rightarrow> adapter_exn + motion_goal" where
  "to_execute_motion_goal G c =
     (let f = (\<lambda>k x. nfloat (nget_or c k (JFloat x))); n = (\<lambda>k. nint (nget_or c k (JInt 0)));
          text = (\<lambda>k. ntext (nget_or c k (JStr []))) in
      case map_of c ''primitive_type'' of None \<Rightarrow> Inl (Raised KeyError) | Some prim \<Rightarrow>
      ebind (f ''velocity_scale'' (gm_velocity G)) (\<lambda>vel. ebind (f ''acceleration_scale'' (gm_acceleration G)) (\<lambda>acc.
      ebind (float_entries (nget_or c ''joint_target'' (JList []))) (\<lambda>joints.
      ebind (case map_of c ''target_pose_msg'' of None \<Rightarrow> Inr default_pose | Some v \<Rightarrow> as_pose v) (\<lambda>pose.
      ebind (f ''delta_x'' (Fin 0)) (\<lambda>dx. ebind (f ''delta_y'' (Fin 0)) (\<lambda>dy. ebind (f ''delta_z'' (Fin 0)) (\<lambda>dz.
      ebind (f ''wait_duration_sec'' (Fin 0)) (\<lambda>wt. ebind (n ''joint_index'') (\<lambda>ji. ebind (f ''joint_angle'' (Fin 0)) (\<lambda>ja.
      ebind (n ''io_address'') (\<lambda>ioa. ebind (n ''io_value'') (\<lambda>iov.
      ebind (if ntruthy (nget c ''waypoints_msg'') then poses_of (nget c ''waypoints_msg'') else Inr []) (\<lambda>ways.
      ebind (if is_prim c ''BLENDED_SEQUENCE'' \<and> ntruthy (nget c ''sequence_steps'')
             then ebind (step_list_of (nget c ''sequence_steps'')) (map_each (step_goal G)) else Inr []) (\<lambda>steps.
      Inr \<lparr>g_primitive = ntext prim, g_target_pose = pose, g_waypoints = ways, g_joint_target = joints,
        g_velocity = vel, g_acceleration = acc, g_planner = text ''planner_id'', g_delta = (dx, dy, dz),
        g_frame = text ''reference_frame'', g_wait_duration = wt, g_joint_index = ji, g_joint_angle = ja,
        g_io_address = ioa, g_io_value = iov, g_steps = steps, g_extended_mode = False, g_mode_tokens = [],
        g_estimated_duration = Fin 0, g_command_id = [], g_correlation_id = []\<rparr>)))))))))))))))"

end
