(* ===== verification/Gateway_Runtime.thy ===== *)
theory Gateway_Runtime
  imports Intent_Router Goal_Mapper Command_Dispatch
begin

section \<open>The runtime path of the gateway\<close>

text \<open>
  From a semantic IR to goals on the motion server: \<open>_prepare_review_semantic_ir\<close>,
  \<open>_validate_runtime_semantic_ir\<close>, \<open>_runtime_command_is_safe\<close>, \<open>_validate_runtime_command\<close>,
  \<open>_dispatch_runtime_goal\<close> and \<open>_on_confirm_execution\<close> of \<open>llm_gateway_node.py\<close>, and
  \<open>dispatch_and_await\<close> of \<open>runtime_dispatch.py\<close>.  The world answers at each call: the time of the call
  is an argument of the answers, and every service call is logged.  Traces and task events are not
  modelled.
\<close>

subsection \<open>The world\<close>

datatype goal_answer = GoalTimeout | GoalRejected | GoalAccepted nat

record gateway_env =
  ge_schema :: "json \<Rightarrow> string option"
  ge_lib :: float_lib
  ge_normalizer :: normalizer
  ge_semantic :: semantic_validator
  ge_mapper :: goal_mapper
  ge_router :: intent_router
  ge_joints :: joint_state
  ge_pose :: "nat \<Rightarrow> obj option"
  ge_pose_service :: "nat \<Rightarrow> bool"
  ge_validate_ready :: "nat \<Rightarrow> bool"
  ge_validate :: "nat \<Rightarrow> validate_request \<Rightarrow> string + (bool \<times> string) option"
  ge_execute_ready :: "nat \<Rightarrow> bool"
  ge_goal :: "nat \<Rightarrow> motion_goal \<Rightarrow> goal_answer"
  ge_result :: "nat \<Rightarrow> nat \<Rightarrow> (bool \<times> string) option"
  ge_stopped :: "nat \<Rightarrow> bool"

datatype gw_call = Validated nat validate_request | GoalSent nat motion_goal | GoalCancelled nat nat

record gw_state =
  gs_clock :: nat
  gs_calls :: "gw_call list"

type_synonym 'a gw = "(adapter_exn, gw_state, 'a) eff"

text \<open>An answer of the world, with the time at which it was given.\<close>

definition tick :: "nat gw" where
  "tick s = (Inr (gs_clock s), s\<lparr>gs_clock := Suc (gs_clock s)\<rparr>)"

definition asking :: "(nat \<Rightarrow> 'a) \<Rightarrow> 'a gw" where
  "asking f = bnd tick (\<lambda>n. ret (f n))"

definition log_gw :: "gw_call \<Rightarrow> unit gw" where
  "log_gw c = modify (\<lambda>s. s\<lparr>gs_calls := gs_calls s @ [c]\<rparr>)"

text \<open>\<open>RuntimeStepResult\<close> and \<open>DispatchOutcome\<close>: a success or a failure with its reason.\<close>

type_synonym run_outcome = "bool \<times> string"

definition failed :: "string \<Rightarrow> run_outcome" where "failed why = (False, why)"
definition succeeded :: run_outcome where "succeeded = (True, [])"

subsection \<open>Dispatch\<close>

definition dispatch_and_await :: "gateway_env \<Rightarrow> motion_goal \<Rightarrow> run_outcome gw" where
  "dispatch_and_await E g =
     bnd (asking (ge_stopped E)) (\<lambda>stopped.
     if stopped then ret (failed ''operator_stopped'')
     else bnd (asking (ge_execute_ready E)) (\<lambda>available.
     if \<not> available then ret (failed ''ExecuteMotion action server unavailable'')
     else bnd tick (\<lambda>n. andthen (log_gw (GoalSent n g)) (case ge_goal E n g of
       GoalTimeout \<Rightarrow> ret (failed ''ExecuteMotion goal send timed out'')
     | GoalRejected \<Rightarrow> ret (failed ''ExecuteMotion action server rejected goal'')
     | GoalAccepted h \<Rightarrow>
         bnd (asking (ge_stopped E)) (\<lambda>stopped.
         if stopped then bnd tick (\<lambda>m. andthen (log_gw (GoalCancelled m h)) (ret (failed ''operator_stopped'')))
         else bnd (asking (\<lambda>n. ge_result E n h)) (\<lambda>res. ret (case res of
           None \<Rightarrow> failed ''ExecuteMotion result timed out''
         | Some (ok, message) \<Rightarrow>
             if ok then succeeded else failed (if message = [] then ''motion failed'' else message))))))))"

subsection \<open>One command\<close>

text \<open>The fields of the request are typed: a primitive that is no text and a velocity that is no float are
  refused by the message.\<close>

definition build_validate_request :: "ndict \<Rightarrow> obj \<Rightarrow> adapter_exn + validate_request" where
  "build_validate_request c payload =
     ebind (case map_of c ''primitive_type'' of
         Some (Plain (JStr p)) \<Rightarrow> Inr p | Some _ \<Rightarrow> Inl (Raised TypeError) | None \<Rightarrow> Inl (Raised KeyError)) (\<lambda>prim.
     ebind (case nget_or c ''velocity_scale'' (JFloat (Fin 0)) of
         Plain v \<Rightarrow> float_entry v | _ \<Rightarrow> Inl (Raised TypeError)) (\<lambda>vel.
     ebind (case map_of c ''target_pose_msg'' of None \<Rightarrow> Inr default_pose | Some v \<Rightarrow> as_pose v) (\<lambda>pose.
     Inr \<lparr>rq_command = payload, rq_primitive = prim, rq_velocity = vel, rq_target_pose = pose\<rparr>)))"

definition normalize_and_validate :: "gateway_env \<Rightarrow> json \<Rightarrow> adapter_exn + ndict" where
  "normalize_and_validate E command =
     ebind (normalize_cmd (ge_lib E) (ge_normalizer E) command) (\<lambda>c.
     ebind (semantic_validate (ge_lib E) (ge_semantic E) c) (\<lambda>_. Inr c))"

text \<open>A command is refused, is a query, or may be sent.\<close>

datatype safe_command = Unsafe string | Query | Sendable ndict

definition call_validate :: "gateway_env \<Rightarrow> validate_request \<Rightarrow> ndict \<Rightarrow> safe_command gw" where
  "call_validate E rq c =
     bnd tick (\<lambda>n. andthen (log_gw (Validated n rq)) (ret (case ge_validate E n rq of
       Inl e \<Rightarrow> Unsafe (''ValidateCommand call failed: '' @ e)
     | Inr None \<Rightarrow> Unsafe ''ValidateCommand service timed out''
     | Inr (Some (ok, why)) \<Rightarrow> if ok then Sendable c else Unsafe why)))"

definition runtime_command_is_safe :: "gateway_env \<Rightarrow> json \<Rightarrow> safe_command gw" where
  "runtime_command_is_safe E command =
     (case ge_schema E command of Some e \<Rightarrow> ret (Unsafe e)
      | None \<Rightarrow> (case normalize_and_validate E command of
        Inl e \<Rightarrow> ret (Unsafe (exn_text e))
      | Inr c \<Rightarrow>
          if is_prim c ''GET_POSE''
          then bnd (asking (ge_pose_service E)) (\<lambda>ready.
            ret (if ready then Query else Unsafe ''GetCurrentPose service unavailable''))
          else bnd (lift (to_command_payload c)) (\<lambda>payload.
            bnd (asking (ge_validate_ready E)) (\<lambda>ready.
            if \<not> ready then ret (Unsafe ''ValidateCommand service unavailable'')
            else bnd (lift (build_validate_request c payload)) (\<lambda>rq. call_validate E rq c)))))"

definition validate_runtime_command :: "gateway_env \<Rightarrow> json \<Rightarrow> run_outcome gw" where
  "validate_runtime_command E command =
     bnd (runtime_command_is_safe E command) (\<lambda>r. case r of
       Unsafe why \<Rightarrow> ret (failed why)
     | Query \<Rightarrow> ret succeeded
     | Sendable c \<Rightarrow> bnd (lift (to_execute_motion_goal (ge_mapper E) c)) (dispatch_and_await E))"

subsection \<open>Preparing a semantic IR\<close>

definition error_ir :: "string \<Rightarrow> string \<Rightarrow> string \<Rightarrow> json" where
  "error_ir e message hint = JObj [(''error'', JStr e), (''message'', JStr message), (''hint'', JStr hint)]"

definition pose_unavailable :: json where
  "pose_unavailable = error_ir ''CURRENT_POSE_UNAVAILABLE''
     ''current pose unavailable for tool0-relative move; cannot transform forward/back/left/right into base_link''
     ''Verify /get_current_pose is available and returns base_link pose.''"

definition resolve_tool_delta :: "float_lib \<Rightarrow> obj option \<Rightarrow> obj \<Rightarrow> adapter_exn + json" where
  "resolve_tool_delta F pose d = (case pose of
     None \<Rightarrow> Inr pose_unavailable
   | Some current \<Rightarrow>
       (case rotate_tool_delta_to_base F (value_or d ''delta'' (JObj [])) current of
          Inl e \<Rightarrow> (case is_value_error e of
              Some text \<Rightarrow> Inr (error_ir ''CURRENT_POSE_INVALID'' text
                ''Verify /get_current_pose returns a finite unit quaternion.'')
            | None \<Rightarrow> Inl e)
        | Inr (x, y, z) \<Rightarrow>
            Inr (JObj (dict_set ''reference_frame'' (JStr ''base_link'')
              (dict_set ''delta'' (JObj [(''x'', JFloat x), (''y'', JFloat y), (''z'', JFloat z)]) d)))))"

text \<open>The pose is asked for when a move needs it; the counter says how many answers were used.\<close>

function tool_relative :: "float_lib \<Rightarrow> (nat \<Rightarrow> obj option) \<Rightarrow> nat \<Rightarrow> json \<Rightarrow> (adapter_exn + json) \<times> nat"
  and tool_relative_steps ::
    "float_lib \<Rightarrow> (nat \<Rightarrow> obj option) \<Rightarrow> nat \<Rightarrow> json list \<Rightarrow> (adapter_exn + json list) \<times> nat" where
  "tool_relative F P n v = (case v of
     JObj d \<Rightarrow>
       if text_of d ''intent'' = ''sequence'' then
         (case dget d ''steps'' of
            Some (JList ss) \<Rightarrow> (case tool_relative_steps F P n ss of
                (Inl e, m) \<Rightarrow> (Inl e, m)
              | (Inr ts, m) \<Rightarrow> (Inr (JObj (dict_set ''steps'' (JList ts) d)), m))
          | _ \<Rightarrow> (Inr v, n))
       else if text_of d ''intent'' \<noteq> ''move_relative'' \<or> value_at d ''reference_frame'' \<noteq> JStr ''tool0''
       then (Inr v, n)
       else (resolve_tool_delta F (P n) d, Suc n)
   | _ \<Rightarrow> (Inr v, n))"
| "tool_relative_steps F P n [] = (Inr [], n)"
| "tool_relative_steps F P n (s # ss) = (case tool_relative F P n s of
     (Inl e, m) \<Rightarrow> (Inl e, m)
   | (Inr t, m) \<Rightarrow> (case tool_relative_steps F P m ss of
       (Inl e, k) \<Rightarrow> (Inl e, k) | (Inr ts, k) \<Rightarrow> (Inr (t # ts), k)))"
  by pat_completeness auto
termination
  by (relation "measure (\<lambda>x. case x of Inl (_, _, _, v) \<Rightarrow> 2 * size v | Inr (_, _, _, vs) \<Rightarrow> 2 * size_list size vs + 1)")
    (auto dest: steps_smaller)

declare tool_relative.simps [simp del]

definition resolve_move_joint_delta :: "joint_state \<Rightarrow> json \<Rightarrow> adapter_exn + json" where
  "resolve_move_joint_delta J v = (case prepare_ir J v of
     Inr w \<Rightarrow> Inr w
   | Inl e \<Rightarrow> (case is_value_error e of
       None \<Rightarrow> Inl e
     | Some text \<Rightarrow>
         Inr (if is_infix ''current joint positions unavailable'' text
           then error_ir ''CURRENT_JOINT_STATE_UNAVAILABLE'' text ''Verify /yaskawa/joint_states or /joint_states is publishing.''
           else error_ir ''MOVE_JOINT_DELTA_RESOLUTION_FAILED'' text ''Verify joint index/alias and delta_angle are valid.'')))"

fun has_error :: "json \<Rightarrow> bool" where
  "has_error (JObj d) \<longleftrightarrow> dget d ''error'' \<noteq> None"
| "has_error _ \<longleftrightarrow> False"

definition prepare_review :: "gateway_env \<Rightarrow> nat \<Rightarrow> json \<Rightarrow> (adapter_exn + json) \<times> nat" where
  "prepare_review E n v =
     (let w = canonicalize v in
      if \<not> is_dict w then (Inr w, n)
      else case tool_relative (ge_lib E) (ge_pose E) n w of
        (Inl e, m) \<Rightarrow> (Inl e, m)
      | (Inr u, m) \<Rightarrow> (if has_error u then (Inr u, m) else (resolve_move_joint_delta (ge_joints E) u, m)))"

definition prepare_eff :: "gateway_env \<Rightarrow> json \<Rightarrow> json gw" where
  "prepare_eff E v s = (case prepare_review E (gs_clock s) v of (r, m) \<Rightarrow> (r, s\<lparr>gs_clock := m\<rparr>))"

text \<open>\<open>_review_error_message\<close>, on the parts of an error that it reads.\<close>

definition review_error_message :: "json \<Rightarrow> json \<Rightarrow> json \<Rightarrow> string" where
  "review_error_message e message intent =
     (let relative = ''relative move requires direction and distance.'';
          reason = to_str (if truthy message then message else or_empty e) in
      if e = JStr ''MISSING_SLOT'' \<and> intent = JStr ''move_relative'' then relative
      else if reason = ''move_relative requires delta.'' then relative else reason)"

definition error_message_of :: "obj \<Rightarrow> string" where
  "error_message_of d = review_error_message (value_at d ''error'') (value_at d ''message'') (value_at d ''intent'')"

fun error_reason :: "json \<Rightarrow> string" where
  "error_reason (JObj d) = error_message_of d"
| "error_reason _ = []"

definition routed_error_message :: "string \<Rightarrow> route_result \<Rightarrow> string" where
  "routed_error_message dflt r =
     (let d = (case rr_error r of Some e \<Rightarrow> e | None \<Rightarrow> []);
          m = value_at d ''message'' in
      review_error_message (value_at d ''error'') (if truthy m then m else JStr dflt) (value_at d ''intent''))"

subsection \<open>A semantic IR\<close>

fun run_commands :: "gateway_env \<Rightarrow> obj list \<Rightarrow> run_outcome gw" where
  "run_commands E [] = ret succeeded"
| "run_commands E (c # cs) =
     bnd (validate_runtime_command E (JObj c)) (\<lambda>r. if fst r then run_commands E cs else ret r)"

definition run_routed :: "gateway_env \<Rightarrow> json \<Rightarrow> run_outcome gw" where
  "run_routed E prepared = (case route (ge_router E) (canonicalize prepared) of
     Inl e \<Rightarrow> ret (failed (exn_text e))
   | Inr r \<Rightarrow>
       if rr_type r = ''error'' then ret (failed (routed_error_message ''runtime skill was rejected by the intent router.'' r))
       else if rr_commands r = [] then ret (failed ''runtime skill produced no routed command'')
       else run_commands E (rr_commands r))"

definition run_single :: "gateway_env \<Rightarrow> json \<Rightarrow> run_outcome gw" where
  "run_single E v =
     bnd (prepare_eff E v) (\<lambda>prepared.
     if has_error prepared then ret (failed (error_reason prepared))
     else case validate_semantic_ir_contract prepared of
       Some why \<Rightarrow> ret (failed why)
     | None \<Rightarrow> run_routed E prepared)"

function run_ir :: "gateway_env \<Rightarrow> json \<Rightarrow> run_outcome gw"
  and run_irs :: "gateway_env \<Rightarrow> json list \<Rightarrow> run_outcome gw" where
  "run_ir E v = (case v of
     JObj d \<Rightarrow>
       if value_at d ''intent'' = JStr ''sequence'' then
         (case dget d ''steps'' of
            Some (JList ss) \<Rightarrow> if ss = [] then ret (failed ''runtime sequence requires at least one step'') else run_irs E ss
          | _ \<Rightarrow> ret (failed ''runtime sequence requires at least one step''))
       else run_single E v
   | _ \<Rightarrow> ret (failed ''runtime skill produced a non-object command artifact''))"
| "run_irs E [] = ret succeeded"
| "run_irs E (s # ss) = bnd (run_ir E s) (\<lambda>r. if fst r then run_irs E ss else ret r)"
  by pat_completeness auto
termination
  by (relation "measure (\<lambda>x. case x of Inl (_, v) \<Rightarrow> 2 * size v | Inr (_, vs) \<Rightarrow> 2 * size_list size vs + 1)")
    (auto dest: steps_smaller)

declare run_ir.simps [simp del]

subsection \<open>Confirmation of a command\<close>

text \<open>\<open>_on_confirm_execution\<close> for an intent that is not a factory task: the parsed intent goes to the
  mapper as it is, and the request carries no pose.\<close>

definition confirm_request :: "obj \<Rightarrow> adapter_exn + validate_request" where
  "confirm_request d =
     ebind (to_command_payload (plain_dict d)) (\<lambda>payload.
     ebind (case value_or d ''primitive_type'' (JStr []) of JStr p \<Rightarrow> Inr p | _ \<Rightarrow> Inl (Raised TypeError)) (\<lambda>prim.
     ebind (float_entry (value_or d ''velocity_scale'' (JFloat (Fin 0)))) (\<lambda>vel.
     Inr \<lparr>rq_command = payload, rq_primitive = prim, rq_velocity = vel, rq_target_pose = default_pose\<rparr>)))"

definition on_confirm_command :: "gateway_env \<Rightarrow> obj \<Rightarrow> run_outcome gw" where
  "on_confirm_command E d =
     bnd (asking (ge_validate_ready E)) (\<lambda>ready.
     if \<not> ready then ret (failed ''ValidateCommand service unavailable'')
     else bnd (lift (confirm_request d)) (\<lambda>rq.
     bnd tick (\<lambda>n. andthen (log_gw (Validated n rq)) (ret (case ge_validate E n rq of
       Inl e \<Rightarrow> failed (''ValidateCommand call failed: '' @ e)
     | Inr None \<Rightarrow> failed ''ValidateCommand service timed out''
     | Inr (Some (ok, why)) \<Rightarrow> if ok then succeeded else failed why)))))"

end
