(* ===== verification/Mapper_Properties.thy ===== *)
theory Mapper_Properties
  imports Goal_Mapper Execution_Gate
begin

section \<open>The payload and the goal say the same\<close>

text \<open>
  What the payload of a command holds at the keys the safety gate reads, and that the gate's reading of
  it gives the poses and the displacement of the goal built from the same command.
\<close>

subsection \<open>Looking up a payload\<close>

definition silent :: "string \<Rightarrow> (adapter_exn + dict) \<Rightarrow> bool" where
  "silent k f \<longleftrightarrow> (\<forall>d. f = Inr d \<longrightarrow> map_of d k = None)"

lemma silent_field: "out \<noteq> k \<Longrightarrow> silent k (field c j out conv)"
  by (auto simp: silent_def field_def ebind_eq_Inr split: option.splits)

lemma silent_truthy_field: "out \<noteq> k \<Longrightarrow> silent k (truthy_field c j out conv)"
  by (simp add: truthy_field_def silent_field) (simp add: silent_def)

lemma fields_append:
  "all_fields (fs @ gs) = ebind (all_fields fs) (\<lambda>d. ebind (all_fields gs) (\<lambda>e. Inr (d @ e)))"
  by (induction fs) (auto simp: ebind_def split: sum.splits)

lemma fields_silent: "list_all (silent k) fs \<Longrightarrow> all_fields fs = Inr d \<Longrightarrow> map_of d k = None"
  by (induction fs arbitrary: d) (auto simp: ebind_eq_Inr silent_def)

text \<open>The key \<open>k\<close> is written by one field only.\<close>

lemma fields_lookup:
  assumes "all_fields (fs @ f # gs) = Inr d" and "list_all (silent k) fs" and "list_all (silent k) gs"
  shows "\<exists>e. f = Inr e \<and> map_of d k = map_of e k"
proof -
  obtain a e b where abe: "all_fields fs = Inr a" "f = Inr e" "all_fields gs = Inr b" "d = a @ e @ b"
    using assms(1) by (auto simp: fields_append ebind_eq_Inr)
  moreover have "map_of a k = None" "map_of b k = None"
    using fields_silent assms(2,3) abe(1,3) by blast+
  ultimately show ?thesis by (auto simp: map_add_def split: option.splits)
qed

lemma payload_fields:
  assumes "to_command_payload c = Inr p"
  shows "\<exists>prim rest. map_of c ''primitive_type'' = Some prim \<and> p = (''primitive_type'', JStr (ntext prim)) # rest
    \<and> all_fields (common_fields c @ own_fields c) = Inr rest"
  using assms by (auto simp: to_command_payload_def ebind_eq_Inr split: option.splits)

lemmas silent_simps = common_fields_def silent_field silent_truthy_field

lemma is_prim_unique: "is_prim c p \<Longrightarrow> is_prim c q \<longleftrightarrow> q = p"
  by (auto simp: is_prim_def)

lemma payload_primitive:
  "to_command_payload c = Inr p \<Longrightarrow> is_prim c name \<Longrightarrow> command_field (JObj p) ''primitive_type'' = JStr name"
  using payload_fields [of c p] by (auto simp: command_field_def dget_def is_prim_def nget_def ntext_def)

lemma payload_lookup:
  assumes "to_command_payload c = Inr p" and "k \<noteq> ''primitive_type''"
    and "common_fields c @ own_fields c = fs @ f # gs" and "list_all (silent k) fs" and "list_all (silent k) gs"
  shows "\<exists>e. f = Inr e \<and> dget p k = map_of e k"
  using payload_fields [OF assms(1)] fields_lookup [OF _ assms(4,5)] assms(2,3) by (auto simp: dget_def)

text \<open>The value of a field, and of a field that is only written when the value is not empty.\<close>

lemma field_at: "field c j k conv = Inr e \<Longrightarrow>
    (case map_of c j of None \<Rightarrow> map_of e k = None | Some v \<Rightarrow> \<exists>w. conv v = Inr w \<and> map_of e k = Some w)"
  by (auto simp: field_def ebind_eq_Inr split: option.splits)

lemma truthy_field_at: "truthy_field c j k conv = Inr e \<Longrightarrow>
    (if ntruthy (nget c j) then \<exists>w. conv (nget c j) = Inr w \<and> map_of e k = Some w else map_of e k = None)"
  using field_at [of c j k conv e] by (auto simp: truthy_field_def nget_def split: option.splits if_splits)

subsection \<open>The keys the gate reads\<close>

lemma own_fields_of:
  "is_prim c ''MOVE_REL'' \<Longrightarrow> own_fields c = map (\<lambda>k. field c k k as_float) deltas"
  "is_prim c ''CIRC'' \<Longrightarrow> own_fields c = [truthy_field c ''waypoints_msg'' ''waypoints'' poses_payload]"
  "is_prim c ''CARTESIAN_PATH'' \<Longrightarrow> own_fields c =
     [truthy_field c ''waypoints_msg'' ''waypoints'' poses_payload,
      truthy_field c ''waypoints_msg'' ''waypoints_count'' (\<lambda>v. ebind (poses_of v) (\<lambda>ps. Inr (JInt (int (length ps)))))]"
  "is_prim c ''BLENDED_SEQUENCE'' \<Longrightarrow> own_fields c =
     [truthy_field c ''sequence_steps'' ''sequence_steps''
        (\<lambda>v. ebind (step_list_of v) (\<lambda>ss. ebind (map_each step_payload ss) (\<lambda>ps. Inr (JList ps))))]"
  by (simp_all add: own_fields_def Let_def is_prim_unique)

lemma payload_waypoints:
  assumes p: "to_command_payload c = Inr p" and prim: "is_prim c ''CIRC'' \<or> is_prim c ''CARTESIAN_PATH''"
  shows "if ntruthy (nget c ''waypoints_msg'')
    then \<exists>ps. nget c ''waypoints_msg'' = PosesV ps \<and> dget p ''waypoints'' = Some (JList (map pose_to_payload ps))
    else dget p ''waypoints'' = None"
proof -
  have "\<exists>gs. own_fields c = truthy_field c ''waypoints_msg'' ''waypoints'' poses_payload # gs
      \<and> list_all (silent ''waypoints'') gs"
    using prim by (auto simp: own_fields_of silent_truthy_field)
  then obtain gs where own: "common_fields c @ own_fields c =
        common_fields c @ truthy_field c ''waypoints_msg'' ''waypoints'' poses_payload # gs"
    and gs: "list_all (silent ''waypoints'') gs" by auto
  have "list_all (silent ''waypoints'') (common_fields c)" by (simp add: silent_simps)
  from payload_lookup [OF p _ own this gs] obtain e where
    e: "truthy_field c ''waypoints_msg'' ''waypoints'' poses_payload = Inr e" "dget p ''waypoints'' = map_of e ''waypoints''"
    by auto
  have "poses_payload v = Inr w \<Longrightarrow> \<exists>ps. v = PosesV ps \<and> w = JList (map pose_to_payload ps)" for v w
    by (cases v) (auto simp: poses_payload_def)
  then show ?thesis using truthy_field_at [OF e(1)] by (auto simp: e(2) split: if_splits)
qed

lemma payload_steps:
  assumes p: "to_command_payload c = Inr p" and prim: "is_prim c ''BLENDED_SEQUENCE''"
    and t: "ntruthy (nget c ''sequence_steps'')"
  shows "\<exists>ss ps. step_list_of (nget c ''sequence_steps'') = Inr ss \<and> map_each step_payload ss = Inr ps
    \<and> dget p ''sequence_steps'' = Some (JList ps)"
proof -
  have "list_all (silent ''sequence_steps'') (common_fields c)" by (simp add: silent_simps)
  from payload_lookup [OF p _ _ this, of _ "[]"] own_fields_of(4) [OF prim] t show ?thesis
    by (fastforce dest!: truthy_field_at simp: ebind_eq_Inr)
qed

lemma payload_delta:
  assumes p: "to_command_payload c = Inr p" and prim: "is_prim c ''MOVE_REL''" and k: "k \<in> set deltas"
  shows "\<exists>x. nfloat (nget_or c k (JFloat (Fin 0))) = Inr x
    \<and> jget (JObj p) k (JFloat (Fin 0)) = Inr (JFloat x)"
proof -
  have com: "list_all (silent k) (common_fields c)" using k by (auto simp: silent_simps deltas_def)
  obtain fs gs where own: "common_fields c @ own_fields c = (common_fields c @ fs) @ field c k k as_float # gs"
    and s: "list_all (silent k) fs" "list_all (silent k) gs"
  proof -
    consider "k = ''delta_x''" | "k = ''delta_y''" | "k = ''delta_z''" using k by (auto simp: deltas_def)
    then show thesis
    proof cases
      case 1
      show ?thesis by (rule that [of "[]" "[field c ''delta_y'' ''delta_y'' as_float, field c ''delta_z'' ''delta_z'' as_float]"])
          (simp_all add: 1 own_fields_of(1) [OF prim] deltas_def silent_field)
    next
      case 2
      show ?thesis by (rule that [of "[field c ''delta_x'' ''delta_x'' as_float]" "[field c ''delta_z'' ''delta_z'' as_float]"])
          (simp_all add: 2 own_fields_of(1) [OF prim] deltas_def silent_field)
    next
      case 3
      show ?thesis
        by (rule that [of "[field c ''delta_x'' ''delta_x'' as_float, field c ''delta_y'' ''delta_y'' as_float]" "[]"])
          (simp_all add: 3 own_fields_of(1) [OF prim] deltas_def silent_field)
    qed
  qed
  have k1: "k \<noteq> ''primitive_type''" using k by (auto simp: deltas_def)
  from payload_lookup [OF p k1 own] com s obtain e where
    e: "field c k k as_float = Inr e" "dget p k = map_of e k" by auto
  with field_at [OF e(1)] show ?thesis
    by (auto simp: nget_or_def as_float_def ebind_eq_Inr raised_def split: option.splits)
qed

lemma payload_joints:
  assumes p: "to_command_payload c = Inr p" and prim: "is_prim c ''PTP''"
  shows "if ntruthy (nget c ''joint_target'')
    then \<exists>xs. nfloats (nget c ''joint_target'') = Inr xs \<and> dget p ''joint_target'' = Some (JList (map JFloat xs))
    else dget p ''joint_target'' = None"
proof -
  have own: "own_fields c = []" using prim by (simp add: own_fields_def Let_def is_prim_unique)
  have "\<exists>e. truthy_field c ''joint_target'' ''joint_target'' (\<lambda>v. ebind (nfloats v) (\<lambda>xs. Inr (JList (map JFloat xs)))) = Inr e
      \<and> dget p ''joint_target'' = map_of e ''joint_target''"
    by (rule payload_lookup [OF p, of _ "take 7 (common_fields c)" _ "drop 8 (common_fields c)"])
      (simp_all add: own silent_simps)
  then show ?thesis by (auto dest!: truthy_field_at simp: ebind_eq_Inr split: if_splits)
qed

subsection \<open>The gate's reading of the payload is the goal\<close>

definition pose_point :: "pose_msg \<Rightarrow> point" where
  "pose_point p = \<lparr>point.px = pose_msg.px p, point.py = pose_msg.py p,
     point.pz = pose_msg.pz p\<rparr>"

lemma waypoint_at_payload: "waypoint_at (pose_to_payload p) q \<longleftrightarrow> q = pose_point p"
  by (auto simp: waypoint_at_def pose_to_payload_def vec_payload_def read_point_def dget_def pose_point_def)

lemma aux_waypoint_at_payload: "aux_waypoint_at (pose_to_payload p) q \<longleftrightarrow> q = pose_point p"
  by (auto simp: aux_waypoint_at_def pose_to_payload_def vec_payload_def read_point_def dget_def pose_point_def)

lemma goal_parts:
  assumes "to_execute_motion_goal G c = Inr g"
  shows "\<exists>prim. map_of c ''primitive_type'' = Some prim \<and> g_primitive g = ntext prim"
    and "(case map_of c ''target_pose_msg'' of None \<Rightarrow> Inr default_pose | Some v \<Rightarrow> as_pose v) = Inr (g_target_pose g)"
    and "(if ntruthy (nget c ''waypoints_msg'') then poses_of (nget c ''waypoints_msg'') else Inr []) = Inr (g_waypoints g)"
    and "float_entries (nget_or c ''joint_target'' (JList [])) = Inr (g_joint_target g)"
    and "(if is_prim c ''BLENDED_SEQUENCE'' \<and> ntruthy (nget c ''sequence_steps'')
          then ebind (step_list_of (nget c ''sequence_steps'')) (map_each (step_goal G)) else Inr []) = Inr (g_steps g)"
    and "nfloat (nget_or c ''delta_x'' (JFloat (Fin 0))) = Inr (fst (g_delta g))"
    and "nfloat (nget_or c ''delta_y'' (JFloat (Fin 0))) = Inr (fst (snd (g_delta g)))"
    and "nfloat (nget_or c ''delta_z'' (JFloat (Fin 0))) = Inr (snd (snd (g_delta g)))"
proof -
  obtain prim where prim: "map_of c ''primitive_type'' = Some prim"
    using assms by (cases "map_of c ''primitive_type''") (simp_all add: to_execute_motion_goal_def)
  note parts = assms [unfolded to_execute_motion_goal_def Let_def prim option.case ebind_eq_Inr]
  show "\<exists>prim. map_of c ''primitive_type'' = Some prim \<and> g_primitive g = ntext prim"
    using prim parts by (elim exE conjE) auto
  show "(case map_of c ''target_pose_msg'' of None \<Rightarrow> Inr default_pose | Some v \<Rightarrow> as_pose v) = Inr (g_target_pose g)"
    and "(if ntruthy (nget c ''waypoints_msg'') then poses_of (nget c ''waypoints_msg'') else Inr []) = Inr (g_waypoints g)"
    and "float_entries (nget_or c ''joint_target'' (JList [])) = Inr (g_joint_target g)"
    and "(if is_prim c ''BLENDED_SEQUENCE'' \<and> ntruthy (nget c ''sequence_steps'')
          then ebind (step_list_of (nget c ''sequence_steps'')) (map_each (step_goal G)) else Inr []) = Inr (g_steps g)"
    and "nfloat (nget_or c ''delta_x'' (JFloat (Fin 0))) = Inr (fst (g_delta g))"
    and "nfloat (nget_or c ''delta_y'' (JFloat (Fin 0))) = Inr (fst (snd (g_delta g)))"
    and "nfloat (nget_or c ''delta_z'' (JFloat (Fin 0))) = Inr (snd (snd (g_delta g)))"
    using parts by (elim exE conjE, force)+
qed

lemma map_each_length: "map_each f xs = Inr ys \<Longrightarrow> length ys = length xs"
  by (induction xs arbitrary: ys) (auto simp: ebind_eq_Inr)

lemma map_each_nth: "map_each f xs = Inr ys \<Longrightarrow> i < length xs \<Longrightarrow> f (xs ! i) = Inr (ys ! i)"
proof (induction xs arbitrary: ys i)
  case (Cons x xs)
  then show ?case by (cases i) (auto simp: ebind_eq_Inr)
qed simp

lemma step_payload_at:
  assumes "step_payload s = Inr j" and "step_goal G s = Inr m" and "blend_step_at j q"
  shows "q = pose_point (st_target_pose m)"
proof -
  obtain r rest where j: "j = JObj ([(''primitive_type'', JStr (ntext (nget_or s ''primitive_type'' (JStr ''LIN'')))),
        (''blend_radius_m'', r)] @ rest)"
    and rest: "all_fields [field s ''target_pose_msg'' ''target_pose'' as_pose_payload,
         field s ''planner_id'' ''planner_id'' as_str, field s ''velocity_scale'' ''velocity_scale'' as_float,
         field s ''acceleration_scale'' ''acceleration_scale'' as_float] = Inr rest"
    using assms(1) unfolding step_payload_def ebind_eq_Inr by blast
  have "\<exists>e. field s ''target_pose_msg'' ''target_pose'' as_pose_payload = Inr e
      \<and> map_of rest ''target_pose'' = map_of e ''target_pose''"
    by (rule fields_lookup [of "[]", unfolded append_Nil, OF rest]) (simp_all add: silent_field)
  then obtain e where e: "field s ''target_pose_msg'' ''target_pose'' as_pose_payload = Inr e"
    and at: "dget ([(''primitive_type'', JStr (ntext (nget_or s ''primitive_type'' (JStr ''LIN'')))),
        (''blend_radius_m'', r)] @ rest) ''target_pose'' = map_of e ''target_pose''"
    by (auto simp: dget_def)
  show ?thesis
  proof (cases "map_of s ''target_pose_msg''")
    case None
    with field_at [OF e] at have "jget j ''target_pose'' JNull = Inr JNull" by (simp add: j)
    with assms(3) show ?thesis by (auto simp: blend_step_at_def)
  next
    case (Some v)
    with field_at [OF e] obtain w where w: "as_pose_payload v = Inr w" "map_of e ''target_pose'' = Some w" by auto
    from w(1) obtain p where v: "v = PoseV p" and w1: "w = pose_to_payload p"
      by (cases v) (auto simp: as_pose_payload_def)
    have "st_target_pose m = p" using assms(2) Some v by (auto simp: step_goal_def Let_def ebind_eq_Inr)
    moreover have "jget j ''target_pose'' JNull = Inr (pose_to_payload p)" using at w w1 by (simp add: j)
    then have "q = pose_point p"
      using assms(3)
      by (auto simp: blend_step_at_def pose_to_payload_def vec_payload_def read_point_def dget_def pose_point_def)
    ultimately show ?thesis by simp
  qed
qed

lemma payload_read_delta:
  assumes p: "to_command_payload c = Inr p" and prim: "is_prim c ''MOVE_REL''" and g: "to_execute_motion_goal G c = Inr g"
  shows "read_delta (JObj p) = Inr (case g_delta g of (x, y, z) \<Rightarrow>
    \<lparr>point.px = x, point.py = y, point.pz = z\<rparr>)"
  using payload_delta [OF p prim, of "''delta_x''"] payload_delta [OF p prim, of "''delta_y''"]
    payload_delta [OF p prim, of "''delta_z''"] goal_parts(6-8) [OF g]
  by (auto simp: read_delta_def deltas_def split: prod.splits)

lemma payload_ptp_joints:
  assumes p: "to_command_payload c = Inr p" and prim: "is_prim c ''PTP''" and g: "to_execute_motion_goal G c = Inr g"
    and joints: "ptp_with_joints (JStr ''PTP'') (command_field (JObj p) ''joint_target'')"
  shows "g_joint_target g \<noteq> []"
proof -
  have t: "ntruthy (nget c ''joint_target'')" "command_field (JObj p) ''joint_target'' \<noteq> JList []"
    using payload_joints [OF p prim] joints
    by (auto simp: ptp_with_joints_def command_field_def split: if_splits option.splits)
  then obtain xs where "nfloats (nget c ''joint_target'') = Inr xs" "xs \<noteq> []"
    using payload_joints [OF p prim] by (auto simp: command_field_def split: if_splits)
  moreover have "nget_or c ''joint_target'' (JList []) = nget c ''joint_target''"
    using t by (auto simp: nget_or_def nget_def split: option.splits)
  ultimately show ?thesis
    using goal_parts(4) [OF g] by (cases "nget c ''joint_target''") (auto simp: ebind_eq_Inr dest!: map_each_length)
qed

end
