(* ===== verification/Gateway_Properties.thy ===== *)
theory Gateway_Properties
  imports Gateway_Runtime Mapper_Properties Safety_Properties
begin

section \<open>From a semantic IR to the motion server\<close>

text \<open>
  The composition of the gateway with the safety gate: every goal the runtime path sends was built from
  a command whose request the validation service had just approved, and when the modelled gate answers
  that service the goal stays inside the guard's region.  The theory ends with what a stop does to a
  dispatch, and with the confirmation service.
\<close>

subsection \<open>A goal the gate has approved\<close>

definition gate_request :: "validate_request \<Rightarrow> request" where
  "gate_request rq = \<lparr>command_json = WDoc (JObj (rq_command rq)), target_pose = pose_point (rq_target_pose rq)\<rparr>"



text \<open>The request and the goal come from the same command.\<close>

definition same_command :: "gateway_env \<Rightarrow> validate_request \<Rightarrow> motion_goal \<Rightarrow> bool" where
  "same_command E rq g \<longleftrightarrow> (\<exists>command c p. ge_schema E command = None \<and> normalize_and_validate E command = Inr c
     \<and> to_command_payload c = Inr p \<and> build_validate_request c p = Inr rq
     \<and> to_execute_motion_goal (ge_mapper E) c = Inr g)"


subsection \<open>Every goal sent was approved\<close>

text \<open>
  \<open>backed E cs\<close>: the goals among the calls \<open>cs\<close> were each built from the command of a request that the
  validation service approved three ticks before, with no stop signalled in between; the times tell the
  approvals of different goals apart.
\<close>

definition backed :: "gateway_env \<Rightarrow> gw_call list \<Rightarrow> bool" where
  "backed E cs \<longleftrightarrow> (\<forall>k g. GoalSent k g \<in> set cs \<longrightarrow>
     (\<exists>n rq why. Validated n rq \<in> set cs \<and> k = n + 3 \<and> ge_validate E n rq = Inr (Some (True, why))
       \<and> same_command E rq g \<and> \<not> ge_stopped E (n + 1) \<and> ge_execute_ready E (n + 2)))"

lemma backed_Nil [simp]: "backed E []"
  by (simp add: backed_def)







lemmas gw_run = asking_def tick_def log_gw_def py_simps













subsection \<open>One goal\<close>

text \<open>C28: Once the motion server has accepted a goal, the dispatch reports success exactly when no stop was seen
  right after the acceptance and a successful result came in time; only that one look at the stop flag can
  cancel the goal, a result that does not come in time leaves it running.\<close>

theorem accepted_goal_outcome:
  assumes run: "dispatch_and_await E g s = (r, t)" and n: "n = gs_clock s"
    and sent: "\<not> ge_stopped E n" "ge_execute_ready E (n + 1)" "ge_goal E (n + 2) g = GoalAccepted h"
  shows "gs_calls t = gs_calls s @ GoalSent (n + 2) g # (if ge_stopped E (n + 3) then [GoalCancelled (n + 4) h] else [])
    \<and> (r = Inr succeeded \<longleftrightarrow> \<not> ge_stopped E (n + 3) \<and> (\<exists>message. ge_result E (n + 4) h = Some (True, message)))"
proof -
  have plus: "m + 2 = Suc (Suc m)" "m + 3 = Suc (Suc (Suc m))" "m + 4 = Suc (Suc (Suc (Suc m)))" for m :: nat by simp_all
  note sent' = sent [unfolded n plus Suc_eq_plus1 [symmetric]]
  show ?thesis
  proof (cases "ge_stopped E (n + 3)")
    case True
    then have "ge_stopped E (Suc (Suc (Suc (gs_clock s))))" by (simp add: n plus)
    with run True show ?thesis
      unfolding n plus dispatch_and_await_def by (auto simp: gw_run sent' failed_def succeeded_def)
  next
    case False
    then have "\<not> ge_stopped E (Suc (Suc (Suc (gs_clock s))))" by (simp add: n plus)
    with run False show ?thesis
      unfolding n plus dispatch_and_await_def
      by (cases "ge_result E (Suc (Suc (Suc (Suc (gs_clock s))))) h";
          cases "fst (the (ge_result E (Suc (Suc (Suc (Suc (gs_clock s))))) h))")
        (auto simp: gw_run sent' failed_def succeeded_def)
  qed
qed

subsection \<open>The confirmation service\<close>

lemma origin_not_allowed: "\<not> pose_allowed shipped_guard (pose_point default_pose)"
  by (simp add: shipped_allowed_iff point_of_def pose_point_def default_pose_def)

lemma map_of_plain: "map_of (plain_dict d) k = map_option Plain (dget d k)"
  by (induction d) (auto simp: plain_dict_def dget_def)

text \<open>C29: The confirmation service maps the parsed intent without normalising it, so the request it validates
  never carries a pose: with the shipped rules behind the validation service it confirms no primitive whose
  target pose is checked, except a PTP to joint angles.\<close>

theorem confirmation_covers_no_pose:
  assumes run: "on_confirm_command E d s = (Inr (True, why), t)" and shipped: "gate_guard gt = shipped_guard"
    and gate: "\<And>n rq why. ge_validate E n rq = Inr (Some (True, why)) \<Longrightarrow> gate_valid gt (mgr n) (gate_request rq)"
  shows "\<exists>name p. dget d ''primitive_type'' = Some (JStr name) \<and> to_command_payload (plain_dict d) = Inr p
    \<and> (name \<in> set pose_skip_primitives \<or> ptp_with_joints (JStr name) (command_field (JObj p) ''joint_target''))"
proof -
  obtain rq n why' where rq: "confirm_request d = Inr rq" and v: "ge_validate E n rq = Inr (Some (True, why'))"
    using run by (auto simp: on_confirm_command_def gw_run failed_def succeeded_def split: if_splits sum.splits option.splits)
  obtain p where p: "to_command_payload (plain_dict d) = Inr p" and cmd: "rq_command rq = p"
    and pose: "rq_target_pose rq = default_pose"
    and prim: "value_or d ''primitive_type'' (JStr []) = JStr (rq_primitive rq)"
    using rq by (auto simp: confirm_request_def ebind_eq_Inr split: json.splits)
  have has: "dget d ''primitive_type'' = Some (JStr (rq_primitive rq))"
    using p prim by (auto simp: to_command_payload_def value_or_def map_of_plain split: option.splits)
  then have isp: "is_prim (plain_dict d) (rq_primitive rq)" by (simp add: is_prim_def nget_def map_of_plain)
  have "command_json (gate_request rq) = WDoc (JObj p)" by (simp add: gate_request_def cmd)
  from gate_valid_sound [OF gate [OF v] this payload_primitive [OF p isp]] origin_not_allowed
  have "rq_primitive rq \<in> set pose_skip_primitives
      \<or> ptp_with_joints (JStr (rq_primitive rq)) (command_field (JObj p) ''joint_target'')"
    by (auto simp: gate_request_def pose shipped)
  with has p show ?thesis by blast
qed

end
