(* ===== verification/Gripper.thy ===== *)
theory Gripper
  imports Semantic_Contract
begin

section \<open>The gripper adapter\<close>

text \<open>
  \<open>llm_gateway/gripper_adapter.py\<close>: \<open>GripperConfig\<close>, whose addresses may still be the placeholder
  \<open>VERIFY_CONFIG\<close>, and \<open>GripperIoAdapter\<close>, which writes and reads one input or output.  The service is an
  argument: its reply to a request.  An operation returns its result and the requests it made.
\<close>

record gripper_io_config =
  gc_open_address :: json
  gc_open_value :: json
  gc_close_address :: json
  gc_close_value :: json
  gc_closed_input :: json
  gc_closed_value :: json
  gc_timeout :: pyfloat

definition verify_config :: json where "verify_config = JStr ''VERIFY_CONFIG''"

definition gripper_config_from_rules :: "json \<Rightarrow> py_exn + gripper_io_config" where
  "gripper_config_from_rules rules =
     ebind (case rules of JObj d \<Rightarrow> Inr (case dget d ''gripper'' of None \<Rightarrow> JObj [] | Some v \<Rightarrow> v) | _ \<Rightarrow> Inr (JObj [])) (\<lambda>raw.
     ebind (jget raw ''open_output_address'' verify_config) (\<lambda>oa. ebind (jget raw ''open_output_value'' verify_config) (\<lambda>ov.
     ebind (jget raw ''close_output_address'' verify_config) (\<lambda>ca. ebind (jget raw ''close_output_value'' verify_config) (\<lambda>cv.
     ebind (jget raw ''closed_input_address'' verify_config) (\<lambda>ia. ebind (jget raw ''closed_input_active_value'' verify_config) (\<lambda>iv.
     ebind (ebind (jget raw ''feedback_timeout_sec'' (JFloat (Fin 1))) to_float) (\<lambda>t.
     Inr \<lparr>gc_open_address = oa, gc_open_value = ov, gc_close_address = ca, gc_close_value = cv,
       gc_closed_input = ia, gc_closed_value = iv, gc_timeout = t\<rparr>))))))))"

definition gripper_verified :: "gripper_io_config \<Rightarrow> bool" where
  "gripper_verified C \<longleftrightarrow> list_all (\<lambda>v. v \<noteq> verify_config)
     [gc_open_address C, gc_open_value C, gc_close_address C, gc_close_value C, gc_closed_input C, gc_closed_value C]"

text \<open>The reply to a request, and a request: a write of a value, or a read.\<close>

datatype io_reply = IoRaises | IoTimeout | IoReply bool string int

datatype io_request = WriteIO int int | ReadIO int

record io_service =
  io_ready :: bool
  io_reply :: "io_request \<Rightarrow> io_reply"

definition io_failed :: "string \<Rightarrow> (bool \<times> string) \<times> io_request list" where
  "io_failed e = ((False, e), [])"

definition io_call :: "io_service \<Rightarrow> io_request \<Rightarrow> (int \<Rightarrow> py_exn + bool) \<Rightarrow> (bool \<times> string) \<times> io_request list" where
  "io_call S rq accept = (case io_reply S rq of
     IoRaises \<Rightarrow> ((False, ''io_exception''), [rq])
   | IoTimeout \<Rightarrow> ((False, ''io_timeout''), [rq])
   | IoReply ok message value \<Rightarrow>
       if \<not> ok then ((False, ''io_failed: '' @ message), [rq])
       else (case accept value of
           Inl e \<Rightarrow> ((False, ''io_exception''), [rq])
         | Inr True \<Rightarrow> ((True, []), [rq])
         | Inr False \<Rightarrow> ((False, ''grasp_failed''), [rq])))"

definition guarded_io ::
  "gripper_io_config \<Rightarrow> string \<Rightarrow> io_service \<Rightarrow> py_exn + io_request \<Rightarrow> (int \<Rightarrow> py_exn + bool)
    \<Rightarrow> (bool \<times> string) \<times> io_request list" where
  "guarded_io C mode S rq accept =
     (if \<not> gripper_verified C then io_failed ''verify_config_required''
      else if mode \<noteq> ''IDLE'' then io_failed ''robot_not_idle''
      else if \<not> io_ready S then io_failed ''runtime_unavailable''
      else case rq of Inl e \<Rightarrow> io_failed ''io_exception'' | Inr q \<Rightarrow> io_call S q accept)"

definition write_guarded ::
  "gripper_io_config \<Rightarrow> string \<Rightarrow> io_service \<Rightarrow> json \<Rightarrow> json \<Rightarrow> (bool \<times> string) \<times> io_request list" where
  "write_guarded C mode S address value =
     guarded_io C mode S (ebind (to_int address) (\<lambda>a. ebind (to_int value) (\<lambda>v. Inr (WriteIO a v)))) (\<lambda>_. Inr True)"

definition read_guarded ::
  "gripper_io_config \<Rightarrow> string \<Rightarrow> io_service \<Rightarrow> json \<Rightarrow> json \<Rightarrow> (bool \<times> string) \<times> io_request list" where
  "read_guarded C mode S address expected =
     guarded_io C mode S (ebind (to_int address) (\<lambda>a. Inr (ReadIO a)))
       (\<lambda>v. ebind (to_int expected) (\<lambda>e. Inr (v = e)))"

definition gripper_open_io :: "gripper_io_config \<Rightarrow> string \<Rightarrow> io_service \<Rightarrow> (bool \<times> string) \<times> io_request list" where
  "gripper_open_io C mode S = write_guarded C mode S (gc_open_address C) (gc_open_value C)"

definition gripper_close_io :: "gripper_io_config \<Rightarrow> string \<Rightarrow> io_service \<Rightarrow> (bool \<times> string) \<times> io_request list" where
  "gripper_close_io C mode S = write_guarded C mode S (gc_close_address C) (gc_close_value C)"

definition verify_grasp :: "gripper_io_config \<Rightarrow> string \<Rightarrow> io_service \<Rightarrow> (bool \<times> string) \<times> io_request list" where
  "verify_grasp C mode S = read_guarded C mode S (gc_closed_input C) (gc_closed_value C)"

text \<open>No output of the gripper is touched unless every address was verified and the robot is idle.\<close>

lemma guarded_io_quiet: "\<not> gripper_verified C \<or> mode \<noteq> ''IDLE'' \<Longrightarrow> snd (guarded_io C mode S rq accept) = []"
  by (auto simp: guarded_io_def io_failed_def)

end
