(* ===== verification/Gateway_Tasks.thy ===== *)
theory Gateway_Tasks
  imports Gateway_Runtime Gripper Task_Runtime
begin

section \<open>Factory tasks on the gateway\<close>

text \<open>
  How a confirmed factory task runs: \<open>_on_confirm_factory_task_runtime\<close>,
  \<open>_factory_task_payload_from_runtime_sentinel\<close>, \<open>_semantic_ir_for_runtime_skill\<close> and
  \<open>_run_single_command_via_runtime\<close> of \<open>llm_gateway_node.py\<close>, and \<open>RuntimeSkillExecutor\<close> of
  \<open>runtime_skill_executor.py\<close>.  The interpreter is the task runtime with the calls of the gateway as its
  world.  The world model and the plans of the language model are answers of the world.
\<close>

record task_env =
  te_gateway :: gateway_env
  te_gripper :: gripper_io_config
  te_io :: "nat \<Rightarrow> io_service"
  te_mode :: "nat \<Rightarrow> string"
  te_world :: "nat \<Rightarrow> world_model"
  te_plan :: "(nat \<Rightarrow> string \<Rightarrow> string + json) option"

subsection \<open>A skill\<close>

definition compile_config :: "gripper_io_config \<Rightarrow> py_exn + gripper_config option" where
  "compile_config C =
     (if \<not> gripper_verified C then Inr None
      else ebind (to_int (gc_close_address C)) (\<lambda>ca. ebind (to_int (gc_close_value C)) (\<lambda>cv.
        ebind (to_int (gc_open_address C)) (\<lambda>oa. ebind (to_int (gc_open_value C)) (\<lambda>ov.
        Inr (Some \<lparr>gripper_close = (ca, cv), gripper_open = (oa, ov)\<rparr>))))))"

definition single_skill_payload :: "obj \<Rightarrow> string \<Rightarrow> obj \<Rightarrow> json" where
  "single_skill_payload task name args = JObj
     (dict_set ''root'' (JObj [(''type'', JStr ''skill''), (''name'', JStr name), (''args'', JObj args)])
     (dict_set ''task_id'' (JStr (to_str (value_at task ''task_id'') @ '':'' @ name)) task))"

text \<open>The world model is read when the skill is compiled.\<close>

definition semantic_ir_for_skill :: "task_env \<Rightarrow> nat \<Rightarrow> obj \<Rightarrow> string \<Rightarrow> obj \<Rightarrow> task_exn + json" where
  "semantic_ir_for_skill T n task name args =
     (if name \<in> {''pick_object'', ''place_object'', ''pick_and_place''} \<and> \<not> gripper_verified (te_gripper T)
      then Inl (FactoryTaskError ''gripper configuration is not verified'')
      else ebind (py (compile_config (te_gripper T))) (\<lambda>g.
        ebind (parse_factory_task (single_skill_payload task name args)) (\<lambda>t.
        ebind (compile_task \<lparr>tc_world = te_world T n, tc_gripper = g\<rparr> t) (\<lambda>ct.
        Inr (ct_semantic_ir ct)))))"

text \<open>\<open>RuntimeSkillExecutor\<close>: an exception of the dependencies is a failed step.\<close>

definition as_step :: "bool \<times> string \<Rightarrow> executor_result" where
  "as_step r = StepResult \<lparr>success = fst r, why = snd r, requests_replan = False, observation = JNull\<rparr>"

fun task_exn_text :: "task_exn \<Rightarrow> string" where
  "task_exn_text (FactoryTaskError t) = t"
| "task_exn_text (PyError e) = ''<exception>''"

definition step_of_run :: "(adapter_exn + bool \<times> string) \<times> gw_state \<Rightarrow> (task_exn + executor_result) \<times> gw_state" where
  "step_of_run r = (case r of
     (Inr x, w) \<Rightarrow> (Inr (as_step x), w) | (Inl e, w) \<Rightarrow> (Inr (as_step (failed (exn_text e))), w))"

definition skill_args :: "json \<Rightarrow> obj" where
  "skill_args v = (case v of JObj d \<Rightarrow> d | _ \<Rightarrow> [])"

definition gateway_executor ::
  "task_env \<Rightarrow> obj \<Rightarrow> string \<Rightarrow> json \<Rightarrow> gw_state \<Rightarrow> (task_exn + executor_result) \<times> gw_state" where
  "gateway_executor T task name args w =
     (let n = gs_clock w; w' = w\<lparr>gs_clock := Suc n\<rparr> in
      if name = ''verify_grasp''
      then (Inr (as_step (fst (verify_grasp (te_gripper T) (te_mode T n) (te_io T n)))), w')
      else case semantic_ir_for_skill T n task name (skill_args args) of
        Inl e \<Rightarrow> (Inr (as_step (failed (task_exn_text e))), w')
      | Inr ir \<Rightarrow> step_of_run (run_ir (te_gateway T) ir w'))"

subsection \<open>A confirmed task\<close>

definition dict_or :: "json \<Rightarrow> obj" where
  "dict_or v = (case v of JObj d \<Rightarrow> d | _ \<Rightarrow> [])"

definition payload_from_sentinel :: "obj \<Rightarrow> adapter_exn + obj" where
  "payload_from_sentinel d = (case value_at d ''metadata'' of
     JObj m \<Rightarrow> (case (value_at m ''factory_task'', value_at m ''runtime_plan'') of
       (JObj t, JObj plan) \<Rightarrow>
         (let tid = strip (to_str (or_empty (value_at t ''task_id'')));
              text = (\<lambda>k dflt. JStr (let v = value_at t k in if truthy v then to_str v else dflt));
              sub = (\<lambda>k. JObj (dict_or (or_empty (value_at t k)))) in
          if tid = [] then Inl (Refused ''FactoryTask runtime sentinel requires factory_task.task_id'')
          else Inr [(''task_type'', JStr ''factory_task''), (''version'', text ''version'' ''1.0''),
            (''task_id'', JStr tid), (''mode'', text ''mode'' ''supervised_hardware''),
            (''operator_summary'', text ''operator_summary'' []), (''limits'', sub ''limits''),
            (''replan_policy'', sub ''replan_policy''), (''root'', JObj plan)])
     | _ \<Rightarrow> Inl (Refused ''FactoryTask runtime sentinel requires factory_task and runtime_plan metadata''))
   | _ \<Rightarrow> Inl (Refused ''FactoryTask runtime sentinel requires metadata''))"

text \<open>The replan handler asks the planner once for a new task; an exception of the planner gives up, one of
  the parser of the new task does not.\<close>

definition gateway_replan ::
  "task_env \<Rightarrow> factory_task \<Rightarrow> runtime_report \<Rightarrow> gw_state \<Rightarrow> (task_exn + factory_task option) \<times> gw_state" where
  "gateway_replan T t rep w =
     (let w' = w\<lparr>gs_clock := Suc (gs_clock w)\<rparr> in
      (case te_plan T of None \<Rightarrow> Inr None
       | Some plan \<Rightarrow> (case plan (gs_clock w) (operator_summary t) of
           Inl e \<Rightarrow> Inr None
         | Inr v \<Rightarrow> if is_factory_task v then ebind (parse_factory_task v) (\<lambda>u. Inr (Some u)) else Inr None), w'))"

definition task_runtime_env :: "task_env \<Rightarrow> obj \<Rightarrow> factory_task \<Rightarrow> nat \<Rightarrow> gw_state runtime_env" where
  "task_runtime_env T task t n =
     \<lparr>skill_executor = gateway_executor T task,
      is_stopped_fn = Some (\<lambda>w. ge_stopped (te_gateway T) (gs_clock w)),
      replan_handler = Some (gateway_replan T t), max_replans = 1, runtime_world_model = te_world T n\<rparr>"

definition on_confirm_factory_task ::
  "task_env \<Rightarrow> obj \<Rightarrow> gw_state \<Rightarrow> (task_exn + bool \<times> string) \<times> gw_state" where
  "on_confirm_factory_task T d w =
     (case payload_from_sentinel d of
        Inl e \<Rightarrow> (Inr (False, ''invalid FactoryTask runtime payload: '' @ exn_text e), w)
      | Inr payload \<Rightarrow> (case parse_factory_task (JObj payload) of
          Inl e \<Rightarrow> (Inr (False, ''invalid FactoryTask runtime payload: '' @ task_exn_text e), w)
        | Inr t \<Rightarrow>
          (case run_task (task_runtime_env T payload t (gs_clock w)) t (initial_state w) of
             (Inl e, s) \<Rightarrow> (Inl e, world s)
           | (Inr rep, s) \<Rightarrow>
               (Inr (rep_success rep, if rep_success rep then []
                  else if rep_reason rep = [] then ''FactoryTask runtime execution failed'' else rep_reason rep), world s))))"

subsection \<open>A direct command\<close>

text \<open>\<open>_run_single_command_via_runtime\<close> wraps a parsed command in a task of one skill, with the command
  under the key \<open>arguments\<close>.\<close>

definition tier1_payload :: "obj \<Rightarrow> json" where
  "tier1_payload ir =
     (let name = value_or ir ''intent'' (JStr ''direct_command'') in
      JObj [(''task_type'', JStr ''factory_task''), (''version'', JStr ''1.0''), (''task_id'', JStr ''tier1''),
        (''mode'', JStr ''supervised_hardware''), (''operator_summary'', name), (''limits'', JObj []),
        (''replan_policy'', JObj []),
        (''root'', JObj [(''type'', JStr ''skill''), (''name'', name), (''arguments'', JObj ir)])])"

definition tier1_executor ::
  "gateway_env \<Rightarrow> string \<Rightarrow> json \<Rightarrow> gw_state \<Rightarrow> (task_exn + executor_result) \<times> gw_state" where
  "tier1_executor E name args w = step_of_run (run_ir E args w)"

definition tier1_env :: "task_env \<Rightarrow> nat \<Rightarrow> gw_state runtime_env" where
  "tier1_env T n =
     \<lparr>skill_executor = tier1_executor (te_gateway T),
      is_stopped_fn = Some (\<lambda>w. ge_stopped (te_gateway T) (gs_clock w)),
      replan_handler = None, max_replans = 0, runtime_world_model = te_world T n\<rparr>"

definition run_single_command :: "task_env \<Rightarrow> obj \<Rightarrow> gw_state \<Rightarrow> (task_exn + bool) \<times> gw_state" where
  "run_single_command T ir w =
     (case parse_factory_task (tier1_payload ir) of
        Inl e \<Rightarrow> (Inl e, w)
      | Inr t \<Rightarrow> (case run_task (tier1_env T (gs_clock w)) t (initial_state w) of
          (Inl e, s) \<Rightarrow> (Inl e, world s) | (Inr rep, s) \<Rightarrow> (Inr (rep_success rep), world s)))"

end
