(* ===== verification/Gateway_Task_Properties.thy ===== *)
theory Gateway_Task_Properties
  imports Gateway_Properties Gateway_Tasks
begin

section \<open>Tasks on the gateway\<close>

text \<open>
  The task runtime run over the gateway: every goal a confirmed factory task sends was approved by the
  gate, whatever plan the language model gives when a skill asks for another, and the direct path that
  wraps a single command in a task never runs it.
\<close>

subsection \<open>What a run of a task leaves in the world\<close>




definition extends_backed :: "gateway_env \<Rightarrow> gw_call list \<Rightarrow> gw_state \<Rightarrow> bool" where
  "extends_backed E base w \<longleftrightarrow> (\<exists>cs. gs_calls w = base @ cs \<and> backed E cs)"


lemma extends_clock [simp]: "extends_backed E base (w\<lparr>gs_clock := n\<rparr>) = extends_backed E base w"
  by (simp add: extends_backed_def)

lemma snd_step_of_run [simp]: "snd (step_of_run r) = snd r"
  by (auto simp: step_of_run_def split: prod.split sum.split)





subsection \<open>A direct command\<close>

lemma empty_ir_refused: "\<exists>why. run_ir E (JObj []) w = (Inr (failed why), w)"
proof -
  have names: "canonical_names [] = []" by (simp add: canonical_names_def rename_missing_def intent_of_def or_empty_def value_at_def dget_def Let_def)
    have t: "tool_relative F P n (JObj []) = (Inr (JObj []), n)" for F P n
    by (simp add: tool_relative.simps text_of_def dget_def value_at_def get_or_none_def)
  have p: "resolve_move_joint_delta J (JObj []) = Inr (JObj [])" for J
    by (simp add: resolve_move_joint_delta_def prepare_ir.simps intent_of_def or_empty_def value_at_def dget_def)
  have c: "validate_semantic_ir_contract (JObj []) = Some ''Semantic IR must contain a non-empty intent field.''"
    by (simp add: validate_semantic_ir_contract_def contract_head_def is_error_payload_def value_at_def dget_def)
  have "prepare_eff E (JObj []) w = (Inr (JObj []), w)"
    by (simp add: prepare_eff_def prepare_review_def Let_def names t p dget_def)
  then have "run_single E (JObj []) w = (Inr (failed ''Semantic IR must contain a non-empty intent field.''), w)"
    by (simp add: run_single_def bnd_run c ret_def dget_def)
  then have "run_ir E (JObj []) w = (Inr (failed ''Semantic IR must contain a non-empty intent field.''), w)"
    by (simp add: run_ir.simps value_at_def dget_def)
  then show ?thesis by blast
qed

lemma tier1_root:
  assumes "parse_factory_task (tier1_payload ir) = Inr t"
  shows "\<exists>nm n c coll it u f. root t = TaskNode ''skill'' nm [] [] c n coll it u f"
proof -
  let ?name = "value_or ir ''intent'' (JStr ''direct_command'')"
  let ?root = "[(''type'', JStr ''skill''), (''name'', ?name), (''arguments'', JObj ir)]"
  have r: "parse_node (JObj ?root) ''root'' = Inr (root t)"
    using assms unfolding parse_factory_task_def tier1_payload_def Let_def
    by (auto simp: ebind_eq_Inr get_or_none_def dget_def split: if_splits)
  from r show ?thesis
  proof (rule parse_node_InrE)
    fix d raw cs n args ty nm coll
    assume d: "JObj ?root = JObj d" and ty: "ty = strip (str_or (get_or_none d ''type'') '''')"
      and raw: "children_payload d ty ''root'' = Inr raw" and cs: "parse_children raw 0 ''root'' = Inr cs"
      and args: "dict_or_empty (get_or_none d ''args'') (''root'' @ ''.args'') = Inr args"
      and root: "root t = TaskNode ty nm args cs (get_or_none d ''condition'') n coll
        (str_or (get_or_none d ''item_name'') ''item'') (get_or_none d ''until'') (get_or_none d ''on_failure'')"
    have d': "d = ?root" using d by simp
    have "ty = ''skill''" using ty by (simp add: d' get_or_none_def dget_def str_or_def strip_def is_space_def)
    moreover have "args = []" using args by (simp add: d' get_or_none_def dget_def dict_or_empty_def)
    moreover have "raw = []"
      using raw by (simp add: d' dget_def children_payload_def split: if_splits)
    with cs have "cs = []" by simp
    ultimately show ?thesis using root by blast
  qed
qed

lemma tier1_skill:
  "\<exists>why s'. run_skill (tier1_env T n) nm [] Map.empty s = (Inr (step_failed why), s') \<and> world s' = world s"
proof -
  obtain why where w: "run_ir (te_gateway T) (JObj []) (world s) = (Inr (failed why), world s)"
    using empty_ir_refused by blast
  then have "skill_executor (tier1_env T n) nm (JObj []) (world s) = (Inr (StepResult (step_failed why)), world s)"
    by (simp add: tier1_env_def tier1_executor_def step_of_run_def as_step_def failed_def step_failed_def)
  then show ?thesis
    by (simp add: run_skill_def py_simps count_attempt_def publish_event_def on_world_def Let_def step_failed_def)
qed

text \<open>C27: A direct command, which the direct path wraps in a task of one skill, is never carried out: the command
  goes under a key of the node that the parser does not read, so the executor gets an empty command, which
  the contract of the IR refuses.  The run reports a failure and makes no call, for every command.\<close>

theorem direct_commands_never_run:
  "\<exists>r. run_single_command T ir w = (r, w) \<and> r \<noteq> Inr True"
proof (cases "parse_factory_task (tier1_payload ir)")
  case (Inl e)
  then show ?thesis by (simp add: run_single_command_def)
next
  case (Inr t)
  obtain nm n c coll it u f where root: "root t = TaskNode ''skill'' nm [] [] c n coll it u f"
    using tier1_root [OF Inr] by blast
  let ?env = "tier1_env T (gs_clock w)"
  let ?s = "(initial_state w)\<lparr>events := [TaskStart (task_id t)]\<rparr>"
  have ws: "world ?s = w" by (simp add: initial_state_def)
  obtain why s' where node: "run_node ?env (root t) Map.empty ?s = (Inr (step_failed why), s')" "world s' = w"
  proof (cases "stopped ?env ?s")
    case True
    then have "run_node ?env (root t) Map.empty ?s = (Inr (step_failed ''operator_stopped''), ?s)"
      by (simp add: root py_simps)
    with that ws show thesis by blast
  next
    case False
    obtain why s' where "run_skill ?env nm [] Map.empty ?s = (Inr (step_failed why), s')" "world s' = world ?s"
      using tier1_skill by blast
    with False have "run_node ?env (root t) Map.empty ?s = (Inr (step_failed why), s')" by (simp add: root py_simps)
    with that ws \<open>world s' = world ?s\<close> show thesis by simp
  qed
  have "replan_handler ?env = None" by (simp add: tier1_env_def)
  with node have "\<exists>rep s2. run_task ?env t (initial_state w) = (Inr rep, s2) \<and> \<not> rep_success rep \<and> world s2 = w"
    by (simp add: run_task_def py_simps publish_event_def initial_state_def replan_phase_def report_def step_failed_def)
  then show ?thesis using Inr by (auto simp: run_single_command_def)
qed

end
