(* ===== verification/Sequence_Properties.thy ===== *)
theory Sequence_Properties
  imports Semantic_Validation
begin

section \<open>Properties of normalisation and of validated sequences\<close>

text \<open>
  What the normaliser guarantees of angles, units and dictionaries, what the semantic validator
  guarantees of a command, and what the sequence validator guarantees of a whole sequence: each
  step was normalised and validated, the policies hold, and the relative moves stay in their budget.
\<close>

subsection \<open>Angles\<close>

lemma pi_literal_pos: "0 < pi_literal"
  by (simp add: pi_literal_def)

lemma fmod_rat_bounds:
  assumes b: "0 < b"
  shows "\<bar>fmod_rat a b\<bar> < b"
proof (cases "0 \<le> a / b")
  case True
  have "of_int \<lfloor>a / b\<rfloor> * b \<le> a" by (rule iffD1 [OF pos_le_divide_eq [OF b] of_int_floor_le])
  moreover have "a < (of_int \<lfloor>a / b\<rfloor> + 1) * b"
    by (rule iffD1 [OF pos_divide_less_eq [OF b]]) linarith
  ultimately show ?thesis using True by (simp add: fmod_rat_def trunc_rat_def algebra_simps)
next
  case False
  have "a \<le> of_int \<lceil>a / b\<rceil> * b" by (rule iffD1 [OF pos_divide_le_eq [OF b] le_of_int_ceiling])
  moreover have "(of_int \<lceil>a / b\<rceil> - 1) * b < a"
    by (rule iffD1 [OF pos_less_divide_eq [OF b]]) linarith
  ultimately show ?thesis using False by (simp add: fmod_rat_def trunc_rat_def algebra_simps)
qed

lemma wrap_rat_range: "- pi_literal < wrap_rat a" "wrap_rat a \<le> pi_literal"
  using fmod_rat_bounds [of "2 * pi_literal" "a + pi_literal"] pi_literal_pos
  by (auto simp: wrap_rat_def Let_def split: if_splits)

lemma wrap_rat_congruent: "\<exists>k. wrap_rat a = a + of_int k * (2 * pi_literal)"
proof -
  let ?k = "trunc_rat ((a + pi_literal) / (2 * pi_literal))"
  have fm: "fmod_rat (a + pi_literal) (2 * pi_literal) = a + pi_literal - of_int ?k * (2 * pi_literal)"
    by (simp add: fmod_rat_def)
  have "wrap_rat a \<in> (\<lambda>j. a + of_int (j - ?k) * (2 * pi_literal)) ` {0, 1, 2}"
    unfolding wrap_rat_def Let_def fm by (auto simp: algebra_simps)
  then show ?thesis by blast
qed

text \<open>The representative in the half-open interval is unique, so wrapping twice changes nothing.\<close>

lemma wrap_rat_unique:
  assumes r: "- pi_literal < r" "r \<le> pi_literal" and k: "r = a + of_int k * (2 * pi_literal)"
  shows "wrap_rat a = r"
proof -
  obtain j where j: "wrap_rat a = a + of_int j * (2 * pi_literal)" using wrap_rat_congruent by blast
  have "\<bar>of_int (k - j) * (2 * pi_literal)\<bar> < 2 * pi_literal"
    using r wrap_rat_range [of a] unfolding k j by (auto simp: algebra_simps abs_if)
  then have "\<bar>of_int (k - j) :: rat\<bar> * (2 * pi_literal) < 1 * (2 * pi_literal)"
    using pi_literal_pos by (simp add: abs_mult)
  then have "\<bar>of_int (k - j) :: rat\<bar> < 1" by (rule mult_right_less_imp_less) (use pi_literal_pos in simp)
  then have "k = j" by (simp flip: of_int_abs of_int_diff)
  then show ?thesis using j k by simp
qed

lemma wrap_rat_idem: "wrap_rat (wrap_rat a) = wrap_rat a"
  by (rule wrap_rat_unique [where k = 0]) (simp_all add: wrap_rat_range)

lemma wrap_to_pi_cases:
  "wrap_to_pi x = Inr y \<longleftrightarrow> (x = NaN \<and> y = NaN) \<or> (\<exists>a. x = Fin a \<and> y = Fin (wrap_rat a))"
  by (cases x) auto

lemma map_each_list_all2: "map_each f xs = Inr ys \<longleftrightarrow> list_all2 (\<lambda>x y. f x = Inr y) xs ys"
proof (induction xs arbitrary: ys)
  case (Cons x xs)
  then show ?case by (cases ys) (auto simp: ebind_eq_Inr)
qed auto

definition joint_reading :: "json \<Rightarrow> json \<Rightarrow> adapter_exn + pyfloat" where
  "joint_reading unit v = ebind (numeric v ''joint_target'') (\<lambda>x. convert_angular x unit ''joint_target'')"

definition wrapped_from :: "pyfloat \<Rightarrow> pyfloat \<Rightarrow> bool" where
  "wrapped_from x y \<longleftrightarrow> (x = NaN \<and> y = NaN) \<or>
     (\<exists>a r k. x = Fin a \<and> y = Fin r \<and> - pi_literal < r \<and> r \<le> pi_literal \<and> r = a + of_int k * (2 * pi_literal))"

lemma wrap_to_pi_wrapped: "wrap_to_pi x = Inr y \<longleftrightarrow> wrapped_from x y"
proof
  assume "wrap_to_pi x = Inr y"
  then show "wrapped_from x y"
    using wrap_rat_range wrap_rat_congruent by (auto simp: wrap_to_pi_cases wrapped_from_def)
next
  assume "wrapped_from x y"
  then show "wrap_to_pi x = Inr y" by (auto simp: wrapped_from_def wrap_rat_unique)
qed

lemma list_all2_comp:
  "list_all2 (\<lambda>x z. \<exists>y. P x y \<and> Q y z) xs zs \<longleftrightarrow> (\<exists>ys. list_all2 P xs ys \<and> list_all2 Q ys zs)"
  (is "?l \<longleftrightarrow> ?r")
proof
  assume ?l
  then show ?r
  proof (induction rule: list_all2_induct)
    case (Cons x xs z zs)
    then obtain y ys where "P x y" "Q y z" "list_all2 P xs ys" "list_all2 Q ys zs" by blast
    then show ?case by (intro exI [of _ "y # ys"]) simp
  qed auto
next
  assume ?r
  then obtain ys where P: "list_all2 P xs ys" and Q: "list_all2 Q ys zs" by blast
  then show ?l by (induction arbitrary: zs rule: list_all2_induct) (auto simp: list_all2_Cons1)
qed

text \<open>A joint target is accepted by the normaliser exactly when each entry reads as an angle that is
  finite or not a number; the result holds the representatives in the half-open interval.\<close>

theorem joints_wrapped:
  "normalize_joints v unit = Inr ys \<longleftrightarrow>
     (\<exists>js. v = JList js \<and> list_all2 (\<lambda>j y. \<exists>x. joint_reading unit j = Inr x \<and> wrapped_from x y) js ys)"
proof -
  have "map_each (\<lambda>j. numeric j ''joint_target'') js = Inr xs \<Longrightarrow>
      (map_each (\<lambda>x. convert_angular x unit ''joint_target'') xs = Inr zs \<longleftrightarrow>
       map_each (joint_reading unit) js = Inr zs)" for js xs zs
    unfolding map_each_list_all2
    by (induction arbitrary: zs rule: list_all2_induct)
      (auto simp: list_all2_Cons1 joint_reading_def)
  moreover have "\<exists>xs. map_each (\<lambda>j. numeric j ''joint_target'') js = Inr xs"
    if "map_each (joint_reading unit) js = Inr zs" for js zs
    using that unfolding map_each_list_all2
  proof (induction rule: list_all2_induct)
    case (Cons j js z zs)
    then show ?case by (auto simp: joint_reading_def ebind_eq_Inr list_all2_Cons1)
  qed auto
  ultimately have "normalize_joints (JList js) unit = Inr ys \<longleftrightarrow>
      (\<exists>zs. map_each (joint_reading unit) js = Inr zs \<and> map_each wrap_to_pi zs = Inr ys)" for js
    by (simp add: normalize_joints_def ebind_eq_Inr) blast
  then show ?thesis
    unfolding list_all2_comp map_each_list_all2 wrap_to_pi_wrapped
    by (cases v) (auto simp: normalize_joints_def)
qed

subsection \<open>The normalised dict\<close>

lemma map_of_plain_dict [simp]: "map_of (plain_dict d) k = map_option Plain (dget d k)"
  by (induction d) (auto simp: plain_dict_def dget_def)

lemma map_of_pop_key [simp]: "map_of (pop_key k d) j = (if j = k then None else map_of d j)"
  by (induction d) (auto simp: pop_key_def)

lemma map_of_setdefault [simp]:
  "map_of (setdefault k v d) j = (if j = k \<and> map_of d k = None then Some v else map_of d j)"
  by (auto simp: setdefault_def has_key_def map_add_def split: option.splits)

text \<open>\<open>touches ks f\<close>: \<open>f\<close> leaves every key outside \<open>ks\<close> as it is.\<close>

definition touches :: "string list \<Rightarrow> (ndict \<Rightarrow> adapter_exn + ndict) \<Rightarrow> bool" where
  "touches ks f \<longleftrightarrow> (\<forall>d e j. f d = Inr e \<longrightarrow> j \<notin> set ks \<longrightarrow> map_of e j = map_of d j)"

named_theorems touches_intros \<open>which keys a stage of the normaliser writes\<close>

lemma touchesD: "touches ks f \<Longrightarrow> f d = Inr e \<Longrightarrow> j \<notin> set ks \<Longrightarrow> map_of e j = map_of d j"
  unfolding touches_def by blast

lemma touches_Inr: "touches ks Inr"
  by (simp add: touches_def)

lemma touches_bind:
  assumes "touches ks f" and "touches ks g"
  shows "touches ks (\<lambda>d. ebind (f d) g)"
  unfolding touches_def ebind_eq_Inr by (metis assms touchesD)

lemma touches_if: "touches ks f \<Longrightarrow> touches ks g \<Longrightarrow> touches ks (\<lambda>d. if c then f d else g d)"
  by (cases c) simp_all

lemma touches_mono: "touches ks f \<Longrightarrow> set ks \<subseteq> set ls \<Longrightarrow> touches ls f"
  unfolding touches_def by blast

lemma touches_update_at: "touches [k] (update_at k f)"
  by (auto simp: touches_def update_at_def ebind_eq_Inr split: option.splits nval.splits)

lemma touches_setdefault: "touches [k] (\<lambda>d. Inr (setdefault k v d))"
  by (auto simp: touches_def)

lemma touches_set_pose: "touches [''target_pose_msg''] (set_pose F lu au)"
  by (auto simp: touches_def set_pose_def ebind_eq_Inr split: option.splits nval.splits)

lemma touches_set_waypoints: "touches [''waypoints_msg''] (set_waypoints F lu au)"
  by (auto simp: touches_def set_waypoints_def ebind_eq_Inr split: option.splits nval.splits)

lemma touches_circ: "touches [''target_pose_msg'', ''waypoints_msg''] (circ_fields F lu au)"
  unfolding touches_def
proof (intro allI impI)
  fix d e j
  assume e: "circ_fields F lu au d = Inr e" and j: "j \<notin> set [''target_pose_msg'', ''waypoints_msg'']"
  then obtain u where u: "set_pose F lu au d = Inr u" "set_waypoints F lu au u = Inr e"
    by (auto simp: circ_fields_def ebind_eq_Inr split: if_splits)
  with j show "map_of e j = map_of d j"
    using touchesD [OF touches_set_pose u(1)] touchesD [OF touches_set_waypoints u(2)] by simp
qed

lemma touches_motion_defaults:
  "touches [''velocity_scale'', ''acceleration_scale'', ''planner_id''] (motion_defaults N prim p)"
  by (auto simp: touches_def motion_defaults_def ebind_eq_Inr)

definition motion_written :: "string list" where
  "motion_written = [''reference_frame'', ''target_pose_msg'', ''joint_target'', ''waypoints_msg'', ''sequence_steps'',
     ''delta_x'', ''delta_y'', ''delta_z'', ''velocity_scale'', ''acceleration_scale'', ''planner_id'']"

definition written_fields :: "string list" where
  "written_fields = [''plan_only'', ''wait_duration_sec'', ''io_address'', ''io_value'', ''joint_index'', ''joint_angle'']
     @ motion_written"

lemma touches_relative: "touches (''reference_frame'' # deltas) (relative_fields lu)"
  unfolding relative_fields_def Let_def
  by (intro touches_bind) (auto intro: touches_mono [OF touches_update_at] touches_mono [OF touches_setdefault]
      simp: deltas_def)

lemma touches_scalar:
  "touches [''wait_duration_sec'', ''io_address'', ''io_value'', ''joint_index'', ''joint_angle'']
     (scalar_fields prim au)"
  unfolding scalar_fields_def Let_def
  by (intro touches_bind touches_if) (auto intro: touches_mono [OF touches_update_at] touches_Inr)

lemma touches_motion_fields: "touches motion_written (motion_fields F N prim lu au)"
proof -
  note mono = touches_mono [of _ _ motion_written]
  show ?thesis
    unfolding motion_fields_def set_steps_def
    by (intro touches_bind touches_if touches_Inr mono [OF touches_set_pose] mono [OF touches_update_at]
        mono [OF touches_set_waypoints] mono [OF touches_circ] mono [OF touches_relative]
        mono [OF touches_motion_defaults]) (auto simp: motion_written_def deltas_def)
qed

lemma normalize_cmd_kept:
  assumes "normalize_cmd F N (JObj c) = Inr n" and j: "j \<notin> set written_fields"
  shows "map_of n j = (if j \<in> {''linear_unit'', ''angular_unit''} then None else map_option Plain (dget c j))"
proof -
  obtain prim lu au d e where
    d: "update_at ''plan_only'' (\<lambda>v. Inr (Plain (JBool (truthy v)))) (plain_dict c) = Inr d"
    and e: "scalar_fields prim au (pop_key ''angular_unit'' (pop_key ''linear_unit'' d)) = Inr e"
    and n: "n = setdefault ''reference_frame'' (Plain (JStr ''base_link'')) e \<or> motion_fields F N prim lu au e = Inr n"
    using assms(1) by (simp add: normalize_cmd_def ebind_eq_Inr Let_def split: option.splits if_splits) blast+
  have "map_of n j = map_of e j"
    using n j touchesD [OF touches_motion_fields] by (auto simp: written_fields_def motion_written_def)
  also have "\<dots> = map_of (pop_key ''angular_unit'' (pop_key ''linear_unit'' d)) j"
    using j by (intro touchesD [OF touches_scalar e]) (auto simp: written_fields_def motion_written_def)
  finally show ?thesis
    using touchesD [OF touches_update_at d] j by (auto simp: written_fields_def motion_written_def)
qed

text \<open>Normalisation consumes the unit hints and changes only the fields it is for; the primitive is the
  one received.\<close>

theorem normalisation_keeps_fields:
  assumes "normalize_cmd F N (JObj c) = Inr n"
  shows "map_of n ''linear_unit'' = None \<and> map_of n ''angular_unit'' = None
    \<and> map_of n ''primitive_type'' = map_option Plain (dget c ''primitive_type'')
    \<and> (\<forall>j. j \<notin> set (''linear_unit'' # ''angular_unit'' # written_fields)
        \<longrightarrow> map_of n j = map_option Plain (dget c j))"
  using normalize_cmd_kept [OF assms] by (simp_all add: written_fields_def motion_written_def)

subsection \<open>A semantically valid command\<close>

text \<open>The poses a primitive moves through: its target, its waypoints, the targets of its steps.\<close>

definition poses_at :: "ndict \<Rightarrow> string \<Rightarrow> pose_msg list" where
  "poses_at c k = (case map_of c k of Some (PoseV p) \<Rightarrow> [p] | Some (PosesV ps) \<Rightarrow> ps | _ \<Rightarrow> [])"

definition step_poses :: "ndict \<Rightarrow> pose_msg list" where
  "step_poses c = (case map_of c ''sequence_steps'' of
     Some (StepsV ss) \<Rightarrow> concat (map (\<lambda>s. poses_at s ''target_pose_msg'') ss) | _ \<Rightarrow> [])"

definition commanded_poses :: "ndict \<Rightarrow> pose_msg list" where
  "commanded_poses c = (let prim = nget c ''primitive_type''; is = (\<lambda>p. prim = Plain (JStr p)) in
     if is ''PTP'' \<or> is ''LIN'' then poses_at c ''target_pose_msg''
     else if is ''CIRC'' then poses_at c ''target_pose_msg'' @ poses_at c ''waypoints_msg''
     else if is ''CARTESIAN_PATH'' then poses_at c ''waypoints_msg''
     else if is ''BLENDED_SEQUENCE'' then step_poses c
     else [])"

definition pose_inside :: "semantic_validator \<Rightarrow> pose_msg \<Rightarrow> bool" where
  "pose_inside V p \<longleftrightarrow> inside (sv_x V) (px p) \<and> inside (sv_y V) (py p) \<and> inside (sv_z V) (pz p)
     \<and> isfinite (square_norm [ox p, oy p, oz p, ow p])"

lemma validate_pose_iff: "validate_pose V p = Inr () \<longleftrightarrow> pose_inside V p"
  by (auto simp: validate_pose_def pose_inside_def)

lemma with_prefix_Inr [simp]: "with_prefix t r = Inr x \<longleftrightarrow> r = Inr x"
  by (auto simp: with_prefix_def split: sum.splits option.splits)

lemma validate_indexed_iff: "validate_indexed t f i xs = Inr () \<longleftrightarrow> list_all (\<lambda>x. f x = Inr ()) xs"
  by (induction xs arbitrary: i) (auto simp: ebind_eq_Inr)

lemma as_pose_iff: "as_pose v = Inr p \<longleftrightarrow> v = PoseV p"
  by (cases v) auto

lemma validate_blend_steps_inside:
  "validate_blend_steps V i ss = Inr () \<Longrightarrow>
    list_all (pose_inside V) (concat (map (\<lambda>s. poses_at s ''target_pose_msg'') ss))"
  by (induction ss arbitrary: i)
    (auto simp: ebind_eq_Inr validate_blend_step_def poses_at_def as_pose_iff validate_pose_iff split: option.splits)

lemma semantic_validate_prim:
  assumes "semantic_validate F V c = Inr ()"
  shows "\<exists>prim. nget c ''primitive_type'' = Plain (JStr prim) \<and> prim \<in> set allowed_primitives
    \<and> validate_primitive F V prim c = Inr ()"
proof -
  obtain v where v: "nget c ''primitive_type'' = Plain v" "in_names v allowed_primitives = Inr True"
      "validate_primitive F V (to_str v) c = Inr ()"
    using assms by (auto simp: semantic_validate_def ebind_eq_Inr raised_def split: nval.splits if_splits sum.splits)
  then show ?thesis by (cases v) auto
qed

lemma commanded_poses_of:
  assumes "nget c ''primitive_type'' = Plain (JStr prim)"
  shows "commanded_poses c =
    (if prim = ''PTP'' \<or> prim = ''LIN'' then poses_at c ''target_pose_msg''
     else if prim = ''CIRC'' then poses_at c ''target_pose_msg'' @ poses_at c ''waypoints_msg''
     else if prim = ''CARTESIAN_PATH'' then poses_at c ''waypoints_msg''
     else if prim = ''BLENDED_SEQUENCE'' then step_poses c
     else [])"
  using assms by (simp add: commanded_poses_def)

lemma validate_target_inside:
  assumes "validate_target V prim c = Inr ()" and "prim \<in> {''PTP'', ''LIN''}"
  shows "list_all (pose_inside V) (poses_at c ''target_pose_msg'')"
  using assms by (auto simp: validate_target_def poses_at_def ebind_eq_Inr as_pose_iff validate_pose_iff
      has_key_def Let_def split: option.splits if_splits)

lemma nget_poses: "nget c k = PosesV ps \<Longrightarrow> poses_at c k = ps"
  by (auto simp: nget_def poses_at_def split: option.splits)

lemma validate_circ_inside:
  assumes "validate_circ F V c = Inr ()"
  shows "list_all (pose_inside V) (poses_at c ''target_pose_msg'' @ poses_at c ''waypoints_msg'')"
proof -
  obtain p q where w: "nget c ''waypoints_msg'' = PosesV [q]" and t: "map_of c ''target_pose_msg'' = Some (PoseV p)"
    and "pose_inside V p" "pose_inside V q"
    using assms
    by (auto simp: validate_circ_def ebind_eq_Inr as_pose_iff validate_pose_iff length_Suc_conv
        split: nval.splits if_splits option.splits)
  then show ?thesis by (simp add: nget_poses [OF w] poses_at_def [of c "''target_pose_msg''"])
qed

lemma validate_path_inside:
  "validate_cartesian_path V c = Inr () \<Longrightarrow> list_all (pose_inside V) (poses_at c ''waypoints_msg'')"
  by (auto simp: validate_cartesian_path_def validate_indexed_iff validate_pose_iff nget_poses
      split: nval.splits if_splits)

lemma validate_blended_inside: "validate_blended V c = Inr () \<Longrightarrow> list_all (pose_inside V) (step_poses c)"
  by (auto simp: validate_blended_def step_poses_def nget_def split: nval.splits if_splits option.splits
      dest: validate_blend_steps_inside)

lemma semantic_validate_inside:
  assumes "semantic_validate F V c = Inr ()"
  shows "list_all (pose_inside V) (commanded_poses c)"
proof -
  obtain prim where prim: "nget c ''primitive_type'' = Plain (JStr prim)" and v: "validate_primitive F V prim c = Inr ()"
    using semantic_validate_prim [OF assms] by blast
  consider "prim = ''PTP'' \<or> prim = ''LIN''" | "prim = ''CIRC''" | "prim = ''CARTESIAN_PATH''"
    | "prim = ''BLENDED_SEQUENCE''"
    | "prim \<notin> {''PTP'', ''LIN'', ''CIRC'', ''CARTESIAN_PATH'', ''BLENDED_SEQUENCE''}" by blast
  then show ?thesis
  proof cases
    case 1
    then have "validate_target V prim c = Inr ()" using v by (auto simp: validate_primitive_def ebind_eq_Inr)
    with 1 show ?thesis using validate_target_inside [of V prim c] by (simp add: commanded_poses_of [OF prim])
  next
    case 2
    with v have "validate_circ F V c = Inr ()" by (simp add: validate_primitive_def)
    then show ?thesis using validate_circ_inside [of F V c] 2 by (simp add: commanded_poses_of [OF prim])
  next
    case 3
    with v have "validate_cartesian_path V c = Inr ()"
      by (auto simp: validate_primitive_def validate_target_def Let_def ebind_eq_Inr)
    then show ?thesis using validate_path_inside [of V c] 3 by (simp add: commanded_poses_of [OF prim])
  next
    case 4
    with v have "validate_blended V c = Inr ()" by (simp add: validate_primitive_def)
    then show ?thesis using validate_blended_inside [of V c] 4 by (simp add: commanded_poses_of [OF prim])
  next
    case 5
    then show ?thesis by (simp add: commanded_poses_of [OF prim])
  qed
qed

subsection \<open>Accepted sequences\<close>

definition prim_of :: "ndict \<Rightarrow> string" where
  "prim_of c = ntext (nget_or c ''primitive_type'' (JStr []))"

definition command_checked :: "sequence_validator \<Rightarrow> json \<Rightarrow> ndict \<Rightarrow> bool" where
  "command_checked Q v c \<longleftrightarrow> qv_schema Q v = None \<and> normalize_cmd (qv_lib Q) (qv_normalizer Q) v = Inr c
     \<and> semantic_validate (qv_lib Q) (qv_semantic Q) c = Inr ()"

definition policies_hold :: "nat \<Rightarrow> ndict \<Rightarrow> bool" where
  "policies_hold n c \<longleftrightarrow> prim_of c \<notin> {[], ''GET_POSE''} \<and> (prim_of c = ''STOP'' \<longrightarrow> n = 1)
     \<and> (prim_of c \<in> set frame_required_primitives
        \<longrightarrow> (\<exists>v. map_of c ''reference_frame'' = Some v \<and> strip (ntext v) = ''base_link''))"

lemma at_stage_Inr [simp]: "at_stage s i r = Inr x \<longleftrightarrow> r = Inr x"
  by (auto simp: at_stage_def split: sum.splits)

lemma check_command_iff: "check_command Q i v = Inr c \<longleftrightarrow> command_checked Q v c"
  by (auto simp: check_command_def command_checked_def ebind_eq_Inr split: option.splits)

lemma check_shape_Inr:
  "check_shape n i v = Inr prim \<Longrightarrow> \<exists>c. v = JObj c \<and> prim = to_str (get_or c ''primitive_type'' (JStr []))
     \<and> prim \<notin> {[], ''GET_POSE''} \<and> (prim = ''STOP'' \<longrightarrow> n = 1)"
  by (auto simp: check_shape_def Let_def split: json.splits if_splits)

lemma prim_of_normalized:
  assumes "normalize_cmd F N (JObj c) = Inr n"
  shows "prim_of n = to_str (get_or c ''primitive_type'' (JStr []))"
  using normalize_cmd_kept [OF assms, of "''primitive_type''"]
  by (auto simp: prim_of_def nget_or_def get_or_def ntext_def written_fields_def motion_written_def split: option.splits)

lemma resolve_step_frame_Inr:
  "resolve_step_frame c i = Inr f \<Longrightarrow> prim_of c \<in> set frame_required_primitives
    \<Longrightarrow> \<exists>v. map_of c ''reference_frame'' = Some v \<and> strip (ntext v) = ''base_link''"
  by (auto simp: resolve_step_frame_def prim_of_def split: option.splits if_splits)

text \<open>The three accumulators of one accepted step.\<close>

lemma check_step_Inr:
  assumes "check_step Q n i v a = Inr (c, b)"
  shows "command_checked Q v c" and "policies_hold n c"
    and "\<exists>a1 a2. note_distance Q i (prim_of c) c a1 = Inr a2 \<and> note_rest i (prim_of c) c a2 = Inr b
      \<and> qa_move_rel a1 = qa_move_rel a \<and> qa_first_io a1 = qa_first_io a"
proof -
  obtain prim f a1 a2 where shape: "check_shape n i v = Inr prim" and c: "command_checked Q v c"
    and f: "resolve_step_frame c i = Inr f" and a1: "note_frame i f a = Inr a1"
    and steps: "note_distance Q i prim c a1 = Inr a2" "note_rest i prim c a2 = Inr b"
    using assms by (auto simp: check_step_def ebind_eq_Inr check_command_iff)
  have prim: "prim = prim_of c" and p: "prim \<notin> {[], ''GET_POSE''}" "prim = ''STOP'' \<longrightarrow> n = 1"
    using check_shape_Inr [OF shape] prim_of_normalized c by (auto simp: command_checked_def)
  show "command_checked Q v c" by (rule c)
  show "policies_hold n c" using p resolve_step_frame_Inr [OF f] by (auto simp: policies_hold_def prim)
  have "qa_move_rel a1 = qa_move_rel a" "qa_first_io a1 = qa_first_io a"
    using a1 by (auto simp: note_frame_def split: option.splits if_splits)
  with steps show "\<exists>a1 a2. note_distance Q i (prim_of c) c a1 = Inr a2 \<and> note_rest i (prim_of c) c a2 = Inr b
      \<and> qa_move_rel a1 = qa_move_rel a \<and> qa_first_io a1 = qa_first_io a"
    unfolding prim by blast
qed

lemma note_distance_io: "note_distance Q i p c a = Inr b \<Longrightarrow> qa_first_io b = qa_first_io a"
  by (auto simp: note_distance_def ebind_eq_Inr Let_def split: if_splits)

lemma note_rest_Inr:
  "note_rest i p c a = Inr b \<Longrightarrow> qa_move_rel b = qa_move_rel a
    \<and> qa_first_io b = (if p = ''IO_SET'' \<and> qa_first_io a = None then Some i else qa_first_io a)"
  by (auto simp: note_rest_def ebind_eq_Inr split: if_splits)

lemma check_steps_checked:
  "check_steps Q n i vs a = Inr (cs, b) \<Longrightarrow>
    list_all2 (command_checked Q) vs cs \<and> list_all (policies_hold n) cs"
  by (induction vs arbitrary: i a cs) (auto simp: ebind_eq_Inr dest: check_step_Inr)

subsection \<open>The budget of relative moves\<close>

definition rel_move :: "ndict \<Rightarrow> (rat \<times> rat \<times> rat) option" where
  "rel_move c =
     (let f = (\<lambda>k. nfloat (nget_or c k (JFloat (Fin 0)))) in
      if prim_of c \<noteq> ''MOVE_REL'' then None
      else case (f ''delta_x'', f ''delta_y'', f ''delta_z'') of
        (Inr (Fin x), Inr (Fin y), Inr (Fin z)) \<Rightarrow> Some (x, y, z) | _ \<Rightarrow> None)"

fun rel_moves :: "ndict list \<Rightarrow> (rat \<times> rat \<times> rat) list" where
  "rel_moves [] = []"
| "rel_moves (c # cs) = (case rel_move c of None \<Rightarrow> rel_moves cs | Some m \<Rightarrow> m # rel_moves cs)"

definition sq3 :: "rat \<times> rat \<times> rat \<Rightarrow> rat" where
  "sq3 m = (case m of (x, y, z) \<Rightarrow> x * x + y * y + z * z)"

definition path_length :: "float_lib \<Rightarrow> (rat \<times> rat \<times> rat) list \<Rightarrow> rat" where
  "path_length F ms = (\<Sum>m \<leftarrow> ms. lib_sqrt F (sq3 m))"

lemma nget_or_at: "map_of c k = Some v \<Longrightarrow> nget_or c k d = v"
  by (simp add: nget_or_def)

lemma isfinite_iff: "isfinite x \<longleftrightarrow> (\<exists>r. x = Fin r)"
  by (cases x) auto

lemma validate_move_rel_deltas:
  assumes "validate_move_rel V c = Inr ()" and prim: "prim_of c = ''MOVE_REL''"
  shows "\<exists>m. rel_move c = Some m \<and> \<not> sqrt_gt (Fin (sq3 m)) (sv_max_move_rel V) \<and> m \<noteq> (0, 0, 0)"
proof -
  obtain ds where ds: "finite_deltas c deltas = Inr ds" and nz: "\<not> list_all (\<lambda>x. feq x (Fin 0)) ds"
    and cap: "\<not> sqrt_gt (square_norm ds) (sv_max_move_rel V)"
    using assms(1) by (auto simp: validate_move_rel_def ebind_eq_Inr split: if_splits)
  from ds obtain x y z u v w where "ds = [Fin x, Fin y, Fin z]"
    and "map_of c ''delta_x'' = Some u" "map_of c ''delta_y'' = Some v" "map_of c ''delta_z'' = Some w"
    and "nfloat u = Inr (Fin x)" "nfloat v = Inr (Fin y)" "nfloat w = Inr (Fin z)"
    by (auto simp: deltas_def ebind_eq_Inr isfinite_iff split: option.splits if_splits)
  with prim nz cap show ?thesis
    by (simp add: rel_move_def Let_def nget_or_at square_norm_def sq3_def)
qed

lemma checked_move_rel:
  assumes "command_checked Q v c" and prim: "prim_of c = ''MOVE_REL''"
  shows "\<exists>m. rel_move c = Some m \<and> \<not> sqrt_gt (Fin (sq3 m)) (sv_max_move_rel (qv_semantic Q)) \<and> m \<noteq> (0, 0, 0)"
proof (rule validate_move_rel_deltas [OF _ prim])
  obtain p where p: "nget c ''primitive_type'' = Plain (JStr p)"
      "validate_primitive (qv_lib Q) (qv_semantic Q) p c = Inr ()"
    using assms(1) semantic_validate_prim [of "qv_lib Q" "qv_semantic Q" c] by (auto simp: command_checked_def)
  then have "p = ''MOVE_REL''"
    using prim by (auto simp: prim_of_def nget_def nget_or_def ntext_def split: option.splits)
  with p show "validate_move_rel (qv_semantic Q) c = Inr ()" by (simp add: validate_primitive_def)
qed

lemma move_rel_distance_of: "rel_move c = Some m \<Longrightarrow> move_rel_distance F c = Inr (Fin (lib_sqrt F (sq3 m)))"
  by (auto simp: rel_move_def move_rel_distance_def Let_def square_norm_def sq3_def
      split: if_splits sum.splits pyfloat.splits)

lemma rel_move_prim: "prim_of c \<noteq> ''MOVE_REL'' \<Longrightarrow> rel_move c = None"
  by (simp add: rel_move_def Let_def)

lemma check_step_distance:
  assumes "check_step Q n i v a = Inr (c, b)" and a: "qa_move_rel a = Fin r" and cap: "qv_max_move_rel Q = Fin l"
  shows "qa_move_rel b = Fin (r + (case rel_move c of None \<Rightarrow> 0 | Some m \<Rightarrow> lib_sqrt (qv_lib Q) (sq3 m)))
    \<and> (rel_move c \<noteq> None \<longrightarrow> fle (qa_move_rel b) (Fin l))"
proof -
  obtain a1 a2 where d: "note_distance Q i (prim_of c) c a1 = Inr a2" "note_rest i (prim_of c) c a2 = Inr b"
      "qa_move_rel a1 = Fin r"
    using check_step_Inr(3) [OF assms(1)] a by auto
  then have b: "qa_move_rel b = qa_move_rel a2" using note_rest_Inr by blast
  show ?thesis
  proof (cases "prim_of c = ''MOVE_REL''")
    case True
    with check_step_Inr(1) [OF assms(1)] obtain m where m: "rel_move c = Some m" using checked_move_rel by blast
    with d True cap show ?thesis
      by (auto simp: b note_distance_def move_rel_distance_of unwrapped_def Let_def split: if_splits)
  next
    case False
    with d b show ?thesis by (simp add: note_distance_def rel_move_prim)
  qed
qed

lemma check_steps_distance:
  assumes cap: "qv_max_move_rel Q = Fin l"
  shows "check_steps Q n i vs a = Inr (cs, b) \<Longrightarrow> qa_move_rel a = Fin r \<Longrightarrow>
    qa_move_rel b = Fin (r + path_length (qv_lib Q) (rel_moves cs))
    \<and> (rel_moves cs \<noteq> [] \<longrightarrow> r + path_length (qv_lib Q) (rel_moves cs) \<le> l)"
proof (induction vs arbitrary: i a cs r)
  case Nil
  then show ?case by (simp add: path_length_def)
next
  case (Cons v vs)
  then obtain c a' ds where step: "check_step Q n i v a = Inr (c, a')" and cs: "cs = c # ds"
    and rest: "check_steps Q n (Suc i) vs a' = Inr (ds, b)"
    by (auto simp: ebind_eq_Inr)
  note d = check_step_distance [OF step Cons.prems(2) cap]
  show ?case
    using Cons.IH [OF rest d [THEN conjunct1]] d
    by (cases "rel_moves ds"; cases "rel_move c") (auto simp: cs path_length_def add.assoc)
qed

subsection \<open>What an accepted sequence is\<close>

lemma sequence_validate_Inr:
  assumes "sequence_validate Q v = Inr r"
  shows "\<exists>vs b. v = JList vs \<and> 0 < length vs \<and> int (length vs) \<le> qv_max_length Q
    \<and> check_steps Q (length vs) 0 vs acc_init = Inr (sr_commands r, b)
    \<and> sr_move_rel r = qa_move_rel b \<and> sr_has_io r = (qa_first_io b \<noteq> None)
    \<and> sr_manual_recovery r = (case qa_first_io b of None \<Rightarrow> False | Some i \<Rightarrow> i < length vs - 1)"
  using assms by (auto simp: sequence_validate_def ebind_eq_Inr split: json.splits if_splits)

text \<open>C35: Every step of an accepted sequence passed the schema, is the normalisation of what was sent and is
  semantically valid; the poses it moves through lie in the workspace; no query is among the steps,
  a stop stands alone, and the primitives that need a frame name \<open>base_link\<close>.\<close>

theorem accepted_sequence_contained:
  assumes "sequence_validate Q v = Inr r"
  shows "\<exists>vs. v = JList vs \<and> int (length vs) \<le> qv_max_length Q
    \<and> list_all2 (command_checked Q) vs (sr_commands r)
    \<and> list_all (policies_hold (length (sr_commands r))) (sr_commands r)
    \<and> list_all (\<lambda>c. list_all (pose_inside (qv_semantic Q)) (commanded_poses c)) (sr_commands r)"
proof -
  obtain vs b where v: "v = JList vs" "int (length vs) \<le> qv_max_length Q"
    and steps: "check_steps Q (length vs) 0 vs acc_init = Inr (sr_commands r, b)"
    using sequence_validate_Inr [OF assms] by blast
  have ok: "list_all2 (command_checked Q) vs (sr_commands r)"
    and pol: "list_all (policies_hold (length vs)) (sr_commands r)"
    using check_steps_checked [OF steps] by auto
  have "list_all (\<lambda>c. list_all (pose_inside (qv_semantic Q)) (commanded_poses c)) (sr_commands r)"
    using ok by (induction rule: list_all2_induct) (auto simp: command_checked_def dest: semantic_validate_inside)
  with v ok pol list_all2_lengthD [OF ok] show ?thesis by auto
qed

text \<open>The three-dimensional length and its triangle inequality.\<close>

definition len3 :: "real \<Rightarrow> real \<Rightarrow> real \<Rightarrow> real" where
  "len3 x y z = cmod (Complex (cmod (Complex x y)) z)"

lemma len3_sqrt: "len3 x y z = sqrt (x * x + y * y + z * z)"
  by (simp add: len3_def cmod_def power2_eq_square)

lemma cmod_Complex_mono: "0 \<le> a \<Longrightarrow> a \<le> b \<Longrightarrow> cmod (Complex a z) \<le> cmod (Complex b z)"
  by (simp add: cmod_def power_mono)

lemma len3_triangle: "len3 (a + x) (b + y) (c + z) \<le> len3 a b c + len3 x y z"
proof -
  have "cmod (Complex (a + x) (b + y)) \<le> cmod (Complex a b) + cmod (Complex x y)"
    using norm_triangle_ineq [of "Complex a b" "Complex x y"] by (simp add: complex_add)
  then have "len3 (a + x) (b + y) (c + z) \<le> cmod (Complex (cmod (Complex a b) + cmod (Complex x y)) (c + z))"
    unfolding len3_def by (intro cmod_Complex_mono) simp_all
  also have "\<dots> \<le> len3 a b c + len3 x y z"
    using norm_triangle_ineq [of "Complex (cmod (Complex a b)) c" "Complex (cmod (Complex x y)) z"]
    by (simp add: len3_def complex_add)
  finally show ?thesis .
qed

text \<open>The displacement of the tool after a list of relative moves.\<close>

definition net_move :: "(rat \<times> rat \<times> rat) list \<Rightarrow> rat \<times> rat \<times> rat" where
  "net_move ms = (\<Sum>m \<leftarrow> ms. fst m, \<Sum>m \<leftarrow> ms. fst (snd m), \<Sum>m \<leftarrow> ms. snd (snd m))"

lemma net_move_length:
  assumes root: "\<And>s. 0 \<le> s \<Longrightarrow> sqrt (real_of_rat s) \<le> k * real_of_rat (lib_sqrt F s)"
  shows "sqrt (real_of_rat (sq3 (net_move ms))) \<le> k * real_of_rat (path_length F ms)"
proof -
  define L where "L m = (case m of (x, y, z) \<Rightarrow> len3 (real_of_rat x) (real_of_rat y) (real_of_rat z))" for m
  have L: "sqrt (real_of_rat (sq3 m)) = L m" for m
    by (cases m) (simp add: L_def sq3_def len3_sqrt of_rat_add of_rat_mult)
  have step: "L m \<le> k * real_of_rat (lib_sqrt F (sq3 m))" for m
  proof -
    have "0 \<le> sq3 m" by (cases m) (simp add: sq3_def)
    from root [OF this] show ?thesis by (simp add: L)
  qed
  have "L (net_move ms) \<le> k * real_of_rat (path_length F ms)"
  proof (induction ms)
    case Nil
    then show ?case by (simp add: net_move_def path_length_def L_def len3_def zero_complex.code [symmetric])
  next
    case (Cons m ms)
    have "L (net_move (m # ms)) \<le> L m + L (net_move ms)"
      by (cases m) (simp add: net_move_def L_def of_rat_add len3_triangle)
    with Cons.IH step [of m] show ?case by (simp add: path_length_def of_rat_add algebra_simps)
  qed
  then show ?thesis by (simp add: L)
qed

text \<open>C36: The relative moves of an accepted sequence keep the tool within the budget of where they started,
  in whatever order and directions they go: the rounded roots of the C library underestimate by the
  factor \<open>k\<close> at most.\<close>

theorem relative_moves_within_budget:
  assumes "sequence_validate Q v = Inr r" and l: "qv_max_move_rel Q = Fin l" "0 \<le> l" and k: "0 \<le> k"
    and root: "\<And>s. 0 \<le> s \<Longrightarrow> sqrt (real_of_rat s) \<le> k * real_of_rat (lib_sqrt (qv_lib Q) s)"
  shows "sqrt (real_of_rat (sq3 (net_move (rel_moves (sr_commands r))))) \<le> k * real_of_rat l
    \<and> sr_move_rel r = Fin (path_length (qv_lib Q) (rel_moves (sr_commands r)))"
proof -
  let ?ms = "rel_moves (sr_commands r)"
  obtain n vs b where steps: "check_steps Q n 0 vs acc_init = Inr (sr_commands r, b)"
    and b: "sr_move_rel r = qa_move_rel b"
    using sequence_validate_Inr [OF assms(1)] by blast
  have d: "qa_move_rel b = Fin (path_length (qv_lib Q) ?ms)" "?ms \<noteq> [] \<longrightarrow> path_length (qv_lib Q) ?ms \<le> l"
    using check_steps_distance [OF l(1) steps, of 0] by (auto simp: acc_init_def)
  then have "path_length (qv_lib Q) ?ms \<le> l" using l(2) by (cases "?ms = []") (auto simp: path_length_def)
  then have "k * real_of_rat (path_length (qv_lib Q) ?ms) \<le> k * real_of_rat l"
    by (intro mult_left_mono) (simp_all add: of_rat_less_eq k)
  with net_move_length [OF root, of ?ms] b d(1) show ?thesis by simp
qed

lemma check_steps_first_io:
  "check_steps Q n i vs a = Inr (cs, b) \<Longrightarrow>
    qa_first_io b = (case qa_first_io a of Some k \<Rightarrow> Some k
      | None \<Rightarrow> (if \<exists>c \<in> set cs. prim_of c = ''IO_SET''
                then Some (i + length (takeWhile (\<lambda>c. prim_of c \<noteq> ''IO_SET'') cs)) else None))"
proof (induction vs arbitrary: i a cs)
  case Nil
  then show ?case by (simp split: option.split)
next
  case (Cons v vs)
  then obtain c a' ds where step: "check_step Q n i v a = Inr (c, a')" and cs: "cs = c # ds"
    and rest: "check_steps Q n (Suc i) vs a' = Inr (ds, b)"
    by (auto simp: ebind_eq_Inr)
  have "qa_first_io a' = (if prim_of c = ''IO_SET'' \<and> qa_first_io a = None then Some i else qa_first_io a)"
    using check_step_Inr(3) [OF step] note_distance_io note_rest_Inr by fastforce
  with Cons.IH [OF rest] show ?case by (auto simp: cs split: option.splits)
qed

text \<open>Manual recovery is announced exactly when an output is switched before the last step.\<close>

theorem recovery_flag_iff:
  assumes "sequence_validate Q v = Inr r"
  shows "sr_manual_recovery r \<longleftrightarrow> (\<exists>i. Suc i < length (sr_commands r) \<and> prim_of (sr_commands r ! i) = ''IO_SET'')"
proof -
  let ?cs = "sr_commands r" and ?is = "\<lambda>c. prim_of c \<noteq> ''IO_SET''"
  obtain vs b where steps: "check_steps Q (length vs) 0 vs acc_init = Inr (?cs, b)"
    and rec: "sr_manual_recovery r = (case qa_first_io b of None \<Rightarrow> False | Some i \<Rightarrow> i < length vs - 1)"
    using sequence_validate_Inr [OF assms] by blast
  have len: "length vs = length ?cs" using check_steps_checked [OF steps] by (auto dest: list_all2_lengthD)
  have io: "qa_first_io b = (if \<exists>c \<in> set ?cs. \<not> ?is c then Some (length (takeWhile ?is ?cs)) else None)"
    using check_steps_first_io [OF steps] by (auto simp: acc_init_def)
  show ?thesis
  proof
    assume "sr_manual_recovery r"
    then have "Suc (length (takeWhile ?is ?cs)) < length ?cs" "\<exists>c \<in> set ?cs. \<not> ?is c"
      by (auto simp: rec io len split: if_splits)
    then show "\<exists>i. Suc i < length ?cs \<and> prim_of (?cs ! i) = ''IO_SET''"
      using nth_length_takeWhile [of ?is ?cs] by (intro exI [of _ "length (takeWhile ?is ?cs)"]) auto
  next
    assume "\<exists>i. Suc i < length ?cs \<and> prim_of (?cs ! i) = ''IO_SET''"
    then obtain i where i: "Suc i < length ?cs" "prim_of (?cs ! i) = ''IO_SET''" by blast
    have "length (takeWhile ?is ?cs) \<le> i"
    proof (rule ccontr)
      assume "\<not> length (takeWhile ?is ?cs) \<le> i"
      then have j: "i < length (takeWhile ?is ?cs)" by simp
      from nth_mem [OF j] have "?cs ! i \<in> set (takeWhile ?is ?cs)" by (simp only: takeWhile_nth [OF j])
      with i(2) show False by (auto dest: set_takeWhileD)
    qed
    with i show "sr_manual_recovery r" by (auto simp: rec io len intro: nth_mem)
  qed
qed

end
