(* ===== verification/Routing_Properties.thy ===== *)
theory Routing_Properties
  imports Gateway_Runtime Sequence_Properties
begin

section \<open>What the router makes of an intermediate representation\<close>

text \<open>
  An IR that the contract accepts names no primitive anywhere, so every command the router makes of it
  carries a primitive of the router's own table or comes from the drawing router; a relative joint move
  becomes a move of one joint; a goal of the scene graph is compiled only when its names are unambiguous.
\<close>

subsection \<open>Forbidden fields survive no renaming\<close>

text \<open>Whether a key is found does not depend on the path to it.\<close>

fun clean :: "json \<Rightarrow> bool"
  and clean_fields :: "obj \<Rightarrow> bool"
  and clean_items :: "json list \<Rightarrow> bool" where
  "clean (JObj d) \<longleftrightarrow> clean_fields d"
| "clean (JList xs) \<longleftrightarrow> clean_items xs"
| "clean _ \<longleftrightarrow> True"
| "clean_fields [] \<longleftrightarrow> True"
| "clean_fields ((k, v) # d) \<longleftrightarrow> k \<notin> {''primitive_type'', ''raw_text''} \<and> clean v \<and> clean_fields d"
| "clean_items [] \<longleftrightarrow> True"
| "clean_items (v # vs) \<longleftrightarrow> clean v \<and> clean_items vs"

lemma forbidden_clean:
  "find_forbidden v p = None \<longleftrightarrow> clean v" "find_in_fields d p = None \<longleftrightarrow> clean_fields d"
  "find_in_items xs n p = None \<longleftrightarrow> clean_items xs"
  by (induction v p and d p and xs n p rule: find_forbidden_find_in_fields_find_in_items.induct)
    (auto split: option.split)

lemma clean_fields_iff:
  "clean_fields d \<longleftrightarrow> (\<forall>(k, v) \<in> set d. k \<notin> {''primitive_type'', ''raw_text''} \<and> clean v)"
  by (induction d) auto

lemma clean_items_iff: "clean_items xs \<longleftrightarrow> (\<forall>v \<in> set xs. clean v)"
  by (induction xs) auto

lemma contract_clean: "validate_contract b v = None \<Longrightarrow> clean v"
  by (cases v) (auto simp: contract_head_def forbidden_clean split: head_verdict.splits option.splits)

lemma clean_member: "clean_fields d \<Longrightarrow> dget d k = Some v \<Longrightarrow> clean v"
  by (auto simp: clean_fields_iff dget_def dest!: map_of_SomeD)

lemma clean_dict_set:
  "clean_fields d \<Longrightarrow> k \<notin> {''primitive_type'', ''raw_text''} \<Longrightarrow> clean v \<Longrightarrow> clean_fields (dict_set k v d)"
  by (induction d) auto

lemma clean_rename_key:
  assumes "clean_fields d" and "new \<notin> {''primitive_type'', ''raw_text''}"
  shows "clean_fields (rename_key old new d)" "clean_fields (rename_missing old new d)"
proof -
  have "clean_fields (filter (\<lambda>(k, _). k \<noteq> old) d)" using assms(1) by (auto simp: clean_fields_iff)
  then show "clean_fields (rename_key old new d)"
    using assms clean_member [OF assms(1)] by (auto simp: rename_key_def intro: clean_dict_set split: option.split)
  with assms(1) show "clean_fields (rename_missing old new d)" by (simp add: rename_missing_def)
qed

lemma clean_canonical_names: "clean_fields d \<Longrightarrow> clean_fields (canonical_names d)"
  by (simp add: canonical_names_def Let_def clean_dict_set clean_rename_key)

lemma clean_canonicalize:
  "clean v \<Longrightarrow> clean (canonicalize v)" "clean_fields d \<Longrightarrow> clean_fields (canonicalize_fields d)"
  "clean_items xs \<Longrightarrow> clean_items (canonicalize_items xs)"
  by (induction v and d and xs rule: canonicalize_canonicalize_fields_canonicalize_items.induct)
    (auto intro: clean_canonical_names)

subsection \<open>The primitives of the router\<close>

definition routed_primitives :: "string list" where
  "routed_primitives = [''HOME'', ''PTP'', ''LIN'', ''MOVE_REL'', ''MOVE_JOINT'', ''MOVE_JOINTS'', ''SET_SPEED'',
     ''WAIT'', ''STOP'', ''IO_SET'', ''ALARM_RESET'', ''GET_POSE'', ''CIRC'']"

definition names_primitive :: "obj \<Rightarrow> bool" where
  "names_primitive c \<longleftrightarrow> list_ex (\<lambda>p. value_at c ''primitive_type'' = JStr p) routed_primitives"

lemma value_at_set: "value_at (dict_set k v d) k' = (if k = k' then v else value_at d k')"
  by (simp add: value_at_def dget_def)

lemma value_at_base [simp]: "value_at (base_command p d) ''primitive_type'' = JStr p"
  by (simp add: base_command_def value_at_def dget_def)

lemma value_at_append: "value_at (base_command p d @ e) ''primitive_type'' = JStr p"
  by (simp add: base_command_def value_at_def dget_def)

lemma value_at_head [simp]: "value_at ((k, v) # d) k = v"
  by (simp add: value_at_def dget_def)

lemmas route_parts = route_absolute_move_def route_circular_move_def route_move_relative_def route_move_joint_def
  route_move_joints_def route_return_to_start_def joints_command_def framed_def Let_def ebind_eq_Inr value_at_set value_at_append

lemma region_primitive:
  assumes "region_command d region = Inr c"
  shows "value_at c ''primitive_type'' = JStr ''PTP''"
  using assms by (auto simp: region_command_def Let_def ebind_eq_Inr value_at_set)

lemma named_pose_primitive:
  assumes "route_named_pose R d = Inr c"
  shows "value_at c ''primitive_type'' = JStr ''PTP''"
  using assms region_primitive
  by (auto simp: route_named_pose_def Let_def ebind_eq_Inr value_at_set split: if_splits option.splits)

lemma absolute_primitive:
  assumes "route_absolute_move d p = Inr c"
  shows "value_at c ''primitive_type'' = JStr p"
  using assms by (auto simp: route_parts split: json.splits)

lemma circular_primitive:
  assumes "route_circular_move d = Inr c"
  shows "value_at c ''primitive_type'' = JStr ''CIRC''"
  using assms by (auto simp: route_parts split: json.splits)

lemma joints_primitive:
  "route_move_joints d = Inr c \<Longrightarrow> value_at c ''primitive_type'' = JStr ''MOVE_JOINTS''"
  "route_return_to_start d = Inr c \<Longrightarrow> value_at c ''primitive_type'' = JStr ''MOVE_JOINTS''"
  "route_move_joint d = Inr c \<Longrightarrow> value_at c ''primitive_type'' = JStr ''MOVE_JOINT''"
  "route_move_relative d = Inr c \<Longrightarrow> value_at c ''primitive_type'' = JStr ''MOVE_REL''"
  by (auto simp: route_parts split: json.splits if_splits)

lemma single_primitive:
  assumes "route_single_intent R d = Inr c"
  shows "names_primitive c"
  using assms
  by (auto simp: route_single_intent_def Let_def ebind_eq_Inr framed_def names_primitive_def routed_primitives_def
      dest!: named_pose_primitive absolute_primitive circular_primitive joints_primitive split: if_splits)

text \<open>A command of the drawing router.\<close>

definition drawn :: "intent_router \<Rightarrow> obj \<Rightarrow> bool" where
  "drawn R c \<longleftrightarrow> (\<exists>k d r. ir_draw R k d = Inr r \<and> c \<in> set (rr_commands r))"

lemma route_primitives:
  "clean v \<Longrightarrow> route R v = Inr r \<Longrightarrow> c \<in> set (rr_commands r) \<Longrightarrow> names_primitive c \<or> drawn R c"
  "clean_items ss \<Longrightarrow> route_steps R i ss = Inr cs \<Longrightarrow> c \<in> set cs \<Longrightarrow> names_primitive c \<or> drawn R c"
proof (induction R v and R i ss arbitrary: r c and cs c rule: route_route_steps.induct)
  case (1 R v)
  show ?case
  proof (cases "\<exists>d. v = JObj d")
    case False
    with "1.prems" show ?thesis by (auto simp: route.simps split: json.splits)
  next
    case True
    then obtain d where v: "v = JObj d" by blast
    with "1.prems"(1) have d: "clean_fields d" by simp
    then have np: "dget d ''primitive_type'' = None"
      by (auto simp: clean_fields_iff dget_def map_of_eq_None_iff)
    show ?thesis
    proof (cases "dget d ''error'' = None")
      case False
      with "1.prems"(2,3) v np show ?thesis by (auto simp: route.simps route_error_def)
    next
      case ok: True
      with "1.prems"(2) v np obtain raw where raw: "value_at d ''intent'' = JStr raw" "strip raw \<noteq> []"
        by (auto simp: route.simps split: json.splits if_splits)
      consider (seq) "strip raw = ''sequence''" | (draw) "strip raw \<in> {''draw_shape'', ''draw_text''}"
        | (one) "strip raw \<notin> {''sequence'', ''draw_shape'', ''draw_text''}" by blast
      then show ?thesis
      proof cases
        case seq
        with "1.prems"(2) v np ok raw obtain ss cs where ss: "dget d ''steps'' = Some (JList ss)" "ss \<noteq> []"
          and cs: "route_steps R 0 ss = Inr cs" "rr_commands r = cs"
          by (auto simp: route.simps ebind_eq_Inr split: option.splits json.splits if_splits)
        have ssc: "clean_items ss" using clean_member [OF d ss(1)] by simp
        have "c \<in> set cs" using cs(2) "1.prems"(3) by simp
        with 1(1) [OF v _ _ raw seq ss(1) refl ss(2) ssc cs(1)] np ok show ?thesis by simp
      next
        case draw
        with "1.prems" v np ok raw show ?thesis
          by (auto simp: route.simps drawn_def)
      next
        case one
        with "1.prems"(2,3) v np ok raw have "route_single_intent R d = Inr c"
          by (auto simp: route.simps ebind_eq_Inr primitive_route_def)
        then show ?thesis using single_primitive by blast
      qed
    qed
  qed
next
  case (2 R i)
  then show ?case by simp
next
  case (3 R i s ss)
  obtain q ds where s: "is_dict s" and q: "route R s = Inr q" "rr_type q \<noteq> ''error''"
    and ds: "route_steps R (Suc i) ss = Inr ds" and cs: "cs = rr_commands q @ ds"
    using "3.prems"(2) by (auto simp: ebind_eq_Inr split: if_splits)
  from "3.prems"(1,3) cs consider (here) "c \<in> set (rr_commands q)" | (later) "c \<in> set ds" by auto
  then show ?case
  proof cases
    case here
    with "3.IH"(1) s q(1) "3.prems"(1) show ?thesis by simp
  next
    case later
    with "3.IH"(2) [of q] s q ds "3.prems"(1) show ?thesis by simp
  qed
qed

text \<open>C30: An IR the contract accepts cannot choose a primitive itself: every command the router makes of it
  after the renaming of old names has a primitive of the router's table, or was made by the drawing
  router; the passthrough of raw commands is out of reach.\<close>

theorem ir_cannot_name_primitives:
  assumes "validate_semantic_ir_contract v = None" and "route R (canonicalize v) = Inr r"
  shows "list_all (\<lambda>c. names_primitive c \<or> drawn R c) (rr_commands r)"
proof -
  have "clean (canonicalize v)"
    using assms(1) by (auto simp: validate_semantic_ir_contract_def intro: clean_canonicalize contract_clean)
  with assms(2) route_primitives(1) show ?thesis by (auto simp: list_all_iff)
qed

subsection \<open>A relative joint move\<close>

lemma dget_drop_keys [simp]: "dget (drop_keys ks d) k = (if k \<in> set ks then None else dget d k)"
  by (induction d) (auto simp: drop_keys_def dget_def)

lemma dget_dict_set [simp]: "dget (dict_set k v d) j = (if j = k then Some v else dget d j)"
  by (simp add: dget_def)

lemma dget_canonicalize_fields [simp]: "dget (canonicalize_fields d) k = map_option canonicalize (dget d k)"
  by (induction d) (auto simp: dget_def)

lemma dget_filter_ne: "k \<noteq> old \<Longrightarrow> dget (filter (\<lambda>(k, _). k \<noteq> old) d) k = dget d k"
  by (induction d) (auto simp: dget_def)

lemma dget_rename: "k \<noteq> old \<Longrightarrow> k \<noteq> new \<Longrightarrow> dget (rename_missing old new d) k = dget d k"
  by (simp add: rename_missing_def rename_key_def dget_filter_ne split: option.split)

lemma rename_present: "dget d new \<noteq> None \<Longrightarrow> rename_missing old new d = d"
  by (auto simp: rename_missing_def)

lemma dget_optional:
  "dget (optional_motion_fields d) ''angular_unit'' = dget d ''angular_unit''"
  by (simp add: optional_motion_fields_def dget_def split: option.split)

lemma joint_alias_range: "joint_by_alias v = Inr i \<Longrightarrow> i < 6"
proof -
  have "list_all (\<lambda>p. snd p < 6) joint_aliases" by (simp add: joint_aliases_def)
  then have "map_of joint_aliases s = Some j \<Longrightarrow> j < 6" for s j by (auto simp: list_all_iff dest!: map_of_SomeD)
  then show "joint_by_alias v = Inr i \<Longrightarrow> i < 6" by (auto simp: joint_by_alias_def Let_def split: option.splits)
qed

lemma joint_number_range: "resolve_joint_index v = Inr i \<Longrightarrow> i < 6"
  using joint_alias_range
  by (cases v rule: resolve_joint_index.cases) (auto simp: joint_by_number_def split: if_splits)

lemma resolve_joint_delta_Inr:
  assumes "resolve_joint_delta J d = Inr e"
  shows "\<exists>ps i v x delta. joints_for_delta J = Inr ps \<and> resolve_joint_index (raw_joint d) = Inr i
    \<and> dget d ''delta_angle'' = Some v \<and> numeric v ''delta_angle'' = Inr x
    \<and> convert_angular x (value_at d ''angular_unit'') ''delta_angle'' = Inr delta
    \<and> dget e ''joint_index'' = Some (JInt (int i)) \<and> dget e ''joint_angle'' = Some (JFloat (fadd (ps ! i) delta))
    \<and> dget e ''angular_unit'' = Some (JStr ''rad'') \<and> dget e ''intent'' = Some (JStr ''move_joint'')
    \<and> dget e ''error'' = dget d ''error'' \<and> dget e ''primitive_type'' = dget d ''primitive_type''"
  using assms by (auto simp: resolve_joint_delta_def ebind_eq_Inr split: option.splits)

lemma canonical_move_joint:
  assumes "dget e ''intent'' = Some (JStr ''move_joint'')" and "dget e ''joint_index'' = Some (JInt i)"
    and "dget e ''joint_angle'' = Some (JFloat x)"
    and "k \<in> {''intent'', ''joint_index'', ''joint_angle'', ''angular_unit'', ''error'', ''primitive_type''}"
  shows "dget (canonical_names (canonicalize_fields e)) k = map_option canonicalize (dget e k)"
proof -
  let ?f = "canonicalize_fields e"
  have "intent_of ?f = ''move_joint''"
    by (simp add: intent_of_def value_at_def assms(1) or_empty_def strip_def is_space_def)
  then have "canonical_names ?f = rename_missing ''delta'' ''delta_angle''
      (rename_missing ''angle'' ''joint_angle'' (rename_missing ''joint'' ''joint_index'' ?f))"
    by (simp add: canonical_names_def)
  also have "rename_missing ''joint'' ''joint_index'' ?f = ?f" by (rule rename_present) (simp add: assms(2))
  also have "rename_missing ''angle'' ''joint_angle'' ?f = ?f" by (rule rename_present) (simp add: assms(3))
  finally show ?thesis using assms(4) dget_rename [of k "''delta''" "''delta_angle''" ?f] by auto
qed

lemma route_move_joint_fields:
  assumes "dget d ''joint_index'' = Some (JInt i)" and "dget d ''joint_angle'' = Some (JFloat x)"
  shows "route_move_joint d = Inr ([(''primitive_type'', JStr ''MOVE_JOINT''), (''joint_index'', JInt i),
    (''joint_angle'', JFloat x)] @ optional_motion_fields d)"
  by (simp add: route_move_joint_def required_def raised_def assms)

lemma normalized_joint_move:
  assumes c: "c = [(''primitive_type'', JStr ''MOVE_JOINT''), (''joint_index'', JInt i), (''joint_angle'', JFloat x)]
      @ optional_motion_fields d"
    and unit: "dget d ''angular_unit'' = Some (JStr ''rad'')" and n: "normalize_cmd F N (JObj c) = Inr n"
  shows "\<exists>y. nget n ''joint_angle'' = Plain (JFloat y) \<and> wrapped_from x y"
proof -
  have ang: "get_or c ''angular_unit'' JNull = JStr ''rad''"
    using unit by (simp add: c get_or_def dget_def dget_optional [unfolded dget_def])
  obtain u e where u: "update_at ''plan_only'' (\<lambda>v. Inr (Plain (JBool (truthy v)))) (plain_dict c) = Inr u"
    and e: "scalar_fields (JStr ''MOVE_JOINT'') (JStr ''rad'') (pop_key ''angular_unit'' (pop_key ''linear_unit'' u)) = Inr e"
    and m: "motion_fields F N (JStr ''MOVE_JOINT'') (get_or c ''linear_unit'' JNull) (JStr ''rad'') e = Inr n"
    using n ang by (auto simp: c normalize_cmd_def dget_def ebind_eq_Inr Let_def is_str_def raised_def
        non_motion_primitives_def split: if_splits)
  let ?p = "pop_key ''angular_unit'' (pop_key ''linear_unit'' u)"
  have "map_of u ''joint_angle'' = Some (Plain (JFloat x))"
    using touchesD [OF touches_update_at u, of "''joint_angle''"] by (simp add: c dget_def)
  then have at: "map_of ?p ''joint_angle'' = Some (Plain (JFloat x))" by simp
  obtain q where q: "update_at ''joint_index'' (\<lambda>v. ebind (raised (to_int v)) (\<lambda>i. Inr (Plain (JInt i)))) ?p = Inr q"
    and last: "update_at ''joint_angle'' (\<lambda>v. ebind (normalize_single_joint_angle v ''joint_angle'' (JStr ''rad''))
      (\<lambda>x. Inr (Plain (JFloat x)))) q = Inr e"
    using e by (auto simp: scalar_fields_def Let_def is_str_def ebind_eq_Inr)
  have "map_of q ''joint_angle'' = Some (Plain (JFloat x))"
    using touchesD [OF touches_update_at q, of "''joint_angle''"] at by simp
  with last obtain y where y: "normalize_single_joint_angle (JFloat x) ''joint_angle'' (JStr ''rad'') = Inr y"
    and ey: "map_of e ''joint_angle'' = Some (Plain (JFloat y))"
    by (auto simp: update_at_def ebind_eq_Inr)
  have "map_of n ''joint_angle'' = map_of e ''joint_angle''"
    by (rule touchesD [OF touches_motion_fields m]) (simp add: motion_written_def)
  moreover have "wrapped_from x y"
    using y by (simp add: normalize_single_joint_angle_def numeric_def convert_angular_def is_str_def wrap_to_pi_wrapped)
  ultimately show ?thesis using ey by (simp add: nget_def)
qed

text \<open>C31: A relative joint move ends at the joint it names: the one command routed for it moves that joint to its
  last known angle plus the delta, in radians, and the normaliser wraps this sum into the half-open
  circle, so the joint goes the other way round when the sum is outside it.\<close>

theorem relative_joint_move_target:
  assumes prep: "prepare_ir J (JObj d) = Inr (JObj e)" and intent: "intent_of d = ''move_joint_delta''"
    and contract: "validate_semantic_ir_contract (JObj e) = None" and err: "dget d ''error'' = None"
    and rt: "route R (canonicalize (JObj e)) = Inr r"
  shows "\<exists>ps i v x delta c. joints_for_delta J = Inr ps \<and> i < 6 \<and> resolve_joint_index (raw_joint d) = Inr i
    \<and> dget d ''delta_angle'' = Some v \<and> numeric v ''delta_angle'' = Inr x
    \<and> convert_angular x (value_at d ''angular_unit'') ''delta_angle'' = Inr delta
    \<and> rr_commands r = [c] \<and> value_at c ''primitive_type'' = JStr ''MOVE_JOINT''
    \<and> value_at c ''joint_index'' = JInt (int i) \<and> value_at c ''joint_angle'' = JFloat (fadd (ps ! i) delta)
    \<and> (\<forall>F N n. normalize_cmd F N (JObj c) = Inr n \<longrightarrow>
        (\<exists>y. nget n ''joint_angle'' = Plain (JFloat y) \<and> wrapped_from (fadd (ps ! i) delta) y))"
proof -
  have "resolve_joint_delta J d = Inr e"
    using prep intent by (auto simp: prepare_ir.simps ebind_eq_Inr)
  from resolve_joint_delta_Inr [OF this] obtain ps i v x delta where parts: "joints_for_delta J = Inr ps"
    "resolve_joint_index (raw_joint d) = Inr i" "dget d ''delta_angle'' = Some v" "numeric v ''delta_angle'' = Inr x"
    "convert_angular x (value_at d ''angular_unit'') ''delta_angle'' = Inr delta"
    and e: "dget e ''joint_index'' = Some (JInt (int i))" "dget e ''joint_angle'' = Some (JFloat (fadd (ps ! i) delta))"
      "dget e ''angular_unit'' = Some (JStr ''rad'')" "dget e ''intent'' = Some (JStr ''move_joint'')"
    and kept: "dget e ''error'' = dget d ''error''" by blast
  let ?a = "fadd (ps ! i) delta"
  define g where "g = canonical_names (canonicalize_fields e)"
  have "clean (JObj e)" by (rule contract_clean [OF contract [unfolded validate_semantic_ir_contract_def]])
  then have "dget e ''primitive_type'' = None" by (auto simp: clean_fields_iff dget_def map_of_eq_None_iff)
  then have g: "dget g ''joint_index'' = Some (JInt (int i))" "dget g ''joint_angle'' = Some (JFloat ?a)"
      "dget g ''angular_unit'' = Some (JStr ''rad'')" "dget g ''intent'' = Some (JStr ''move_joint'')"
      "dget g ''error'' = None" "dget g ''primitive_type'' = None"
    using canonical_move_joint [OF e(4) e(1) e(2)] e kept err by (simp_all add: g_def)
  define c where "c = [(''primitive_type'', JStr ''MOVE_JOINT''), (''joint_index'', JInt (int i)), (''joint_angle'', JFloat ?a)]
      @ optional_motion_fields g"
  have "strip ''move_joint'' = ''move_joint''" by (simp add: strip_def is_space_def)
  then have "route R (JObj g) = ebind (route_single_intent R g) (\<lambda>c. Inr (primitive_route ''semantic_ir'' c))"
    using g by (simp add: route.simps value_at_def)
  also have "route_single_intent R g = Inr c"
    using g route_move_joint_fields [OF g(1) g(2)] by (simp add: route_single_intent_def value_at_def c_def)
  finally have "rr_commands r = [c]" using rt by (simp add: g_def primitive_route_def) (metis (no_types) Inr_inject route_result.select_convs(2))
  moreover have "value_at c ''primitive_type'' = JStr ''MOVE_JOINT''" "value_at c ''joint_index'' = JInt (int i)"
    "value_at c ''joint_angle'' = JFloat ?a" by (simp_all add: c_def value_at_def dget_def)
  moreover note normalized_joint_move [OF c_def g(3)]
  ultimately show ?thesis using parts joint_number_range [OF parts(2)] by blast
qed

subsection \<open>Names of the station\<close>

text \<open>An entry answers to a query when its name or one of its aliases is the query, case, underscores and
  spacing aside.\<close>

definition answers :: "string \<Rightarrow> string \<times> json \<Rightarrow> bool" where
  "answers q e \<longleftrightarrow> (\<exists>ns. names_of e = Inr ns \<and> normalize_scene_name q \<in> set (map normalize_scene_name ns))"

lemma matches_of_filter:
  "matches_of (normalize_scene_name q) d = Inr ms \<Longrightarrow> ms = map fst (filter (answers q) d)"
  by (induction "normalize_scene_name q" d arbitrary: ms rule: matches_of.induct) (auto simp: ebind_eq_Inr answers_def)

lemma resolve_named_iff:
  assumes "resolve_named q coll = Inr r"
  shows "rs_ok r \<longleftrightarrow> (\<exists>e. filter (answers q) coll = [e] \<and> rs_name r = fst e)"
proof -
  obtain ms where "matches_of (normalize_scene_name q) coll = Inr ms"
    and r: "r = (case ms of [] \<Rightarrow> unresolved ''needs_clarification'' []
      | [name] \<Rightarrow> resolved name (value_at coll name) | _ \<Rightarrow> unresolved ''needs_clarification'' (sort ms))"
    using assms by (auto simp: resolve_named_def ebind_eq_Inr)
  then have ms: "ms = map fst (filter (answers q) coll)" by (simp add: matches_of_filter)
  show ?thesis
  proof (cases "filter (answers q) coll")
    case Nil
    with ms r show ?thesis by (simp add: unresolved_def)
  next
    case (Cons e es)
    then show ?thesis using ms r by (cases es) (simp_all add: resolved_def unresolved_def)
  qed
qed

lemma find_detection_name: "find_detection q vs = Some r \<Longrightarrow> normalize_scene_name (rs_name r) = q"
  by (induction q vs rule: find_detection.induct) (auto simp: resolved_def Let_def split: json.splits if_splits)

text \<open>A goal is compiled to skills only when the destination names exactly one region of the station and the
  object exactly one known object, or, when the station's objects do not settle it, a class the live scene
  reports; otherwise the compiler asks.\<close>

theorem goals_are_never_guessed:
  assumes "compile_goal G (JObj d) live = Inr calls" and "(''pick_object'', args) \<in> set calls"
  shows "\<exists>ob dest. calls = pick_and_place_calls ob dest
    \<and> (\<exists>e. filter (answers (stripped_or_empty d ''destination'')) (sg_regions G) = [e] \<and> dest = fst e)
    \<and> ((\<exists>e. filter (answers (stripped_or_empty d ''object'')) (sg_objects G) = [e] \<and> ob = fst e)
      \<or> normalize_scene_name ob = normalize_scene_name (stripped_or_empty d ''object''))"
proof -
  let ?oq = "stripped_or_empty d ''object''" and ?dq = "stripped_or_empty d ''destination''"
  obtain ob dest where ob: "resolve_object G ?oq live = Inr ob" "rs_ok ob"
    and dest: "resolve_region G ?dq = Inr dest" "rs_ok dest" and calls: "calls = pick_and_place_calls (rs_name ob) (rs_name dest)"
    using assms by (auto simp: compile_goal_def ebind_eq_Inr Let_def clarify_def split: if_splits)
  have d: "\<exists>e. filter (answers ?dq) (sg_regions G) = [e] \<and> rs_name dest = fst e"
    using dest resolve_named_iff [of ?dq "sg_regions G" dest] by (simp add: resolve_region_def)
  from ob(1) obtain st where st: "resolve_named ?oq (sg_objects G) = Inr st"
    and pick: "ob = (if rs_ok st then st else case live of
            JObj l \<Rightarrow> (case dget l ''detections'' of
                Some (JList ds) \<Rightarrow> (case find_detection (normalize_scene_name ?oq) ds of Some r \<Rightarrow> r | None \<Rightarrow> st)
              | _ \<Rightarrow> st)
          | _ \<Rightarrow> st)"
    by (auto simp: resolve_object_def ebind_eq_Inr)
  have "(\<exists>e. filter (answers ?oq) (sg_objects G) = [e] \<and> rs_name ob = fst e)
      \<or> normalize_scene_name (rs_name ob) = normalize_scene_name ?oq"
  proof (cases "rs_ok st")
    case True
    with pick resolve_named_iff [OF st] show ?thesis by simp
  next
    case False
    with pick ob(2) obtain ds where "find_detection (normalize_scene_name ?oq) ds = Some ob"
      by (auto split: json.splits option.splits)
    then show ?thesis using find_detection_name by blast
  qed
  with d calls show ?thesis by blast
qed

end
