(* ===== verification/Sequence_Witnesses.thy ===== *)
theory Sequence_Witnesses
  imports Sequence_Properties
begin

section \<open>A validated sequence\<close>

text \<open>
  A sequence of a relative move in millimetres, an output and a straight move, run through the
  sequence validator with the shipped limits: the witnesses of the properties of sequences.
\<close>

subsection \<open>A root, and the commands\<close>

text \<open>A root in fixed point, rounded up on a grid of 1/1024.\<close>

fun floor_root :: "nat \<Rightarrow> nat" where
  "floor_root n = (if n = 0 then 0
     else let r = 2 * floor_root (n div 4) in if (r + 1) * (r + 1) \<le> n then r + 1 else r)"

declare floor_root.simps [simp del]

lemma floor_root_bound: "n < (floor_root n + 1) * (floor_root n + 1)"
proof (induction n rule: floor_root.induct)
  case (1 n)
  show ?case
  proof (cases "n = 0")
    case False
    let ?q = "floor_root (n div 4)"
    from 1 [OF False] have "n div 4 + 1 \<le> (?q + 1) * (?q + 1)" by simp
    then have "4 * (n div 4) + 4 \<le> 4 * ((?q + 1) * (?q + 1))" by linarith
    moreover have "n < 4 * (n div 4) + 4" by presburger
    ultimately have "n < (2 * ?q + 2) * (2 * ?q + 2)" by (simp add: algebra_simps)
    then show ?thesis using False by (subst (1 2) floor_root.simps) (auto simp: Let_def algebra_simps)
  qed (simp add: floor_root.simps)
qed

definition grid_root :: "rat \<Rightarrow> rat" where
  "grid_root s = of_nat (floor_root (nat \<lceil>s * 1024 * 1024\<rceil>) + 1) / 1024"

lemma grid_root_above:
  assumes "0 \<le> s"
  shows "sqrt (real_of_rat s) \<le> 1 * real_of_rat (grid_root s)"
proof -
  let ?n = "nat \<lceil>s * 1024 * 1024\<rceil>"
  let ?r = "floor_root ?n + 1"
  have "s * 1024 * 1024 \<le> of_nat ?n" using assms by (simp add: le_of_int_ceiling)
  also have "\<dots> \<le> (of_nat (?r * ?r) :: rat)" using floor_root_bound [of ?n] by (simp only: of_nat_le_iff)
  finally have "s \<le> grid_root s * grid_root s" by (simp add: grid_root_def field_simps)
  then have "real_of_rat s \<le> (real_of_rat (grid_root s))\<^sup>2"
    by (simp add: power2_eq_square of_rat_less_eq flip: of_rat_mult)
  moreover have "0 \<le> grid_root s" by (simp add: grid_root_def)
  ultimately show ?thesis by (simp add: real_le_lsqrt)
qed

definition demo_lib :: float_lib where
  "demo_lib = \<lparr>lib_sqrt = grid_root, lib_sin = (\<lambda>x. x), lib_cos = (\<lambda>x. 1)\<rparr>"

definition demo_limits :: semantic_validator where
  "demo_limits = \<lparr>sv_circ_tolerance = Fin (1/1000), sv_max_velocity = Fin (6/100), sv_max_move_rel = Fin (21/100),
     sv_x = (Fin (-45/100), Fin (45/100)), sv_y = (Fin (-16/100), Fin (52/100)), sv_z = (Fin (10/100), Fin (65/100))\<rparr>"

definition demo_validator :: sequence_validator where
  "demo_validator = shipped_sequence_limits (\<lambda>_. None) demo_lib demo_limits"

definition jf :: "rat \<Rightarrow> json" where "jf x = JFloat (Fin x)"

definition demo_rel :: json where
  "demo_rel = JObj [(''primitive_type'', JStr ''MOVE_REL''), (''delta_x'', JInt 100), (''delta_y'', JInt 0),
     (''delta_z'', JInt (-30)), (''linear_unit'', JStr ''mm''), (''reference_frame'', JStr ''base_link'')]"

definition demo_io :: json where
  "demo_io = JObj [(''primitive_type'', JStr ''IO_SET''), (''io_address'', JInt 10), (''io_value'', JInt 1)]"

definition demo_lin :: json where
  "demo_lin = JObj [(''primitive_type'', JStr ''LIN''), (''reference_frame'', JStr ''base_link''),
     (''target_pose'', JObj [(''position'', JObj [(''x'', jf (3/10)), (''y'', jf 0), (''z'', jf (2/10))])])]"

definition demo_commands :: json where
  "demo_commands = JList [demo_rel, demo_io, demo_lin]"

lemmas norm_defs = normalize_cmd_def update_at_def plain_dict_def pop_key_def check_unit_def raised_def dget_def get_or_def
   scalar_fields_def motion_fields_def is_str_def non_motion_primitives_def linear_units_def angular_units_def
   set_pose_def relative_fields_def motion_defaults_def setdefault_def has_key_def numeric_def convert_linear_def float_of_int_def planner_defaults_def
   normalize_pose_def normalize_orientation_def zero_orientation_def set_waypoints_def circ_fields_def set_steps_def
   shipped_sequence_limits_def demo_validator_def
lemmas sem_defs = semantic_validate_def validate_primitive_def nget_def nget_or_def allowed_primitives_def validate_move_rel_def deltas_def square_norm_def demo_limits_def frame_ok_def validate_io_def velocity_in_range_def validate_target_def validate_pose_def inside_def min_velocity_scale_def
lemmas seq_defs = sequence_validate_def check_step_def check_shape_def check_command_def at_stage_def resolve_step_frame_def frame_required_primitives_def ntext_def note_frame_def note_distance_def note_rest_def move_rel_distance_def unwrapped_def acc_init_def strip_def is_space_def

definition demo_rel_norm :: ndict where
  "demo_rel_norm = [(''primitive_type'', Plain (JStr ''MOVE_REL'')), (''delta_x'', Plain (jf (1/10))), (''delta_y'', Plain (jf 0)),
     (''delta_z'', Plain (jf (-3/100))), (''reference_frame'', Plain (JStr ''base_link'')),
     (''velocity_scale'', Plain (jf (6/100))), (''acceleration_scale'', Plain (jf (6/100))),
     (''planner_id'', Plain (JStr ''PILZ_LIN''))]"
definition demo_io_norm :: ndict where
  "demo_io_norm = [(''primitive_type'', Plain (JStr ''IO_SET'')), (''io_address'', Plain (JInt 10)), (''io_value'', Plain (JInt 1)),
     (''reference_frame'', Plain (JStr ''base_link''))]"
definition demo_pose :: pose_msg where
  "demo_pose = \<lparr>px = Fin (3/10), py = Fin 0, pz = Fin (2/10), ox = Fin 0, oy = Fin 0, oz = Fin 0, ow = Fin 0\<rparr>"
definition demo_lin_norm :: ndict where
  "demo_lin_norm = [(''primitive_type'', Plain (JStr ''LIN'')), (''reference_frame'', Plain (JStr ''base_link'')),
     (''target_pose'', Plain (JObj [(''position'', JObj [(''x'', jf (3/10)), (''y'', jf 0), (''z'', jf (2/10))])])),
     (''target_pose_msg'', PoseV demo_pose),
     (''velocity_scale'', Plain (jf (6/100))), (''acceleration_scale'', Plain (jf (6/100))),
     (''planner_id'', Plain (JStr ''PILZ_LIN''))]"
lemma ebind_lazy: "a = b \<Longrightarrow> ebind a f = ebind b f" by simp
lemma demo_rel_normal: "normalize_cmd demo_lib (qv_normalizer demo_validator) demo_rel = Inr demo_rel_norm"
  by (simp add: norm_defs demo_rel_def demo_rel_norm_def jf_def Let_def cong: ebind_lazy)
lemma demo_io_normal: "normalize_cmd demo_lib (qv_normalizer demo_validator) demo_io = Inr demo_io_norm"
  by (simp add: norm_defs demo_io_def demo_io_norm_def jf_def Let_def cong: ebind_lazy)
lemma demo_lin_normal: "normalize_cmd demo_lib (qv_normalizer demo_validator) demo_lin = Inr demo_lin_norm"
  by (simp add: norm_defs demo_lin_def demo_lin_norm_def demo_pose_def jf_def Let_def cong: ebind_lazy)
lemma demo_rel_valid: "semantic_validate demo_lib demo_limits demo_rel_norm = Inr ()"
  by (simp add: sem_defs norm_defs demo_rel_norm_def jf_def Let_def cong: ebind_lazy)
lemma demo_io_valid: "semantic_validate demo_lib demo_limits demo_io_norm = Inr ()"
  by (simp add: sem_defs norm_defs demo_io_norm_def jf_def Let_def cong: ebind_lazy)
lemma demo_lin_valid: "semantic_validate demo_lib demo_limits demo_lin_norm = Inr ()"
  by (simp add: sem_defs norm_defs demo_lin_norm_def demo_pose_def jf_def Let_def cong: ebind_lazy)

lemma floor_root_demo: "floor_root 11430 = 106" by (simp add: floor_root.simps)
lemma grid_root_demo: "grid_root (109/10000) = 107/1024"
proof -
  have "\<lceil>109/10000 * 1024 * 1024 :: rat\<rceil> = 11430" by (rule ceiling_unique) simp_all
  then show ?thesis by (simp add: grid_root_def floor_root_demo)
qed

lemma demo_parts:
  "qv_schema demo_validator v = None" "qv_lib demo_validator = demo_lib" "qv_semantic demo_validator = demo_limits"
  "qv_max_length demo_validator = 40" "qv_max_move_rel demo_validator = Fin (40/100)"
  "lib_sqrt demo_lib = grid_root"
  by (simp_all add: demo_validator_def shipped_sequence_limits_def demo_lib_def)
lemma demo_checked:
  "check_command demo_validator i demo_rel = Inr demo_rel_norm"
  "check_command demo_validator i demo_io = Inr demo_io_norm"
  "check_command demo_validator i demo_lin = Inr demo_lin_norm"
  by (simp_all add: check_command_iff command_checked_def demo_parts demo_rel_normal demo_io_normal demo_lin_normal
      demo_rel_valid demo_io_valid demo_lin_valid)

lemma demo_shape:
  "check_shape 3 i demo_rel = Inr ''MOVE_REL''" "check_shape 3 i demo_io = Inr ''IO_SET''"
  "check_shape 3 i demo_lin = Inr ''LIN''"
  by (simp_all add: check_shape_def demo_rel_def demo_io_def demo_lin_def get_or_def dget_def)
lemma demo_frame:
  "resolve_step_frame demo_rel_norm i = Inr (Some ''base_link'')" "resolve_step_frame demo_io_norm i = Inr None"
  "resolve_step_frame demo_lin_norm i = Inr (Some ''base_link'')"
  by (simp_all add: resolve_step_frame_def demo_rel_norm_def demo_io_norm_def demo_lin_norm_def nget_or_def ntext_def frame_required_primitives_def
     strip_def is_space_def)
lemma demo_dist: "move_rel_distance demo_lib demo_rel_norm = Inr (Fin (107/1024))"
  by (simp add: move_rel_distance_def demo_rel_norm_def nget_or_def jf_def raised_def square_norm_def demo_lib_def grid_root_demo)
lemma demo_steps: "check_step demo_validator 3 i demo_rel acc_init = Inr (demo_rel_norm,
   acc_init\<lparr>qa_frame := Some ''base_link'', qa_move_rel := Fin (107/1024)\<rparr>)"
 "qa_first_io a = None \<Longrightarrow> check_step demo_validator 3 i demo_io a = Inr (demo_io_norm, a\<lparr>qa_first_io := Some i\<rparr>)"
 "qa_frame a = Some ''base_link'' \<Longrightarrow> check_step demo_validator 3 i demo_lin a = Inr (demo_lin_norm, a)"
  by (simp_all add: check_step_def demo_checked demo_shape demo_frame note_frame_def note_distance_def note_rest_def demo_parts unwrapped_def demo_dist
     acc_init_def Let_def)
lemma three: "length [a, b, c] = 3" by simp
definition demo_result :: sequence_result where
  "demo_result = \<lparr>sr_commands = [demo_rel_norm, demo_io_norm, demo_lin_norm], sr_frame = Some ''base_link'',
     sr_move_rel = Fin (107/1024), sr_duration = Fin 0, sr_has_io = True, sr_manual_recovery = True\<rparr>"

lemma acc_init_fields:
  "qa_frame acc_init = None" "qa_first_io acc_init = None" "qa_duration acc_init = Fin 0"
  by (simp_all add: acc_init_def)

lemma demo_sequence: "sequence_validate demo_validator demo_commands = Inr demo_result"
  unfolding sequence_validate_def demo_commands_def json.case three demo_parts
  by (simp add: demo_steps acc_init_fields demo_result_def)

theorem accepted_sequence_contained_witness:
  "list_all (\<lambda>c. list_all (pose_inside demo_limits) (commanded_poses c)) [demo_rel_norm, demo_io_norm, demo_lin_norm]"
  using accepted_sequence_contained [OF demo_sequence] by (auto simp: demo_result_def demo_parts)

theorem relative_moves_within_budget_witness:
  "sqrt (real_of_rat (sq3 (net_move (rel_moves [demo_rel_norm, demo_io_norm, demo_lin_norm])))) \<le> 40/100
    \<and> sr_move_rel demo_result = Fin (107/1024)"
proof -
  have "sqrt (real_of_rat s) \<le> 1 * real_of_rat (lib_sqrt (qv_lib demo_validator) s)" if "0 \<le> s" for s
    unfolding demo_parts using that by (rule grid_root_above)
  from relative_moves_within_budget [OF demo_sequence demo_parts(5) _ _ this]
  show ?thesis by (simp add: demo_result_def of_rat_divide)
qed

theorem recovery_flag_iff_witness:
  "\<exists>i. Suc i < length (sr_commands demo_result) \<and> prim_of (sr_commands demo_result ! i) = ''IO_SET''"
  using recovery_flag_iff [OF demo_sequence] by (simp add: demo_result_def)

theorem normalisation_keeps_fields_witness:
  "map_of demo_rel_norm ''linear_unit'' = None \<and> nget demo_rel_norm ''primitive_type'' = Plain (JStr ''MOVE_REL'')"
  using normalisation_keeps_fields [OF demo_rel_normal [unfolded demo_rel_def]]
  by (simp add: nget_def dget_def demo_rel_norm_def)

end
