(* ===== verification/Gateway_Witnesses.thy ===== *)
theory Gateway_Witnesses
  imports Gateway_Task_Properties Routing_Properties Sequence_Witnesses
begin

section \<open>A straight move through the gateway\<close>

text \<open>
  One straight move, from the semantic IR to the goal, over a gateway whose validation service is the
  modelled gate with the shipped rules: the witnesses of the properties of the gateway.
\<close>

subsection \<open>The pieces\<close>

definition demo_request :: validate_request where
  "demo_request = \<lparr>rq_command = [(''primitive_type'', JStr ''LIN''), (''velocity_scale'', jf (6/100)),
       (''acceleration_scale'', jf (6/100)), (''planner_id'', JStr ''PILZ_LIN''), (''reference_frame'', JStr ''base_link''),
       (''target_pose'', pose_to_payload demo_pose)],
     rq_primitive = ''LIN'', rq_velocity = Fin (6/100), rq_target_pose = demo_pose\<rparr>"

definition demo_goal :: motion_goal where
  "demo_goal = \<lparr>g_primitive = ''LIN'', g_target_pose = demo_pose, g_waypoints = [], g_joint_target = [],
     g_velocity = Fin (6/100), g_acceleration = Fin (6/100), g_planner = ''PILZ_LIN'', g_delta = (Fin 0, Fin 0, Fin 0),
     g_frame = ''base_link'', g_wait_duration = Fin 0, g_joint_index = 0, g_joint_angle = Fin 0,
     g_io_address = 0, g_io_value = 0, g_steps = [], g_extended_mode = False, g_mode_tokens = [],
     g_estimated_duration = Fin 0, g_command_id = [], g_correlation_id = []\<rparr>"





subsection \<open>The run\<close>

definition demo_router :: intent_router where
  "demo_router = \<lparr>ir_named_poses = [], ir_station = None, ir_draw = (\<lambda>_ _. Inl (Refused ''no drawing''))\<rparr>"

definition demo_gateway :: gateway_env where
  "demo_gateway = \<lparr>ge_schema = (\<lambda>_. None), ge_lib = demo_lib, ge_normalizer = qv_normalizer demo_validator,
     ge_semantic = demo_limits, ge_mapper = default_mapper, ge_router = demo_router,
     ge_joints = \<lparr>js_positions = map Fin [0, 0, 0, 0, 0, 3], js_by_name = []\<rparr>,
     ge_pose = (\<lambda>_. None), ge_pose_service = (\<lambda>_. False), ge_validate_ready = (\<lambda>_. True),
     ge_validate = (\<lambda>n rq. Inr (Some (rq = demo_request, []))), ge_execute_ready = (\<lambda>_. True),
     ge_goal = (\<lambda>n g. GoalAccepted n), ge_result = (\<lambda>n h. Some (True, [])), ge_stopped = (\<lambda>_. False)\<rparr>"

definition demo_ir :: "json \<Rightarrow> json" where
  "demo_ir meta = JObj [(''intent'', JStr ''absolute_move_lin''), (''target_pose'',
     JObj [(''position'', JObj [(''x'', jf (3/10)), (''y'', jf 0), (''z'', jf (2/10))])]),
     (''reference_frame'', JStr ''base_link''), (''metadata'', meta)]"

lemma demo_canonical: "canonicalize (demo_ir meta) = demo_ir (canonicalize meta)"
  by (simp add: demo_ir_def canonical_names_def intent_of_def value_at_def dget_def or_empty_def strip_def is_space_def jf_def Let_def)

lemma demo_contract:
  assumes "clean meta"
  shows "validate_semantic_ir_contract (demo_ir meta) = None"
proof -
  have "clean (demo_ir meta)" using assms by (simp add: demo_ir_def jf_def)
  then have ff: "find_forbidden (demo_ir meta) ''$'' = None" by (simp add: forbidden_clean)
  show ?thesis
    using ff unfolding demo_ir_def validate_semantic_ir_contract_def
    by (simp add: contract_head_def is_error_payload_def value_at_def dget_def strip_def is_space_def
        frozen_semantic_intents_def del: find_forbidden.simps)
qed


lemma demo_routed: "route demo_router (demo_ir meta) = Inr (primitive_route ''semantic_ir'' (case demo_lin of JObj c \<Rightarrow> c))"
  by (simp add: route.simps demo_ir_def dget_def value_at_def strip_def is_space_def route_single_intent_def
      route_absolute_move_def framed_def value_or_def validate_reference_frame_def resolve_pose_at_def
      resolve_target_pose_def none_or_bool_def base_command_def optional_motion_fields_def demo_lin_def jf_def Let_def)





definition demo_start :: gw_state where "demo_start = \<lparr>gs_clock = 0, gs_calls = []\<rparr>"




subsection \<open>A factory task with this move\<close>















subsection \<open>Routing\<close>

theorem ir_cannot_name_primitives_witness:
  "\<exists>r. route demo_router (canonicalize (demo_ir JNull)) = Inr r \<and> rr_commands r \<noteq> []
    \<and> list_all names_primitive (rr_commands r)"
proof -
  let ?r = "primitive_route ''semantic_ir'' (case demo_lin of JObj c \<Rightarrow> c)"
  have r: "route demo_router (canonicalize (demo_ir JNull)) = Inr ?r" by (simp add: demo_canonical demo_routed)
  have "\<not> drawn demo_router c" for c by (simp add: drawn_def demo_router_def)
  with ir_cannot_name_primitives [OF demo_contract r] r show ?thesis
    by (intro exI [of _ ?r]) (simp add: primitive_route_def)
qed

definition demo_joints :: joint_state where
  "demo_joints = \<lparr>js_positions = map Fin [0, 0, 0, 0, 0, 3], js_by_name = []\<rparr>"

definition demo_delta :: obj where
  "demo_delta = [(''intent'', JStr ''move_joint_delta''), (''joint_index'', JInt 5), (''delta_angle'', jf (1/2))]"

definition demo_resolved :: obj where
  "demo_resolved = [(''intent'', JStr ''move_joint''), (''joint_index'', JInt 5), (''joint_angle'', jf (7/2)),
     (''angular_unit'', JStr ''rad'')]"

lemma demo_delta_prepared: "prepare_ir demo_joints (JObj demo_delta) = Inr (JObj demo_resolved)"
  by (simp add: prepare_ir.simps demo_delta_def demo_resolved_def intent_of_def value_at_def dget_def or_empty_def strip_def
      is_space_def resolve_joint_delta_def joints_for_delta_def demo_joints_def gp4_joint_names_def raw_joint_def
      joint_by_number_def jf_def numeric_def convert_angular_def drop_keys_def)

lemma demo_resolved_contract: "validate_semantic_ir_contract (JObj demo_resolved) = None"
  by (simp add: validate_semantic_ir_contract_def demo_resolved_def contract_head_def is_error_payload_def jf_def
      value_at_def dget_def strip_def is_space_def frozen_semantic_intents_def)

text \<open>The sixth joint stands at 3 rad and is to turn by another half: the sum is beyond half a turn, so the
  command that leaves the normaliser turns it back by more than five.\<close>

theorem relative_joint_move_target_witness:
  "\<exists>r c n y. route demo_router (canonicalize (JObj demo_resolved)) = Inr r \<and> rr_commands r = [c]
    \<and> normalize_cmd demo_lib (qv_normalizer demo_validator) (JObj c) = Inr n
    \<and> nget n ''joint_angle'' = Plain (JFloat (Fin y)) \<and> y < -2"
proof -
  let ?c = "[(''primitive_type'', JStr ''MOVE_JOINT''), (''joint_index'', JInt 5), (''joint_angle'', jf (7/2)),
     (''angular_unit'', JStr ''rad'')]"
  let ?r = "primitive_route ''semantic_ir'' ?c"
  have r: "route demo_router (canonicalize (JObj demo_resolved)) = Inr ?r"
    by (simp add: demo_resolved_def canonical_names_def intent_of_def value_at_def dget_def or_empty_def strip_def is_space_def
        rename_missing_def rename_key_def jf_def Let_def route.simps route_single_intent_def route_move_joint_def required_def
        optional_motion_fields_def raised_def)
  let ?n = "[(''primitive_type'', Plain (JStr ''MOVE_JOINT'')), (''joint_index'', Plain (JInt 5)),
     (''joint_angle'', Plain (JFloat (Fin (wrap_rat (7/2))))), (''velocity_scale'', Plain (jf (6/100))),
     (''acceleration_scale'', Plain (jf (6/100))), (''planner_id'', Plain (JStr ''PILZ_PTP''))]"
  have n: "normalize_cmd demo_lib (qv_normalizer demo_validator) (JObj ?c) = Inr ?n"
    by (simp add: norm_defs jf_def Let_def normalize_single_joint_angle_def convert_angular_def cong: ebind_lazy)
  have e: "dget demo_delta ''error'' = None" by (simp add: demo_delta_def dget_def)
  have i: "intent_of demo_delta = ''move_joint_delta''"
    by (simp add: demo_delta_def intent_of_def value_at_def dget_def or_empty_def strip_def is_space_def)
  have "rr_commands ?r = [?c]" by (simp add: primitive_route_def)
  from relative_joint_move_target [OF demo_delta_prepared i demo_resolved_contract e r]
  obtain ps j v x delta c where ps: "joints_for_delta demo_joints = Inr ps" and j: "resolve_joint_index (raw_joint demo_delta) = Inr j"
    and v: "dget demo_delta ''delta_angle'' = Some v" and x: "numeric v ''delta_angle'' = Inr x"
    and delta: "convert_angular x (value_at demo_delta ''angular_unit'') ''delta_angle'' = Inr delta"
    and c: "rr_commands ?r = [c]"
    and wrap: "\<forall>F N n. normalize_cmd F N (JObj c) = Inr n \<longrightarrow>
        (\<exists>y. nget n ''joint_angle'' = Plain (JFloat y) \<and> wrapped_from (fadd (ps ! j) delta) y)"
    by blast
  have "j = 5" using j by (simp add: demo_delta_def raw_joint_def dget_def value_at_def joint_by_number_def)
  moreover have "ps = map Fin [0, 0, 0, 0, 0, 3]"
    using ps by (simp add: joints_for_delta_def demo_joints_def gp4_joint_names_def)
  moreover have "delta = Fin (1/2)"
    using v x delta by (auto simp: demo_delta_def dget_def jf_def numeric_def value_at_def convert_angular_def)
  moreover have "c = ?c" using c by (simp add: primitive_route_def)
  ultimately obtain y where y: "nget ?n ''joint_angle'' = Plain (JFloat y)" "wrapped_from (Fin (7/2)) y"
    using wrap n by fastforce
  from y(2) obtain a q k where "Fin (7/2) = Fin a" and q: "y = Fin q" "q \<le> pi_literal" "q = a + of_int k * (2 * pi_literal)"
    unfolding wrapped_from_def by blast
  then have a: "a = 7/2" by simp
  have "k < 0"
  proof (rule ccontr)
    assume "\<not> k < 0"
    then have "(0 :: rat) \<le> of_int k * (2 * pi_literal)" by (simp add: pi_literal_def)
    with q(2,3) a show False by (simp add: pi_literal_def)
  qed
  then have "of_int k * (2 * pi_literal) \<le> - 1 * (2 * pi_literal)"
    by (intro mult_right_mono) (simp_all add: pi_literal_def)
  with q(3) a have "q < -2" by (simp add: pi_literal_def)
  with r n y(1) q(1) c \<open>c = ?c\<close> show ?thesis by blast
qed

subsection \<open>A goal of the scene\<close>

definition demo_station :: obj where
  "demo_station = [(''regions'', JObj [(''place_zone'', JObj [(''aliases'', JList [JStr ''bin'', JStr ''tray''])]),
       (''pick_zone'', JObj [])]), (''objects'', JObj [])]"

definition demo_scene_goal :: obj where
  "demo_scene_goal = [(''action'', JStr ''pick_and_place''), (''object'', JStr ''bolt''), (''destination'', JStr ''Tray'')]"

definition demo_live :: json where
  "demo_live = JObj [(''detections'', JList [JObj [(''class_id'', JStr ''bolt'')]])]"

lemma demo_goal_compiled:
  "compile_goal (scene_graph_init demo_station) (JObj demo_scene_goal) demo_live
    = Inr (pick_and_place_calls ''bolt'' ''place_zone'')"
  by code_simp

theorem goals_are_never_guessed_witness:
  "\<exists>e. filter (answers ''Tray'') (sg_regions (scene_graph_init demo_station)) = [e] \<and> fst e = ''place_zone''"
proof -
  have "(''pick_object'', [(''object_id'', ''bolt'')]) \<in> set (pick_and_place_calls ''bolt'' ''place_zone'')"
    by (simp add: pick_and_place_calls_def)
  from goals_are_never_guessed [OF demo_goal_compiled this] obtain ob dest e
    where "pick_and_place_calls ''bolt'' ''place_zone'' = pick_and_place_calls ob dest"
      and "filter (answers (stripped_or_empty demo_scene_goal ''destination'')) (sg_regions (scene_graph_init demo_station)) = [e]"
      and "dest = fst e" by blast
  moreover have "stripped_or_empty demo_scene_goal ''destination'' = ''Tray''" by code_simp
  ultimately show ?thesis by (auto simp: pick_and_place_calls_def)
qed

subsection \<open>Outcomes\<close>

definition slow_gateway :: gateway_env where
  "slow_gateway = demo_gateway\<lparr>ge_result := (\<lambda>n h. None)\<rparr>"

theorem accepted_goal_outcome_witness:
  "\<exists>r t. dispatch_and_await slow_gateway demo_goal demo_start = (r, t) \<and> r \<noteq> Inr succeeded
    \<and> gs_calls t = [GoalSent 2 demo_goal]"
proof -
  obtain r t where run: "dispatch_and_await slow_gateway demo_goal demo_start = (r, t)" by fastforce
  have "\<not> ge_stopped slow_gateway n" "ge_execute_ready slow_gateway n" "ge_goal slow_gateway n g = GoalAccepted n"
    "ge_result slow_gateway n h = None" for n g h
    by (simp_all add: slow_gateway_def demo_gateway_def)
  moreover have "(0 :: nat) = gs_clock demo_start" by (simp add: demo_start_def)
  ultimately show ?thesis
    using accepted_goal_outcome [OF run] run by (auto simp: demo_start_def)
qed

definition stop_intent :: obj where
  "stop_intent = [(''primitive_type'', JStr ''STOP''), (''velocity_scale'', jf (5/100))]"

definition gated :: gateway_env where
  "gated = demo_gateway\<lparr>ge_validate := (\<lambda>n rq. Inr (Some (gate_valid shipped_gate (Some ready_manager) (gate_request rq), [])))\<rparr>"

theorem confirmation_covers_no_pose_witness:
  "\<exists>t. on_confirm_command gated stop_intent demo_start = (Inr (True, []), t)
    \<and> dget stop_intent ''primitive_type'' \<noteq> Some (JStr ''LIN'')"
proof -
  let ?p = "[(''primitive_type'', JStr ''STOP''), (''velocity_scale'', jf (5/100))]"
  let ?rq = "\<lparr>rq_command = ?p, rq_primitive = ''STOP'', rq_velocity = Fin (5/100), rq_target_pose = default_pose\<rparr>"
  have p: "to_command_payload (plain_dict stop_intent) = Inr ?p"
    by (simp add: to_command_payload_def stop_intent_def plain_dict_def common_fields_def own_fields_def field_def
        truthy_field_def as_float_def is_prim_def nget_def ntext_def jf_def raised_def Let_def)
  then have rq: "confirm_request stop_intent = Inr ?rq"
    by (simp add: confirm_request_def) (simp add: stop_intent_def value_or_def dget_def jf_def)
  have "validate shipped_validator (WDoc (JObj ?p)) = Inr Accept"
    by (simp add: validate_def validate_doc_def dget_def velocity_bypass_primitives_def jf_def
        check_extended_mode_def shipped_validator_def check_scale_def is_str_def)
  moreover have "geometry_ok shipped_gate (gate_request ?rq) (JObj ?p) (JStr ''STOP'')"
    by (auto simp: geometry_ok_def is_str_def dget_def checks_pose_def pose_skip_primitives_def ptp_with_joints_def)
  ultimately have "gate_valid shipped_gate (Some ready_manager) (gate_request ?rq)"
    by (simp add: gate_valid_iff readiness_ok_def ready_manager_ready command_ok_def shipped_gate_def gate_request_def dget_def)
  then obtain t where run: "on_confirm_command gated stop_intent demo_start = (Inr (True, []), t)"
    by (simp add: on_confirm_command_def gated_def demo_gateway_def gw_run rq succeeded_def)
  have "gate_guard shipped_gate = shipped_guard" by (simp add: shipped_gate_def)
  moreover have "ge_validate gated n rq = Inr (Some (True, m)) \<Longrightarrow> gate_valid shipped_gate (Some ready_manager) (gate_request rq)" for n rq m
    by (simp add: gated_def)
  ultimately obtain name where "dget stop_intent ''primitive_type'' = Some (JStr name)"
      "name \<in> set pose_skip_primitives \<or> name = ''PTP''"
    using confirmation_covers_no_pose [OF run, of shipped_gate "\<lambda>_. Some ready_manager"]
    by (auto simp: ptp_with_joints_def is_str_def)
  with run show ?thesis by (auto simp: pose_skip_primitives_def)
qed

end
