(* ===== verification/Stroke_Font.thy ===== *)
theory Stroke_Font
  imports Normalization
begin

section \<open>The single-stroke font\<close>

text \<open>
  \<open>llm_gateway/stroke_font.py\<close>: the glyph table and \<open>generate_text_strokes\<close>, which places the glyphs of
  one line beside each other and joins their strokes by travel segments.  Coordinates of the table are in
  units of the text height.  Every glyph stays above the base line, below the height and within its own
  advance width, so a line of text stays in its box.
\<close>

type_synonym point2 = "pyfloat \<times> pyfloat"

record glyph =
  g_advance :: rat
  g_strokes :: "(rat \<times> rat) list list"

record font_segment =
  fs_kind :: string
  fs_points :: "point2 list"
  fs_closed :: bool

definition glyphs_a_to_m :: "(char \<times> glyph) list" where
  "glyphs_a_to_m =
     [(CHR ''A'', \<lparr>g_advance = 70/100, g_strokes = [[(0, 0), (30/100, 1)], [(30/100, 1), (60/100, 0)],
        [(15/100, 50/100), (45/100, 50/100)]]\<rparr>),
     (CHR ''B'', \<lparr>g_advance = 72/100, g_strokes = [[(0, 0), (0, 1)], [(0, 1), (45/100, 1), (58/100,
        85/100), (58/100, 65/100), (45/100, 50/100), (0, 50/100)], [(0, 50/100), (45/100, 50/100), (58/100,
        35/100), (58/100, 15/100), (45/100, 0), (0, 0)]]\<rparr>),
     (CHR ''C'', \<lparr>g_advance = 72/100, g_strokes = [[(60/100, 85/100), (45/100, 1), (15/100, 1), (0,
        85/100), (0, 15/100), (15/100, 0), (45/100, 0), (60/100, 15/100)]]\<rparr>),
     (CHR ''D'', \<lparr>g_advance = 72/100, g_strokes = [[(0, 0), (0, 1)], [(0, 1), (40/100, 1), (60/100,
        80/100), (60/100, 20/100), (40/100, 0), (0, 0)]]\<rparr>),
     (CHR ''E'', \<lparr>g_advance = 68/100, g_strokes = [[(0, 0), (0, 1)], [(0, 1), (58/100, 1)], [(0,
        50/100), (42/100, 50/100)], [(0, 0), (58/100, 0)]]\<rparr>),
     (CHR ''F'', \<lparr>g_advance = 68/100, g_strokes = [[(0, 0), (0, 1)], [(0, 1), (58/100, 1)], [(0,
        50/100), (42/100, 50/100)]]\<rparr>),
     (CHR ''G'', \<lparr>g_advance = 74/100, g_strokes = [[(60/100, 85/100), (45/100, 1), (15/100, 1), (0,
        85/100), (0, 15/100), (15/100, 0), (45/100, 0), (60/100, 15/100), (60/100, 38/100), (35/100,
        38/100)]]\<rparr>),
     (CHR ''H'', \<lparr>g_advance = 74/100, g_strokes = [[(0, 0), (0, 1)], [(60/100, 0), (60/100, 1)], [(0,
        50/100), (60/100, 50/100)]]\<rparr>),
     (CHR ''I'', \<lparr>g_advance = 40/100, g_strokes = [[(0, 1), (40/100, 1)], [(20/100, 1), (20/100, 0)],
        [(0, 0), (40/100, 0)]]\<rparr>),
     (CHR ''J'', \<lparr>g_advance = 60/100, g_strokes = [[(55/100, 1), (55/100, 20/100), (45/100, 0),
        (15/100, 0), (0, 15/100)]]\<rparr>),
     (CHR ''K'', \<lparr>g_advance = 70/100, g_strokes = [[(0, 0), (0, 1)], [(58/100, 1), (0, 45/100)],
        [(18/100, 55/100), (60/100, 0)]]\<rparr>),
     (CHR ''L'', \<lparr>g_advance = 64/100, g_strokes = [[(0, 1), (0, 0), (55/100, 0)]]\<rparr>),
     (CHR ''M'', \<lparr>g_advance = 86/100, g_strokes = [[(0, 0), (0, 1), (30/100, 40/100), (60/100, 1),
        (60/100, 0)]]\<rparr>)]"

definition glyphs_n_to_z :: "(char \<times> glyph) list" where
  "glyphs_n_to_z =
     [(CHR ''N'', \<lparr>g_advance = 76/100, g_strokes = [[(0, 0), (0, 1), (60/100, 0), (60/100,
        1)]]\<rparr>),
     (CHR ''O'', \<lparr>g_advance = 78/100, g_strokes = [[(15/100, 0), (45/100, 0), (60/100, 15/100),
        (60/100, 85/100), (45/100, 1), (15/100, 1), (0, 85/100), (0, 15/100), (15/100, 0)]]\<rparr>),
     (CHR ''P'', \<lparr>g_advance = 70/100, g_strokes = [[(0, 0), (0, 1)], [(0, 1), (45/100, 1), (58/100,
        84/100), (58/100, 66/100), (45/100, 50/100), (0, 50/100)]]\<rparr>),
     (CHR ''Q'', \<lparr>g_advance = 80/100, g_strokes = [[(15/100, 0), (45/100, 0), (60/100, 15/100),
        (60/100, 85/100), (45/100, 1), (15/100, 1), (0, 85/100), (0, 15/100), (15/100, 0)], [(38/100, 20/100),
        (70/100, 0)]]\<rparr>),
     (CHR ''R'', \<lparr>g_advance = 74/100, g_strokes = [[(0, 0), (0, 1)], [(0, 1), (45/100, 1), (58/100,
        84/100), (58/100, 66/100), (45/100, 50/100), (0, 50/100)], [(20/100, 50/100), (60/100, 0)]]\<rparr>),
     (CHR ''S'', \<lparr>g_advance = 72/100, g_strokes = [[(60/100, 85/100), (45/100, 1), (15/100, 1), (0,
        85/100), (0, 62/100), (15/100, 50/100), (45/100, 50/100), (60/100, 38/100), (60/100, 15/100), (45/100,
        0), (15/100, 0), (0, 15/100)]]\<rparr>),
     (CHR ''T'', \<lparr>g_advance = 68/100, g_strokes = [[(0, 1), (60/100, 1)], [(30/100, 1), (30/100,
        0)]]\<rparr>),
     (CHR ''U'', \<lparr>g_advance = 76/100, g_strokes = [[(0, 1), (0, 18/100), (15/100, 0), (45/100, 0),
        (60/100, 18/100), (60/100, 1)]]\<rparr>),
     (CHR ''V'', \<lparr>g_advance = 72/100, g_strokes = [[(0, 1), (30/100, 0), (60/100, 1)]]\<rparr>),
     (CHR ''W'', \<lparr>g_advance = 94/100, g_strokes = [[(0, 1), (18/100, 0), (36/100, 55/100), (54/100,
        0), (72/100, 1)]]\<rparr>),
     (CHR ''X'', \<lparr>g_advance = 72/100, g_strokes = [[(0, 1), (60/100, 0)], [(0, 0), (60/100,
        1)]]\<rparr>),
     (CHR ''Y'', \<lparr>g_advance = 72/100, g_strokes = [[(0, 1), (30/100, 55/100), (60/100, 1)], [(30/100,
        55/100), (30/100, 0)]]\<rparr>),
     (CHR ''Z'', \<lparr>g_advance = 72/100, g_strokes = [[(0, 1), (60/100, 1), (0, 0), (60/100,
        0)]]\<rparr>)]"

definition glyph_digits :: "(char \<times> glyph) list" where
  "glyph_digits =
     [(CHR ''0'', \<lparr>g_advance = 78/100, g_strokes = [[(15/100, 0), (45/100, 0), (60/100, 15/100),
        (60/100, 85/100), (45/100, 1), (15/100, 1), (0, 85/100), (0, 15/100), (15/100, 0)], [(10/100, 10/100),
        (50/100, 90/100)]]\<rparr>),
     (CHR ''1'', \<lparr>g_advance = 52/100, g_strokes = [[(12/100, 78/100), (26/100, 1), (26/100, 0)],
        [(8/100, 0), (44/100, 0)]]\<rparr>),
     (CHR ''2'', \<lparr>g_advance = 72/100, g_strokes = [[(0, 82/100), (15/100, 1), (45/100, 1), (60/100,
        82/100), (60/100, 62/100), (0, 0), (60/100, 0)]]\<rparr>),
     (CHR ''3'', \<lparr>g_advance = 72/100, g_strokes = [[(0, 88/100), (15/100, 1), (45/100, 1), (60/100,
        84/100), (40/100, 52/100), (60/100, 18/100), (45/100, 0), (15/100, 0), (0, 12/100)]]\<rparr>),
     (CHR ''4'', \<lparr>g_advance = 72/100, g_strokes = [[(52/100, 0), (52/100, 1)], [(52/100, 42/100), (0,
        42/100), (45/100, 1)]]\<rparr>),
     (CHR ''5'', \<lparr>g_advance = 72/100, g_strokes = [[(60/100, 1), (10/100, 1), (5/100, 55/100),
        (42/100, 55/100), (60/100, 38/100), (60/100, 15/100), (45/100, 0), (15/100, 0), (0, 15/100)]]\<rparr>),
     (CHR ''6'', \<lparr>g_advance = 72/100, g_strokes = [[(58/100, 82/100), (45/100, 1), (15/100, 1), (0,
        82/100), (0, 18/100), (15/100, 0), (45/100, 0), (60/100, 18/100), (60/100, 40/100), (45/100, 55/100),
        (15/100, 55/100), (0, 40/100)]]\<rparr>),
     (CHR ''7'', \<lparr>g_advance = 70/100, g_strokes = [[(0, 1), (60/100, 1), (18/100, 0)]]\<rparr>),
     (CHR ''8'', \<lparr>g_advance = 72/100, g_strokes = [[(15/100, 50/100), (45/100, 50/100), (58/100,
        65/100), (58/100, 85/100), (45/100, 1), (15/100, 1), (2/100, 85/100), (2/100, 65/100), (15/100,
        50/100)], [(15/100, 50/100), (45/100, 50/100), (60/100, 35/100), (60/100, 15/100), (45/100, 0), (15/100,
        0), (0, 15/100), (0, 35/100), (15/100, 50/100)]]\<rparr>),
     (CHR ''9'', \<lparr>g_advance = 72/100, g_strokes = [[(60/100, 60/100), (45/100, 45/100), (15/100,
        45/100), (0, 60/100), (0, 82/100), (15/100, 1), (45/100, 1), (60/100, 82/100), (60/100, 18/100),
        (45/100, 0), (15/100, 0), (2/100, 12/100)]]\<rparr>)]"

definition glyph_marks :: "(char \<times> glyph) list" where
  "glyph_marks =
    [(CHR ''.'', \<lparr>g_advance = 22/100, g_strokes = [[(10/100, 0), (10/100, 6/100)]]\<rparr>),
     (CHR '','', \<lparr>g_advance = 24/100, g_strokes = [[(12/100, 8/100), (8/100, 0), (2/100, 0)]]\<rparr>),
     (CHR ''-'', \<lparr>g_advance = 44/100, g_strokes = [[(0, 50/100), (40/100, 50/100)]]\<rparr>),
     (CHR ''_'', \<lparr>g_advance = 54/100, g_strokes = [[(0, 0), (50/100, 0)]]\<rparr>),
     (CHR ''/'', \<lparr>g_advance = 66/100, g_strokes = [[(0, 0), (56/100, 1)]]\<rparr>),
     (CHR '' '', \<lparr>g_advance = 40/100, g_strokes = []\<rparr>)]"


definition glyphs :: "(char \<times> glyph) list" where
  "glyphs = glyphs_a_to_m @ glyphs_n_to_z @ glyph_digits @ glyph_marks"

definition point_eq :: "point2 \<Rightarrow> point2 \<Rightarrow> bool" where
  "point_eq p q \<longleftrightarrow> feq (fst p) (fst q) \<and> feq (snd p) (snd q)"

text \<open>The segments of one glyph at the cursor, and where its last stroke ends.\<close>

fun glyph_segments ::
  "pyfloat \<Rightarrow> pyfloat \<Rightarrow> point2 option \<Rightarrow> (rat \<times> rat) list list \<Rightarrow> font_segment list \<times> point2 option" where
  "glyph_segments x h prev [] = ([], prev)"
| "glyph_segments x h prev (s # ss) =
     (let ps = map (\<lambda>(px, py). (fadd x (fmul (Fin px) h), fmul (Fin py) h)) s;
          travel = (case prev of None \<Rightarrow> []
            | Some e \<Rightarrow> [\<lparr>fs_kind = ''travel'', fs_points = [e, hd ps], fs_closed = False\<rparr>]);
          draw = \<lparr>fs_kind = ''draw'', fs_points = ps, fs_closed = point_eq (hd ps) (last ps)\<rparr> in
      case glyph_segments x h (Some (last ps)) ss of (rest, e) \<Rightarrow> (travel @ draw # rest, e))"

fun line_segments ::
  "pyfloat \<Rightarrow> pyfloat \<Rightarrow> pyfloat \<Rightarrow> point2 option \<Rightarrow> string \<Rightarrow> py_exn + font_segment list" where
  "line_segments h sp x prev [] = Inr []"
| "line_segments h sp x prev (c # cs) = (case map_of glyphs c of
     None \<Rightarrow> Inl ValueError
   | Some g \<Rightarrow> (case glyph_segments x h prev (g_strokes g) of (segs, e) \<Rightarrow>
       ebind (line_segments h sp (fadd x (fadd (fmul (Fin (g_advance g)) h) sp)) e cs) (\<lambda>rest.
       Inr (segs @ rest))))"

definition generate_text_strokes :: "string \<Rightarrow> pyfloat \<Rightarrow> pyfloat \<Rightarrow> py_exn + font_segment list" where
  "generate_text_strokes line h sp =
     (if line = [] then Inl ValueError
      else if fle h (Fin 0) then Inl ValueError
      else if flt sp (Fin 0) then Inl ValueError
      else line_segments h sp (Fin 0) None line)"

subsection \<open>The box of a glyph\<close>

definition glyph_fits :: "glyph \<Rightarrow> bool" where
  "glyph_fits g \<longleftrightarrow> 0 \<le> g_advance g \<and> list_all (\<lambda>s. s \<noteq> [] \<and> list_all (\<lambda>(x, y). 0 \<le> x \<and> x \<le> g_advance g \<and> 0 \<le> y \<and> y \<le> 1) s)
     (g_strokes g)"

lemma all_glyphs_fit: "list_all (\<lambda>(c, g). glyph_fits g) glyphs"
  by (simp add: glyphs_def glyphs_a_to_m_def glyphs_n_to_z_def glyph_digits_def glyph_marks_def glyph_fits_def)

lemma glyph_of_fits: "map_of glyphs c = Some g \<Longrightarrow> glyph_fits g"
  using all_glyphs_fit by (auto simp: list_all_iff dest: map_of_SomeD)

end
