(* ===== verification/Drawing_Geometry.thy ===== *)
theory Drawing_Geometry
  imports Stroke_Font Intent_Router
begin

section \<open>Drawing geometry\<close>

text \<open>
  \<open>llm_gateway/drawing_geometry.py\<close>: units, workplanes, the shapes and the text as strokes in the plane,
  the lifting of points to poses and the compilation of strokes to commands.  The functions of \<open>math\<close> come
  from the C library: \<open>float_lib\<close>, and the arc cosine beside it.  Messages keep their code and leave out
  the values they quote.
\<close>

record geometry_lib =
  gl_float :: float_lib
  gl_acos :: "rat \<Rightarrow> rat"

datatype geometry_exn = DrawingGeometryError string | GeometryPy py_exn

definition gpy :: "py_exn + 'a \<Rightarrow> geometry_exn + 'a" where
  "gpy r = (case r of Inl e \<Rightarrow> Inl (GeometryPy e) | Inr x \<Rightarrow> Inr x)"

definition complain :: "string \<Rightarrow> geometry_exn + 'a" where
  "complain s = Inl (DrawingGeometryError s)"

subsection \<open>Numbers\<close>

definition supported_units_to_m :: "(string \<times> rat) list" where
  "supported_units_to_m =
     [(''m'', 1), (''meter'', 1), (''meters'', 1), (''cm'', 1/100), (''centimeter'', 1/100),
      (''centimeters'', 1/100), (''mm'', 1/1000), (''millimeter'', 1/1000), (''millimeters'', 1/1000)]"

text \<open>\<open>float(v)\<close> of a required value: a missing value and a text that is no number are complaints.\<close>

definition scalar :: "json \<Rightarrow> string \<Rightarrow> geometry_exn + pyfloat" where
  "scalar v message = (case to_float v of
     Inr x \<Rightarrow> Inr x
   | Inl e \<Rightarrow> if e \<in> {TypeError, ValueError} then complain message else Inl (GeometryPy e))"

definition to_meters :: "json \<Rightarrow> string \<Rightarrow> string \<Rightarrow> geometry_exn + pyfloat" where
  "to_meters v units field =
     (if v = JNull then complain (field @ '' is required'')
      else ebind (scalar v (field @ '' must be numeric'')) (\<lambda>x.
        case map_of supported_units_to_m (lower (strip units)) of
          None \<Rightarrow> complain ''invalid_units''
        | Some s \<Rightarrow> Inr (fmul x (Fin s))))"

definition to_radians :: "json \<Rightarrow> string \<Rightarrow> string \<Rightarrow> geometry_exn + pyfloat" where
  "to_radians v field units =
     (if v = JNull then complain (field @ '' is required'')
      else ebind (scalar v (field @ '' must be numeric'')) (\<lambda>x.
        let u = lower (strip units) in
        if u \<in> {''rad'', ''radian'', ''radians''} then Inr x
        else if u \<in> {''deg'', ''degree'', ''degrees''} then Inr (radians x)
        else complain ''invalid_angle_units''))"

definition component :: "obj \<Rightarrow> string \<Rightarrow> string \<Rightarrow> string \<Rightarrow> geometry_exn + pyfloat" where
  "component d field what k = (case dget d k of
     None \<Rightarrow> complain (field @ ''.'' @ k @ '' is required'')
   | Some v \<Rightarrow> scalar v (field @ what))"

definition parse_position_dict :: "json \<Rightarrow> string \<Rightarrow> geometry_exn + vec3" where
  "parse_position_dict v field = (case v of
     JObj d \<Rightarrow> (let c = component d field '' values must be numeric'' in
       ebind (c ''x'') (\<lambda>x. ebind (c ''y'') (\<lambda>y. ebind (c ''z'') (\<lambda>z. Inr (x, y, z)))))
   | _ \<Rightarrow> complain (field @ '' must be an object with x/y/z''))"

definition parse_vector_dict :: "json \<Rightarrow> string \<Rightarrow> geometry_exn + vec3" where
  "parse_vector_dict v field = parse_position_dict v field"

subsection \<open>Vectors\<close>

fun vector_add :: "vec3 \<Rightarrow> vec3 \<Rightarrow> vec3" where
  "vector_add (a, b, c) (x, y, z) = (fadd a x, fadd b y, fadd c z)"

fun vector_scale :: "vec3 \<Rightarrow> pyfloat \<Rightarrow> vec3" where
  "vector_scale (x, y, z) k = (fmul x k, fmul y k, fmul z k)"

fun vector_norm :: "geometry_lib \<Rightarrow> vec3 \<Rightarrow> pyfloat" where
  "vector_norm L (x, y, z) = root_of (gl_float L) (fadd (fadd (fmul x x) (fmul y y)) (fmul z z))"

definition vector_normalize :: "geometry_lib \<Rightarrow> vec3 \<Rightarrow> string \<Rightarrow> geometry_exn + vec3" where
  "vector_normalize L v field =
     (let m = vector_norm L v in
      if \<not> isfinite m \<or> fle m (Fin (1 / 10 ^ 12)) then complain (field @ '' must be a non-zero finite vector'')
      else case v of (x, y, z) \<Rightarrow> Inr (fdiv_pos x m, fdiv_pos y m, fdiv_pos z m))"

text \<open>The cross product is \<open>cross3\<close> of the normaliser, whose code is the same.\<close>

definition orientation_to_quaternion :: "geometry_lib \<Rightarrow> obj \<Rightarrow> string \<Rightarrow> geometry_exn + quaternion" where
  "orientation_to_quaternion L d field =
     (let c = component d field '' quaternion values must be numeric'' in
      ebind (c ''x'') (\<lambda>x. ebind (c ''y'') (\<lambda>y. ebind (c ''z'') (\<lambda>z. ebind (c ''w'') (\<lambda>w.
      let n = root_of (gl_float L) (fadd (fadd (fadd (fmul x x) (fmul y y)) (fmul z z)) (fmul w w)) in
      if \<not> isfinite n \<or> fle n (Fin (1 / 10 ^ 12)) then complain (field @ '' quaternion is invalid'')
      else Inr (fdiv_pos x n, fdiv_pos y n, fdiv_pos z n, fdiv_pos w n))))))"

definition quaternion_basis :: "quaternion \<Rightarrow> vec3 \<times> vec3 \<times> vec3" where
  "quaternion_basis q = (case q of (x, y, z, w) \<Rightarrow>
     (let one_minus = (\<lambda>a b. fsub (Fin 1) (fmul (Fin 2) (fadd a b)));
          twice_sum = (\<lambda>a b. fmul (Fin 2) (fadd a b));
          twice_diff = (\<lambda>a b. fmul (Fin 2) (fsub a b)) in
      ((one_minus (fmul y y) (fmul z z), twice_sum (fmul x y) (fmul w z), twice_diff (fmul x z) (fmul w y)),
       (twice_diff (fmul x y) (fmul w z), one_minus (fmul x x) (fmul z z), twice_sum (fmul y z) (fmul w x)),
       (twice_sum (fmul x z) (fmul w y), twice_diff (fmul y z) (fmul w x), one_minus (fmul x x) (fmul y y)))))"

subsection \<open>The workplane\<close>

record workplane =
  wp_mode :: string
  wp_frame :: string
  wp_origin :: vec3
  wp_x_axis :: vec3
  wp_y_axis :: vec3
  wp_normal :: vec3
  wp_orientation :: quaternion

definition workplane_origin :: "vec3 option \<Rightarrow> obj option \<Rightarrow> geometry_exn + vec3" where
  "workplane_origin anchor origin_pose = (case origin_pose of
     Some d \<Rightarrow> (case dget d ''position'' of
       None \<Rightarrow> complain ''workplane.origin.position is required''
     | Some v \<Rightarrow> parse_position_dict v ''workplane.origin.position'')
   | None \<Rightarrow> (case anchor of Some p \<Rightarrow> Inr p | None \<Rightarrow> complain ''missing_workplane: origin is required''))"

text \<open>An orientation of the origin replaces the default one when it is an object.\<close>

definition workplane_orientation :: "geometry_lib \<Rightarrow> obj option \<Rightarrow> obj \<Rightarrow> geometry_exn + quaternion" where
  "workplane_orientation L origin_pose dflt =
     ebind (orientation_to_quaternion L dflt ''workplane.default_orientation'') (\<lambda>q.
     case origin_pose of
       Some d \<Rightarrow> (case value_at d ''orientation'' of
         JObj q' \<Rightarrow> orientation_to_quaternion L q' ''workplane.origin.orientation'' | _ \<Rightarrow> Inr q)
     | None \<Rightarrow> Inr q)"

text \<open>A given axis, or the one of the orientation, normalised; the mode \<open>base\<close> puts its own in the place of
  one that is not given.\<close>

definition chosen_axis ::
  "geometry_lib \<Rightarrow> string \<Rightarrow> vec3 option \<Rightarrow> vec3 \<Rightarrow> vec3 \<Rightarrow> string \<Rightarrow> geometry_exn + vec3" where
  "chosen_axis L mode given dflt fixed field =
     ebind (vector_normalize L (case given of Some v \<Rightarrow> v | None \<Rightarrow> dflt) field) (\<lambda>v.
     Inr (if mode = ''base'' \<and> given = None then fixed else v))"

definition orthogonal_axes :: "geometry_lib \<Rightarrow> vec3 \<Rightarrow> vec3 \<Rightarrow> geometry_exn + vec3 \<times> vec3" where
  "orthogonal_axes L n x =
     (if fle (vector_norm L (cross3 n x)) (Fin (1 / 10 ^ 9))
      then complain ''missing_workplane: x_axis_hint is parallel to normal''
      else ebind (vector_normalize L (cross3 n x) ''workplane.y_axis'') (\<lambda>y.
        ebind (vector_normalize L (cross3 y n) ''workplane.x_axis'') (\<lambda>x. Inr (x, y))))"

definition workplane_axes ::
  "geometry_lib \<Rightarrow> string \<Rightarrow> quaternion \<Rightarrow> vec3 option \<Rightarrow> vec3 option \<Rightarrow> geometry_exn + vec3 \<times> vec3 \<times> vec3" where
  "workplane_axes L mode q normal hint = (case quaternion_basis q of (bx, _, bz) \<Rightarrow>
     ebind (chosen_axis L mode normal bz (Fin 0, Fin 0, Fin 1) ''workplane.normal'') (\<lambda>n.
     ebind (chosen_axis L mode hint bx (Fin 1, Fin 0, Fin 0) ''workplane.x_axis_hint'') (\<lambda>x.
     ebind (orthogonal_axes L n x) (\<lambda>(x, y). Inr (x, y, n)))))"

definition resolve_workplane ::
  "geometry_lib \<Rightarrow> string \<Rightarrow> string \<Rightarrow> vec3 option \<Rightarrow> obj option \<Rightarrow> obj \<Rightarrow> vec3 option \<Rightarrow> vec3 option
    \<Rightarrow> geometry_exn + workplane" where
  "resolve_workplane L raw_mode frame anchor origin_pose dflt normal hint =
     (let mode = lower (strip raw_mode) in
      if mode \<notin> {''base'', ''tool'', ''explicit_pose''} then complain ''missing_workplane: unsupported workplane mode''
      else ebind (workplane_origin anchor origin_pose) (\<lambda>p.
        ebind (workplane_orientation L origin_pose dflt) (\<lambda>q.
        ebind (workplane_axes L mode q normal hint) (\<lambda>(x, y, n).
        Inr \<lparr>wp_mode = mode, wp_frame = frame, wp_origin = p, wp_x_axis = x, wp_y_axis = y, wp_normal = n,
          wp_orientation = q\<rparr>))))"

end
