(* ===== verification/Drawing_Strokes.thy ===== *)
theory Drawing_Strokes
  imports Drawing_Geometry
begin

section \<open>Strokes of shapes and texts\<close>

text \<open>
  The generators of \<open>llm_gateway/drawing_geometry.py\<close>: each gives the strokes of one shape, or of a text of
  several lines, in the coordinates of the workplane.
\<close>

record stroke_segment =
  sk_kind :: string
  sk_points :: "point2 list"
  sk_closed :: bool
  sk_metadata :: obj

definition shape_stroke :: "string \<Rightarrow> bool \<Rightarrow> point2 list \<Rightarrow> stroke_segment list" where
  "shape_stroke name ring ps =
     [\<lparr>sk_kind = ''draw'', sk_points = ps, sk_closed = ring, sk_metadata = [(''shape'', JStr name)]\<rparr>]"

subsection \<open>Straight shapes\<close>

definition generate_rectangle_path :: "pyfloat \<Rightarrow> pyfloat \<Rightarrow> geometry_exn + stroke_segment list" where
  "generate_rectangle_path w h =
     (if fle w (Fin 0) \<or> fle h (Fin 0) then complain ''invalid_size: rectangle width/height must be > 0''
      else Inr (shape_stroke ''rectangle'' True
        [(Fin 0, Fin 0), (w, Fin 0), (w, h), (Fin 0, h), (Fin 0, Fin 0)]))"

definition generate_square_path :: "pyfloat \<Rightarrow> geometry_exn + stroke_segment list" where
  "generate_square_path side =
     (if fle side (Fin 0) then complain ''invalid_size: square side must be > 0''
      else generate_rectangle_path side side)"

definition generate_triangle_path ::
  "geometry_lib \<Rightarrow> pyfloat \<Rightarrow> point2 list option \<Rightarrow> geometry_exn + stroke_segment list" where
  "generate_triangle_path L side points = (case points of
     Some ps \<Rightarrow> if length ps \<noteq> 3 then complain ''triangle explicit points require exactly 3 vertices''
       else Inr (shape_stroke ''triangle'' True (ps @ [ps ! 0]))
   | None \<Rightarrow> if fle side (Fin 0) then complain ''invalid_size: triangle side must be > 0''
       else Inr (shape_stroke ''triangle'' True
         [(Fin 0, Fin 0), (side, Fin 0), (fhalf side, fhalf (fmul side (root_of (gl_float L) (Fin 3)))),
          (Fin 0, Fin 0)]))"

definition generate_polyline_path :: "point2 list \<Rightarrow> geometry_exn + stroke_segment list" where
  "generate_polyline_path ps =
     (if length ps < 2 then complain ''invalid_size: polyline requires at least 2 points''
      else Inr (shape_stroke ''polyline'' False ps))"

subsection \<open>Round shapes\<close>

text \<open>A function of \<open>math\<close> that raises on an infinity, a quotient, and \<open>int(math.ceil(x))\<close>.\<close>

fun math_fun :: "(rat \<Rightarrow> rat) \<Rightarrow> pyfloat \<Rightarrow> geometry_exn + pyfloat" where
  "math_fun f (Fin a) = Inr (Fin (f a))"
| "math_fun f NaN = Inr NaN"
| "math_fun f _ = Inl (GeometryPy ValueError)"

definition quotient :: "pyfloat \<Rightarrow> pyfloat \<Rightarrow> geometry_exn + pyfloat" where
  "quotient x y = (case fdiv x y of None \<Rightarrow> Inl (GeometryPy ZeroDivisionError) | Some z \<Rightarrow> Inr z)"

fun int_ceil :: "pyfloat \<Rightarrow> geometry_exn + int" where
  "int_ceil (Fin a) = Inr \<lceil>a\<rceil>"
| "int_ceil NaN = Inl (GeometryPy ValueError)"
| "int_ceil _ = Inl (GeometryPy OverflowError)"

definition two_pi :: pyfloat where
  "two_pi = Fin (2 * pi_literal)"

text \<open>The point number \<open>i\<close> of \<open>n\<close> steps over the angle \<open>sweep\<close>, on the circle of radius \<open>r\<close> that starts at
  the origin.\<close>

definition arc_point :: "geometry_lib \<Rightarrow> pyfloat \<Rightarrow> pyfloat \<Rightarrow> int \<Rightarrow> nat \<Rightarrow> geometry_exn + point2" where
  "arc_point L r sweep n i =
     ebind (quotient (fmul sweep (Fin (of_nat i))) (Fin (of_int n))) (\<lambda>theta.
     ebind (math_fun (lib_cos (gl_float L)) theta) (\<lambda>c.
     ebind (math_fun (lib_sin (gl_float L)) theta) (\<lambda>s.
     Inr (fsub r (fmul r c), fadd (Fin 0) (fmul r s)))))"

definition arc_points :: "geometry_lib \<Rightarrow> pyfloat \<Rightarrow> pyfloat \<Rightarrow> int \<Rightarrow> geometry_exn + point2 list" where
  "arc_points L r sweep n = map_each (arc_point L r sweep n) [0..<nat (n + 1)]"

definition generate_polygon_path ::
  "geometry_lib \<Rightarrow> int \<Rightarrow> pyfloat option \<Rightarrow> pyfloat option \<Rightarrow> geometry_exn + stroke_segment list" where
  "generate_polygon_path L n radius side =
     (if n < 3 then complain ''invalid_polygon_sides: n_sides must be >= 3''
      else ebind (case (radius, side) of
          (None, Some s) \<Rightarrow>
            if fle s (Fin 0) then complain ''invalid_size: polygon side must be > 0''
            else ebind (quotient (Fin pi_literal) (Fin (of_int n))) (\<lambda>a.
              ebind (math_fun (lib_sin (gl_float L)) a) (\<lambda>b.
              ebind (quotient s (fmul (Fin 2) b)) (\<lambda>x. Inr (Some x))))
        | _ \<Rightarrow> Inr radius) (\<lambda>resolved.
        case resolved of
          None \<Rightarrow> complain ''invalid_size: polygon radius or side length is required''
        | Some r \<Rightarrow> if fle r (Fin 0) then complain ''invalid_size: polygon radius or side length is required''
            else ebind (arc_points L r two_pi n) (\<lambda>ps. Inr (shape_stroke ''polygon'' True ps))))"

text \<open>The angle whose chord is off the circle by the allowed error.\<close>

definition segment_angle_from_chord_error :: "geometry_lib \<Rightarrow> pyfloat \<Rightarrow> pyfloat \<Rightarrow> geometry_exn + pyfloat" where
  "segment_angle_from_chord_error L r err =
     ebind (quotient err r) (\<lambda>q.
     let ratio = fsub (Fin 1) (py_min (py_max q (Fin 0)) (Fin (1999999 / 10 ^ 6)));
         value = py_max (Fin (- 1)) (py_min (Fin 1) ratio) in
     ebind (math_fun (gl_acos L) value) (\<lambda>a.
     let theta = fmul (Fin 2) a in
     Inr (if fle theta (Fin (1 / 10 ^ 6)) then radians (Fin 1) else theta)))"

definition segment_count ::
  "geometry_lib \<Rightarrow> int \<Rightarrow> pyfloat \<Rightarrow> pyfloat \<Rightarrow> pyfloat \<Rightarrow> pyfloat \<Rightarrow> geometry_exn + int" where
  "segment_count L least angle r err max_angle =
     ebind (segment_angle_from_chord_error L r err) (\<lambda>theta.
     ebind (ebind (quotient angle theta) int_ceil) (\<lambda>by_error.
     ebind (ebind (quotient angle max_angle) int_ceil) (\<lambda>by_angle.
     Inr (max (max least by_error) (max least by_angle)))))"

definition generate_circle_path ::
  "geometry_lib \<Rightarrow> pyfloat \<Rightarrow> pyfloat \<Rightarrow> pyfloat \<Rightarrow> geometry_exn + stroke_segment list" where
  "generate_circle_path L r err max_angle =
     (if fle r (Fin 0) then complain ''invalid_size: circle radius must be > 0''
      else if fle err (Fin 0) then complain ''max_chord_error_m must be > 0''
      else if fle max_angle (Fin 0) then complain ''max_segment_angle_rad must be > 0''
      else ebind (segment_count L 3 two_pi r err max_angle) (\<lambda>n.
        ebind (arc_points L r two_pi (max 12 n)) (\<lambda>ps. Inr (shape_stroke ''circle'' True ps))))"

fun float_abs :: "pyfloat \<Rightarrow> pyfloat" where
  "float_abs (Fin a) = Fin \<bar>a\<bar>"
| "float_abs NaN = NaN"
| "float_abs _ = PInf"

text \<open>\<open>math.isclose(x, 0.0, abs_tol=1e-12)\<close>.\<close>

fun close_to_zero :: "pyfloat \<Rightarrow> bool" where
  "close_to_zero (Fin a) \<longleftrightarrow> \<bar>a\<bar> \<le> max (\<bar>a\<bar> / 10 ^ 9) (1 / 10 ^ 12)"
| "close_to_zero _ \<longleftrightarrow> False"

definition generate_arc_path ::
  "geometry_lib \<Rightarrow> pyfloat \<Rightarrow> pyfloat \<Rightarrow> pyfloat \<Rightarrow> pyfloat \<Rightarrow> geometry_exn + stroke_segment list" where
  "generate_arc_path L r sweep err max_angle =
     (if fle r (Fin 0) then complain ''invalid_size: arc radius must be > 0''
      else if close_to_zero sweep then complain ''invalid_size: arc sweep must be non-zero''
      else if fle err (Fin 0) then complain ''max_chord_error_m must be > 0''
      else if fle max_angle (Fin 0) then complain ''max_segment_angle_rad must be > 0''
      else ebind (segment_count L 2 (float_abs sweep) r err max_angle) (\<lambda>n.
        ebind (arc_points L r sweep n) (\<lambda>ps. Inr (shape_stroke ''arc'' False ps))))"

subsection \<open>Texts\<close>

text \<open>\<open>text.split("\n")\<close>.\<close>

fun split_lines :: "string \<Rightarrow> string list" where
  "split_lines [] = [[]]"
| "split_lines (c # cs) =
     (if c = CHR 0x0A then [] # split_lines cs
      else (case split_lines cs of [] \<Rightarrow> [[c]] | l # ls \<Rightarrow> (c # l) # ls))"

fun line_advance_width :: "string \<Rightarrow> pyfloat \<Rightarrow> pyfloat \<Rightarrow> pyfloat \<Rightarrow> geometry_exn + pyfloat" where
  "line_advance_width [] h sp width = Inr width"
| "line_advance_width (c # cs) h sp width = (case map_of glyphs c of
     None \<Rightarrow> complain ''unsupported_font_glyph''
   | Some g \<Rightarrow> (let w = fadd width (fmul (Fin (g_advance g)) h) in
       line_advance_width cs h sp (if cs \<noteq> [] then fadd w sp else w)))"

definition point_distance :: "geometry_lib \<Rightarrow> point2 \<Rightarrow> point2 \<Rightarrow> pyfloat" where
  "point_distance L a b =
     (let dx = fsub (fst b) (fst a); dy = fsub (snd b) (snd a) in
      root_of (gl_float L) (fadd (fmul dx dx) (fmul dy dy)))"

definition shifted_points :: "pyfloat \<Rightarrow> pyfloat \<Rightarrow> point2 list \<Rightarrow> point2 list" where
  "shifted_points dx dy = map (\<lambda>(x, y). (fadd x dx, fadd y dy))"

definition text_source :: "string \<Rightarrow> obj" where
  "text_source s = [(''source'', JStr s)]"

text \<open>The segments of one line at its place; a travel segment joins it to the line before.\<close>

fun place_segments ::
  "geometry_lib \<Rightarrow> pyfloat \<Rightarrow> pyfloat \<Rightarrow> point2 option \<Rightarrow> font_segment list \<Rightarrow> stroke_segment list \<times> point2 option" where
  "place_segments L dx dy prev [] = ([], prev)"
| "place_segments L dx dy prev (g # gs) =
     (let ps = shifted_points dx dy (fs_points g);
          travel = (case prev of
            Some e \<Rightarrow> if fs_kind g = ''draw'' \<and> flt (Fin (1 / 10 ^ 9)) (point_distance L e (hd ps))
              then [\<lparr>sk_kind = ''travel'', sk_points = [e, hd ps], sk_closed = False,
                     sk_metadata = text_source ''text_line_transition''\<rparr>] else []
          | None \<Rightarrow> []);
          own = \<lparr>sk_kind = fs_kind g, sk_points = ps, sk_closed = fs_closed g, sk_metadata = text_source ''text''\<rparr> in
      case place_segments L dx dy (Some (last ps)) gs of (rest, e) \<Rightarrow> (travel @ own # rest, e))"

definition line_shift :: "string \<Rightarrow> pyfloat \<Rightarrow> pyfloat" where
  "line_shift align width =
     (if align = ''left'' then Fin 0
      else if align = ''center'' then fmul (Fin (- 1 / 2)) width else fneg width)"

fun text_lines ::
  "geometry_lib \<Rightarrow> pyfloat \<Rightarrow> pyfloat \<Rightarrow> pyfloat \<Rightarrow> string \<Rightarrow> nat \<Rightarrow> point2 option \<Rightarrow> string list
    \<Rightarrow> geometry_exn + stroke_segment list" where
  "text_lines L h csp lsp align i prev [] = Inr []"
| "text_lines L h csp lsp align i prev (l # ls) =
     ebind (line_advance_width l h csp (Fin 0)) (\<lambda>width.
     if l = [] then text_lines L h csp lsp align (Suc i) None ls
     else ebind (gpy (generate_text_strokes l h csp)) (\<lambda>raw.
       case place_segments L (line_shift align width) (fmul (Fin (- of_nat i)) (fadd h lsp)) prev raw of
         (segs, e) \<Rightarrow> ebind (text_lines L h csp lsp align (Suc i) e ls) (\<lambda>rest. Inr (segs @ rest))))"

definition generate_text_stroke_segments ::
  "geometry_lib \<Rightarrow> string \<Rightarrow> pyfloat \<Rightarrow> pyfloat \<Rightarrow> pyfloat \<Rightarrow> string \<Rightarrow> geometry_exn + stroke_segment list" where
  "generate_text_stroke_segments L text h csp lsp alignment =
     (if text = [] then complain ''text must be non-empty''
      else if fle h (Fin 0) then complain ''invalid_size: font height must be > 0''
      else if flt csp (Fin 0) then complain ''invalid_size: char spacing must be >= 0''
      else if flt lsp (Fin 0) then complain ''invalid_size: line spacing must be >= 0''
      else let a = lower (strip alignment); align = (if a = [] then ''left'' else a) in
        if align \<notin> {''left'', ''center'', ''right''}
        then complain ''invalid_alignment: alignment must be left|center|right''
        else text_lines L h csp lsp align 0 None (split_lines text))"

end
