(* ===== verification/Drawing_Compiler.thy ===== *)
theory Drawing_Compiler
  imports Drawing_Strokes
begin

section \<open>From strokes to commands\<close>

text \<open>
  \<open>compile_strokes_to_commands\<close> of \<open>llm_gateway/drawing_geometry.py\<close>: the points of each draw stroke are
  lifted to poses of the workplane; a PTP goes above the first, a LIN down to it, one blended sequence or
  chunks of Cartesian paths follow the stroke, a LIN leaves the plane.  Travel strokes are left out: the
  PTP above the next stroke does their work.
\<close>

subsection \<open>Poses\<close>

type_synonym draw_pose = "vec3 \<times> quaternion"

fun vec_obj :: "vec3 \<Rightarrow> json" where
  "vec_obj (x, y, z) = JObj [(''x'', JFloat x), (''y'', JFloat y), (''z'', JFloat z)]"

fun pose_obj :: "draw_pose \<Rightarrow> json" where
  "pose_obj (p, (x, y, z, w)) =
     JObj [(''position'', vec_obj p),
       (''orientation'', JObj [(''x'', JFloat x), (''y'', JFloat y), (''z'', JFloat z), (''w'', JFloat w)])]"

definition lift_point :: "workplane \<Rightarrow> point2 \<Rightarrow> draw_pose" where
  "lift_point W p =
     (vector_add (wp_origin W) (vector_add (vector_scale (wp_x_axis W) (fst p)) (vector_scale (wp_y_axis W) (snd p))),
      wp_orientation W)"

definition lift_points_to_poses :: "workplane \<Rightarrow> point2 list \<Rightarrow> draw_pose list" where
  "lift_points_to_poses W = map (lift_point W)"

definition offset_pose_along_normal :: "draw_pose \<Rightarrow> vec3 \<Rightarrow> pyfloat \<Rightarrow> draw_pose" where
  "offset_pose_along_normal pose n d =
     (if feq d (Fin 0) then pose else (vector_add (fst pose) (vector_scale n d), snd pose))"

subsection \<open>Commands\<close>

record draw_options =
  do_frame :: json
  do_approach :: pyfloat
  do_retract :: pyfloat
  do_draw_scale :: pyfloat
  do_travel_scale :: pyfloat
  do_plan_only :: bool
  do_max_chunk :: int
  do_blended :: bool
  do_blend_radius :: pyfloat

definition move_command :: "string \<Rightarrow> string \<Rightarrow> draw_options \<Rightarrow> draw_pose \<Rightarrow> pyfloat \<Rightarrow> obj" where
  "move_command prim planner K pose scale =
     [(''primitive_type'', JStr prim), (''target_pose'', pose_obj pose), (''reference_frame'', do_frame K),
      (''velocity_scale'', JFloat scale), (''acceleration_scale'', JFloat scale),
      (''planner_id'', JStr planner), (''plan_only'', JBool (do_plan_only K))]"

definition draw_ptp_command :: "draw_options \<Rightarrow> draw_pose \<Rightarrow> pyfloat \<Rightarrow> obj" where
  "draw_ptp_command = move_command ''PTP'' ''PILZ_PTP''"

definition draw_lin_command :: "draw_options \<Rightarrow> draw_pose \<Rightarrow> pyfloat \<Rightarrow> obj" where
  "draw_lin_command = move_command ''LIN'' ''PILZ_LIN''"

definition draw_blend_step :: "draw_options \<Rightarrow> draw_pose \<Rightarrow> pyfloat \<Rightarrow> json" where
  "draw_blend_step K pose radius =
     JObj [(''primitive_type'', JStr ''LIN''), (''target_pose'', pose_obj pose), (''blend_radius_m'', JFloat radius),
       (''planner_id'', JStr ''PILZ_LIN''), (''velocity_scale'', JFloat (do_draw_scale K)),
       (''acceleration_scale'', JFloat (do_draw_scale K))]"

definition blended_sequence_command :: "draw_options \<Rightarrow> draw_pose list \<Rightarrow> nat \<Rightarrow> obj" where
  "blended_sequence_command K poses stroke_index =
     [(''primitive_type'', JStr ''BLENDED_SEQUENCE''),
      (''sequence_steps'', JList (map (\<lambda>i. draw_blend_step K (poses ! i)
         (if i = 0 \<or> i = length poses - 1 then Fin 0 else do_blend_radius K)) [0..<length poses])),
      (''reference_frame'', do_frame K), (''velocity_scale'', JFloat (do_draw_scale K)),
      (''acceleration_scale'', JFloat (do_draw_scale K)), (''planner_id'', JStr ''PILZ_LIN''),
      (''plan_only'', JBool (do_plan_only K)), (''stroke_index'', JInt (int stroke_index))]"

definition cartesian_path_command :: "draw_options \<Rightarrow> draw_pose list \<Rightarrow> nat \<Rightarrow> nat \<Rightarrow> obj" where
  "cartesian_path_command K poses chunk_index stroke_index =
     [(''primitive_type'', JStr ''CARTESIAN_PATH''), (''waypoints'', JList (map pose_obj poses)),
      (''reference_frame'', do_frame K), (''velocity_scale'', JFloat (do_draw_scale K)),
      (''acceleration_scale'', JFloat (do_draw_scale K)), (''planner_id'', JStr ''PILZ_LIN''),
      (''plan_only'', JBool (do_plan_only K)), (''chunk_index'', JInt (int chunk_index)),
      (''stroke_index'', JInt (int stroke_index))]"

text \<open>The slices of a list of at most \<open>n\<close> entries each; the caller has checked that \<open>n\<close> is positive.\<close>

function chunk_sequence :: "'a list \<Rightarrow> nat \<Rightarrow> 'a list list" where
  "chunk_sequence xs n = (if xs = [] \<or> n = 0 then [] else take n xs # chunk_sequence (drop n xs) n)"
  by auto
termination
  by (relation "measure (\<lambda>(xs, n). length xs)") auto

declare chunk_sequence.simps [simp del]

fun chunk_commands :: "draw_options \<Rightarrow> nat \<Rightarrow> nat \<Rightarrow> draw_pose list list \<Rightarrow> obj list" where
  "chunk_commands K stroke_index k [] = []"
| "chunk_commands K stroke_index k (c # cs) =
     (if length c = 1 then draw_lin_command K (hd c) (do_draw_scale K)
      else cartesian_path_command K c (Suc k) stroke_index)
     # chunk_commands K stroke_index (Suc k) cs"

text \<open>The commands that follow a stroke after its first pose, and how many pieces they are.\<close>

definition stroke_body :: "draw_options \<Rightarrow> nat \<Rightarrow> nat \<Rightarrow> draw_pose list \<Rightarrow> obj list \<times> nat" where
  "stroke_body K stroke_index k poses =
     (if do_blended K \<and> 3 \<le> length poses
      then ([blended_sequence_command K (tl poses) stroke_index], Suc k)
      else let chunks = chunk_sequence (tl poses) (nat (do_max_chunk K)) in
        (chunk_commands K stroke_index k chunks, k + length chunks))"

definition stroke_commands :: "draw_options \<Rightarrow> workplane \<Rightarrow> nat \<Rightarrow> nat \<Rightarrow> point2 list \<Rightarrow> obj list \<times> nat" where
  "stroke_commands K W stroke_index k ps =
     (let poses = lift_points_to_poses W ps; first = hd poses; final = last poses in
      case stroke_body K stroke_index k poses of (body, k') \<Rightarrow>
        ([draw_ptp_command K (offset_pose_along_normal first (wp_normal W) (do_approach K)) (do_travel_scale K),
          draw_lin_command K first (do_draw_scale K)] @ body @
         [draw_lin_command K (offset_pose_along_normal final (wp_normal W) (do_retract K)) (do_travel_scale K)], k'))"

subsection \<open>The compilation\<close>

record stroke_totals =
  st_chunks :: nat
  st_strokes :: nat
  st_points :: nat

fun compile_loop ::
  "draw_options \<Rightarrow> workplane \<Rightarrow> nat \<Rightarrow> stroke_totals \<Rightarrow> stroke_segment list
    \<Rightarrow> geometry_exn + obj list \<times> stroke_totals" where
  "compile_loop K W i a [] = Inr ([], a)"
| "compile_loop K W i a (s # ss) =
     (if sk_kind s \<noteq> ''draw'' then compile_loop K W (Suc i) a ss
      else if length (sk_points s) < 2 then complain ''invalid_size: draw stroke must contain at least 2 points''
      else (case stroke_commands K W (Suc i) (st_chunks a) (sk_points s) of (cs, k) \<Rightarrow>
        ebind (compile_loop K W (Suc i)
          \<lparr>st_chunks = k, st_strokes = Suc (st_strokes a), st_points = st_points a + length (sk_points s)\<rparr> ss)
          (\<lambda>(rest, b). Inr (cs @ rest, b))))"

definition drawing_summary :: "workplane \<Rightarrow> stroke_totals \<Rightarrow> obj" where
  "drawing_summary W a =
     [(''draw_stroke_count'', JInt (int (st_strokes a))), (''lifted_point_count'', JInt (int (st_points a))),
      (''chunk_count'', JInt (int (st_chunks a))),
      (''workplane'', JObj [(''mode'', JStr (wp_mode W)), (''frame_id'', JStr (wp_frame W)),
         (''origin'', vec_obj (wp_origin W)), (''x_axis'', vec_obj (wp_x_axis W)),
         (''y_axis'', vec_obj (wp_y_axis W)), (''normal'', vec_obj (wp_normal W))])]"

record drawing_result =
  dr_commands :: "obj list"
  dr_summary :: obj

definition compile_strokes_to_commands ::
  "draw_options \<Rightarrow> workplane \<Rightarrow> stroke_segment list \<Rightarrow> geometry_exn + drawing_result" where
  "compile_strokes_to_commands K W strokes =
     (if flt (do_approach K) (Fin 0) \<or> flt (do_retract K) (Fin 0)
      then complain ''invalid_size: approach/retract distance must be >= 0''
      else if fle (do_draw_scale K) (Fin 0) \<or> fle (do_travel_scale K) (Fin 0)
      then complain ''invalid_size: drawing/travel speed scales must be > 0''
      else if do_max_chunk K < 1 then complain ''max_waypoints_per_chunk must be >= 1''
      else ebind (compile_loop K W 0 \<lparr>st_chunks = 0, st_strokes = 0, st_points = 0\<rparr> strokes) (\<lambda>(cs, a).
        Inr \<lparr>dr_commands = cs, dr_summary = drawing_summary W a\<rparr>))"

end
