(* ===== verification/Drawing_Router.thy ===== *)
theory Drawing_Router
  imports Drawing_Compiler
begin

section \<open>The drawing router\<close>

text \<open>
  \<open>DrawRouterMixin\<close> of \<open>llm_gateway/drawing_router.py\<close>: the intents \<open>draw_shape\<close> and \<open>draw_text\<close> are
  checked against the macro policy (\<open>config/macro_policy.yaml\<close>), their sizes are read in the units of the
  payload, and the strokes are compiled.  The policy, the safety rules, the runtime mode and the C library
  are fields of the router.  The legacy builders of the class (\<open>_build_square_sequence\<close> and its
  neighbours), which nothing calls, are not modelled, nor is the metadata of the result.
\<close>

record drawing_router =
  dw_macros :: obj
  dw_runtime_mode :: string
  dw_rules :: obj
  dw_lib :: geometry_lib

definition from_geometry :: "geometry_exn + 'a \<Rightarrow> adapter_exn + 'a" where
  "from_geometry r = (case r of
     Inr x \<Rightarrow> Inr x
   | Inl (DrawingGeometryError s) \<Rightarrow> Inl (Refused s)
   | Inl (GeometryPy e) \<Rightarrow> Inl (Raised e))"

definition refuse :: "string \<Rightarrow> adapter_exn + 'a" where
  "refuse s = Inl (Refused s)"

definition plain_text :: "json \<Rightarrow> string" where
  "plain_text v = lower (strip (to_str v))"

text \<open>\<open>{f(str(item)) for item in policy.get(key, [])}\<close>, and \<open>payload.get(key) or {}\<close> that must be an object.\<close>

definition names_in :: "obj \<Rightarrow> string \<Rightarrow> (json \<Rightarrow> string) \<Rightarrow> json list \<Rightarrow> adapter_exn + string list" where
  "names_in policy key f dflt = ebind (raised (jiter (value_or policy key (JList dflt)))) (\<lambda>xs. Inr (map f xs))"

definition object_at :: "obj \<Rightarrow> string \<Rightarrow> string \<Rightarrow> adapter_exn + obj" where
  "object_at d k message = (let v = value_at d k in
     if \<not> truthy v then Inr [] else case v of JObj e \<Rightarrow> Inr e | _ \<Rightarrow> refuse message)"

subsection \<open>Reading sizes\<close>

text \<open>\<open>_extract_any\<close>: for each name in turn, the parameters before the payload.\<close>

fun extract_any :: "obj \<Rightarrow> obj \<Rightarrow> string list \<Rightarrow> json" where
  "extract_any payload params [] = JNull"
| "extract_any payload params (k # ks) = (case dget params k of
     Some v \<Rightarrow> v
   | None \<Rightarrow> (case dget payload k of Some v \<Rightarrow> v | None \<Rightarrow> extract_any payload params ks))"

definition extract_optional_positive_length ::
  "obj \<Rightarrow> obj \<Rightarrow> string \<Rightarrow> string list \<Rightarrow> adapter_exn + pyfloat option" where
  "extract_optional_positive_length payload params units names =
     (let v = extract_any payload params names in
      if v = JNull then Inr None
      else ebind (from_geometry (to_meters v units (hd names))) (\<lambda>x.
        if fle x (Fin 0) then refuse (''invalid_size: '' @ hd names @ '' must be > 0'') else Inr (Some x)))"

definition extract_positive_length ::
  "obj \<Rightarrow> obj \<Rightarrow> string \<Rightarrow> string list \<Rightarrow> string \<Rightarrow> adapter_exn + pyfloat" where
  "extract_positive_length payload params units names what =
     (let v = extract_any payload params names in
      if v = JNull then refuse (''missing_size: '' @ what @ '' is required'')
      else ebind (from_geometry (to_meters v units what)) (\<lambda>x.
        if fle x (Fin 0) then refuse (''invalid_size: '' @ what @ '' must be > 0'') else Inr x))"

definition extract_circle_radius_m :: "obj \<Rightarrow> obj \<Rightarrow> string \<Rightarrow> adapter_exn + pyfloat" where
  "extract_circle_radius_m payload params units =
     ebind (extract_optional_positive_length payload params units [''radius_m'', ''radius'']) (\<lambda>r. case r of
       Some x \<Rightarrow> Inr x
     | None \<Rightarrow> ebind (extract_optional_positive_length payload params units
           [''diameter_m'', ''diameter'', ''size_m'', ''size'']) (\<lambda>d. case d of
         None \<Rightarrow> refuse ''missing_size: circle radius is required''
       | Some x \<Rightarrow> Inr (fmul x (Fin (1 / 2)))))"

definition extract_sweep_radians :: "obj \<Rightarrow> obj \<Rightarrow> adapter_exn + pyfloat" where
  "extract_sweep_radians payload params =
     (let rad = extract_any payload params [''sweep_rad'']; deg = extract_any payload params [''sweep_deg'', ''sweep''] in
      ebind (from_geometry
        (if rad \<noteq> JNull then to_radians rad ''arc sweep_rad'' ''rad''
         else if deg \<noteq> JNull then to_radians deg ''arc sweep_deg'' ''deg''
         else Inr (radians (Fin 180)))) (\<lambda>sweep.
      if close_to_zero sweep then refuse ''invalid_size: arc sweep must be non-zero'' else Inr sweep))"

definition extract_polygon_sides :: "obj \<Rightarrow> obj \<Rightarrow> obj \<Rightarrow> adapter_exn + int" where
  "extract_polygon_sides payload params policy =
     (let v = extract_any payload params [''n_sides'', ''sides''];
          v = (if v = JNull then value_or policy ''polygon_default_sides'' (JInt 6) else v) in
      case to_int v of
        Inl e \<Rightarrow> if e \<in> {TypeError, ValueError} then refuse ''invalid_polygon_sides: n_sides must be an integer''
                 else Inl (Raised e)
      | Inr n \<Rightarrow> ebind (raised (to_int (value_or policy ''polygon_min_sides'' (JInt 3)))) (\<lambda>least.
          ebind (raised (to_int (value_or policy ''polygon_max_sides'' (JInt 12)))) (\<lambda>most.
          if n < least \<or> most < n then refuse ''invalid_polygon_sides: n_sides out of range'' else Inr n)))"

definition read_point_2d :: "string \<Rightarrow> json \<Rightarrow> adapter_exn + point2" where
  "read_point_2d units v = (case v of
     JObj d \<Rightarrow> (case (dget d ''x'', dget d ''y'') of
       (Some x, Some y) \<Rightarrow> ebind (from_geometry (to_meters x units ''points.x'')) (\<lambda>x.
         ebind (from_geometry (to_meters y units ''points.y'')) (\<lambda>y. Inr (x, y)))
     | _ \<Rightarrow> refuse ''invalid_size: points requires x and y'')
   | _ \<Rightarrow> refuse ''invalid_size: points must be an object'')"

definition extract_points_2d :: "obj \<Rightarrow> obj \<Rightarrow> string \<Rightarrow> bool \<Rightarrow> adapter_exn + point2 list option" where
  "extract_points_2d payload params units needed =
     (case extract_any payload params [''points'', ''vertices''] of
        JNull \<Rightarrow> if needed then refuse ''invalid_size: points are required'' else Inr None
      | JList vs \<Rightarrow>
          if needed \<and> length vs < 2 then refuse ''invalid_size: polyline requires at least 2 points''
          else ebind (map_each (read_point_2d units) vs) (\<lambda>ps. Inr (Some ps))
      | _ \<Rightarrow> refuse ''invalid_size: points must be an array'')"

subsection \<open>The workplane, the mode and the stroke of a payload\<close>

definition vector_at :: "obj \<Rightarrow> string \<Rightarrow> string \<Rightarrow> adapter_exn + vec3 option" where
  "vector_at d k field = (if is_dict (value_at d k)
     then ebind (from_geometry (parse_vector_dict (value_at d k) field)) (\<lambda>v. Inr (Some v)) else Inr None)"

definition anchor_of :: "json \<Rightarrow> adapter_exn + vec3 option" where
  "anchor_of start = (case start of
     JObj d \<Rightarrow> if is_dict (value_at d ''position'')
       then ebind (from_geometry (parse_position_dict (value_at d ''position'') ''start_pose.position''))
         (\<lambda>p. Inr (Some p))
       else Inr None
   | _ \<Rightarrow> Inr None)"

fun as_dict :: "json \<Rightarrow> obj option" where
  "as_dict (JObj d) = Some d"
| "as_dict _ = None"

definition resolve_draw_workplane :: "drawing_router \<Rightarrow> obj \<Rightarrow> obj \<Rightarrow> json \<Rightarrow> adapter_exn + workplane" where
  "resolve_draw_workplane D payload policy frame =
     ebind (object_at payload ''workplane'' ''workplane must be an object.'') (\<lambda>plane.
     ebind (names_in policy ''supported_workplane_modes'' plain_text [JStr ''base'']) (\<lambda>modes.
     let mode = plain_text (value_or plane ''mode'' (value_or payload ''plane_mode''
           (value_or policy ''default_workplane_mode'' (JStr ''base''))));
         start = value_at payload ''start_pose'' in
     if mode \<notin> set modes then refuse ''missing_workplane: unsupported mode''
     else ebind (anchor_of start) (\<lambda>anchor.
       let given = value_at plane ''origin'';
           origin_pose = (if given = JNull \<and> mode = ''tool'' \<and> is_dict start then start else given) in
       if origin_pose = JNull \<and> mode = ''explicit_pose''
       then refuse ''missing_workplane: explicit_pose requires workplane.origin''
       else ebind (vector_at plane ''normal'' ''workplane.normal'') (\<lambda>normal.
         ebind (vector_at plane ''x_axis_hint'' ''workplane.x_axis_hint'') (\<lambda>hint.
         ebind (orientation_from_preset (value_or policy ''default_orientation_preset'' (JStr ''tool-down''))) (\<lambda>q.
         from_geometry (resolve_workplane (dw_lib D) mode (to_str frame) anchor (as_dict origin_pose)
           (the (as_dict q)) normal hint)))))))"

definition resolve_execution_policy :: "obj \<Rightarrow> obj \<Rightarrow> adapter_exn + bool" where
  "resolve_execution_policy payload policy =
     (let mode = plain_text (value_or payload ''execution_mode''
        (value_or policy ''default_execution_mode'' (JStr ''execute''))) in
      if mode \<notin> {''execute'', ''plan_only''} then refuse ''execution_mode must be one of: execute, plan_only''
      else Inr (mode = ''plan_only''))"

record stroke_config =
  sc_approach :: pyfloat
  sc_retract :: pyfloat
  sc_draw_scale :: pyfloat
  sc_travel_scale :: pyfloat

definition clearance_of :: "obj \<Rightarrow> obj \<Rightarrow> obj \<Rightarrow> string \<Rightarrow> string list \<Rightarrow> string \<Rightarrow> adapter_exn + pyfloat" where
  "clearance_of stroke payload policy units names field =
     (let v = extract_any payload stroke names in
      from_geometry (to_meters (if v \<noteq> JNull then v else value_or policy (hd names) (JFloat (Fin (1 / 100)))) units field))"

definition scale_value :: "obj \<Rightarrow> obj \<Rightarrow> string \<Rightarrow> json \<Rightarrow> adapter_exn + pyfloat" where
  "scale_value stroke payload k dflt =
     (let v = extract_any payload stroke [k] in raised (to_float (if truthy v then v else dflt)))"

definition resolve_stroke_config :: "obj \<Rightarrow> obj \<Rightarrow> string \<Rightarrow> adapter_exn + stroke_config" where
  "resolve_stroke_config payload policy units =
     ebind (object_at payload ''stroke'' ''stroke must be an object.'') (\<lambda>stroke.
     ebind (clearance_of stroke payload policy units [''approach_distance_m'', ''approach_distance'']
       ''stroke.approach_distance'') (\<lambda>approach.
     ebind (clearance_of stroke payload policy units [''retract_distance_m'', ''retract_distance'']
       ''stroke.retract_distance'') (\<lambda>retract.
     ebind (scale_value stroke payload ''drawing_speed_scale'' (value_or policy ''drawing_speed_scale''
       (value_or payload ''velocity_scale'' (JFloat (Fin (6 / 100)))))) (\<lambda>drawing.
     ebind (scale_value stroke payload ''travel_speed_scale'' (value_or policy ''travel_speed_scale''
       (JFloat (Fin (6 / 100))))) (\<lambda>travel.
     if fle drawing (Fin 0) \<or> fle travel (Fin 0)
     then refuse ''invalid_size: drawing_speed_scale and travel_speed_scale must be > 0''
     else Inr \<lparr>sc_approach = approach, sc_retract = retract, sc_draw_scale = drawing, sc_travel_scale = travel\<rparr>)))))"

text \<open>The call of the compiler both intents end with, and their result.\<close>

definition compile_drawing ::
  "drawing_router \<Rightarrow> obj \<Rightarrow> json \<Rightarrow> workplane \<Rightarrow> bool \<Rightarrow> stroke_config \<Rightarrow> stroke_segment list
    \<Rightarrow> adapter_exn + route_result" where
  "compile_drawing D policy frame W plan_only sc strokes =
     (let cfg = value_or (dw_rules D) ''drawing'' (JObj []) in
      ebind (raised (to_int (value_or policy ''max_waypoints_per_chunk'' (JInt 80)))) (\<lambda>chunk.
      ebind (raised (jget cfg ''use_blended_sequence'' (JBool True))) (\<lambda>blended.
      ebind (raised (ebind (jget cfg ''blend_radius_m'' (JFloat (Fin (8 / 1000)))) to_float)) (\<lambda>radius.
      ebind (from_geometry (compile_strokes_to_commands
        \<lparr>do_frame = frame, do_approach = sc_approach sc, do_retract = sc_retract sc, do_draw_scale = sc_draw_scale sc,
         do_travel_scale = sc_travel_scale sc, do_plan_only = plan_only, do_max_chunk = chunk,
         do_blended = truthy blended, do_blend_radius = radius\<rparr> W strokes)) (\<lambda>r.
      Inr \<lparr>rr_type = ''sequence'', rr_commands = dr_commands r, rr_error = None, rr_source = ''semantic_ir''\<rparr>)))))"

definition draw_frame :: "obj \<Rightarrow> obj \<Rightarrow> adapter_exn + json" where
  "draw_frame payload policy =
     (let frame = value_or payload ''frame_id'' (value_or payload ''reference_frame'' (JStr ''base_link'')) in
      ebind (names_in policy ''supported_frames'' to_str []) (\<lambda>frames.
      if strip (to_str frame) \<in> set frames then Inr frame else refuse ''unsupported reference_frame''))"

definition draw_units :: "obj \<Rightarrow> obj \<Rightarrow> string" where
  "draw_units payload policy = plain_text (value_or payload ''units'' (value_or policy ''default_units'' (JStr ''m'')))"

subsection \<open>Shapes\<close>

definition square_sizes :: "string list" where
  "square_sizes = [''side_m'', ''side'', ''size_m'', ''size'']"

definition shape_strokes ::
  "drawing_router \<Rightarrow> obj \<Rightarrow> obj \<Rightarrow> obj \<Rightarrow> string \<Rightarrow> string \<Rightarrow> pyfloat \<Rightarrow> pyfloat \<Rightarrow> adapter_exn + stroke_segment list" where
  "shape_strokes D payload params policy units shape err max_angle =
     (let L = dw_lib D; len = extract_positive_length payload params units;
          maybe = extract_optional_positive_length payload params units in
      if shape = ''square'' then ebind (len square_sizes ''square side'') (\<lambda>s. from_geometry (generate_square_path s))
      else if shape = ''rectangle'' then
        ebind (len [''width_m'', ''width''] ''rectangle width'') (\<lambda>w.
        ebind (len [''height_m'', ''height''] ''rectangle height'') (\<lambda>h.
        from_geometry (generate_rectangle_path w h)))
      else if shape = ''triangle'' then
        ebind (extract_points_2d payload params units False) (\<lambda>ps. case ps of
          Some ps \<Rightarrow> from_geometry (generate_triangle_path L (Fin 1) (Some ps))
        | None \<Rightarrow> ebind (len square_sizes ''triangle side'') (\<lambda>s. from_geometry (generate_triangle_path L s None)))
      else if shape = ''circle'' then
        ebind (extract_circle_radius_m payload params units) (\<lambda>r.
        from_geometry (generate_circle_path L r err max_angle))
      else if shape = ''arc'' then
        ebind (len [''radius_m'', ''radius''] ''arc radius'') (\<lambda>r.
        ebind (extract_sweep_radians payload params) (\<lambda>sweep.
        from_geometry (generate_arc_path L r sweep err max_angle)))
      else if shape = ''polygon'' then
        ebind (extract_polygon_sides payload params policy) (\<lambda>n.
        ebind (maybe [''radius_m'', ''radius'']) (\<lambda>r. ebind (maybe square_sizes) (\<lambda>s.
        from_geometry (generate_polygon_path L n r s))))
      else ebind (extract_points_2d payload params units True) (\<lambda>ps.
        from_geometry (generate_polyline_path (the ps))))"

definition draw_available :: "drawing_router \<Rightarrow> obj \<Rightarrow> bool \<Rightarrow> adapter_exn + unit" where
  "draw_available D policy sim_only =
     (let availability = plain_text (value_or policy ''availability'' (JStr ''all'')) in
      if sim_only \<and> availability = ''sim_only'' \<and> dw_runtime_mode D \<noteq> ''sim''
      then refuse ''draw_shape is sim-only and is unavailable in hardware mode.''
      else if availability = ''disabled'' then refuse ''capability_unavailable'' else Inr ())"

definition float_or :: "obj \<Rightarrow> string \<Rightarrow> rat \<Rightarrow> adapter_exn + pyfloat" where
  "float_or policy k dflt = raised (to_float (value_or policy k (JFloat (Fin dflt))))"

definition route_draw_shape :: "drawing_router \<Rightarrow> obj \<Rightarrow> adapter_exn + route_result" where
  "route_draw_shape D payload = (case value_at (dw_macros D) ''draw_shape'' of
     JObj policy \<Rightarrow>
       ebind (draw_available D policy True) (\<lambda>_.
       let shape = plain_text (value_or payload ''shape_type'' (value_or payload ''shape'' (JStr []))) in
       ebind (names_in policy ''supported_shapes'' plain_text []) (\<lambda>shapes.
       if shape \<notin> set shapes then refuse ''unsupported_shape_type''
       else ebind (draw_frame payload policy) (\<lambda>frame.
         ebind (object_at payload ''params'' ''draw_shape params must be an object.'') (\<lambda>params.
         ebind (resolve_draw_workplane D payload policy frame) (\<lambda>W.
         ebind (resolve_execution_policy payload policy) (\<lambda>plan_only.
         ebind (resolve_stroke_config payload policy (draw_units payload policy)) (\<lambda>sc.
         ebind (float_or policy ''max_chord_error_m'' (5 / 10000)) (\<lambda>err.
         ebind (float_or policy ''max_segment_angle_deg'' 10) (\<lambda>deg.
         ebind (shape_strokes D payload params policy (draw_units payload policy) shape err (radians deg)) (\<lambda>strokes.
         compile_drawing D policy frame W plan_only sc strokes))))))))))
   | _ \<Rightarrow> refuse ''Macro policy missing draw_shape configuration.'')"

subsection \<open>Texts\<close>

definition spacing_of :: "obj \<Rightarrow> obj \<Rightarrow> string \<Rightarrow> pyfloat \<Rightarrow> string list \<Rightarrow> string \<Rightarrow> adapter_exn + pyfloat" where
  "spacing_of payload font units dflt names field =
     (let v = extract_any payload font names in
      if v = JNull then Inr dflt else from_geometry (to_meters v units field))"

definition text_strokes :: "drawing_router \<Rightarrow> obj \<Rightarrow> obj \<Rightarrow> obj \<Rightarrow> string \<Rightarrow> string \<Rightarrow> adapter_exn + stroke_segment list" where
  "text_strokes D payload font policy units text =
     (let v = extract_any payload font [''height_m'', ''height'', ''char_height_m''] in
      if v = JNull then refuse ''missing_size: text height is required''
      else ebind (from_geometry (to_meters v units ''font.height'')) (\<lambda>h.
        if fle h (Fin 0) then refuse ''invalid_size: text height must be > 0''
        else
          ebind (float_or policy ''default_char_spacing_ratio'' (20 / 100)) (\<lambda>cr.
          ebind (float_or policy ''default_line_spacing_ratio'' (50 / 100)) (\<lambda>lr.
          ebind (spacing_of payload font units (fmul cr h) [''char_spacing_m'', ''char_spacing''] ''font.char_spacing'') (\<lambda>csp.
          ebind (spacing_of payload font units (fmul lr h) [''line_spacing_m'', ''line_spacing''] ''font.line_spacing'') (\<lambda>lsp.
          let alignment = plain_text (value_or font ''alignment'' (value_or payload ''alignment'' (JStr ''left'')));
              direction = plain_text (value_or font ''direction'' (value_or payload ''direction'' (JStr ''+x''))) in
          if direction \<notin> {''+x'', ''x'', ''local+x''}
          then refuse ''capability_unavailable: only +X text direction is supported''
          else ebind (from_geometry (generate_text_stroke_segments (dw_lib D) text h csp lsp alignment)) (\<lambda>segs.
            if \<not> list_ex (\<lambda>s. sk_kind s = ''draw'') segs
            then refuse ''unsupported_font_glyph: text has no drawable glyphs'' else Inr segs)))))))"

definition supported_characters :: "obj \<Rightarrow> adapter_exn + string list" where
  "supported_characters policy = ebind (names_in policy ''supported_characters'' to_str []) (\<lambda>cs.
     Inr (if cs = [] then map (\<lambda>(c, g). [c]) glyphs else cs))"

definition route_draw_text :: "drawing_router \<Rightarrow> obj \<Rightarrow> adapter_exn + route_result" where
  "route_draw_text D payload = (case value_at (dw_macros D) ''draw_text'' of
     JObj policy \<Rightarrow>
       ebind (draw_available D policy False) (\<lambda>_.
       ebind (draw_frame payload policy) (\<lambda>frame.
       case value_at payload ''text'' of
         JStr raw \<Rightarrow>
           if strip raw = [] then refuse ''draw_text requires a non-empty text string.''
           else let text = upper raw; units = draw_units payload policy in
             ebind (supported_characters policy) (\<lambda>known.
             if \<not> list_all (\<lambda>c. c = CHR 0x0A \<or> [c] \<in> set known) text then refuse ''unsupported_font_glyph''
             else ebind (object_at payload ''font'' ''draw_text font must be an object.'') (\<lambda>font.
               if plain_text (value_or font ''type'' (JStr ''single_stroke_builtin'')) \<noteq> ''single_stroke_builtin''
               then refuse ''capability_unavailable: only single_stroke_builtin font is supported.''
               else ebind (resolve_draw_workplane D payload policy frame) (\<lambda>W.
                 ebind (resolve_execution_policy payload policy) (\<lambda>plan_only.
                 ebind (resolve_stroke_config payload policy units) (\<lambda>sc.
                 ebind (text_strokes D payload font policy units text) (\<lambda>strokes.
                 compile_drawing D policy frame W plan_only sc strokes))))))
       | _ \<Rightarrow> refuse ''draw_text requires a non-empty text string.''))
   | _ \<Rightarrow> refuse ''Macro policy missing draw_text configuration.'')"

definition route_draw :: "drawing_router \<Rightarrow> string \<Rightarrow> obj \<Rightarrow> adapter_exn + route_result" where
  "route_draw D intent payload =
     (if intent = ''draw_shape'' then route_draw_shape D payload else route_draw_text D payload)"

end
