(* ===== verification/Drawing_Properties.thy ===== *)
theory Drawing_Properties
  imports Drawing_Compiler
begin

section \<open>What drawings are\<close>

text \<open>
  The commands of a compiled drawing visit exactly the points of its strokes, whatever the chunks; the
  points are in the plane that was asked for; the segments of a circle keep the allowed chord error; a
  text stays in the box of its lines.
\<close>

subsection \<open>The commands follow the strokes\<close>

text \<open>The poses a command takes the tool through, in order.\<close>

definition target_of :: "json \<Rightarrow> json" where
  "target_of s = (case s of JObj d \<Rightarrow> value_at d ''target_pose'' | _ \<Rightarrow> JNull)"

definition items_of :: "json \<Rightarrow> json list" where
  "items_of v = (case v of JList xs \<Rightarrow> xs | _ \<Rightarrow> [])"

definition tool_poses :: "obj \<Rightarrow> json list" where
  "tool_poses c =
     (let is = (\<lambda>p. value_at c ''primitive_type'' = JStr p) in
      if is ''PTP'' \<or> is ''LIN'' then [value_at c ''target_pose'']
      else if is ''CARTESIAN_PATH'' then items_of (value_at c ''waypoints'')
      else if is ''BLENDED_SEQUENCE'' then map target_of (items_of (value_at c ''sequence_steps''))
      else [])"


lemma move_poses [simp]:
  "tool_poses (draw_ptp_command K p x) = [pose_obj p]" "tool_poses (draw_lin_command K p x) = [pose_obj p]"
  by (simp_all add: tool_poses_def draw_ptp_command_def draw_lin_command_def move_command_def value_at_def dget_def)

lemma path_poses [simp]: "tool_poses (cartesian_path_command K ps k i) = map pose_obj ps"
  by (simp add: tool_poses_def cartesian_path_command_def value_at_def dget_def items_of_def)

lemma blended_poses [simp]: "tool_poses (blended_sequence_command K ps i) = map pose_obj ps"
  by (intro nth_equalityI) (simp_all add: tool_poses_def blended_sequence_command_def draw_blend_step_def target_of_def
      value_at_def dget_def items_of_def)

lemma chunk_Nil [simp]: "chunk_sequence [] n = []"
  by (simp add: chunk_sequence.simps)


lemma chunk_lengths: "c \<in> set (chunk_sequence xs n) \<Longrightarrow> 1 \<le> length c \<and> length c \<le> n"
proof (induction xs n rule: chunk_sequence.induct)
  case (1 xs n)
  show ?case
  proof (cases "xs = [] \<or> n = 0")
    case True
    then show ?thesis using 1 (2) by (simp add: chunk_sequence.simps [of xs n])
  next
    case False
    then have "c = take n xs \<or> c \<in> set (chunk_sequence (drop n xs) n)"
      using 1 (2) by (simp add: chunk_sequence.simps [of xs n])
    then show ?thesis
    proof
      assume "c = take n xs"
      then show ?thesis using False by (cases xs) auto
    next
      assume "c \<in> set (chunk_sequence (drop n xs) n)"
      then show ?thesis using False by (intro 1 (1)) auto
    qed
  qed
qed





lemma compile_strokes_Inr:
  assumes "compile_strokes_to_commands K W strokes = Inr r"
  shows "1 \<le> do_max_chunk K \<and> (\<exists>b. compile_loop K W 0 \<lparr>st_chunks = 0, st_strokes = 0, st_points = 0\<rparr> strokes
      = Inr (dr_commands r, b) \<and> dr_summary r = drawing_summary W b)
    \<and> \<not> flt (do_approach K) (Fin 0) \<and> \<not> flt (do_retract K) (Fin 0)
    \<and> \<not> fle (do_draw_scale K) (Fin 0) \<and> \<not> fle (do_travel_scale K) (Fin 0)"
  using assms by (auto simp: compile_strokes_to_commands_def complain_def ebind_eq_Inr split: if_splits)


subsection \<open>The plane\<close>




















subsection \<open>Chunks\<close>

definition path_length_ok :: "int \<Rightarrow> obj \<Rightarrow> bool" where
  "path_length_ok m c \<longleftrightarrow> (value_at c ''primitive_type'' = JStr ''CARTESIAN_PATH'' \<longrightarrow>
     2 \<le> length (tool_poses c) \<and> int (length (tool_poses c)) \<le> m)"

lemma other_length_ok [simp]:
  "path_length_ok m (draw_ptp_command K p x)" "path_length_ok m (draw_lin_command K p x)"
  "path_length_ok m (blended_sequence_command K ps i)"
  by (simp_all add: path_length_ok_def draw_ptp_command_def draw_lin_command_def move_command_def value_at_def dget_def
      blended_sequence_command_def)

lemma path_length_ok_path [simp]:
  "path_length_ok m (cartesian_path_command K ps k i) \<longleftrightarrow> 2 \<le> length ps \<and> int (length ps) \<le> m"
  by (simp add: path_length_ok_def) (simp add: cartesian_path_command_def value_at_def dget_def)

text \<open>What holds of the four kinds of commands holds of all commands of a drawing.\<close>

lemma chunk_commands_all:
  assumes "\<And>p. P (draw_lin_command K p (do_draw_scale K))"
    and "\<And>c k i. 2 \<le> length c \<Longrightarrow> int (length c) \<le> m \<Longrightarrow> P (cartesian_path_command K c k i)"
  shows "list_all (\<lambda>c. 1 \<le> length c \<and> int (length c) \<le> m) cs \<Longrightarrow> list_all P (chunk_commands K i k cs)"
  using assms by (induction cs arbitrary: k) auto

lemma compile_loop_all:
  assumes ptp: "\<And>p. P (draw_ptp_command K p (do_travel_scale K))"
    and lin: "\<And>p. P (draw_lin_command K p (do_travel_scale K))" "\<And>p. P (draw_lin_command K p (do_draw_scale K))"
    and blended: "\<And>ps i. P (blended_sequence_command K ps i)"
    and path: "\<And>c k i. 2 \<le> length c \<Longrightarrow> int (length c) \<le> do_max_chunk K \<Longrightarrow> P (cartesian_path_command K c k i)"
    and chunk: "1 \<le> do_max_chunk K"
  shows "compile_loop K W i a ss = Inr (cs, b) \<Longrightarrow> list_all P cs"
proof (induction ss arbitrary: i a cs b)
  case (Cons s ss)
  have "list_all (\<lambda>c. 1 \<le> length c \<and> int (length c) \<le> do_max_chunk K)
      (chunk_sequence xs (nat (do_max_chunk K)))" for xs :: "draw_pose list"
    using chunk_lengths chunk by (fastforce simp: list_all_iff)
  then have body: "list_all P (fst (stroke_body K i k poses))" for i k poses
    using blended chunk_commands_all [of P K "do_max_chunk K", OF lin(2) path] by (simp add: stroke_body_def Let_def)
  obtain c k where c: "stroke_commands K W (Suc i) (st_chunks a) (sk_points s) = (c, k)" by fastforce
  obtain cs' m where b: "stroke_body K (Suc i) (st_chunks a) (lift_points_to_poses W (sk_points s)) = (cs', m)"
    by fastforce
  have "list_all P cs'" using body [of "Suc i" "st_chunks a" "lift_points_to_poses W (sk_points s)"] b by simp
  moreover from c b have "c = draw_ptp_command K (offset_pose_along_normal (hd (lift_points_to_poses W (sk_points s)))
      (wp_normal W) (do_approach K)) (do_travel_scale K) #
    draw_lin_command K (hd (lift_points_to_poses W (sk_points s))) (do_draw_scale K) # cs' @
    [draw_lin_command K (offset_pose_along_normal (last (lift_points_to_poses W (sk_points s)))
      (wp_normal W) (do_retract K)) (do_travel_scale K)]"
    by (simp add: stroke_commands_def Let_def)
  ultimately have "list_all P c" by (simp add: ptp lin)
  with Cons c show ?case by (auto simp: complain_def ebind_eq_Inr split: if_splits)
qed simp

text \<open>The waypoints of a compiled drawing come in Cartesian paths of two to the allowed number of points.\<close>

lemma paths_stay_short:
  "compile_strokes_to_commands K W strokes = Inr r \<Longrightarrow> list_all (path_length_ok (do_max_chunk K)) (dr_commands r)"
  using compile_strokes_Inr compile_loop_all [of "path_length_ok (do_max_chunk K)"] by fastforce

subsection \<open>Circles\<close>










subsection \<open>Texts\<close>

definition in_box :: "rat \<Rightarrow> rat \<Rightarrow> rat \<Rightarrow> rat \<Rightarrow> point2 \<Rightarrow> bool" where
  "in_box x0 x1 y0 y1 p \<longleftrightarrow> (\<exists>a b. p = (Fin a, Fin b) \<and> x0 \<le> a \<and> a \<le> x1 \<and> y0 \<le> b \<and> b \<le> y1)"

definition font_boxed :: "rat \<Rightarrow> rat \<Rightarrow> rat \<Rightarrow> rat \<Rightarrow> font_segment \<Rightarrow> bool" where
  "font_boxed x0 x1 y0 y1 s \<longleftrightarrow> (fs_kind s = ''draw'' \<longrightarrow> list_all (in_box x0 x1 y0 y1) (fs_points s))"

lemma font_boxed_segment [simp]:
  "font_boxed x0 x1 y0 y1 \<lparr>fs_kind = k, fs_points = ps, fs_closed = z\<rparr>
    \<longleftrightarrow> (k = ''draw'' \<longrightarrow> list_all (in_box x0 x1 y0 y1) ps)"
  by (simp add: font_boxed_def)

lemma font_boxed_mono: "font_boxed x0 x1 y0 y1 s \<Longrightarrow> x \<le> x0 \<Longrightarrow> x1 \<le> x' \<Longrightarrow> font_boxed x x' y0 y1 s"
  by (fastforce simp: font_boxed_def list_all_iff in_box_def)

lemma glyph_boxed:
  assumes "0 \<le> h" and "list_all (list_all (\<lambda>(px, py). 0 \<le> px \<and> px \<le> adv \<and> 0 \<le> py \<and> py \<le> 1)) ss"
  shows "list_all (font_boxed x (x + adv * h) 0 h) (fst (glyph_segments (Fin x) (Fin h) prev ss))"
  using assms(2)
proof (induction ss arbitrary: prev)
  case (Cons s ss)
  let ?ps = "map (\<lambda>(px, py). (fadd (Fin x) (fmul (Fin px) (Fin h)), fmul (Fin py) (Fin h))) s"
  have "in_box x (x + adv * h) 0 h (Fin (x + px * h), Fin (py * h))" if "(px, py) \<in> set s" for px py
    using that Cons.prems assms (1) mult_right_mono [of px adv h] mult_right_mono [of py 1 h]
    by (fastforce simp: in_box_def list_all_iff)
  then have ps: "list_all (in_box x (x + adv * h) 0 h) ?ps" by (auto simp: list_all_iff)
  obtain rest e where rest: "glyph_segments (Fin x) (Fin h) (Some (last ?ps)) ss = (rest, e)" by fastforce
  then have "list_all (font_boxed x (x + adv * h) 0 h) rest"
    using Cons.IH [of "Some (last ?ps)"] Cons.prems by simp
  with ps show ?case
    unfolding glyph_segments.simps Let_def rest by (simp split: option.splits)
qed simp

lemma glyph_of_boxed:
  "map_of glyphs c = Some g \<Longrightarrow> 0 \<le> h \<Longrightarrow>
    list_all (font_boxed x (x + g_advance g * h) 0 h) (fst (glyph_segments (Fin x) (Fin h) prev (g_strokes g)))"
  by (rule glyph_boxed) (fastforce dest!: glyph_of_fits simp: glyph_fits_def list_all_iff)+

lemma width_grows:
  "line_advance_width cs (Fin h) (Fin sp) (Fin x) = Inr w \<Longrightarrow> 0 \<le> h \<Longrightarrow> 0 \<le> sp \<Longrightarrow> \<exists>y. w = Fin y \<and> x \<le> y"
proof (induction cs arbitrary: x)
  case (Cons c cs)
  then obtain g where g: "map_of glyphs c = Some g" by (auto simp: complain_def split: option.splits)
  let ?x = "x + g_advance g * h" let ?y = "if cs \<noteq> [] then ?x + sp else ?x"
  have "0 \<le> g_advance g * h" using glyph_of_fits [OF g] Cons.prems by (simp add: glyph_fits_def)
  moreover have "line_advance_width cs (Fin h) (Fin sp) (Fin ?y) = Inr w"
    using Cons.prems g by (auto simp: Let_def split: if_splits)
  ultimately show ?case using Cons.IH [of ?y] Cons.prems by (fastforce split: if_splits)
qed auto

lemma line_boxed:
  "line_segments (Fin h) (Fin sp) (Fin x) prev cs = Inr segs \<Longrightarrow> 0 \<le> h \<Longrightarrow> 0 \<le> sp \<Longrightarrow>
    line_advance_width cs (Fin h) (Fin sp) (Fin x) = Inr (Fin w) \<Longrightarrow> list_all (font_boxed x w 0 h) segs"
proof (induction cs arbitrary: x prev segs)
  case (Cons c cs)
  then obtain g where g: "map_of glyphs c = Some g" by (auto split: option.splits)
  obtain own e where own: "glyph_segments (Fin x) (Fin h) prev (g_strokes g) = (own, e)" by fastforce
  let ?x = "x + g_advance g * h" let ?y = "if cs \<noteq> [] then ?x + sp else ?x"
  obtain rest where rest: "line_segments (Fin h) (Fin sp) (Fin (?x + sp)) e cs = Inr rest" and segs: "segs = own @ rest"
    using Cons.prems g own by (auto simp: ebind_eq_Inr add.assoc)
  have w: "line_advance_width cs (Fin h) (Fin sp) (Fin ?y) = Inr (Fin w)"
    using Cons.prems g by (auto simp: Let_def split: if_splits)
  then have y: "?y \<le> w" using width_grows Cons.prems by fastforce
  moreover have "?x \<le> ?y" using Cons.prems by simp
  ultimately have x: "?x \<le> w" by (rule order.trans [rotated])
  have "list_all (font_boxed x ?x 0 h) own" using glyph_of_boxed [OF g, of h x prev] own Cons.prems by simp
  then have "list_all (font_boxed x w 0 h) own" using font_boxed_mono x by (auto simp: list_all_iff)
  moreover have "list_all (font_boxed x w 0 h) rest"
  proof (cases "cs = []")
    case True
    then show ?thesis using rest by simp
  next
    case False
    then have "list_all (font_boxed (?x + sp) w 0 h) rest" using Cons.IH [OF rest] w Cons.prems by simp
    moreover have "x \<le> ?x + sp" using glyph_of_fits [OF g] Cons.prems by (simp add: glyph_fits_def)
    ultimately show ?thesis using font_boxed_mono by (auto simp: list_all_iff)
  qed
  ultimately show ?case using segs by simp
qed simp

definition boxed :: "rat \<Rightarrow> rat \<Rightarrow> rat \<Rightarrow> rat \<Rightarrow> stroke_segment \<Rightarrow> bool" where
  "boxed x0 x1 y0 y1 s \<longleftrightarrow> (sk_kind s = ''draw'' \<longrightarrow> list_all (in_box x0 x1 y0 y1) (sk_points s))"

lemma boxed_segment [simp]:
  "boxed x0 x1 y0 y1 \<lparr>sk_kind = k, sk_points = ps, sk_closed = z, sk_metadata = d\<rparr>
    \<longleftrightarrow> (k = ''draw'' \<longrightarrow> list_all (in_box x0 x1 y0 y1) ps)"
  by (simp add: boxed_def)

lemma shifted_boxed:
  "list_all (in_box x0 x1 y0 y1) ps \<Longrightarrow>
    list_all (in_box (x0 + dx) (x1 + dx) (y0 + dy) (y1 + dy)) (shifted_points (Fin dx) (Fin dy) ps)"
  by (fastforce simp: shifted_points_def list_all_iff in_box_def)

lemma placed_boxed:
  "list_all (font_boxed x0 x1 y0 y1) gs \<Longrightarrow>
    list_all (boxed (x0 + dx) (x1 + dx) (y0 + dy) (y1 + dy)) (fst (place_segments L (Fin dx) (Fin dy) prev gs))"
proof (induction gs arbitrary: prev)
  case (Cons g gs)
  let ?ps = "shifted_points (Fin dx) (Fin dy) (fs_points g)"
  obtain rest e where rest: "place_segments L (Fin dx) (Fin dy) (Some (last ?ps)) gs = (rest, e)" by fastforce
  then have "list_all (boxed (x0 + dx) (x1 + dx) (y0 + dy) (y1 + dy)) rest"
    using Cons.IH [of "Some (last ?ps)"] Cons.prems by simp
  with Cons.prems show ?case
    unfolding place_segments.simps Let_def rest
    by (simp add: font_boxed_def shifted_boxed split: option.splits)
qed simp

lemma line_shift_fin: "\<exists>x. line_shift a (Fin w) = Fin x"
  by (simp add: line_shift_def)

definition in_line :: "rat \<Rightarrow> rat \<Rightarrow> rat \<Rightarrow> string \<Rightarrow> nat \<Rightarrow> string \<Rightarrow> stroke_segment \<Rightarrow> bool" where
  "in_line h csp lsp align j line s \<longleftrightarrow>
     (\<exists>w x. line_advance_width line (Fin h) (Fin csp) (Fin 0) = Inr (Fin w) \<and> line_shift align (Fin w) = Fin x
        \<and> boxed x (x + w) (- of_nat j * (h + lsp)) (- of_nat j * (h + lsp) + h) s)"

lemma text_lines_boxed:
  "text_lines L (Fin h) (Fin csp) (Fin lsp) align i prev ls = Inr segs \<Longrightarrow> 0 \<le> h \<Longrightarrow> 0 \<le> csp \<Longrightarrow>
    s \<in> set segs \<Longrightarrow> \<exists>j < length ls. in_line h csp lsp align (i + j) (ls ! j) s"
proof (induction ls arbitrary: i prev segs)
  case (Cons l ls)
  from Cons.prems (1) obtain width where width: "line_advance_width l (Fin h) (Fin csp) (Fin 0) = Inr width"
    by (auto simp: ebind_eq_Inr)
  then obtain w where w: "width = Fin w" using width_grows Cons.prems by blast
  have later: ?case if "text_lines L (Fin h) (Fin csp) (Fin lsp) align (Suc i) e ls = Inr rest" "s \<in> set rest" for e rest
  proof -
    from Cons.IH [OF that (1) Cons.prems (2, 3) that (2)] obtain j
      where "j < length ls" "in_line h csp lsp align (Suc i + j) (ls ! j) s" by blast
    then show ?thesis by (intro exI [of _ "Suc j"]) simp
  qed
  show ?case
  proof (cases "l = []")
    case True
    then show ?thesis using Cons.prems later width by simp
  next
    case False
    obtain x where x: "line_shift align (Fin w) = Fin x" using line_shift_fin by blast
    let ?dy = "- of_nat i * (h + lsp)"
    from Cons.prems (1) width w False x obtain raw where raw: "generate_text_strokes l (Fin h) (Fin csp) = Inr raw"
      by (auto simp: gpy_def ebind_eq_Inr split: sum.splits)
    obtain own e where own: "place_segments L (Fin x) (Fin ?dy) prev raw = (own, e)" by fastforce
    from Cons.prems (1) width w False x raw own obtain rest
      where rest: "text_lines L (Fin h) (Fin csp) (Fin lsp) align (Suc i) e ls = Inr rest" and segs: "segs = own @ rest"
      by (auto simp: gpy_def ebind_eq_Inr)
    have "list_all (font_boxed 0 w 0 h) raw"
      using raw line_boxed width w Cons.prems (2, 3) by (auto simp: generate_text_strokes_def split: if_splits)
    then have "list_all (boxed (0 + x) (w + x) (0 + ?dy) (h + ?dy)) own"
      using placed_boxed own by (metis fst_conv)
    then have "in_line h csp lsp align i l s" if "s \<in> set own"
      using that width w x by (auto simp: in_line_def list_all_iff add.commute)
    then show ?thesis using Cons.prems (4) segs later [OF rest] by (fastforce simp: nth_Cons split: nat.splits)
  qed
qed simp

text \<open>The strokes drawn for a text of finite height and spacing stay in the boxes of its lines: line
  \<open>j\<close> hangs \<open>j\<close> line heights below the first, is as wide as its glyphs and the spacing between them, and
  starts, is centred or ends at the origin as the alignment says.\<close>

theorem text_stays_in_its_lines:
  assumes "generate_text_stroke_segments L text (Fin h) (Fin csp) (Fin lsp) alignment = Inr segs"
    and "s \<in> set segs" and "sk_kind s = ''draw''"
  shows "\<exists>j w x. j < length (split_lines text)
    \<and> line_advance_width (split_lines text ! j) (Fin h) (Fin csp) (Fin 0) = Inr (Fin w)
    \<and> line_shift (if lower (strip alignment) = [] then ''left'' else lower (strip alignment)) (Fin w) = Fin x
    \<and> list_all (in_box x (x + w) (- of_nat j * (h + lsp)) (- of_nat j * (h + lsp) + h)) (sk_points s)"
proof -
  let ?a = "if lower (strip alignment) = [] then ''left'' else lower (strip alignment)"
  have "0 \<le> h" "0 \<le> csp" "text_lines L (Fin h) (Fin csp) (Fin lsp) ?a 0 None (split_lines text) = Inr segs"
    using assms (1) by (auto simp: generate_text_stroke_segments_def complain_def Let_def split: if_splits)
  from text_lines_boxed [OF this (3, 1, 2) assms (2)] show ?thesis
    using assms (3) by (auto simp: in_line_def boxed_def)
qed

end
