(* ===== verification/Drawing_Policy_Properties.thy ===== *)
theory Drawing_Policy_Properties
  imports Drawing_Router Drawing_Properties Routing_Properties Goal_Mapper
begin

section \<open>Drawings and the macro policy\<close>

text \<open>
  What the commands of a routed drawing have in common, stated as a locale for what the intent router
  needs of its drawing router and interpreted on \<open>route_draw\<close>; the default clearance; and what becomes of
  the mode \<open>plan_only\<close>.
\<close>

subsection \<open>The commands of a drawing\<close>

definition drawing_primitives :: "string list" where
  "drawing_primitives = [''PTP'', ''LIN'', ''CARTESIAN_PATH'', ''BLENDED_SEQUENCE'']"

definition positive_scale :: "json \<Rightarrow> bool" where
  "positive_scale v \<longleftrightarrow> (\<exists>x. v = JFloat x \<and> \<not> fle x (Fin 0))"

definition drawing_command :: "string list \<Rightarrow> bool \<Rightarrow> int \<Rightarrow> obj \<Rightarrow> bool" where
  "drawing_command frames plan_only m c \<longleftrightarrow>
     list_ex (\<lambda>p. value_at c ''primitive_type'' = JStr p) drawing_primitives
     \<and> strip (to_str (value_at c ''reference_frame'')) \<in> set frames
     \<and> positive_scale (value_at c ''velocity_scale'') \<and> positive_scale (value_at c ''acceleration_scale'')
     \<and> value_at c ''plan_only'' = JBool plan_only \<and> path_length_ok m c"

lemma move_command_ok:
  assumes "strip (to_str (do_frame K)) \<in> set frames" "\<not> fle x (Fin 0)"
  shows "drawing_command frames (do_plan_only K) m (draw_ptp_command K p x)"
    "drawing_command frames (do_plan_only K) m (draw_lin_command K p x)"
  using assms by (simp_all add: drawing_command_def)
    (simp_all add: draw_ptp_command_def draw_lin_command_def move_command_def value_at_def dget_def drawing_primitives_def
      positive_scale_def)

lemma stroke_command_ok:
  assumes "strip (to_str (do_frame K)) \<in> set frames" "\<not> fle (do_draw_scale K) (Fin 0)"
  shows "drawing_command frames (do_plan_only K) m (blended_sequence_command K ps i)"
    "2 \<le> length ps \<Longrightarrow> int (length ps) \<le> m \<Longrightarrow> drawing_command frames (do_plan_only K) m (cartesian_path_command K ps k i)"
  using assms by (simp_all add: drawing_command_def)
    (simp_all add: blended_sequence_command_def cartesian_path_command_def value_at_def dget_def
      drawing_primitives_def positive_scale_def)

lemma compiled_commands_ok:
  assumes "compile_strokes_to_commands K W strokes = Inr r" and "strip (to_str (do_frame K)) \<in> set frames"
  shows "list_all (drawing_command frames (do_plan_only K) (do_max_chunk K)) (dr_commands r)"
proof -
  have ok: "1 \<le> do_max_chunk K" "\<not> fle (do_draw_scale K) (Fin 0)" "\<not> fle (do_travel_scale K) (Fin 0)"
    "\<exists>b. compile_loop K W 0 \<lparr>st_chunks = 0, st_strokes = 0, st_points = 0\<rparr> strokes = Inr (dr_commands r, b)"
    using compile_strokes_Inr [OF assms(1)] by auto
  then show ?thesis
    using compile_loop_all [of "drawing_command frames (do_plan_only K) (do_max_chunk K)" K]
      move_command_ok [OF assms(2)] stroke_command_ok [OF assms(2) ok(2)] by blast
qed

lemma from_geometry_Inr [simp]: "from_geometry r = Inr x \<longleftrightarrow> r = Inr x"
  by (auto simp: from_geometry_def split: sum.splits geometry_exn.splits)

lemma raised_Inr [simp]: "raised r = Inr x \<longleftrightarrow> r = Inr x"
  by (auto simp: raised_def split: sum.splits)

lemma draw_frame_Inr:
  "draw_frame payload policy = Inr frame \<Longrightarrow>
    \<exists>frames. names_in policy ''supported_frames'' to_str [] = Inr frames \<and> strip (to_str frame) \<in> set frames"
  by (auto simp: draw_frame_def refuse_def ebind_eq_Inr Let_def split: if_splits)

lemma compile_drawing_ok:
  assumes "compile_drawing D policy frame W b sc strokes = Inr r" and "strip (to_str frame) \<in> set frames"
  shows "\<exists>m. to_int (value_or policy ''max_waypoints_per_chunk'' (JInt 80)) = Inr m
    \<and> list_all (drawing_command frames b m) (rr_commands r)"
  using assms compiled_commands_ok
  by (fastforce simp: compile_drawing_def ebind_eq_Inr Let_def)

text \<open>The policy the intents name, and what a routed drawing has in common.\<close>

definition drawing_policy :: "drawing_router \<Rightarrow> string \<Rightarrow> json" where
  "drawing_policy D intent = value_at (dw_macros D) (if intent = ''draw_shape'' then ''draw_shape'' else ''draw_text'')"

lemma route_shape_Inr:
  assumes "route_draw_shape D payload = Inr r"
  shows "\<exists>policy frame W b sc strokes. value_at (dw_macros D) ''draw_shape'' = JObj policy
    \<and> draw_frame payload policy = Inr frame \<and> resolve_draw_workplane D payload policy frame = Inr W
    \<and> resolve_execution_policy payload policy = Inr b
    \<and> resolve_stroke_config payload policy (draw_units payload policy) = Inr sc
    \<and> compile_drawing D policy frame W b sc strokes = Inr r"
  using assms by (auto simp: route_draw_shape_def refuse_def ebind_eq_Inr Let_def split: json.splits if_splits)

lemma route_text_Inr:
  assumes "route_draw_text D payload = Inr r"
  shows "\<exists>policy frame W b sc strokes. value_at (dw_macros D) ''draw_text'' = JObj policy
    \<and> draw_frame payload policy = Inr frame \<and> resolve_draw_workplane D payload policy frame = Inr W
    \<and> resolve_execution_policy payload policy = Inr b
    \<and> resolve_stroke_config payload policy (draw_units payload policy) = Inr sc
    \<and> compile_drawing D policy frame W b sc strokes = Inr r"
  using assms
  by (cases "value_at payload ''text''"; cases "value_at (dw_macros D) ''draw_text''")
    (auto simp: route_draw_text_def refuse_def ebind_eq_Inr Let_def split: if_splits)

lemma route_draw_Inr:
  assumes "route_draw D intent payload = Inr r"
  shows "\<exists>policy frame W b sc strokes. drawing_policy D intent = JObj policy
    \<and> draw_frame payload policy = Inr frame \<and> resolve_draw_workplane D payload policy frame = Inr W
    \<and> resolve_execution_policy payload policy = Inr b
    \<and> resolve_stroke_config payload policy (draw_units payload policy) = Inr sc
    \<and> compile_drawing D policy frame W b sc strokes = Inr r"
  using assms route_shape_Inr route_text_Inr
  by (cases "intent = ''draw_shape''") (simp_all add: route_draw_def drawing_policy_def)


subsection \<open>The router with its drawing router\<close>

text \<open>What the intent router needs of a drawing router, and what it then routes.\<close>

locale drawing_source =
  fixes draw :: "string \<Rightarrow> obj \<Rightarrow> adapter_exn + route_result"
    and good :: "obj \<Rightarrow> bool"
  assumes draws_good: "draw intent payload = Inr r \<Longrightarrow> list_all good (rr_commands r)"
begin

lemma routed_commands:
  assumes "ir_draw R = draw" and "clean v" and "route R v = Inr r"
  shows "list_all (\<lambda>c. names_primitive c \<or> good c) (rr_commands r)"
proof -
  have "names_primitive c \<or> drawn R c" if "c \<in> set (rr_commands r)" for c
    using route_primitives (1) [OF assms(2, 3) that] .
  then show ?thesis using draws_good assms (1) unfolding drawn_def list_all_iff by blast
qed

end

definition draws_cartesian :: "obj \<Rightarrow> bool" where
  "draws_cartesian c \<longleftrightarrow> list_ex (\<lambda>p. value_at c ''primitive_type'' = JStr p) drawing_primitives"

interpretation policy_drawing: drawing_source "route_draw D" draws_cartesian for D
proof
  fix intent payload r
  assume "route_draw D intent payload = Inr r"
  then obtain frames b m where "list_all (drawing_command frames b m) (rr_commands r)"
    using route_draw_Inr draw_frame_Inr compile_drawing_ok by metis
  then show "list_all draws_cartesian (rr_commands r)"
    by (auto simp: list_all_iff drawing_command_def draws_cartesian_def)
qed

subsection \<open>The default clearance\<close>

lemma clearance_default:
  assumes "clearance_of stroke payload policy units names what = Inr x"
    and "extract_any payload stroke names = JNull"
    and "value_or policy (hd names) (JFloat (Fin (1 / 100))) = JFloat (Fin a)"
    and "map_of supported_units_to_m (lower (strip units)) = Some k"
  shows "x = Fin (a * k)"
  using assms by (simp add: clearance_of_def to_meters_def scalar_def)

text \<open>The clearances of the policy are lengths in metres, but a payload that gives none of its own gets
  them scaled by its units: a drawing in millimetres approaches and leaves the plane by a thousandth of
  the policy's distance.\<close>

theorem default_clearance_scaled:
  assumes config: "resolve_stroke_config payload policy units = Inr sc"
    and stroke: "object_at payload ''stroke'' ''stroke must be an object.'' = Inr stroke"
    and silent: "extract_any payload stroke [''approach_distance_m'', ''approach_distance''] = JNull"
      "extract_any payload stroke [''retract_distance_m'', ''retract_distance''] = JNull"
    and policy: "value_or policy ''approach_distance_m'' (JFloat (Fin (1 / 100))) = JFloat (Fin a)"
      "value_or policy ''retract_distance_m'' (JFloat (Fin (1 / 100))) = JFloat (Fin b)"
    and k: "map_of supported_units_to_m (lower (strip units)) = Some k"
  shows "sc_approach sc = Fin (a * k) \<and> sc_retract sc = Fin (b * k)"
  using config clearance_default [OF _ silent(1)] clearance_default [OF _ silent(2)] policy k stroke
  by (fastforce simp: resolve_stroke_config_def refuse_def ebind_eq_Inr split: if_splits)

subsection \<open>The mode \<open>plan_only\<close>\<close>

lemma plan_only_unread:
  "k \<noteq> ''plan_only'' \<Longrightarrow> map_of (dict_set ''plan_only'' v c) k = map_of c k"
  "k \<noteq> ''plan_only'' \<Longrightarrow> nget_or (dict_set ''plan_only'' v c) k d = nget_or c k d"
  "k \<noteq> ''plan_only'' \<Longrightarrow> nget (dict_set ''plan_only'' v c) k = nget c k"
  "is_prim (dict_set ''plan_only'' v c) p = is_prim c p"
  by (simp_all add: nget_or_def nget_def is_prim_def map_of_dict_set)

text \<open>The goal of a command does not depend on its mode: a command that was to be planned only is sent to
  the motion server as the same goal as one that is to be executed.\<close>

theorem plan_only_goals_execute:
  "to_execute_motion_goal G (dict_set ''plan_only'' v c) = to_execute_motion_goal G c"
  unfolding to_execute_motion_goal_def Let_def by (simp only: plan_only_unread list.inject char.inject simp_thms)

end
