(* ===== verification/Drawing_Witnesses.thy ===== *)
theory Drawing_Witnesses
  imports Drawing_Policy_Properties
begin

section \<open>Concrete drawings\<close>

text \<open>
  A C library that is exact where the examples ask it, a workplane on the table, and drawings on it, to
  which the theorems of \<open>Drawing_Properties\<close> and \<open>Drawing_Policy_Properties\<close> are applied.
\<close>

definition demo_geometry :: geometry_lib where
  "demo_geometry = \<lparr>gl_float = \<lparr>lib_sqrt = (\<lambda>x. x), lib_sin = (\<lambda>x. 0), lib_cos = (\<lambda>x. 1)\<rparr>,
     gl_acos = (\<lambda>x. if x < 0 then 1 else 1 - x)\<rparr>"









subsection \<open>A text\<close>

definition demo_text :: string where
  "demo_text = [CHR ''L'', CHR 0x0A, CHR ''-'']"

lemma demo_glyphs:
  "map_of glyphs (CHR ''L'') = Some \<lparr>g_advance = 64/100, g_strokes = [[(0, 1), (0, 0), (55/100, 0)]]\<rparr>"
  "map_of glyphs (CHR ''-'') = Some \<lparr>g_advance = 44/100, g_strokes = [[(0, 50/100), (40/100, 50/100)]]\<rparr>"
  by (simp_all add: glyphs_def glyphs_a_to_m_def glyphs_n_to_z_def glyph_digits_def glyph_marks_def)

definition demo_hyphen :: stroke_segment where
  "demo_hyphen = \<lparr>sk_kind = ''draw'', sk_points = [(Fin 0, Fin (- 1)), (Fin (8 / 10), Fin (- 1))], sk_closed = False,
     sk_metadata = text_source ''text''\<rparr>"

lemma demo_text_segments:
  "\<exists>segs. generate_text_stroke_segments demo_geometry demo_text (Fin 2) (Fin 0) (Fin 0) ''left'' = Inr segs
    \<and> demo_hyphen \<in> set segs"
  by (simp add: generate_text_stroke_segments_def demo_text_def lower_def strip_def is_space_def lower_char_def
      generate_text_strokes_def demo_glyphs gpy_def line_shift_def shifted_points_def demo_hyphen_def point_eq_def Let_def)

theorem text_stays_in_its_lines_witness:
  "\<exists>segs. generate_text_stroke_segments demo_geometry demo_text (Fin 2) (Fin 0) (Fin 0) ''left'' = Inr segs
    \<and> demo_hyphen \<in> set segs \<and> (\<exists>j w x. j < (2 :: nat)
        \<and> list_all (in_box x (x + w) (- of_nat j * 2) (- of_nat j * 2 + 2)) (sk_points demo_hyphen))"
proof -
  obtain segs where segs: "generate_text_stroke_segments demo_geometry demo_text (Fin 2) (Fin 0) (Fin 0) ''left'' = Inr segs"
    and hyphen: "demo_hyphen \<in> set segs" using demo_text_segments by blast
  have "sk_kind demo_hyphen = ''draw''" by (simp add: demo_hyphen_def)
  from text_stays_in_its_lines [OF segs hyphen this] obtain j w x where "j < length (split_lines demo_text)"
    and "list_all (in_box x (x + w) (- of_nat j * (2 + 0)) (- of_nat j * (2 + 0) + 2)) (sk_points demo_hyphen)"
    by blast
  then have "j < 2" "list_all (in_box x (x + w) (- of_nat j * 2) (- of_nat j * 2 + 2)) (sk_points demo_hyphen)"
    by (simp_all add: demo_text_def)
  then show ?thesis using segs hyphen by blast
qed

subsection \<open>A square\<close>


definition demo_square :: "stroke_segment list" where
  "demo_square = shape_stroke ''rectangle'' True
     [(Fin 0, Fin 0), (Fin 1, Fin 0), (Fin 1, Fin 1), (Fin 0, Fin 1), (Fin 0, Fin 0)]"

lemma demo_square_path: "generate_square_path (Fin 1) = Inr demo_square"
  by (simp add: generate_square_path_def generate_rectangle_path_def demo_square_def)



subsection \<open>A drawing in millimetres\<close>

definition demo_policy :: obj where
  "demo_policy = [(''supported_frames'', JList [JStr ''base_link'']), (''supported_shapes'', JList [JStr ''square'']),
     (''approach_distance_m'', JFloat (Fin (1 / 100))), (''retract_distance_m'', JFloat (Fin (1 / 100)))]"


definition demo_start_pose :: obj where
  "demo_start_pose = [(''position'', JObj [(''x'', JFloat (Fin (3 / 10))), (''y'', JFloat (Fin 0)), (''z'', JFloat (Fin (2 / 10)))])]"

definition demo_drawing :: obj where
  "demo_drawing = [(''shape'', JStr ''square''), (''size'', JInt 20), (''units'', JStr ''mm''), (''start_pose'', JObj demo_start_pose)]"

lemma demo_config:
  "resolve_stroke_config demo_drawing demo_policy ''mm'' =
    Inr \<lparr>sc_approach = Fin (1 / 100000), sc_retract = Fin (1 / 100000), sc_draw_scale = Fin (6 / 100), sc_travel_scale = Fin (6 / 100)\<rparr>"
  by (simp add: resolve_stroke_config_def object_at_def value_at_def dget_def demo_drawing_def demo_policy_def
      clearance_of_def from_geometry_def to_meters_def scalar_def value_or_def supported_units_to_m_def lower_def
      strip_def is_space_def lower_char_def scale_value_def raised_def Let_def)

theorem default_clearance_scaled_witness:
  "resolve_stroke_config demo_drawing demo_policy ''mm'' = Inr \<lparr>sc_approach = Fin (1 / 100000),
      sc_retract = Fin (1 / 100000), sc_draw_scale = Fin (6 / 100), sc_travel_scale = Fin (6 / 100)\<rparr>
    \<and> Fin (1 / 100000) = Fin (1 / 100 * (1 / 1000))"
proof -
  have "object_at demo_drawing ''stroke'' ''stroke must be an object.'' = Inr []"
    "extract_any demo_drawing [] [''approach_distance_m'', ''approach_distance''] = JNull"
    "extract_any demo_drawing [] [''retract_distance_m'', ''retract_distance''] = JNull"
    "value_or demo_policy ''approach_distance_m'' (JFloat (Fin (1 / 100))) = JFloat (Fin (1 / 100))"
    "value_or demo_policy ''retract_distance_m'' (JFloat (Fin (1 / 100))) = JFloat (Fin (1 / 100))"
    "map_of supported_units_to_m (lower (strip ''mm'')) = Some (1 / 1000)"
    by (simp_all add: object_at_def value_at_def dget_def demo_drawing_def demo_policy_def value_or_def
        supported_units_to_m_def lower_def strip_def is_space_def lower_char_def)
  from default_clearance_scaled [OF demo_config this] demo_config show ?thesis by simp
qed







end
