(* ===== verification/Intent_Parsing.thy ===== *)
theory Intent_Parsing
  imports Drawing_Router Semantic_Validation Supervisor_State
begin

section \<open>Parsing an intent in the HMI\<close>

text \<open>
  \<open>_parse_intent\<close> and \<open>_target_summary\<close> of \<open>hmi/backend/services/supervisor_validation.py\<close>, with
  \<open>_prepare_semantic_ir_for_routing\<close> of \<open>supervisor_sequence.py\<close>: an intent becomes one primitive command
  by the router and the normaliser of the gateway, and a parsed step with its label.  The adapter's joints and pose,
  the router, the \<open>SequenceValidator\<close> with its normaliser, the JSON text of an object and the JSON object
  \<open>_to_jsonable\<close> makes of a ROS \<open>Pose\<close> (by the names of its slots) are fields of the environment.
  A formatted float is the text of \<open>to_str\<close>.
\<close>

record seq_env =
  sq_hydrate :: "(obj \<Rightarrow> string + json) option"
  sq_pose :: json
  sq_joints :: "pyfloat option list"
  sq_router :: "string \<Rightarrow> intent_router"
  sq_validator :: sequence_validator
  sq_pose_json :: "pose_msg \<Rightarrow> json"
  sq_dumps :: "obj \<Rightarrow> string"

text \<open>\<open>str(v or "").strip().lower()\<close>.\<close>

definition word_of :: "json \<Rightarrow> string" where
  "word_of v = lower (strip (to_str (or_empty v)))"

subsection \<open>Captured joints\<close>

fun hmi_contains :: "json \<Rightarrow> string \<Rightarrow> bool"
  and hmi_in_fields :: "obj \<Rightarrow> string \<Rightarrow> bool"
  and hmi_in_items :: "json list \<Rightarrow> string \<Rightarrow> bool" where
  "hmi_contains (JObj d) t \<longleftrightarrow> value_at d ''intent'' = JStr t \<or> hmi_in_fields d t"
| "hmi_contains (JList xs) t = hmi_in_items xs t"
| "hmi_contains _ t = False"
| "hmi_in_fields [] t = False"
| "hmi_in_fields ((k, v) # d) t \<longleftrightarrow> hmi_contains v t \<or> hmi_in_fields d t"
| "hmi_in_items [] t = False"
| "hmi_in_items (v # vs) t \<longleftrightarrow> hmi_contains v t \<or> hmi_in_items vs t"

text \<open>\<open>except ValueError as exc: raise IntentResolutionError(str(exc))\<close>.\<close>

definition value_errors_refused :: "adapter_exn + 'a \<Rightarrow> adapter_exn + 'a" where
  "value_errors_refused r = (case r of
     Inr x \<Rightarrow> Inr x
   | Inl e \<Rightarrow> (case is_value_error e of Some t \<Rightarrow> refuse t | None \<Rightarrow> Inl e))"

definition hmi_prepare :: "seq_env \<Rightarrow> obj \<Rightarrow> adapter_exn + json" where
  "hmi_prepare E d =
     (if \<not> hmi_contains (JObj d) ''move_joint_delta'' then Inr (JObj d)
      else if length (sq_joints E) \<noteq> 6 \<or> None \<in> set (sq_joints E)
      then refuse ''move_joint_delta requires a complete current joint snapshot.''
      else value_errors_refused
        (prepare_ir \<lparr>js_positions = map (\<lambda>x. radians (the x)) (sq_joints E), js_by_name = []\<rparr> (JObj d)))"

subsection \<open>Labels\<close>

text \<open>\<open>f"{v:.4f}"\<close>: a number is formatted as a float, a text or another object raises.\<close>

fun formatted :: "nval \<Rightarrow> adapter_exn + string" where
  "formatted (Plain (JStr s)) = Inl (Raised ValueError)"
| "formatted (Plain v) = (if v = JNull \<or> is_dict v then Inl (Raised TypeError)
     else ebind (raised (to_float v)) (\<lambda>x. Inr (to_str (JFloat x))))"
| "formatted _ = Inl (Raised TypeError)"

definition move_rel_label :: "ndict \<Rightarrow> adapter_exn + string" where
  "move_rel_label c =
     (let mm = (\<lambda>k. ebind (nfloat (nget_or c k (JFloat (Fin 0)))) (\<lambda>x. Inr (to_str (JFloat (fmul x (Fin 1000)))))) in
      ebind (mm ''delta_x'') (\<lambda>x. ebind (mm ''delta_y'') (\<lambda>y. ebind (mm ''delta_z'') (\<lambda>z.
      Inr (''Relative translation in base_link: dx='' @ x @ '' mm dy='' @ y @ '' mm dz='' @ z @ '' mm.'')))))"

definition runtime_label :: "ndict \<Rightarrow> adapter_exn + json" where
  "runtime_label c =
     (let dflt = JStr ''Execute consolidated FactoryTask runtime plan.'' in
      case nget c ''metadata'' of
        Plain (JObj m) \<Rightarrow> Inr (if truthy (value_at m ''operator_summary'') then value_at m ''operator_summary'' else dflt)
      | Plain v \<Rightarrow> (if truthy v then Inl (Raised AttributeError) else Inr dflt)
      | _ \<Rightarrow> Inl (Raised AttributeError))"

definition fixed_labels :: "(string \<times> string) list" where
  "fixed_labels =
     [(''HOME'', ''Return robot to configured home pose.''), (''STOP'', ''Request supervised stop handling.''),
      (''MOVE_JOINTS'', ''Move all six joints to absolute targets.''),
      (''ALARM_RESET'', ''Request alarm reset at execution boundary.''), (''GET_POSE'', ''Query current robot TCP pose.''),
      (''LIN'', ''Linear motion to target pose.''), (''PTP'', ''Point-to-point motion to target pose or joint target.''),
      (''CIRC'', ''Circular motion using auxiliary waypoint.''), (''CARTESIAN_PATH'', ''Cartesian multi-waypoint path execution.'')]"

definition text_label :: "ndict \<Rightarrow> adapter_exn + string" where
  "text_label c =
     (let prim = nget c ''primitive_type''; is_prim = (\<lambda>s. prim = Plain (JStr s)) in
      if is_prim ''MOVE_REL'' then move_rel_label c
      else if is_prim ''MOVE_JOINT'' then
        ebind (formatted (nget c ''joint_angle'')) (\<lambda>a. Inr (''Move single joint target: joint_index=''
          @ ntext (nget c ''joint_index'') @ '' joint_angle='' @ a @ '' rad.''))
      else if is_prim ''WAIT'' then
        ebind (formatted (nget_or c ''wait_duration_sec'' (JFloat (Fin 0)))) (\<lambda>w. Inr (''Pause execution for '' @ w @ '' s.''))
      else if is_prim ''SET_SPEED'' then
        ebind (formatted (nget_or c ''velocity_scale'' (JFloat (Fin 0)))) (\<lambda>v. Inr (''Set default velocity scale to '' @ v @ ''.''))
      else if is_prim ''IO_SET'' then
        Inr (''Set controller IO address '' @ ntext (nget c ''io_address'') @ '' to '' @ ntext (nget c ''io_value'') @ ''.'')
      else Inr (case map_of fixed_labels (ntext prim) of
        Some t \<Rightarrow> t | None \<Rightarrow> ''Execute primitive '' @ ntext prim @ ''.''))"

definition target_summary :: "ndict \<Rightarrow> adapter_exn + json" where
  "target_summary c =
     (if nget c ''primitive_type'' = Plain (JStr ''FACTORY_TASK_RUNTIME'') then runtime_label c
      else ebind (text_label c) (\<lambda>t. Inr (JStr t)))"

subsection \<open>Commands\<close>

fun to_jsonable :: "(pose_msg \<Rightarrow> json) \<Rightarrow> nval \<Rightarrow> json" where
  "to_jsonable J (Plain v) = v"
| "to_jsonable J (PoseV p) = J p"
| "to_jsonable J (PosesV ps) = JList (map J ps)"
| "to_jsonable J (StepsV ds) = JList (map (\<lambda>d. JObj (map (\<lambda>(k, v). (k, to_jsonable J v)) d)) ds)"

definition routed_draw_metadata_fields :: "string list" where
  "routed_draw_metadata_fields = [''plan_only'', ''chunk_index'', ''stroke_index'']"

definition jsonable_command :: "seq_env \<Rightarrow> ndict \<Rightarrow> obj" where
  "jsonable_command E c = map (\<lambda>(k, v). (k, to_jsonable (sq_pose_json E) v)) c"

text \<open>The message of an error payload.\<close>

definition route_error_text :: "route_result \<Rightarrow> string" where
  "route_error_text r =
     (let d = (case rr_error r of None \<Rightarrow> [] | Some d \<Rightarrow> d); m = value_at d ''message'';
          e = (if truthy m then m else value_at d ''error'') in
      if truthy e then to_str e else ''intent router returned an error payload.'')"

definition routed :: "seq_env \<Rightarrow> runtime_mode \<Rightarrow> json \<Rightarrow> adapter_exn + route_result" where
  "routed E m v = ebind (route (sq_router E (mode_value m)) v) (\<lambda>r.
     if rr_type r = ''error'' then refuse (route_error_text r) else Inr r)"

text \<open>The raw command of an intent, with the intent it was routed from.\<close>

definition raw_command_of :: "seq_env \<Rightarrow> runtime_mode \<Rightarrow> obj \<Rightarrow> adapter_exn + obj \<times> obj" where
  "raw_command_of E m d =
     (if dget d ''primitive_type'' \<noteq> None then Inr (d, d)
      else if dget d ''intent'' = None then refuse ''structuredIntent must include action, intent, or primitive_type.''
      else ebind (hmi_prepare E d) (\<lambda>v. ebind (routed E m v) (\<lambda>r. case rr_commands r of
        [c] \<Rightarrow> Inr (c, case v of JObj e \<Rightarrow> e | _ \<Rightarrow> d)
      | _ \<Rightarrow> refuse ''semantic routing expected one command'')))"

definition parsed_step :: "seq_env \<Rightarrow> obj \<times> obj \<Rightarrow> adapter_exn + obj" where
  "parsed_step E = (\<lambda>(raw, given).
     ebind (normalize_cmd (qv_lib (sq_validator E)) (qv_normalizer (sq_validator E)) (JObj raw)) (\<lambda>n.
     let n = filter (\<lambda>(k, _). k \<notin> set routed_draw_metadata_fields) n; c = jsonable_command E n in
     ebind (target_summary n) (\<lambda>label.
     Inr [(''source'', JStr ''structured''), (''normalizedText'', JStr (sq_dumps E given)),
          (''action'', JStr (to_str (value_at c ''primitive_type''))), (''parameters'', JObj (drop_keys [''primitive_type''] c)),
          (''targetSummary'', label), (''normalizedCommand'', JObj c), (''rawCommand'', JObj raw),
          (''normalizationNotes'', JList [])])))"

definition is_runtime_sentinel :: "obj \<Rightarrow> bool" where
  "is_runtime_sentinel d \<longleftrightarrow>
     value_at d ''intent'' = JStr ''factory_task_runtime'' \<and> value_at d ''_factory_task_runtime'' = JBool True
     \<and> (case value_at d ''metadata'' of
          JObj m \<Rightarrow> is_dict (value_at m ''runtime_plan'') \<and> is_dict (value_at m ''factory_task'') | _ \<Rightarrow> False)"

definition sentinel_step :: "seq_env \<Rightarrow> obj \<Rightarrow> obj" where
  "sentinel_step E d =
     (let meta = value_at d ''metadata''; summary = (case meta of JObj m \<Rightarrow> value_at m ''operator_summary'' | _ \<Rightarrow> JNull);
          rest = [(''metadata'', meta), (''_factory_task_runtime'', JBool True), (''intent'', JStr ''factory_task_runtime'')];
          c = JObj ((''primitive_type'', JStr ''FACTORY_TASK_RUNTIME'') # rest) in
      [(''source'', JStr ''structured''), (''normalizedText'', JStr (sq_dumps E d)), (''action'', JStr ''FACTORY_TASK_RUNTIME''),
       (''intent'', JStr ''factory_task_runtime''), (''_factory_task_runtime'', JBool True), (''metadata'', meta),
       (''parameters'', JObj rest),
       (''targetSummary'', if truthy summary then summary else JStr ''Execute consolidated FactoryTask runtime plan.''),
       (''normalizedCommand'', c), (''rawCommand'', c), (''normalizationNotes'', JList [])])"

text \<open>The words the parser knows without a language model.\<close>

definition quick_intents :: "(string \<times> string) list" where
  "quick_intents =
     map (\<lambda>t. (t, ''go_home'')) [''home'', ''go home'', ''move home'', ''return home'', ''move to home'']
     @ map (\<lambda>t. (t, ''stop'')) [''stop'', ''stop motion'', ''cancel motion'', ''halt'']
     @ map (\<lambda>t. (t, ''get_pose'')) [''get pose'', ''current pose'', ''where is robot'', ''where is tcp'']
     @ map (\<lambda>t. (t, ''alarm_reset'')) [''alarm reset'', ''reset alarm'', ''clear alarm'']"

definition intent_given :: "string \<Rightarrow> obj option \<Rightarrow> obj option" where
  "intent_given raw given = (case given of
     Some d \<Rightarrow> Some d
   | None \<Rightarrow> (if raw = [] then None
       else case map_of quick_intents (lower (strip raw)) of None \<Rightarrow> None | Some i \<Rightarrow> Some [(''intent'', JStr i)]))"

text \<open>Every exception of the parser becomes its text.\<close>

definition parse_intent :: "seq_env \<Rightarrow> string \<Rightarrow> obj option \<Rightarrow> runtime_mode \<Rightarrow> string + obj" where
  "parse_intent E raw given m = (case intent_given raw given of
     None \<Rightarrow> Inl ''structuredIntent is required for semantic intent parsing.''
   | Some d \<Rightarrow>
       if is_runtime_sentinel d then Inr (sentinel_step E d)
       else (case ebind (raw_command_of E m d) (parsed_step E) of
         Inr p \<Rightarrow> Inr p
       | Inl e \<Rightarrow> Inl (exn_text e)))"

end
