(* ===== verification/Sequence_Preparation.thy ===== *)
theory Sequence_Preparation
  imports Intent_Parsing
begin

section \<open>Preparing a sequence in the HMI\<close>

text \<open>
  The planning half of \<open>hmi/backend/services/supervisor_sequence.py\<close>: the skills and the runtime plan of a
  factory task as Semantic IR, the workplane of a drawing, the captured joints, and
  \<open>_prepare_sequence_request\<close> and \<open>_parse_sequence_steps\<close>, which route a request with the gateway's router,
  parse each command and run the \<open>SequenceValidator\<close>.  An answer of the adapter does not change while one
  request is prepared.  The splitting of free text by regular expressions is not modelled: the segments are
  an argument.
\<close>

definition draw_intents :: "string list" where
  "draw_intents = [''draw_shape'', ''draw_text'']"

subsection \<open>The workplane of a drawing\<close>

definition hydrate_draw_workplane :: "seq_env \<Rightarrow> obj \<Rightarrow> adapter_exn + obj" where
  "hydrate_draw_workplane E payload =
     (if plain_text (value_or payload ''intent'' (JStr [])) \<notin> set draw_intents then Inr payload
      else case sq_hydrate E of
        Some f \<Rightarrow> (case f payload of Inr (JObj d) \<Rightarrow> Inr d | _ \<Rightarrow> refuse ''workplane hydration failed'')
      | None \<Rightarrow>
          (let payload = (if value_at payload ''workplane'' = JNull
                 then dict_set ''workplane'' (JObj [(''mode'', JStr ''tool'')]) payload else payload) in
           case value_at payload ''workplane'' of
             JObj plane \<Rightarrow>
               if plain_text (value_or plane ''mode'' (JStr ''base'')) \<noteq> ''tool'' then Inr payload
               else if is_dict (value_at plane ''origin'') then Inr payload
               else if is_dict (value_at payload ''start_pose'') then Inr payload
               else if sq_pose E = JNull then refuse ''missing_workplane: tool mode requires current pose''
               else Inr (dict_set ''workplane'' (JObj (dict_set ''origin'' (sq_pose E) plane)) payload)
           | _ \<Rightarrow> Inr payload))"

subsection \<open>Skills\<close>

fun skill_required :: "obj \<Rightarrow> string list \<Rightarrow> obj \<Rightarrow> adapter_exn + obj" where
  "skill_required args [] payload = Inr payload"
| "skill_required args (k # ks) payload = (case dget args k of
     None \<Rightarrow> refuse (''FactoryTask runtime skill requires '' @ k)
   | Some v \<Rightarrow> skill_required args ks (dict_set k v payload))"

fun skill_optional :: "obj \<Rightarrow> string list \<Rightarrow> obj \<Rightarrow> obj" where
  "skill_optional args [] payload = payload"
| "skill_optional args (k # ks) payload =
     skill_optional args ks (case dget args k of None \<Rightarrow> payload | Some v \<Rightarrow> dict_set k v payload)"

definition runtime_skill_payload :: "string \<Rightarrow> obj \<Rightarrow> string list \<Rightarrow> string list \<Rightarrow> adapter_exn + obj" where
  "runtime_skill_payload intent args needed extra =
     ebind (skill_required args needed [(''intent'', JStr intent)]) (\<lambda>p. Inr (skill_optional args extra p))"

text \<open>\<open>str(args.get(k1) or args.get(k2) or \<dots> or default)\<close>.\<close>

fun first_given :: "obj \<Rightarrow> string list \<Rightarrow> string \<Rightarrow> string" where
  "first_given args [] dflt = dflt"
| "first_given args (k # ks) dflt =
     (if truthy (value_at args k) then to_str (value_at args k) else first_given args ks dflt)"

definition skill_frame :: "obj \<Rightarrow> json" where
  "skill_frame args = JStr (first_given args [''reference_frame'', ''frame_id''] ''base_link'')"

definition framed_skill :: "obj \<Rightarrow> adapter_exn + obj \<Rightarrow> adapter_exn + obj" where
  "framed_skill args r = ebind r (\<lambda>p. Inr (dict_set ''reference_frame'' (skill_frame args) p))"

text \<open>The joint of a relative joint move, then its angle.\<close>

definition delta_joint :: "obj \<Rightarrow> adapter_exn + obj" where
  "delta_joint args =
     (let base = [(''intent'', JStr ''move_joint_delta'')]; put = (\<lambda>k. Inr (dict_set k (value_at args k) base)) in
      case value_at args ''joint_deltas_deg'' of
        JObj [(joint, delta)] \<Rightarrow> Inr (base @ [(''joint'', JStr joint), (''delta_angle'', delta), (''angular_unit'', JStr ''deg'')])
      | _ \<Rightarrow>
          if dget args ''joint_index'' \<noteq> None then put ''joint_index''
          else if dget args ''joint_name'' \<noteq> None then put ''joint_name''
          else if dget args ''joint'' \<noteq> None then put ''joint''
          else refuse ''FactoryTask runtime skill move_joint_delta requires joint_index or joint.'')"

definition delta_angle :: "obj \<Rightarrow> obj \<Rightarrow> adapter_exn + obj" where
  "delta_angle args p =
     (if dget args ''delta_angle'' \<noteq> None then Inr (dict_set ''delta_angle'' (value_at args ''delta_angle'') p)
      else if dget args ''delta_deg'' \<noteq> None
      then Inr (dict_set ''angular_unit'' (JStr ''deg'') (dict_set ''delta_angle'' (value_at args ''delta_deg'') p))
      else if dget p ''delta_angle'' = None
      then refuse ''FactoryTask runtime skill move_joint_delta requires delta_angle or delta_deg.'' else Inr p)"

definition observing :: "string \<Rightarrow> string \<Rightarrow> string \<Rightarrow> obj" where
  "observing purpose k v =
     [(''intent'', JStr ''get_pose''), (''reference_frame'', JStr ''base_link''),
      (''metadata'', JObj [(''purpose'', JStr purpose), (k, JStr v)])]"

definition runtime_skill_to_semantic_ir :: "obj \<Rightarrow> adapter_exn + obj" where
  "runtime_skill_to_semantic_ir node =
     (let name = word_of (value_at node ''name''); args = dict_at node ''args'';
          scales = [''velocity_scale'', ''acceleration_scale'']; payload = (\<lambda>i. runtime_skill_payload i args) in
      if name = ''go_home'' then Inr [(''intent'', JStr ''go_home'')]
      else if name \<in> {''stop'', ''alarm_reset''} then Inr [(''intent'', JStr name)]
      else if name = ''get_pose'' then Inr [(''intent'', JStr ''get_pose''), (''reference_frame'', skill_frame args)]
      else if name = ''wait'' then ebind (raised (to_float (value_or args ''wait_duration_sec'' (JFloat (Fin 2)))))
        (\<lambda>x. Inr [(''intent'', JStr ''wait''), (''wait_duration_sec'', JFloat x)])
      else if name = ''set_speed'' then payload ''set_speed'' [''velocity_scale''] [''acceleration_scale'']
      else if name = ''move_relative''
      then framed_skill args (payload ''move_relative'' [''delta''] (''linear_unit'' # scales))
      else if name = ''move_cartesian'' then framed_skill args
        (payload (if value_at args ''motion_type'' = JStr ''lin'' then ''absolute_move_lin'' else ''absolute_move_ptp'')
          [''target_pose''] ([''linear_unit'', ''orientation_preset'', ''keep_current_orientation''] @ scales @ [''planner_id'']))
      else if name = ''move_joint_delta'' then
        ebind (delta_joint args) (\<lambda>p. ebind (delta_angle args p) (\<lambda>p. Inr (skill_optional args scales p)))
      else if name = ''move_joint'' then payload name [''joint_index'', ''joint_angle''] (''angular_unit'' # scales)
      else if name = ''move_joints'' then payload name [''joint_target''] (''angular_unit'' # scales)
      else if name \<in> {''move_named_pose'', ''move_to_region''} then
        (let pose = strip (first_given args [''pose_name'', ''pose'', ''region''] []) in
         if pose = [] then refuse ''FactoryTask runtime skill requires pose_name or region.''
         else Inr [(''intent'', JStr ''move_named_pose''), (''pose_name'', JStr pose)])
      else if name \<in> set draw_intents then Inr (dict_update [(''intent'', JStr name)] args)
      else if name \<in> {''move_to_object'', ''pick_object'', ''place_object'', ''pick_and_place''}
      then Inr (observing name ''target'' (strip (first_given args [''object_ref'', ''object'', ''object_id''] ''object'')))
      else refuse ''FactoryTask runtime skill is not supported by the HMI Phase 1 adapter.'')"

subsection \<open>The steps of a runtime plan\<close>

text \<open>\<open>_runtime_plan_to_semantic_steps\<close>: the steps, and the plan with the arguments of its drawings replaced
  in place, also when a later node is refused.\<close>

definition hmi_repeat_max_count :: int where "hmi_repeat_max_count = 100"

definition repeat_count :: "obj \<Rightarrow> adapter_exn + nat" where
  "repeat_count d = (case value_at d ''count'' of
     JInt n \<Rightarrow>
       if n < 1 then refuse ''FactoryTask runtime repeat count must be >= 1''
       else if hmi_repeat_max_count < n then refuse ''FactoryTask runtime repeat count exceeds the HMI Phase 1 limit''
       else Inr (nat n)
   | _ \<Rightarrow> refuse ''FactoryTask runtime repeat node requires an integer count.'')"

definition is_drawing :: "obj \<Rightarrow> bool" where
  "is_drawing d \<longleftrightarrow> word_of (value_at d ''intent'') \<in> set draw_intents"

definition skill_step :: "seq_env \<Rightarrow> obj \<Rightarrow> (adapter_exn + obj list) \<times> json" where
  "skill_step E d = (case runtime_skill_to_semantic_ir d of
     Inl e \<Rightarrow> (Inl e, JObj d)
   | Inr ir \<Rightarrow>
       if \<not> is_drawing ir then (Inr [ir], JObj d)
       else (case hydrate_draw_workplane E ir of
         Inl e \<Rightarrow> (Inl e, JObj d)
       | Inr ir \<Rightarrow> (Inr [ir],
           JObj (dict_set ''args'' (JObj (dict_update (dict_at d ''args'') (drop_keys [''intent''] ir))) d))))"

definition observe_step :: "obj \<Rightarrow> adapter_exn + obj list" where
  "observe_step d = ebind (raised (jget (value_or d ''args'' (JObj [])) ''region'' JNull))
     (\<lambda>region. Inr [observing ''observe'' ''region'' (to_str (or_empty region))])"

function plan_steps :: "seq_env \<Rightarrow> json \<Rightarrow> (adapter_exn + obj list) \<times> json"
  and plan_children :: "seq_env \<Rightarrow> json list \<Rightarrow> (adapter_exn + obj list) \<times> json list" where
  "plan_steps E v = (case v of
     JObj d \<Rightarrow>
       (let ty = word_of (value_at d ''type'') in
        if ty = ''sequence'' then
          (case dget d ''children'' of
             Some (JList cs) \<Rightarrow> (case plan_children E cs of (r, cs') \<Rightarrow> (r, JObj (dict_set ''children'' (JList cs') d)))
           | _ \<Rightarrow> (refuse ''FactoryTask runtime sequence requires children.'', v))
        else if ty = ''repeat'' then
          (case dget d ''body'' of
             Some (JObj b) \<Rightarrow> (case repeat_count d of
               Inl e \<Rightarrow> (Inl e, v)
             | Inr n \<Rightarrow> (case plan_steps E (JObj b) of (r, b') \<Rightarrow>
                 (ebind r (\<lambda>ss. Inr (concat (replicate n ss))), JObj (dict_set ''body'' b' d))))
           | _ \<Rightarrow> (refuse ''FactoryTask runtime repeat node requires a body object.'', v))
        else if ty = ''skill'' then skill_step E d
        else if ty = ''observe'' then (observe_step d, v)
        else (refuse ''FactoryTask runtime node is not supported by the HMI Phase 1 adapter.'', v))
   | _ \<Rightarrow> (refuse ''FactoryTask runtime sequence child must be an object.'', v))"
| "plan_children E [] = (Inr [], [])"
| "plan_children E (c # cs) = (case plan_steps E c of
     (Inl e, c') \<Rightarrow> (Inl e, c' # cs)
   | (Inr ss, c') \<Rightarrow> (case plan_children E cs of (r, cs') \<Rightarrow> (ebind r (\<lambda>ts. Inr (ss @ ts)), c' # cs')))"
  by pat_completeness auto
termination
  by (relation "measure (\<lambda>x. case x of Inl (_, v) \<Rightarrow> 2 * size v | Inr (_, vs) \<Rightarrow> 2 * size_list size vs + 1)")
    (auto dest: size_dget)

declare plan_steps.simps [simp del]

subsection \<open>Routing and parsing the steps\<close>

text \<open>A drawing that is planned only is refused.  The metadata of the router names the macro of a drawing; a
  command that has a primitive type passes through.\<close>

definition routed_as_drawing :: "obj \<Rightarrow> bool" where
  "routed_as_drawing d \<longleftrightarrow> dget d ''primitive_type'' = None \<and> dget d ''error'' = None
     \<and> (case value_at d ''intent'' of JStr s \<Rightarrow> strip s \<in> set draw_intents | _ \<Rightarrow> False)"

definition check_executed :: "obj \<Rightarrow> obj list \<Rightarrow> adapter_exn + unit" where
  "check_executed d cs =
     (if routed_as_drawing d \<and> list_ex (\<lambda>c. truthy (value_at c ''plan_only'')) cs
      then refuse ''draw execution_mode=plan_only is not supported by the HMI'' else Inr ())"

definition parse_or_refuse :: "seq_env \<Rightarrow> runtime_mode \<Rightarrow> obj \<Rightarrow> adapter_exn + obj" where
  "parse_or_refuse E m c = (case parse_intent E [] (Some c) m of
     Inr p \<Rightarrow> Inr p | Inl t \<Rightarrow> refuse (if t = [] then ''failed to parse command'' else t))"

definition route_and_parse :: "seq_env \<Rightarrow> runtime_mode \<Rightarrow> obj \<Rightarrow> adapter_exn + obj list \<times> obj list" where
  "route_and_parse E m d = ebind (routed E m (JObj d)) (\<lambda>r.
     ebind (check_executed d (rr_commands r)) (\<lambda>_.
     ebind (map_each (parse_or_refuse E m) (rr_commands r)) (\<lambda>ps. Inr (rr_commands r, ps))))"

definition parse_semantic_step :: "seq_env \<Rightarrow> runtime_mode \<Rightarrow> obj \<Rightarrow> adapter_exn + obj list" where
  "parse_semantic_step E m d =
     (if is_drawing d then ebind (route_and_parse E m d) (\<lambda>(cs, ps). Inr ps)
      else ebind (parse_or_refuse E m d) (\<lambda>p. Inr [p]))"

definition validation_diagnostics :: "string list" where
  "validation_diagnostics =
     [''Validated checks: structure, max length, STOP sole-primitive policy, per-step schema, normalization, semantic validation, explicit frame policy, cumulative MOVE_REL budget.'',
      ''Duration estimate is a heuristic lower bound only; WAIT contributes directly and all other primitive timing remains conservative/unknown at prevalidation time.'',
      ''NOT YET IMPLEMENTED: kinematic reachability across the full sequence, collision continuity, controller timing feasibility, IO rollback analysis, and current-pose-aware macro validation.'']"

text \<open>\<open>SequenceValidator().validate\<close>; a \<open>SequenceValidationError\<close> is refused.\<close>

definition validate_commands :: "seq_env \<Rightarrow> obj list \<Rightarrow> adapter_exn + unit" where
  "validate_commands E cs = (case sequence_validate (sq_validator E) (JList (map JObj cs)) of
     Inr r \<Rightarrow> Inr ()
   | Inl (SequenceValidationError s t i) \<Rightarrow> refuse t
   | Inl (Unstructured e) \<Rightarrow> Inl e)"

definition raw_of :: "obj \<Rightarrow> obj" where
  "raw_of p = (case dget p ''rawCommand'' of Some (JObj c) \<Rightarrow> c | _ \<Rightarrow> dict_at p ''normalizedCommand'')"

subsection \<open>Preparing a request\<close>

text \<open>Of the route metadata: the macro, the shape and the text; the metadata of a drawing replaces the macro and
  one of the others.\<close>

definition drawn_shape :: "obj \<Rightarrow> json" where
  "drawn_shape d = JStr (plain_text (value_or d ''shape_type'' (value_or d ''shape'' (JStr []))))"

definition drawn_text :: "obj \<Rightarrow> json" where
  "drawn_text d = (case value_at d ''text'' of JStr t \<Rightarrow> JStr (upper t) | v \<Rightarrow> v)"

definition with_drawing :: "obj \<Rightarrow> json \<times> json \<times> json \<Rightarrow> json \<times> json \<times> json" where
  "with_drawing d = (\<lambda>(macro, shape, text).
     if \<not> routed_as_drawing d then (macro, shape, text)
     else case value_at d ''intent'' of
       JStr s \<Rightarrow> if strip s = ''draw_shape'' then (JStr ''draw_shape'', drawn_shape d, text)
                 else (JStr ''draw_text'', shape, drawn_text d)
     | _ \<Rightarrow> (macro, shape, text))"

definition prepared_result ::
  "obj list option \<Rightarrow> string list \<Rightarrow> string option \<Rightarrow> json \<times> json \<times> json \<Rightarrow> obj \<Rightarrow> prepared_sequence" where
  "prepared_result steps diagnostics err = (\<lambda>(macro, shape, text) d.
     \<lparr>ps_steps = steps, ps_diagnostics = diagnostics, ps_error = err, ps_macro = macro, ps_shape_type = shape,
      ps_text = text, ps_intent = Some d\<rparr>)"

text \<open>\<open>except (IntentResolutionError, SequenceValidationError, ValueError)\<close>.\<close>

definition caught :: "adapter_exn + 'a \<Rightarrow> (string \<Rightarrow> 'a) \<Rightarrow> adapter_exn + 'a" where
  "caught r handler = (case r of
     Inr x \<Rightarrow> Inr x
   | Inl e \<Rightarrow> (case is_value_error e of Some t \<Rightarrow> Inr (handler t) | None \<Rightarrow> Inl e))"

function hmi_inject :: "pyfloat list \<Rightarrow> json \<Rightarrow> json"
  and hmi_inject_steps :: "pyfloat list \<Rightarrow> json list \<Rightarrow> json list" where
  "hmi_inject js v = (case v of
     JObj d \<Rightarrow>
       if word_of (value_at d ''intent'') = ''return_to_start''
       then (if length js \<noteq> 6 then v else JObj (dict_set ''joint_target'' (JList (map JFloat js)) d))
       else if word_of (value_at d ''intent'') = ''sequence'' then
         (case dget d ''steps'' of
            Some (JList ss) \<Rightarrow> JObj (dict_set ''steps'' (JList (hmi_inject_steps js ss)) d)
          | _ \<Rightarrow> v)
       else v
   | _ \<Rightarrow> v)"
| "hmi_inject_steps js [] = []"
| "hmi_inject_steps js (s # ss) = hmi_inject js s # hmi_inject_steps js ss"
  by pat_completeness auto
termination
  by (relation "measure (\<lambda>x. case x of Inl (_, v) \<Rightarrow> 2 * size v | Inr (_, vs) \<Rightarrow> 2 * size_list size vs + 1)")
    (auto dest: steps_smaller)

declare hmi_inject.simps [simp del]

definition current_joints_rad :: "seq_env \<Rightarrow> pyfloat list" where
  "current_joints_rad E =
     (if length (sq_joints E) \<noteq> 6 \<or> None \<in> set (sq_joints E) then [] else map (\<lambda>x. radians (the x)) (sq_joints E))"

definition working_payload :: "seq_env \<Rightarrow> obj \<Rightarrow> adapter_exn + obj" where
  "working_payload E d = (case hmi_inject (current_joints_rad E) (JObj d) of
     JObj e \<Rightarrow> ebind (hmi_prepare E e) (\<lambda>v. Inr (case v of JObj f \<Rightarrow> f | _ \<Rightarrow> e))
   | _ \<Rightarrow> Inr d)"

text \<open>The runtime plan of a factory task, unrolled.  A plan that cannot be unrolled, or that is a single skill
  other than a drawing, is left to the single command path.\<close>

definition with_plan :: "obj \<Rightarrow> json \<Rightarrow> obj" where
  "with_plan d plan = dict_set ''metadata'' (JObj (dict_set ''runtime_plan'' plan (dict_at d ''metadata''))) d"

definition plan_type :: "json \<Rightarrow> string" where
  "plan_type plan = word_of (value_at (case plan of JObj p \<Rightarrow> p | _ \<Rightarrow> []) ''type'')"

definition unroll_plan :: "seq_env \<Rightarrow> runtime_mode \<Rightarrow> obj \<Rightarrow> json \<Rightarrow> adapter_exn + prepared_sequence option" where
  "unroll_plan E m d plan =
     ebind (fst (plan_steps E plan)) (\<lambda>steps.
     if steps = [] then refuse ''FactoryTask runtime sequence has no executable steps.''
     else if plan_type plan \<noteq> ''sequence'' \<and> \<not> list_ex is_drawing steps then Inr None
     else ebind (map_each (parse_semantic_step E m) steps) (\<lambda>pss.
       ebind (validate_commands E (map raw_of (concat pss))) (\<lambda>_.
       let none = (JNull, JNull, JNull) in
       Inr (Some (prepared_result (Some (concat pss)) validation_diagnostics None
         (case steps of [s] \<Rightarrow> if is_drawing s then with_drawing s none else none | _ \<Rightarrow> none)
         (with_plan d (snd (plan_steps E plan))))))))"

definition prepare_runtime :: "seq_env \<Rightarrow> runtime_mode \<Rightarrow> obj \<Rightarrow> adapter_exn + prepared_sequence option" where
  "prepare_runtime E m d =
     ebind (raised (jget (value_or d ''metadata'' (JObj [])) ''runtime_plan'' (JObj []))) (\<lambda>plan.
     if \<not> is_dict plan then Inr None else caught (unroll_plan E m d plan) (\<lambda>_. None))"

definition prepare_routed ::
  "seq_env \<Rightarrow> runtime_mode \<Rightarrow> obj \<Rightarrow> json \<times> json \<times> json \<Rightarrow> adapter_exn + prepared_sequence" where
  "prepare_routed E m d meta =
     caught (ebind (route_and_parse E m d) (\<lambda>(cs, ps). ebind (validate_commands E cs) (\<lambda>_.
       Inr (prepared_result (Some ps) validation_diagnostics None (with_drawing d meta) d))))
     (\<lambda>t. prepared_result None [] (Some t) (case routed E m (JObj d) of Inr _ \<Rightarrow> with_drawing d meta | Inl _ \<Rightarrow> meta) d)"

text \<open>\<open>structured_intent.get("metadata") or {}\<close>, which must have \<open>get\<close>.\<close>

definition given_metadata :: "obj \<Rightarrow> adapter_exn + obj" where
  "given_metadata d = (let v = value_at d ''metadata'' in
     if \<not> truthy v then Inr [] else case v of JObj e \<Rightarrow> Inr e | _ \<Rightarrow> Inl (Raised AttributeError))"

definition prepare_drawing :: "seq_env \<Rightarrow> runtime_mode \<Rightarrow> obj \<Rightarrow> json \<times> json \<times> json \<Rightarrow> adapter_exn + prepared_sequence" where
  "prepare_drawing E m d meta = (case hydrate_draw_workplane E d of
     Inl (Refused t) \<Rightarrow> Inr (prepared_result None [] (Some t) meta d)
   | Inl e \<Rightarrow> Inl e
   | Inr d \<Rightarrow> prepare_routed E m d meta)"

definition prepare_sequence_request :: "seq_env \<Rightarrow> runtime_mode \<Rightarrow> obj \<Rightarrow> adapter_exn + prepared_sequence option" where
  "prepare_sequence_request E m d =
     (let name = word_of (value_at d ''intent''); task = (name = ''factory_task_runtime'');
          meta = (value_at d ''intent'', value_at d ''shape_type'', value_at d ''text'') in
      if name \<notin> {''sequence'', ''draw_shape'', ''draw_text'', ''factory_task_runtime''} then Inr None
      else ebind (if task then given_metadata d else Inr []) (\<lambda>_. case working_payload E d of
        Inl (Refused t) \<Rightarrow> Inr None
      | Inl e \<Rightarrow> Inl e
      | Inr w \<Rightarrow>
          if task then prepare_runtime E m w
          else ebind (if name = ''sequence'' then prepare_routed E m w meta else prepare_drawing E m w meta)
            (\<lambda>p. Inr (Some p))))"

subsection \<open>Steps without preparation\<close>

definition sequence_failed :: "string list \<Rightarrow> string \<Rightarrow> prepared_sequence" where
  "sequence_failed diagnostics t =
     \<lparr>ps_steps = None, ps_diagnostics = diagnostics, ps_error = Some t, ps_macro = JNull, ps_shape_type = JNull,
      ps_text = JNull, ps_intent = None\<rparr>"

definition sequence_parsed :: "obj list \<Rightarrow> prepared_sequence" where
  "sequence_parsed ps =
     \<lparr>ps_steps = Some ps, ps_diagnostics = validation_diagnostics, ps_error = None, ps_macro = JNull, ps_shape_type = JNull,
      ps_text = JNull, ps_intent = None\<rparr>"

definition parse_structured_sequence :: "seq_env \<Rightarrow> runtime_mode \<Rightarrow> obj \<Rightarrow> adapter_exn + prepared_sequence" where
  "parse_structured_sequence E m d =
     caught (ebind (working_payload E d) (\<lambda>w. ebind (route (sq_router E (mode_value m)) (JObj w)) (\<lambda>r.
       if rr_type r \<noteq> ''sequence''
       then Inr (sequence_failed [] ''structured sequence did not resolve to a sequence route.'')
       else ebind (validate_commands E (rr_commands r)) (\<lambda>_. Inr
         (case map_each (\<lambda>c. parse_intent E [] (Some c) m) (rr_commands r) of
            Inl t \<Rightarrow> sequence_failed validation_diagnostics t
          | Inr ps \<Rightarrow> sequence_parsed ps)))))
     (sequence_failed [])"

definition parse_segments :: "seq_env \<Rightarrow> runtime_mode \<Rightarrow> string list \<Rightarrow> adapter_exn + prepared_sequence" where
  "parse_segments E m segments = (case map_each (\<lambda>t. parse_intent E t None m) segments of
     Inl t \<Rightarrow> Inr (sequence_failed [] t)
   | Inr ps \<Rightarrow> (case sequence_validate (sq_validator E) (JList (map (\<lambda>p. JObj (raw_of p)) ps)) of
       Inr r \<Rightarrow> Inr (sequence_parsed ps)
     | Inl (SequenceValidationError s t i) \<Rightarrow> Inr (sequence_failed [] t)
     | Inl (Unstructured e) \<Rightarrow> Inl e))"

definition parse_sequence_steps ::
  "seq_env \<Rightarrow> runtime_mode \<Rightarrow> obj option \<Rightarrow> string list \<Rightarrow> adapter_exn + prepared_sequence" where
  "parse_sequence_steps E m given segments = (case given of
     Some d \<Rightarrow> if word_of (value_at d ''intent'') = ''sequence'' then parse_structured_sequence E m d
              else parse_segments E m segments
   | None \<Rightarrow> parse_segments E m segments)"

end
