(* ===== verification/Preparation_Properties.thy ===== *)
theory Preparation_Properties
  imports Sequence_Preparation Sequence_Properties Command_Dispatch
begin

section \<open>What the HMI queues is what was validated\<close>

text \<open>
  The steps of a prepared sequence are the commands the \<open>SequenceValidator\<close> accepted; the runtime plans that
  can be unrolled are those of sequences, skills and observations; a pose whose JSON object hides its position
  under another name is lost.
\<close>

subsection \<open>Parsed steps\<close>










subsection \<open>Lists of steps\<close>

lemma parse_or_refuse_Inr [simp]: "parse_or_refuse E m c = Inr s \<longleftrightarrow> parse_intent E [] (Some c) m = Inr s"
  by (auto simp: parse_or_refuse_def refuse_def split: sum.splits)






subsection \<open>Both ways to the queue\<close>


lemma prepared_result_steps [simp]: "ps_steps (prepared_result ss ds e meta d) = ss"
  by (cases meta) (simp add: prepared_result_def)

lemma sequence_parsed_steps [simp]:
  "ps_steps (sequence_parsed ss) = Some ss" "ps_steps (sequence_failed ds t) = None"
  by (simp_all add: sequence_parsed_def sequence_failed_def)









subsection \<open>The pose of a step\<close>




lemma numeric_Inr [simp]: "numeric v k = Inr x \<longleftrightarrow> to_float v = Inr x"
  by (auto simp: numeric_def split: sum.splits if_splits)





end
