(* ===== verification/Plan_Unrolling.thy ===== *)
theory Plan_Unrolling
  imports Sequence_Preparation Task_Properties
begin

section \<open>Which compiled plans the HMI can unroll\<close>

text \<open>
  The plan the task compiler makes of a tree, read by the HMI: the steps are the leaves of its sequences, in
  order, and a tree with any control node, \<open>repeat\<close> included, is not unrolled.
\<close>

fun hmi_leaves :: "task_node \<Rightarrow> task_node list" where
  "hmi_leaves (TaskNode ty nm args cs c n coll it u f) =
     (if ty = ''sequence'' then concat (map hmi_leaves cs) else [TaskNode ty nm args cs c n coll it u f])"

definition leaf_step :: "seq_env \<Rightarrow> task_node \<Rightarrow> obj \<Rightarrow> bool" where
  "leaf_step E l s \<longleftrightarrow> ntype l \<in> {''skill'', ''observe''} \<and> fst (plan_steps E (node_to_runtime_plan l)) = Inr [s]"

lemma word_of_type: "ty \<in> set supported_node_types \<Longrightarrow> word_of (JStr ty) = ty"
  by (auto simp: supported_node_types_def word_of_def or_empty_def strip_def is_space_def lower_def lower_char_def)

lemma fst_plan_children:
  "fst (plan_children E vs) = Inr ss \<longleftrightarrow> (\<exists>sss. list_all2 (\<lambda>v ss. fst (plan_steps E v) = Inr ss) vs sss \<and> ss = concat sss)"
proof (induction vs arbitrary: ss)
  case (Cons v vs)
  have "fst (plan_children E (v # vs)) = Inr ss \<longleftrightarrow>
      (\<exists>s ts. fst (plan_steps E v) = Inr s \<and> fst (plan_children E vs) = Inr ts \<and> ss = s @ ts)"
    by (auto simp: ebind_eq_Inr split: prod.splits sum.splits)
  then show ?case unfolding Cons.IH list_all2_Cons1 by (metis concat.simps(2))
qed auto

lemma list_all2_concat:
  "(\<exists>sss. list_all2 (\<lambda>x. list_all2 P (g x)) xs sss \<and> ss = concat sss) \<longleftrightarrow> list_all2 P (concat (map g xs)) ss"
proof (induction xs arbitrary: ss)
  case (Cons x xs)
  have "list_all2 P (concat (map g (x # xs))) ss \<longleftrightarrow>
      (\<exists>us vs. ss = us @ vs \<and> list_all2 P (g x) us \<and> list_all2 P (concat (map g xs)) vs)"
    by (simp add: list_all2_append1) (metis list_all2_lengthD)
  also have "\<dots> \<longleftrightarrow> (\<exists>us sss. ss = us @ concat sss \<and> list_all2 P (g x) us \<and> list_all2 (\<lambda>x. list_all2 P (g x)) xs sss)"
    unfolding Cons.IH [symmetric] by blast
  also have "\<dots> \<longleftrightarrow> (\<exists>sss. list_all2 (\<lambda>x. list_all2 P (g x)) (x # xs) sss \<and> ss = concat sss)"
    unfolding list_all2_Cons1 by (metis concat.simps(2))
  finally show ?case by simp
qed simp

lemma skill_step_single: "fst (skill_step E d) = Inr ss \<Longrightarrow> \<exists>s. ss = [s]"
  by (auto simp: skill_step_def split: sum.splits if_splits)

lemma observe_step_single: "observe_step d = Inr ss \<Longrightarrow> \<exists>s. ss = [s]"
  by (auto simp: observe_step_def ebind_eq_Inr)

lemma get_as_value: "get_or_none d k = v \<Longrightarrow> value_at d k = v"
  by (induction d) (auto simp: value_at_def dget_def split: option.splits if_splits)

lemma plan_value:
  assumes "node_to_runtime_plan (TaskNode ty nm args cs c n coll it u f) = JObj d"
  shows "value_at d ''type'' = JStr ty" "dget d ''body'' = None"
    "dget d ''children'' = (if cs = [] then None else Some (JList (map node_to_runtime_plan cs)))"
  using assms by (auto simp: field_if_def dget_def value_at_def split: option.splits)

lemma fst_pair_case: "fst (case x of (r, y) \<Rightarrow> (f r y, g r y)) = (case x of (r, y) \<Rightarrow> f r y)"
  by (cases x) simp

lemma plan_steps_leaf:
  assumes wf: "node_ok ty nm cs n coll it" and seq: "ty \<noteq> ''sequence''"
    and ss: "fst (plan_steps E (node_to_runtime_plan (TaskNode ty nm args cs c n coll it u f))) = Inr ss"
  shows "ty \<in> {''skill'', ''observe''} \<and> (\<exists>s. ss = [s])"
proof -
  obtain d where d: "node_to_runtime_plan (TaskNode ty nm args cs c n coll it u f) = JObj d" by simp
  have "word_of (JStr ty) = ty" using wf by (simp add: node_ok_def word_of_type)
  then show ?thesis
    using ss plan_value [OF d] seq unfolding d
    by (auto simp: plan_steps.simps [of E "JObj d"] Let_def refuse_def dest: skill_step_single observe_step_single split: if_splits)
qed

text \<open>C34: A compiled plan is unrolled exactly when every leaf below its sequences is a skill or an observation that
  has a step of its own, and then the steps are those of the leaves, in order.  So a plan with a \<open>repeat\<close>, whose
  body the compiler writes as \<open>children\<close>, is never unrolled.\<close>

theorem compiled_plan_unrolls:
  assumes "well_formed t"
  shows "fst (plan_steps E (node_to_runtime_plan t)) = Inr ss \<longleftrightarrow> list_all2 (leaf_step E) (hmi_leaves t) ss"
  using assms
proof (induction t arbitrary: ss)
  case (TaskNode ty nm args cs c n coll it u f)
  let ?t = "TaskNode ty nm args cs c n coll it u f"
  have wf: "node_ok ty nm cs n coll it" "\<forall>x \<in> set cs. well_formed x" using TaskNode.prems by simp_all
  show ?case
  proof (cases "ty = ''sequence''")
    case False
    then show ?thesis
      using plan_steps_leaf [OF wf(1) False] by (auto simp: leaf_step_def list_all2_Cons1)
  next
    case True
    obtain d where d: "node_to_runtime_plan ?t = JObj d" by simp
    have "cs \<noteq> []" using wf(1) True by (auto simp: node_ok_def child_node_types_def)
    then have "fst (plan_steps E (node_to_runtime_plan ?t)) = fst (plan_children E (map node_to_runtime_plan cs))"
      unfolding d using plan_value [OF d] True word_of_type [of ty]
      by (simp add: plan_steps.simps [of E "JObj d"] supported_node_types_def fst_pair_case case_prod_beta)
    moreover have "list_all2 (\<lambda>x ss. fst (plan_steps E (node_to_runtime_plan x)) = Inr ss) cs sss
        \<longleftrightarrow> list_all2 (\<lambda>x. list_all2 (leaf_step E) (hmi_leaves x)) cs sss" for sss
      using TaskNode.IH wf(2) by (auto simp: list_all2_conv_all_nth)
    ultimately show ?thesis using True by (simp add: fst_plan_children list_all2_map1 list_all2_concat [of "leaf_step E"])
  qed
qed

end
