(* ===== verification/Preparation_Witnesses.thy ===== *)
theory Preparation_Witnesses
  imports Preparation_Properties Plan_Unrolling Gateway_Witnesses
begin

section \<open>The properties of prepared sequences at concrete inputs\<close>

text \<open>
  A sequence of three primitive commands, a linear move in millimetres, and two compiled task trees, in an
  environment with the demonstration router and validator.
\<close>

definition demo_seq_env :: seq_env where
  "demo_seq_env = \<lparr>sq_hydrate = None, sq_pose = JNull, sq_joints = [], sq_router = (\<lambda>_. demo_router),
     sq_validator = demo_validator, sq_pose_json = (\<lambda>_. JNull), sq_dumps = (\<lambda>_. [])\<rparr>"




lemmas text_defs = word_of_def or_empty_def strip_def is_space_def lower_def lower_char_def value_at_def dget_def









definition demo_home :: task_node where
  "demo_home = TaskNode ''skill'' ''go_home'' [] [] JNull None [] ''item'' JNull JNull"
definition demo_look :: task_node where
  "demo_look = TaskNode ''observe'' ''scan'' [(''region'', JStr ''tray'')] [] JNull None [] ''item'' JNull JNull"
definition demo_twice :: task_node where
  "demo_twice = TaskNode ''repeat'' [] [] [demo_home] JNull (Some 2) [] ''item'' JNull JNull"
definition in_sequence :: "task_node list \<Rightarrow> task_node" where
  "in_sequence ts = TaskNode ''sequence'' [] [] ts JNull None [] ''item'' JNull JNull"

lemmas demo_trees = demo_home_def demo_look_def demo_twice_def in_sequence_def

lemma demo_trees_ok: "well_formed (in_sequence [demo_home, demo_look])" "well_formed (in_sequence [demo_home, demo_twice])"
  by (simp_all add: demo_trees node_ok_def supported_node_types_def child_node_types_def strip_def is_space_def)

theorem compiled_plan_unrolls_witness:
  "fst (plan_steps demo_seq_env (node_to_runtime_plan (in_sequence [demo_home, demo_look])))
      = Inr [[(''intent'', JStr ''go_home'')], observing ''observe'' ''region'' ''tray'']
    \<and> (\<forall>ss. fst (plan_steps demo_seq_env (node_to_runtime_plan (in_sequence [demo_home, demo_twice]))) \<noteq> Inr ss)"
proof -
  have "leaf_step demo_seq_env demo_home [(''intent'', JStr ''go_home'')]"
    "leaf_step demo_seq_env demo_look (observing ''observe'' ''region'' ''tray'')"
    by (simp_all add: leaf_step_def demo_trees plan_steps.simps [of _ "JObj _"] field_if_def text_defs skill_step_def
        runtime_skill_to_semantic_ir_def is_drawing_def draw_intents_def observe_step_def value_or_def raised_def observing_def dict_at_def Let_def)
  moreover have "\<not> leaf_step demo_seq_env demo_twice s" for s by (simp add: leaf_step_def demo_trees)
  moreover have "hmi_leaves (in_sequence [demo_home, demo_look]) = [demo_home, demo_look]"
    "hmi_leaves (in_sequence [demo_home, demo_twice]) = [demo_home, demo_twice]"
    by (simp_all add: demo_trees)
  ultimately show ?thesis
    using compiled_plan_unrolls [OF demo_trees_ok(1), of demo_seq_env] compiled_plan_unrolls [OF demo_trees_ok(2), of demo_seq_env]
    by (simp add: list_all2_Cons1)
qed

end
