(* ===== verification/Spec2Isabelle.thy ===== *)
theory Spec2Isabelle
  imports Safety_Properties Task_Properties Runtime_Properties Lock_Properties Supervisor_Properties
    Boundary_Witnesses Jog_Properties Gateway_Witnesses Drawing_Witnesses Preparation_Witnesses
begin

text \<open>
  A verification library for the GP4 workspace: language-driven control of a Yaskawa GP4 robot.

  The program.  An operator types an intent into the HMI.  The HMI backend (\<open>hmi/backend\<close>) holds the
  controller lease, turns the intent into a plan with the help of the language gateway
  (\<open>src/llm_gateway\<close>), lets the operator confirm the plan, and hands it to ROS.  There the safety node
  (\<open>src/safety\<close>) answers the validation service every motion passes, and the C++ motion core and
  hardware adapter execute it.  The gateway also compiles and runs whole factory tasks.

  The shared vocabulary.  \<open>Gp4_Prelude\<close> has results (\<open>'e + 'a\<close>, \<open>Inl\<close> an exception), effectful methods
  (\<open>'s \<Rightarrow> ('e + 'a) \<times> 's\<close>: attributes assigned before a \<open>raise\<close> stay assigned), preservation of a
  predicate (\<open>keeps\<close>), triples, runs of a machine, and Python dictionaries in insertion order.
  \<open>Py_Values\<close> has JSON values and the Python operations on them: truth values, \<open>str\<close>, \<open>float\<close>, \<open>int\<close>,
  item access, string methods.  A Python float is a rational or an infinity or NaN: arithmetic is exact
  and is not rounded.  Texts that only a log or a screen shows are left out where a comment says so.

  Safety (\<open>src/safety/safety\<close>).  \<open>Workspace_Guard\<close> (\<open>workspace_guard.py\<close>), \<open>Command_Validator\<close>
  (\<open>command_validator.py\<close>, \<open>policy_loader.py\<close>), \<open>Safety_Manager\<close> (\<open>safety_manager.py\<close>) and
  \<open>Execution_Gate\<close> (\<open>execution_gate.py\<close>: the whole service handler).  \<open>Safety_Properties\<close>: what an
  accepted request satisfies, fail-closed readiness, the guard against the geometry of the shipped
  rules, caps on scales.

  Tasks (\<open>src/llm_gateway/llm_gateway\<close>).  \<open>Factory_Task\<close> is the parser, world model, policy and compiler
  of \<open>factory_task.py\<close>; \<open>Task_Runtime\<close> the interpreter of \<open>task_runtime.py\<close>, whose executor, stop flag
  and replan handler are parameters.  Recursion follows the task tree; the replan loop has a measure,
  so no fuel is needed.  \<open>Task_Properties\<close> and \<open>Runtime_Properties\<close>: well-formed trees, the round trip
  of plans, the compiled steps, and that a run follows the tree, counts its attempts, stops when told,
  and ends.

  The HMI (\<open>hmi/backend\<close>).  \<open>Hmi_Domain\<close> is the lifecycle of a command
  (\<open>domain/models.py\<close>, \<open>domain/state_machine.py\<close>); \<open>Session_Lock\<close> the controller lease
  (\<open>services/session_lock_service.py\<close>), with the interface \<open>controller_lock\<close> the supervisor relies on.
  \<open>Supervisor_State\<close>, \<open>Supervisor_Validation\<close>, \<open>Supervisor_Execution\<close>, \<open>Supervisor_Lifecycle\<close>,
  \<open>Supervisor_Submission\<close> and \<open>Supervisor_Service\<close> are the supervisor
  (\<open>services/supervisor_*.py\<close>): records, audit log, every operation and, in \<open>hmi_step\<close>, the calls the
  HTTP endpoints make.  What it reads from outside is an environment of functions of a tick, so every
  behaviour of clock, robot, parser and adapter is covered.  A call runs as one step.

  How the supervisor's invariants are proved.  \<open>Supervisor_Frame\<close> states as locales what a predicate of
  the state must survive (logs, edits, transitions, the lease) and proves once which operations then
  preserve it; \<open>Supervisor_Calls\<close> adds new records and confirmed executions and covers every call.
  \<open>Supervisor_Invariant\<close> and \<open>Supervisor_Runs\<close> interpret them on the invariant of the records,
  \<open>Supervisor_Gate\<close> on what every hand-off has passed, \<open>Supervisor_Authority\<close> on what a confirmation has
  checked.  \<open>Supervisor_Properties\<close> and \<open>Lock_Properties\<close> state the results.

  The execution boundary (\<open>hmi/backend/ros\<close>).  \<open>Telemetry\<close> is the state behind the callbacks of
  \<open>adapter.py\<close> and every derivation of \<open>telemetry_snapshot.py\<close>; \<open>Command_Payload\<close> the payload of an
  intent and the messages (\<open>jog_dispatch.py\<close>, \<open>domain/joint_utils.py\<close>, \<open>command_dispatch.py\<close>);
  \<open>Command_Dispatch\<close> the preflight, the confirmation and the cancellation of \<open>command_dispatch.py\<close>, over an
  environment of service answers.  \<open>Preflight_Properties\<close>: the preflight accepts exactly clear telemetry.
  \<open>Dispatch_Properties\<close>: a goal is sent only after every check.  \<open>Boundary_Contract\<close>: the locale
  \<open>execution_adapter\<close> states what the supervisor needs of an answer; the adapter's model interprets it,
  so every answer carries a command to its end; with the adapter behind it the supervisor dispatches only
  over clear telemetry; and an abort reaches exactly the goals in flight.  \<open>Telemetry_Properties\<close>: the
  preferred joint topic, signed fields, and two surprises.  \<open>Boundary_Witnesses\<close> runs it all once.

  Jogging.  \<open>Jog\<close> is the path from the HTTP contract through \<open>services/jog_service.py\<close> to
  \<open>src/jog_pendant/scripts/jog_input_node.py\<close>; \<open>Jog_Properties\<close>: bounds on every published command,
  the watchdog, and what a request moves.

  The gateway pipeline (\<open>src/llm_gateway/llm_gateway\<close>).  A Semantic IR passes the contract
  (\<open>Semantic_Contract\<close>, \<open>semantic_ir_contract.py\<close>), is prepared and routed to commands
  (\<open>Intent_Router\<close>, \<open>intent_router.py\<close>; the scene graph and goal compiler of \<open>factory_task.py\<close> are
  \<open>Station_Graph\<close>), each command is normalised (\<open>Normalization\<close>, \<open>normalization.py\<close>) and checked
  (\<open>Semantic_Validation\<close>, \<open>validation.py\<close>), mapped to a payload and a goal (\<open>Goal_Mapper\<close>,
  \<open>goal_mapper.py\<close>), approved by the validation service and dispatched (\<open>Gateway_Runtime\<close>, the runtime
  path of \<open>llm_gateway_node.py\<close> and \<open>runtime_dispatch.py\<close>).  \<open>Gripper\<close> is \<open>gripper_adapter.py\<close>;
  \<open>Gateway_Tasks\<close> runs whole factory tasks over the same path (\<open>runtime_skill_executor.py\<close> and the
  confirmation and direct command services of the node), with the interpreter of \<open>Task_Runtime\<close>.
  Services, the motion server, the stop flag and the language model are functions of a tick; the
  functions of \<open>math\<close> are a record of functions on rationals (\<open>float_lib\<close>).
  \<open>Sequence_Properties\<close>: what normalisation and the sequence validator guarantee; \<open>Mapper_Properties\<close>:
  what survives the mapping; \<open>Gateway_Properties\<close> and \<open>Gateway_Task_Properties\<close>: every goal sent was
  approved by the gate, and what becomes of an accepted goal; \<open>Routing_Properties\<close>: what an IR can reach.
  \<open>Sequence_Witnesses\<close> and \<open>Gateway_Witnesses\<close> hold the concrete runs.

  Drawing.  \<open>Drawing_Router\<close> (\<open>drawing_router.py\<close>) reads a \<open>draw_shape\<close> or \<open>draw_text\<close> against the
  macro policy, \<open>Drawing_Geometry\<close>, \<open>Drawing_Strokes\<close> and \<open>Drawing_Compiler\<close> are
  \<open>drawing_geometry.py\<close> (workplanes, strokes, commands) and \<open>Stroke_Font\<close> the glyphs of
  \<open>stroke_font.py\<close>.  \<open>Drawing_Properties\<close>: the commands visit exactly the points of the strokes, in the
  plane asked for; circles keep the chord error; texts stay in the boxes of their lines.
  \<open>Drawing_Policy_Properties\<close> has the locale \<open>drawing_source\<close>, what the intent router needs of a drawing
  router, interpreted on \<open>route_draw\<close>.  \<open>Drawing_Witnesses\<close> draws.

  Preparing sequences.  \<open>Intent_Parsing\<close> is \<open>_parse_intent\<close> and \<open>_target_summary\<close> of
  \<open>supervisor_validation.py\<close>, and \<open>Sequence_Preparation\<close> the planning half of \<open>supervisor_sequence.py\<close>: the
  skills and the runtime plan of a task as Semantic IR (\<open>plan_steps\<close>), \<open>_prepare_sequence_request\<close> and
  \<open>_parse_sequence_steps\<close>, on the router, normaliser and \<open>SequenceValidator\<close> of the gateway.  They give the parser
  and the preparation that \<open>hmi_env\<close> leaves open.  \<open>Preparation_Properties\<close>: each queued step is the
  command that was validated, and the pose the HMI sends is the one received, without its unit.
  \<open>Plan_Unrolling\<close>: a compiled plan is unrolled exactly when its leaves are skills and observations.
  \<open>Preparation_Witnesses\<close> prepares a sequence.

  Not modelled.  ROS wiring, HTTP and websockets, SQLite rows, the hosted language model and its
  prompts, the camera pipelines (arrays of numpy and OpenCV), the C++ motion core and the frontend.
  Interleaving of two HTTP calls inside the supervisor is not modelled: the code takes its lock only
  around single assignments, and the theorems speak of calls that run one after the other.  The intent
  parser and the preparation of sequences are parameters of the supervisor (their models are theories of their
  own, and the splitting of free text by regular expressions is not modelled), the JSON schema validator a
  parameter of the gateway; the drawing router is a field of the intent router.
\<close>

end
